(* ===== verification/Prelude.thy ===== *)
theory Prelude
  imports
    Main
    "HOL-Library.AList"
    "HOL-Library.Char_ord"
    "HOL-Library.List_Lexorder"
    "HOL-Library.Multiset"
    "HOL-Library.State_Monad"
begin

text \<open>
  Shared vocabulary of the development: Go errors as values, the fragment of the Go standard
  library on strings and maps that the sources use, the contract of \<open>sort.Slice\<close>, and the
  programs that talk to the outside world.

  A controller, a message handler or a webhook calls services whose code is not part of the
  repository (the Kubernetes API server, NATS, a registry, the clock).  Such code is a program
  over the history of the calls made so far: every call appends itself to the history, and its
  answer is whatever the environment chooses to answer after that history.  The environment is
  a parameter, so a statement about a program quantifies over all answers, failures and
  interleavings.
\<close>

named_theorems emits_intros \<open>rules bounding the calls a program makes\<close>
named_theorems yields_intros "introduction rules for the results of a program"
named_theorems go_defs \<open>definitions of the Go library fragment\<close>

section \<open>Errors\<close>

text \<open>
  \<open>StatusError\<close> is an error of the Kubernetes API with its reason, \<open>ErrorNew\<close> is
  \<open>errors.New\<close> or \<open>fmt.Errorf\<close> without a cause, \<open>ErrorSentinel\<close> is a package-level error value that
  callers recognise with \<open>errors.Is\<close>, and \<open>ErrorWrap\<close> is \<open>fmt.Errorf\<close> with \<open>%w\<close>.  The classifiers
  look through the wrapping.  \<open>ErrorPanic\<close> stands for a run-time panic: it is no error value of
  Go, it ends every caller on its way, and no caller of the sources recovers it.
\<close>

datatype status_reason = ReasonNotFound | ReasonAlreadyExists | ReasonConflict | ReasonOther

datatype error =
    StatusError status_reason string
  | ErrorNew string
  | ErrorSentinel string
  | ErrorPanic string
  | ErrorWrap string error

type_synonym 'a result = "error + 'a"

primrec ReasonForError :: "error \<Rightarrow> status_reason option" where
  "ReasonForError (StatusError r m) = Some r"
| "ReasonForError (ErrorNew m) = None"
| "ReasonForError (ErrorSentinel m) = None"
| "ReasonForError (ErrorPanic m) = None"
| "ReasonForError (ErrorWrap m e) = ReasonForError e"

primrec ErrorIs :: "error \<Rightarrow> string \<Rightarrow> bool" where
  "ErrorIs (StatusError r m) t = False"
| "ErrorIs (ErrorNew m) t = False"
| "ErrorIs (ErrorSentinel m) t = (m = t)"
| "ErrorIs (ErrorPanic m) t = False"
| "ErrorIs (ErrorWrap m e) t = ErrorIs e t"

definition IsNotFound :: "error \<Rightarrow> bool" where
  "IsNotFound e \<longleftrightarrow> ReasonForError e = Some ReasonNotFound"

definition IsAlreadyExists :: "error \<Rightarrow> bool" where
  "IsAlreadyExists e \<longleftrightarrow> ReasonForError e = Some ReasonAlreadyExists"

definition IsConflict :: "error \<Rightarrow> bool" where
  "IsConflict e \<longleftrightarrow> ReasonForError e = Some ReasonConflict"

lemma error_class_wrap [simp]:
  "IsNotFound (ErrorWrap m e) = IsNotFound e"
  "IsAlreadyExists (ErrorWrap m e) = IsAlreadyExists e"
  "IsConflict (ErrorWrap m e) = IsConflict e"
  by (simp_all add: IsNotFound_def IsAlreadyExists_def IsConflict_def)

lemma error_class_new [simp]:
  "\<not> IsNotFound (ErrorNew m)" "\<not> IsAlreadyExists (ErrorNew m)" "\<not> IsConflict (ErrorNew m)"
  by (simp_all add: IsNotFound_def IsAlreadyExists_def IsConflict_def)

lemma error_class_status [simp]:
  "IsNotFound (StatusError r m) = (r = ReasonNotFound)"
  "IsAlreadyExists (StatusError r m) = (r = ReasonAlreadyExists)"
  "IsConflict (StatusError r m) = (r = ReasonConflict)"
  by (simp_all add: IsNotFound_def IsAlreadyExists_def IsConflict_def)

section \<open>Strings, maps and slices\<close>

text \<open>The functions of package \<open>strings\<close> that the sources call.\<close>

definition HasPrefix :: "string \<Rightarrow> string \<Rightarrow> bool" where
  "HasPrefix s p \<longleftrightarrow> take (length p) s = p"

definition TrimPrefix :: "string \<Rightarrow> string \<Rightarrow> string" where
  "TrimPrefix s p = (if HasPrefix s p then drop (length p) s else s)"

primrec Contains_from :: "string \<Rightarrow> string \<Rightarrow> bool" where
  "Contains_from p [] = HasPrefix [] p"
| "Contains_from p (c # s) = (HasPrefix (c # s) p \<or> Contains_from p s)"

definition Contains :: "string \<Rightarrow> string \<Rightarrow> bool" where
  "Contains s p = Contains_from p s"

text \<open>\<open>strings.Split\<close> at a one-character separator; splitting the empty string gives \<open>[""]\<close>.\<close>

fun Split :: "char \<Rightarrow> string \<Rightarrow> string list" where
  "Split sep [] = [[]]"
| "Split sep (c # s) =
    (if c = sep then [] # Split sep s
     else (case Split sep s of [] \<Rightarrow> [[c]] | w # ws \<Rightarrow> (c # w) # ws))"

fun Join :: "string list \<Rightarrow> string \<Rightarrow> string" where
  "Join [] sep = []"
| "Join [w] sep = w"
| "Join (w # v # ws) sep = w @ sep @ Join (v # ws) sep"

text \<open>
  A Go map is an association list with distinct keys; the order of the list is the order in
  which one \<open>range\<close> over the map visits it.  Indexing a string map with an absent key gives
  the empty string.
\<close>

type_synonym string_map = "(string \<times> string) list"

definition map_index :: "string_map \<Rightarrow> string \<Rightarrow> string" where
  "map_index m k = (case map_of m k of None \<Rightarrow> [] | Some v \<Rightarrow> v)"

text \<open>
  Times are nanoseconds.  A \<open>time.Duration\<close> has 64 bits: \<open>time.Time.Sub\<close> returns the nearest
  representable duration when the difference does not fit.
\<close>

type_synonym time = int

definition minDuration :: int where "minDuration = - (2 ^ 63)"
definition maxDuration :: int where "maxDuration = 2 ^ 63 - 1"

definition time_Sub :: "time \<Rightarrow> time \<Rightarrow> int" where
  "time_Sub t u = max minDuration (min maxDuration (t - u))"

text \<open>
  \<open>sort.Slice\<close> and \<open>slices.SortFunc\<close> promise a permutation of the slice in which no later
  element is less than an earlier one.  They do not promise an order among equal elements, so
  the sorting function is a parameter with this contract.
\<close>

type_synonym 'a sorter = "('a \<Rightarrow> 'a \<Rightarrow> bool) \<Rightarrow> 'a list \<Rightarrow> 'a list"

definition strict_weak :: "('a \<Rightarrow> 'a \<Rightarrow> bool) \<Rightarrow> bool" where
  "strict_weak lt \<longleftrightarrow>
    (\<forall>x. \<not> lt x x) \<and> (\<forall>x y z. lt x y \<longrightarrow> lt y z \<longrightarrow> lt x z)
    \<and> (\<forall>x y z. \<not> lt x y \<longrightarrow> \<not> lt y z \<longrightarrow> \<not> lt x z)"

definition sorter_contract :: "'a sorter \<Rightarrow> bool" where
  "sorter_contract srt \<longleftrightarrow>
    (\<forall>lt xs. strict_weak lt \<longrightarrow>
       mset (srt lt xs) = mset xs \<and> sorted_wrt (\<lambda>x y. \<not> lt y x) (srt lt xs))"

text \<open>An insertion sort meets the contract.\<close>

primrec insert_by :: "('a \<Rightarrow> 'a \<Rightarrow> bool) \<Rightarrow> 'a \<Rightarrow> 'a list \<Rightarrow> 'a list" where
  "insert_by lt x [] = [x]"
| "insert_by lt x (y # ys) = (if lt y x then y # insert_by lt x ys else x # y # ys)"

definition insertion_sorter :: "'a sorter" where
  "insertion_sorter lt xs = foldr (insert_by lt) xs []"

section \<open>Programs over a history of calls\<close>

type_synonym ('c, 'a) prog = "('c list, 'a) state"

definition call :: "('c list \<Rightarrow> 'a) \<Rightarrow> 'c \<Rightarrow> ('c, 'a) prog" where
  "call answer c = State (\<lambda>h. (answer h, h @ [c]))"

abbreviation ok :: "'a \<Rightarrow> ('c, 'a result) prog" where
  "ok x \<equiv> State_Monad.return (Inr x)"

abbreviation fail :: "error \<Rightarrow> ('c, 'a result) prog" where
  "fail e \<equiv> State_Monad.return (Inl e)"

text \<open>A loop over a slice that stops at the first error.\<close>

primrec for_each :: "('a \<Rightarrow> ('c, unit result) prog) \<Rightarrow> 'a list \<Rightarrow> ('c, unit result) prog" where
  "for_each f [] = ok ()"
| "for_each f (x # xs) = do {
     r \<leftarrow> f x;
     (case r of Inl e \<Rightarrow> fail e | Inr _ \<Rightarrow> for_each f xs)
   }"

text \<open>A loop over a slice that carries an accumulator and stops at the first error.\<close>

primrec fold_prog ::
  "('a \<Rightarrow> 'b \<Rightarrow> ('c, 'b result) prog) \<Rightarrow> 'a list \<Rightarrow> 'b \<Rightarrow> ('c, 'b result) prog" where
  "fold_prog f [] acc = ok acc"
| "fold_prog f (x # xs) acc = do {
     r \<leftarrow> f x acc;
     (case r of Inl e \<Rightarrow> fail e | Inr acc' \<Rightarrow> fold_prog f xs acc')
   }"

text \<open>\<open>calls m\<close> is the list of calls a run from the empty history makes, \<open>answer_of m\<close> its result.\<close>

definition calls :: "('c, 'a) prog \<Rightarrow> 'c list" where
  "calls m = snd (run_state m [])"

definition answer_of :: "('c, 'a) prog \<Rightarrow> 'a" where
  "answer_of m = fst (run_state m [])"

text \<open>\<open>emits P m\<close>: from every history, each call \<open>m\<close> adds satisfies \<open>P\<close>.\<close>

definition emits :: "('c \<Rightarrow> bool) \<Rightarrow> ('c, 'a) prog \<Rightarrow> bool" where
  "emits P m \<longleftrightarrow> (\<forall>h. \<exists>new. snd (run_state m h) = h @ new \<and> list_all P new)"

text \<open>
  \<open>retry.RetryOnConflict\<close> of the Kubernetes client library runs its function again after a
  conflict until it succeeds, fails otherwise, or the library gives up.  It is a parameter with
  this contract: its outcome is the outcome of an attempt that follows only conflicting ones.
\<close>

type_synonym ('c, 'a) retrier = "('c, 'a result) prog \<Rightarrow> ('c, 'a result) prog"

inductive retried :: "('c, 'a result) prog \<Rightarrow> 'c list \<Rightarrow> 'a result \<Rightarrow> 'c list \<Rightarrow> bool" for f where
  retried_stop: "run_state f h = (r, h') \<Longrightarrow> retried f h r h'"
| retried_again: "\<lbrakk>run_state f h = (Inl e, h'); IsConflict e; retried f h' r h''\<rbrakk>
    \<Longrightarrow> retried f h r h''"

definition retrier_contract :: "('c, 'a) retrier \<Rightarrow> bool" where
  "retrier_contract R \<longleftrightarrow>
    (\<forall>f h. retried f h (fst (run_state (R f) h)) (snd (run_state (R f) h)))"

text \<open>A retrier with a bound on the number of further attempts.\<close>

primrec retry_times :: "nat \<Rightarrow> ('c, 'a) retrier" where
  "retry_times 0 f = f"
| "retry_times (Suc n) f = do {
     r \<leftarrow> f;
     (case r of Inl e \<Rightarrow> if IsConflict e then retry_times n f else fail e | Inr x \<Rightarrow> ok x)
   }"

text \<open>\<open>yields Q m\<close>: from every history, the result of \<open>m\<close> satisfies \<open>Q\<close>.\<close>

definition yields :: "('a \<Rightarrow> bool) \<Rightarrow> ('c, 'a) prog \<Rightarrow> bool" where
  "yields Q m \<longleftrightarrow> (\<forall>h. Q (fst (run_state m h)))"

text \<open>\<open>traces Q m\<close>: from every history, the list of calls that \<open>m\<close> adds satisfies \<open>Q\<close>.\<close>

definition traces :: "('c list \<Rightarrow> bool) \<Rightarrow> ('c, 'a) prog \<Rightarrow> bool" where
  "traces Q m \<longleftrightarrow> (\<forall>h. \<exists>new. snd (run_state m h) = h @ new \<and> Q new)"

text \<open>
  \<open>embed to own_of m\<close> runs a program of another component: \<open>m\<close> sees the part of the history that
  \<open>own_of\<close> reads as its own calls, and the calls it adds enter the history under \<open>to\<close>.
\<close>

definition embed :: "('c \<Rightarrow> 'd) \<Rightarrow> ('d \<Rightarrow> 'c option) \<Rightarrow> ('c, 'a) prog \<Rightarrow> ('d, 'a) prog" where
  "embed to own_of m = State (\<lambda>h.
     let own = List.map_filter own_of h; (x, own') = run_state m own
     in (x, h @ map to (drop (length own) own')))"

text \<open>
  \<open>guarded P h m\<close>: run from the history \<open>h\<close>, each call \<open>c\<close> that \<open>m\<close> makes satisfies \<open>P h' c\<close> for the
  history \<open>h'\<close> in which it is made.
\<close>

definition guarded :: "('c list \<Rightarrow> 'c \<Rightarrow> bool) \<Rightarrow> 'c list \<Rightarrow> ('c, 'a) prog \<Rightarrow> bool" where
  "guarded P h m \<longleftrightarrow>
    (\<exists>new. snd (run_state m h) = h @ new \<and> (\<forall>i < length new. P (h @ take i new) (new ! i)))"

section \<open>Lemmas on the library fragment\<close>

lemma HasPrefix_append [simp]: "HasPrefix (p @ s) p"
  by (simp add: HasPrefix_def)

lemma HasPrefix_iff: "HasPrefix s p \<longleftrightarrow> (\<exists>t. s = p @ t)"
  by (metis HasPrefix_def append_eq_conv_conj append_take_drop_id)

lemma TrimPrefix_append [simp]: "TrimPrefix (p @ s) p = s"
  by (simp add: TrimPrefix_def)

lemma Split_nonempty [simp]: "Split sep s \<noteq> []"
  by (induction s) (auto split: list.splits)

lemma Split_no_sep: "sep \<notin> set s \<Longrightarrow> Split sep s = [s]"
  by (induction s) auto

lemma Split_append: "sep \<notin> set w \<Longrightarrow> Split sep (w @ sep # s) = w # Split sep s"
  by (induction w) auto

lemma map_index_simps [simp]:
  "map_index [] k = []"
  "map_index ((k', v) # m) k = (if k = k' then v else map_index m k)"
  by (simp_all add: map_index_def)

lemma map_index_update [simp]:
  "map_index (AList.update k v m) k' = (if k = k' then v else map_index m k')"
  by (simp add: map_index_def update_conv)

text \<open>A joined key splits into its parts again when the parts do not contain the separator.\<close>

lemma sep_append_inject:
  assumes "sep \<notin> set a" "sep \<notin> set a'"
  shows "a @ sep # b = a' @ sep # b' \<longleftrightarrow> a = a' \<and> b = b'"
proof
  assume eq: "a @ sep # b = a' @ sep # b'"
  have "takeWhile (\<lambda>c. c \<noteq> sep) (x @ sep # y) = x" if "sep \<notin> set x" for x y
    using that by (induction x) auto
  from this[OF assms(1), of b] this[OF assms(2), of b'] eq have "a = a'" by simp
  with eq show "a = a' \<and> b = b'" by simp
qed simp

section \<open>Lemmas on sorting\<close>

lemma mset_insert_by [simp]: "mset (insert_by lt x xs) = add_mset x (mset xs)"
  by (induction xs) auto

lemma set_insert_by [simp]: "set (insert_by lt x xs) = insert x (set xs)"
  by (induction xs) auto

lemma mset_foldr_insert_by: "mset (foldr (insert_by lt) xs []) = mset xs"
  by (induction xs) auto

lemma sorted_insert_by:
  assumes "strict_weak lt" "sorted_wrt (\<lambda>x y. \<not> lt y x) ys"
  shows "sorted_wrt (\<lambda>x y. \<not> lt y x) (insert_by lt x ys)"
  using assms(2)
proof (induction ys)
  case (Cons y ys)
  have asym: "\<not> lt x y" if "lt y x"
    using that assms(1) unfolding strict_weak_def by blast
  have neg: "\<not> lt z x" if "\<not> lt y x" "\<not> lt z y" for z
    using that assms(1) unfolding strict_weak_def by blast
  show ?case
    using Cons asym neg by auto
qed simp

lemma insertion_sorter_contract: "sorter_contract insertion_sorter"
proof -
  have "strict_weak lt \<Longrightarrow> sorted_wrt (\<lambda>x y. \<not> lt y x) (foldr (insert_by lt) xs [])"
    for lt :: "'a \<Rightarrow> 'a \<Rightarrow> bool" and xs
    by (induction xs) (auto intro: sorted_insert_by)
  then show ?thesis
    by (simp add: sorter_contract_def insertion_sorter_def mset_foldr_insert_by)
qed

lemma strict_weak_key:
  fixes f :: "'a \<Rightarrow> 'k :: linorder"
  shows "strict_weak (\<lambda>x y. f x < f y)"
  unfolding strict_weak_def by auto

section \<open>Lemmas on programs\<close>

lemma run_call [simp]: "run_state (call f c) h = (f h, h @ [c])"
  by (simp add: call_def)

lemma emits_return [simp, emits_intros]: "emits P (State_Monad.return x)"
  by (simp add: emits_def)

lemma emits_call [simp, emits_intros]: "P c \<Longrightarrow> emits P (call f c)"
  by (simp add: emits_def)

lemma emits_bind [emits_intros]:
  assumes "emits P m" "\<And>x. emits P (f x)"
  shows "emits P (State_Monad.bind m f)"
  unfolding emits_def
proof
  fix h
  obtain x h' where m: "run_state m h = (x, h')" by fastforce
  obtain n1 where "h' = h @ n1" "list_all P n1"
    using assms(1) m unfolding emits_def by (metis snd_conv)
  moreover obtain n2 where "snd (run_state (f x) h') = h' @ n2" "list_all P n2"
    using assms(2)[of x] unfolding emits_def by blast
  ultimately show "\<exists>new. snd (run_state (State_Monad.bind m f) h) = h @ new \<and> list_all P new"
    using m by auto
qed

lemma emits_cases [emits_intros]:
  "\<lbrakk>\<And>e. r = Inl e \<Longrightarrow> emits P (f e); \<And>x. r = Inr x \<Longrightarrow> emits P (g x)\<rbrakk>
    \<Longrightarrow> emits P (case r of Inl e \<Rightarrow> f e | Inr x \<Rightarrow> g x)"
  "\<lbrakk>b \<Longrightarrow> emits P p; \<not> b \<Longrightarrow> emits P q\<rbrakk> \<Longrightarrow> emits P (if b then p else q)"
  "\<lbrakk>v = None \<Longrightarrow> emits P p; \<And>x. v = Some x \<Longrightarrow> emits P (k x)\<rbrakk>
    \<Longrightarrow> emits P (case v of None \<Rightarrow> p | Some x \<Rightarrow> k x)"
  "(\<And>a b. z = (a, b) \<Longrightarrow> emits P (u a b)) \<Longrightarrow> emits P (case z of (a, b) \<Rightarrow> u a b)"
  by (auto split: sum.splits option.splits prod.splits)

lemma emits_for_each [emits_intros]:
  "(\<And>x. x \<in> set xs \<Longrightarrow> emits P (f x)) \<Longrightarrow> emits P (for_each f xs)"
  by (induction xs) (auto intro!: emits_intros)

lemma emits_fold_prog [emits_intros]:
  "(\<And>x acc. x \<in> set xs \<Longrightarrow> emits P (f x acc)) \<Longrightarrow> emits P (fold_prog f xs acc)"
  by (induction xs arbitrary: acc) (auto intro!: emits_intros)

lemma emits_mono: "emits P m \<Longrightarrow> (\<And>c. P c \<Longrightarrow> Q c) \<Longrightarrow> emits Q m"
  unfolding emits_def list_all_iff by blast

lemma emits_calls: "emits P m \<Longrightarrow> c \<in> set (calls m) \<Longrightarrow> P c"
  unfolding emits_def calls_def by (metis append_Nil list_all_iff)

lemma emits_history:
  assumes "emits P m" "run_state m h = (x, h')"
  obtains new where "h' = h @ new" "list_all P new"
  using assms unfolding emits_def by (metis snd_conv)

lemma emits_embed:
  assumes "emits P m" "\<And>c. P c \<Longrightarrow> Q (to c)"
  shows "emits Q (embed to own_of m)"
  unfolding emits_def
proof
  fix h
  let ?own = "List.map_filter own_of h"
  obtain new where new: "snd (run_state m ?own) = ?own @ new" "list_all P new"
    using assms(1) unfolding emits_def by blast
  have "list_all Q (map to new)"
    using new(2) assms(2) by (auto simp: list_all_iff)
  then show "\<exists>new. snd (run_state (embed to own_of m) h) = h @ new \<and> list_all Q new"
    using new(1) by (auto simp: embed_def Let_def split: prod.splits)
qed

lemma retry_times_retried:
  "retried f h (fst (run_state (retry_times n f) h)) (snd (run_state (retry_times n f) h))"
proof (induction n arbitrary: h)
  case 0
  show ?case by (rule retried_stop) simp
next
  case (Suc n)
  obtain r h' where r: "run_state f h = (r, h')" by fastforce
  show ?case
  proof (cases "\<exists>e. r = Inl e \<and> IsConflict e")
    case True
    then obtain e where "r = Inl e" "IsConflict e" by blast
    with r Suc[of h'] show ?thesis by (auto intro: retried_again)
  next
    case False
    with r have "run_state (retry_times (Suc n) f) h = (r, h')"
      by (auto split: sum.splits)
    with r show ?thesis by (auto intro: retried_stop)
  qed
qed

lemma retry_times_contract: "retrier_contract (retry_times n)"
  by (simp add: retrier_contract_def retry_times_retried)

lemma emits_retried:
  assumes "retried f h r h'" "emits P f"
  shows "\<exists>new. h' = h @ new \<and> list_all P new"
  using assms
proof (induction rule: retried.induct)
  case (retried_stop h r h')
  then show ?case by (metis emits_history)
next
  case (retried_again h e h' r h'')
  then obtain n1 n2 where "h' = h @ n1" "list_all P n1" "h'' = h' @ n2" "list_all P n2"
    by (metis emits_history)
  then show ?case by (intro exI[of _ "n1 @ n2"]) simp
qed

lemma emits_retrier:
  assumes "retrier_contract R" "emits P f"
  shows "emits P (R f)"
  unfolding emits_def
  using assms emits_retried unfolding retrier_contract_def by blast

text \<open>Whatever holds of every successful attempt holds of a successful retried run.\<close>

lemma retried_success:
  assumes "retried f h (Inr x) h'"
  obtains h0 where "run_state f h0 = (Inr x, h')"
  using assms
proof (induction h "Inr x :: 'b result" h' arbitrary: thesis rule: retried.induct)
  case (retried_again h e h' h'')
  then show ?case by blast
qed blast

section \<open>Lemmas on results and traces\<close>

lemma yields_run: "yields Q m \<Longrightarrow> run_state m h = (x, h') \<Longrightarrow> Q x"
  unfolding yields_def by (metis fst_conv)

lemma yields_return [simp, yields_intros]: "Q x \<Longrightarrow> yields Q (State_Monad.return x)"
  by (simp add: yields_def)

lemma yields_call [yields_intros]: "(\<And>h. Q (f h)) \<Longrightarrow> yields Q (call f c)"
  by (simp add: yields_def)

lemma yields_True [simp]: "yields (\<lambda>x. True) m"
  by (simp add: yields_def)

lemma yields_bind:
  assumes "yields Q m" "\<And>x. Q x \<Longrightarrow> yields R (f x)"
  shows "yields R (State_Monad.bind m f)"
  using assms unfolding yields_def by (auto split: prod.splits) (metis fst_conv)

lemma yields_mono: "yields P m \<Longrightarrow> (\<And>x. P x \<Longrightarrow> Q x) \<Longrightarrow> yields Q m"
  unfolding yields_def by blast

lemma map_sum_Inr_iff: "map_sum f g r = Inr y \<longleftrightarrow> (\<exists>x. r = Inr x \<and> y = g x)"
  by (cases r) auto

lemma pred_sum_InrI: "(\<And>x. r = Inr x \<Longrightarrow> Q x) \<Longrightarrow> pred_sum (\<lambda>_. True) Q r"
  by (cases r) simp_all

lemmas yields_bind_any [yields_intros] = yields_bind[OF yields_True]

lemma yields_cases [yields_intros]:
  "\<lbrakk>\<And>e. r = Inl e \<Longrightarrow> yields P (f e); \<And>x. r = Inr x \<Longrightarrow> yields P (g x)\<rbrakk>
    \<Longrightarrow> yields P (case r of Inl e \<Rightarrow> f e | Inr x \<Rightarrow> g x)"
  "\<lbrakk>b \<Longrightarrow> yields P p; \<not> b \<Longrightarrow> yields P q\<rbrakk> \<Longrightarrow> yields P (if b then p else q)"
  "\<lbrakk>v = None \<Longrightarrow> yields P p; \<And>x. v = Some x \<Longrightarrow> yields P (k x)\<rbrakk>
    \<Longrightarrow> yields P (case v of None \<Rightarrow> p | Some x \<Rightarrow> k x)"
  by (auto split: sum.splits option.splits)

text \<open>An invariant of the accumulator of a loop holds of its result.\<close>

lemma yields_fold_prog:
  assumes "\<And>x acc. x \<in> set xs \<Longrightarrow> I acc \<Longrightarrow> yields (pred_sum (\<lambda>e. True) I) (f x acc)" "I acc"
  shows "yields (pred_sum (\<lambda>e. True) I) (fold_prog f xs acc)"
  using assms
proof (induction xs arbitrary: acc)
  case (Cons x xs)
  show ?case
    unfolding fold_prog.simps
    by (rule yields_bind[of "pred_sum (\<lambda>e. True) I"])
      (use Cons in \<open>auto intro!: yields_cases Cons.IH\<close>)
qed simp

lemma yields_retrier:
  assumes "retrier_contract R" "yields Q f"
  shows "yields Q (R f)"
proof -
  have "Q r" if "retried f h r h'" for h r h'
    using that by (induction rule: retried.induct) (use assms(2) in \<open>auto dest: yields_run\<close>)
  then show ?thesis
    using assms(1) unfolding retrier_contract_def yields_def by blast
qed

lemma emits_bind_yields:
  assumes "emits P m" "yields Q m" "\<And>x. Q x \<Longrightarrow> emits P (f x)"
  shows "emits P (State_Monad.bind m f)"
  unfolding emits_def
proof
  fix h
  obtain x h' where m: "run_state m h = (x, h')" by fastforce
  obtain n1 where "h' = h @ n1" "list_all P n1"
    using emits_history[OF assms(1) m] .
  moreover obtain n2 where "snd (run_state (f x) h') = h' @ n2" "list_all P n2"
    using assms(3)[OF yields_run[OF assms(2) m]] unfolding emits_def by blast
  ultimately show "\<exists>new. snd (run_state (State_Monad.bind m f) h) = h @ new \<and> list_all P new"
    using m by auto
qed

lemma traces_emits: "emits P m \<Longrightarrow> (\<And>new. list_all P new \<Longrightarrow> Q new) \<Longrightarrow> traces Q m"
  unfolding emits_def traces_def by blast

lemma traces_calls: "traces Q m \<Longrightarrow> Q (calls m)"
  unfolding traces_def calls_def by (metis append_Nil)

lemma traces_bind:
  assumes "emits N m" "yields Y m" "\<And>x. Y x \<Longrightarrow> traces Q (f x)" "\<And>a b. list_all N a \<Longrightarrow> Q b \<Longrightarrow> Q (a @ b)"
  shows "traces Q (State_Monad.bind m f)"
  unfolding traces_def
proof
  fix h
  obtain x h' where m: "run_state m h = (x, h')" by fastforce
  obtain n1 where n1: "h' = h @ n1" "list_all N n1"
    using emits_history[OF assms(1) m] .
  obtain n2 where "snd (run_state (f x) h') = h' @ n2" "Q n2"
    using assms(3)[OF yields_run[OF assms(2) m]] unfolding traces_def by blast
  then show "\<exists>new. snd (run_state (State_Monad.bind m f) h) = h @ new \<and> Q new"
    using m n1 assms(4) by auto
qed

lemmas traces_bind_any = traces_bind[OF _ yields_True]

lemma traces_bind_last:
  assumes "traces Q m" "\<And>x. emits N (f x)" "\<And>a b. Q a \<Longrightarrow> list_all N b \<Longrightarrow> Q (a @ b)"
  shows "traces Q (State_Monad.bind m f)"
  unfolding traces_def
proof
  fix h
  obtain x h' where m: "run_state m h = (x, h')" by fastforce
  obtain n1 where n1: "h' = h @ n1" "Q n1"
    using assms(1) m unfolding traces_def by (metis snd_conv)
  obtain n2 where "snd (run_state (f x) h') = h' @ n2" "list_all N n2"
    using assms(2)[of x] unfolding emits_def by blast
  then show "\<exists>new. snd (run_state (State_Monad.bind m f) h) = h @ new \<and> Q new"
    using m n1 assms(3) by auto
qed

lemma traces_return: "Q [] \<Longrightarrow> traces Q (State_Monad.return x)"
  by (simp add: traces_def)

lemma traces_cases:
  "\<lbrakk>\<And>e. r = Inl e \<Longrightarrow> traces P (f e); \<And>x. r = Inr x \<Longrightarrow> traces P (g x)\<rbrakk>
    \<Longrightarrow> traces P (case r of Inl e \<Rightarrow> f e | Inr x \<Rightarrow> g x)"
  "\<lbrakk>b \<Longrightarrow> traces P p; \<not> b \<Longrightarrow> traces P q\<rbrakk> \<Longrightarrow> traces P (if b then p else q)"
  by (auto split: sum.splits)

section \<open>Lemmas on guarded programs\<close>

lemma guarded_return [simp]: "guarded P h (State_Monad.return x)"
  by (simp add: guarded_def)

lemma guarded_call [simp]: "guarded P h (call f c) \<longleftrightarrow> P h c"
  by (simp add: guarded_def)

lemma guarded_run:
  assumes "guarded P h m" "run_state m h = (x, h')"
  obtains new where "h' = h @ new" "\<And>i. i < length new \<Longrightarrow> P (h @ take i new) (new ! i)"
  using assms unfolding guarded_def by (metis snd_conv)

lemma guarded_bind:
  assumes "guarded P h m" "\<And>x h'. run_state m h = (x, h') \<Longrightarrow> guarded P h' (f x)"
  shows "guarded P h (State_Monad.bind m f)"
proof -
  obtain x h' where m: "run_state m h = (x, h')" by fastforce
  obtain n1 where n1: "h' = h @ n1" "\<And>i. i < length n1 \<Longrightarrow> P (h @ take i n1) (n1 ! i)"
    using guarded_run[OF assms(1) m] by blast
  obtain n2 where n2: "snd (run_state (f x) h') = h' @ n2"
      "\<And>i. i < length n2 \<Longrightarrow> P (h' @ take i n2) (n2 ! i)"
    using assms(2)[OF m] unfolding guarded_def by blast
  have "P (h @ take i (n1 @ n2)) ((n1 @ n2) ! i)" if "i < length (n1 @ n2)" for i
    using n1(2)[of i] n2(2)[of "i - length n1"] that n1(1) by (auto simp: nth_append)
  then show ?thesis
    unfolding guarded_def using m n1 n2 by (intro exI[of _ "n1 @ n2"]) auto
qed

lemma guarded_cases:
  "\<lbrakk>\<And>e. r = Inl e \<Longrightarrow> guarded P h (f e); \<And>x. r = Inr x \<Longrightarrow> guarded P h (g x)\<rbrakk>
    \<Longrightarrow> guarded P h (case r of Inl e \<Rightarrow> f e | Inr x \<Rightarrow> g x)"
  "\<lbrakk>b \<Longrightarrow> guarded P h p; \<not> b \<Longrightarrow> guarded P h q\<rbrakk> \<Longrightarrow> guarded P h (if b then p else q)"
  "\<lbrakk>v = None \<Longrightarrow> guarded P h p; \<And>x. v = Some x \<Longrightarrow> guarded P h (k x)\<rbrakk>
    \<Longrightarrow> guarded P h (case v of None \<Rightarrow> p | Some x \<Rightarrow> k x)"
  by (auto split: sum.splits option.splits)

lemma guarded_mono: "guarded P h m \<Longrightarrow> (\<And>h c. P h c \<Longrightarrow> Q h c) \<Longrightarrow> guarded Q h m"
  unfolding guarded_def by blast

lemma guarded_emits:
  assumes "emits P m" "\<And>h c. P c \<Longrightarrow> Q h c"
  shows "guarded Q h m"
proof -
  obtain new where "snd (run_state m h) = h @ new" "list_all P new"
    using assms(1) unfolding emits_def by blast
  then show ?thesis
    using assms(2) unfolding guarded_def by (auto simp: list_all_length)
qed

lemma guarded_calls:
  assumes "guarded P [] m" "calls m = pre @ c # post"
  shows "P pre c"
proof -
  obtain new where "calls m = new" "\<And>i. i < length new \<Longrightarrow> P (take i new) (new ! i)"
    using assms(1) unfolding guarded_def calls_def by auto
  from this(2)[of "length pre"] this(1) show ?thesis
    using assms(2) by auto
qed

lemma guarded_retried:
  assumes "retried f h r h'" "\<And>n. guarded P (h @ n) f"
  shows "\<exists>new. h' = h @ new \<and> (\<forall>i < length new. P (h @ take i new) (new ! i))"
  using assms
proof (induction rule: retried.induct)
  case (retried_stop h r h')
  from retried_stop(2)[of "[]"] retried_stop(1) show ?case
    unfolding guarded_def by simp
next
  case (retried_again h e h1 r h2)
  obtain n1 where n1: "h1 = h @ n1" "\<And>i. i < length n1 \<Longrightarrow> P (h @ take i n1) (n1 ! i)"
    using guarded_run[OF retried_again.prems[of "[]", simplified] retried_again(1)] by blast
  obtain n2 where n2: "h2 = h1 @ n2" "\<And>i. i < length n2 \<Longrightarrow> P (h1 @ take i n2) (n2 ! i)"
    using retried_again.IH retried_again.prems[of "n1 @ _"] n1(1) by auto
  have "P (h @ take i (n1 @ n2)) ((n1 @ n2) ! i)" if "i < length (n1 @ n2)" for i
    using n1(2)[of i] n2(2)[of "i - length n1"] that n1(1) by (auto simp: nth_append)
  then show ?case
    using n1(1) n2(1) by (intro exI[of _ "n1 @ n2"]) auto
qed

lemma guarded_retrier:
  assumes "retrier_contract R" "\<And>n. guarded P (h @ n) f"
  shows "guarded P h (R f)"
  using guarded_retried[OF _ assms(2)] assms(1)
  unfolding guarded_def retrier_contract_def by blast

end
