(* ===== verification/Api_Types.thy ===== *)
theory Api_Types
  imports Prelude
begin

text \<open>
  The custom resources of \<open>src/api\<close>: object metadata, status conditions, labels, the Registry
  with its repositories, match conditions and platforms, the CA bundle reference and the two
  singleton configurations.  A struct is a record whose fields carry a short prefix; a pointer
  field is an option.  The methods of Registry and Platform follow their types.
\<close>

section \<open>Metadata of the Kubernetes objects\<close>

record OwnerReference =
  or_APIVersion :: string
  or_Kind :: string
  or_Name :: string
  or_UID :: string
  or_Controller :: "bool option"

record ObjectMeta =
  om_Name :: string
  om_GenerateName :: string
  om_Namespace :: string
  om_UID :: string
  om_ResourceVersion :: string
  om_Generation :: int
  om_CreationTimestamp :: time
  om_DeletionTimestamp :: "time option"
  om_Labels :: string_map
  om_Annotations :: string_map
  om_OwnerReferences :: "OwnerReference list"

definition empty_meta :: ObjectMeta where
  "empty_meta = \<lparr>om_Name = [], om_GenerateName = [], om_Namespace = [], om_UID = [], om_ResourceVersion = [],
     om_Generation = 0, om_CreationTimestamp = 0, om_DeletionTimestamp = None,
     om_Labels = [], om_Annotations = [], om_OwnerReferences = []\<rparr>"

type_synonym NamespacedName = "string \<times> string"

datatype ConditionStatus = ConditionTrue | ConditionFalse | ConditionUnknown

record Condition =
  c_Type :: string
  c_Status :: ConditionStatus
  c_ObservedGeneration :: int
  c_LastTransitionTime :: time
  c_Reason :: string
  c_Message :: string

section \<open>Labels\<close>

abbreviation LabelManagedByKey :: string where
  "LabelManagedByKey \<equiv> ''app.kubernetes.io/managed-by''"
abbreviation LabelManagedByValue :: string where
  "LabelManagedByValue \<equiv> ''sbomscanner''"
abbreviation LabelPartOfKey :: string where
  "LabelPartOfKey \<equiv> ''app.kubernetes.io/part-of''"
abbreviation LabelPartOfValue :: string where
  "LabelPartOfValue \<equiv> ''sbomscanner''"
abbreviation LabelWorkloadScanKey :: string where
  "LabelWorkloadScanKey \<equiv> ''sbomscanner.kubewarden.io/workloadscan''"
abbreviation LabelWorkloadScanValue :: string where
  "LabelWorkloadScanValue \<equiv> ''true''"

section \<open>Registry\<close>

type_synonym MatchOperator = string

abbreviation MatchOperatorAnd :: MatchOperator where "MatchOperatorAnd \<equiv> ''And''"
abbreviation MatchOperatorOr :: MatchOperator where "MatchOperatorOr \<equiv> ''Or''"

record Platform =
  pl_Architecture :: string
  pl_OS :: string
  pl_Variant :: string

record MatchCondition =
  mc_Name :: string
  mc_Expression :: string
  mc_Labels :: string_map

record Repository =
  rp_Name :: string
  rp_MatchConditions :: "MatchCondition list"
  rp_MatchOperator :: MatchOperator

record CABundleKeySelector =
  ck_Name :: string
  ck_Key :: string

record CABundleSource =
  cs_ConfigMap :: "CABundleKeySelector option"
  cs_Secret :: "CABundleKeySelector option"

record RegistrySpec =
  rs_URI :: string
  rs_CatalogType :: string
  rs_Repositories :: "Repository list"
  rs_AuthSecret :: string
  rs_ScanInterval :: "int option"
  rs_CABundle :: string
  rs_CABundleRef :: "CABundleSource option"
  rs_Insecure :: bool
  rs_Platforms :: "Platform list"

record Registry =
  rg_meta :: ObjectMeta
  rg_Spec :: RegistrySpec
  rg_Conditions :: "Condition list"

abbreviation AnnotationRescanRequestedKeyPrefix :: string where
  "AnnotationRescanRequestedKeyPrefix \<equiv> ''sbomscanner.kubewarden.io/rescan-requested-''"

text \<open>\<open>uuid.New\<close> is the argument of the key constructor.\<close>

definition NewRescanRequestedAnnotationKey :: "string \<Rightarrow> string" where
  "NewRescanRequestedAnnotationKey uuid = AnnotationRescanRequestedKeyPrefix @ uuid"

abbreviation CatalogTypeNoCatalog :: string where "CatalogTypeNoCatalog \<equiv> ''NoCatalog''"
abbreviation CatalogTypeOCIDistribution :: string where
  "CatalogTypeOCIDistribution \<equiv> ''OCIDistribution''"

definition Platform_String :: "Platform \<Rightarrow> string" where
  "Platform_String p =
    (let platform = pl_OS p @ ''/'' @ pl_Architecture p
     in if pl_Variant p \<noteq> [] then platform @ ''/'' @ pl_Variant p else platform)"

text \<open>
  \<open>name.DefaultRegistry\<close> belongs to the registry client library; it is the first argument.
  The loop returns the first repository whose name is the requested one or its short form.
\<close>

definition GetRepository :: "string \<Rightarrow> Registry \<Rightarrow> string \<Rightarrow> Repository option" where
  "GetRepository DefaultRegistry r repo =
    (let short = (if rs_URI (rg_Spec r) = DefaultRegistry
                  then TrimPrefix repo ''library/'' else repo)
     in find (\<lambda>rp. rp_Name rp = repo \<or> rp_Name rp = short) (rs_Repositories (rg_Spec r)))"

definition IsPrivate :: "Registry \<Rightarrow> bool" where
  "IsPrivate r \<longleftrightarrow> rs_AuthSecret (rg_Spec r) \<noteq> []"

definition IsManagedByWorkloadScan :: "Registry \<Rightarrow> bool" where
  "IsManagedByWorkloadScan r \<longleftrightarrow>
    map_index (om_Labels (rg_meta r)) LabelManagedByKey = LabelManagedByValue
    \<and> map_index (om_Labels (rg_meta r)) LabelWorkloadScanKey = LabelWorkloadScanValue"

section \<open>Scan targets\<close>

record ScanJobRepository =
  sr_Name :: string
  sr_MatchConditions :: "string list"

record RescanRequest =
  rr_Repositories :: "ScanJobRepository list"

section \<open>Configurations\<close>

abbreviation WorkloadScanConfigurationName :: string where
  "WorkloadScanConfigurationName \<equiv> ''default''"
abbreviation NodeScanConfigurationName :: string where
  "NodeScanConfigurationName \<equiv> ''default''"
abbreviation AnnotationNodeRescanRequested :: string where
  "AnnotationNodeRescanRequested \<equiv> ''sbomscanner.kubewarden.io/node-rescan-requested''"

text \<open>
  A label selector of the Kubernetes API; the code only hands it to the library function
  \<open>metav1.LabelSelectorAsSelector\<close>.
\<close>

record LabelSelectorRequirement =
  lr_Key :: string
  lr_Operator :: string
  lr_Values :: "string list"

record LabelSelector =
  ls_MatchLabels :: string_map
  ls_MatchExpressions :: "LabelSelectorRequirement list"

record WorkloadScanConfigurationSpec =
  wc_Enabled :: bool
  wc_NamespaceSelector :: "LabelSelector option"
  wc_ArtifactsNamespace :: string
  wc_ScanInterval :: "int option"
  wc_ScanOnChange :: bool
  wc_AuthSecret :: string
  wc_CABundle :: string
  wc_CABundleRef :: "CABundleSource option"
  wc_Insecure :: bool
  wc_Platforms :: "Platform list"

record WorkloadScanConfiguration =
  wsc_meta :: ObjectMeta
  wsc_Spec :: WorkloadScanConfigurationSpec

record NodeScanConfigurationSpec =
  nc_Enabled :: bool
  nc_NodeSelector :: "LabelSelector option"
  nc_ScanInterval :: "int option"
  nc_SkipPatterns :: "string list option"
  nc_Platforms :: "Platform list"

record NodeScanConfiguration =
  nsc_meta :: ObjectMeta
  nsc_Spec :: NodeScanConfigurationSpec

definition DefaultSkipPatterns :: "string list" where
  "DefaultSkipPatterns =
    [''/var/lib/containerd/'',
     ''/var/lib/docker/'',
     ''/var/lib/rancher/k3s/agent/containerd/'',
     ''/var/lib/rancher/rke2/agent/containerd/'',
     ''/var/lib/containers/'',
     ''/run/containerd/'',
     ''/run/k3s/containerd/'']"

section \<open>Lemmas\<close>

text \<open>Two platforms whose fields contain no slash and that print alike are the same platform.\<close>

lemma Platform_String_inject:
  assumes "CHR ''/'' \<notin> set (pl_OS p)" "CHR ''/'' \<notin> set (pl_OS q)"
    and "CHR ''/'' \<notin> set (pl_Architecture p)" "CHR ''/'' \<notin> set (pl_Architecture q)"
    and eq: "Platform_String p = Platform_String q"
  shows "p = q"
proof -
  let ?rest = "\<lambda>x. if pl_Variant x \<noteq> [] then pl_Architecture x @ CHR ''/'' # pl_Variant x
                    else pl_Architecture x"
  have str: "Platform_String x = pl_OS x @ CHR ''/'' # ?rest x" for x
    by (simp add: Platform_String_def Let_def)
  have os: "pl_OS p = pl_OS q" and rest: "?rest p = ?rest q"
    using eq[unfolded str] sep_append_inject[OF assms(1,2)] by blast+
  have no_sep: "a \<noteq> b @ CHR ''/'' # c" if "CHR ''/'' \<notin> set a" for a b c :: string
    using that by auto
  have "pl_Architecture p = pl_Architecture q \<and> pl_Variant p = pl_Variant q"
    using rest no_sep[OF assms(3), of "pl_Architecture q" "pl_Variant q"]
      no_sep[OF assms(4), of "pl_Architecture p" "pl_Variant p"]
      sep_append_inject[OF assms(3,4), of "pl_Variant p" "pl_Variant q"]
    by (auto split: if_splits)
  with os show ?thesis by simp
qed

lemma GetRepository_Some:
  assumes "GetRepository D r repo = Some rp"
  shows "rp \<in> set (rs_Repositories (rg_Spec r))"
    and "rp_Name rp = repo \<or> rs_URI (rg_Spec r) = D \<and> ''library/'' @ rp_Name rp = repo"
proof -
  let ?short = "if rs_URI (rg_Spec r) = D then TrimPrefix repo ''library/'' else repo"
  obtain i where i: "i < length (rs_Repositories (rg_Spec r))"
      "rp = rs_Repositories (rg_Spec r) ! i" "rp_Name rp = repo \<or> rp_Name rp = ?short"
    using assms unfolding GetRepository_def Let_def find_Some_iff by blast
  from i(1,2) show "rp \<in> set (rs_Repositories (rg_Spec r))" by simp
  from i(3) show "rp_Name rp = repo \<or> rs_URI (rg_Spec r) = D \<and> ''library/'' @ rp_Name rp = repo"
    by (auto simp: TrimPrefix_def HasPrefix_iff split: if_splits)
qed

lemma GetRepository_found:
  assumes "rp \<in> set (rs_Repositories (rg_Spec r))" "rp_Name rp = repo"
  shows "GetRepository D r repo \<noteq> None"
  using assms unfolding GetRepository_def Let_def find_None_iff by blast

end
