(* ===== verification/Job_Lifecycle.thy ===== *)
theory Job_Lifecycle
  imports Api_Types
begin

text \<open>
  The lifecycle of a job, \<open>src/api/v1alpha1/scanjob_types.go\<close>,
  \<open>src/api/v1alpha1/nodescanjob_types.go\<close> and \<open>src/api/v1alpha1/job.go\<close>, with the terminal-state
  helpers of \<open>src/internal/telemetry/jobs.go\<close> and \<open>src/internal/controller/instrumentation.go\<close>.

  A job reports its phase through four status conditions.  The conditions are read and written
  with two functions of the Kubernetes library, \<open>meta.SetStatusCondition\<close> and
  \<open>meta.FindStatusCondition\<close>; they are the fields of the parameter \<open>M\<close>, and \<open>meta_contract\<close>
  states what their documentation promises.  The argument \<open>now\<close> of an operation is the clock.
\<close>

section \<open>The condition library\<close>

record meta_lib =
  SetStatusCondition :: "time \<Rightarrow> Condition list \<Rightarrow> Condition \<Rightarrow> Condition list"
  FindStatusCondition :: "Condition list \<Rightarrow> string \<Rightarrow> Condition option"

text \<open>
  Setting a condition makes it the one found for its type, up to the transition time that the
  library maintains, and leaves the other types alone; the empty list has no condition.
\<close>

definition meta_contract :: "meta_lib \<Rightarrow> bool" where
  "meta_contract M \<longleftrightarrow>
    (\<forall>t. FindStatusCondition M [] t = None)
    \<and> (\<forall>now cs c t.
         (t = c_Type c \<longrightarrow>
            (\<exists>tt. FindStatusCondition M (SetStatusCondition M now cs c) t
                    = Some (c\<lparr>c_LastTransitionTime := tt\<rparr>)))
         \<and> (t \<noteq> c_Type c \<longrightarrow>
              FindStatusCondition M (SetStatusCondition M now cs c) t
                = FindStatusCondition M cs t))"

text \<open>A list of conditions with one entry per type, updated in place or appended.\<close>

primrec list_set_condition :: "time \<Rightarrow> Condition list \<Rightarrow> Condition \<Rightarrow> Condition list" where
  "list_set_condition now [] c = [c\<lparr>c_LastTransitionTime := now\<rparr>]"
| "list_set_condition now (d # ds) c =
    (if c_Type d = c_Type c
     then c\<lparr>c_LastTransitionTime :=
              (if c_Status d = c_Status c then c_LastTransitionTime d else now)\<rparr> # ds
     else d # list_set_condition now ds c)"

definition list_meta :: meta_lib where
  "list_meta = \<lparr>SetStatusCondition = list_set_condition,
                FindStatusCondition = (\<lambda>cs t. find (\<lambda>c. c_Type c = t) cs)\<rparr>"

definition new_condition ::
  "string \<Rightarrow> ConditionStatus \<Rightarrow> string \<Rightarrow> string \<Rightarrow> int \<Rightarrow> Condition" where
  "new_condition t st reason message gen =
    \<lparr>c_Type = t, c_Status = st, c_ObservedGeneration = gen, c_LastTransitionTime = 0,
     c_Reason = reason, c_Message = message\<rparr>"

text \<open>The four consecutive calls of \<open>meta.SetStatusCondition\<close> that every operation makes.\<close>

definition set_conditions ::
  "meta_lib \<Rightarrow> time \<Rightarrow> Condition list \<Rightarrow> Condition list \<Rightarrow> Condition list" where
  "set_conditions M now new cs = fold (\<lambda>c acc. SetStatusCondition M now acc c) new cs"

abbreviation TypeScheduled :: string where "TypeScheduled \<equiv> ''Scheduled''"
abbreviation TypeInProgress :: string where "TypeInProgress \<equiv> ''InProgress''"
abbreviation TypeComplete :: string where "TypeComplete \<equiv> ''Complete''"
abbreviation TypeFailed :: string where "TypeFailed \<equiv> ''Failed''"

section \<open>The interface of a conditioned job\<close>

record ConditionedJob =
  cj_IsScheduled :: bool
  cj_IsInProgress :: bool
  cj_IsComplete :: bool
  cj_IsFailed :: bool

definition JobFinished :: "ConditionedJob \<Rightarrow> bool" where
  "JobFinished job \<longleftrightarrow> cj_IsComplete job \<or> cj_IsFailed job"

definition jobResult :: "ConditionedJob \<Rightarrow> string" where
  "jobResult job = (if cj_IsFailed job then ''failed'' else ''complete'')"

definition jobStatus :: "ConditionedJob \<Rightarrow> string" where
  "jobStatus job =
    (if cj_IsFailed job then ''failed''
     else if cj_IsComplete job then ''complete''
     else if cj_IsInProgress job then ''in_progress''
     else if cj_IsScheduled job then ''scheduled''
     else ''pending'')"

section \<open>ScanJob\<close>

abbreviation LabelScanJobUIDKey :: string where
  "LabelScanJobUIDKey \<equiv> ''sbomscanner.kubewarden.io/scanjob-uid''"
abbreviation AnnotationScanJobRegistryKey :: string where
  "AnnotationScanJobRegistryKey \<equiv> ''sbomscanner.kubewarden.io/registry''"
abbreviation AnnotationScanJobCreationTimestampKey :: string where
  "AnnotationScanJobCreationTimestampKey \<equiv> ''sbomscanner.kubewarden.io/creation-timestamp''"
abbreviation AnnotationScanJobTriggerKey :: string where
  "AnnotationScanJobTriggerKey \<equiv> ''sbomscanner.kubewarden.io/trigger''"

abbreviation ReasonScanJobPending :: string where "ReasonScanJobPending \<equiv> ''Pending''"
abbreviation ReasonScanJobScheduled :: string where "ReasonScanJobScheduled \<equiv> ''Scheduled''"
abbreviation ReasonScanJobInProgress :: string where "ReasonScanJobInProgress \<equiv> ''InProgress''"
abbreviation ReasonScanJobCatalogCreationInProgress :: string where
  "ReasonScanJobCatalogCreationInProgress \<equiv> ''CatalogCreationInProgress''"
abbreviation ReasonScanJobSBOMGenerationInProgress :: string where
  "ReasonScanJobSBOMGenerationInProgress \<equiv> ''SBOMGenerationInProgress''"
abbreviation ReasonScanJobImageScanInProgress :: string where
  "ReasonScanJobImageScanInProgress \<equiv> ''ImageScanInProgress''"
abbreviation ReasonScanJobComplete :: string where "ReasonScanJobComplete \<equiv> ''Complete''"
abbreviation ReasonScanJobFailed :: string where "ReasonScanJobFailed \<equiv> ''Failed''"
abbreviation ReasonScanJobNoImagesToScan :: string where
  "ReasonScanJobNoImagesToScan \<equiv> ''NoImagesToScan''"
abbreviation ReasonScanJobAllImagesScanned :: string where
  "ReasonScanJobAllImagesScanned \<equiv> ''AllImagesScanned''"
abbreviation ReasonScanJobRegistryNotFound :: string where
  "ReasonScanJobRegistryNotFound \<equiv> ''RegistryNotFound''"
abbreviation ReasonScanJobRepositoryNotFound :: string where
  "ReasonScanJobRepositoryNotFound \<equiv> ''RepositoryNotFound''"
abbreviation ReasonScanJobMatchConditionNotFound :: string where
  "ReasonScanJobMatchConditionNotFound \<equiv> ''MatchConditionNotFound''"
abbreviation ReasonScanJobInternalError :: string where
  "ReasonScanJobInternalError \<equiv> ''InternalError''"

abbreviation messageScanJobPending :: string where
  "messageScanJobPending \<equiv> ''ScanJob is pending''"
abbreviation messageScanJobScheduled :: string where
  "messageScanJobScheduled \<equiv> ''ScanJob is scheduled''"
abbreviation messageScanJobInProgress :: string where
  "messageScanJobInProgress \<equiv> ''ScanJob is in progress''"
abbreviation messageScanJobCompleted :: string where
  "messageScanJobCompleted \<equiv> ''ScanJob completed successfully''"
abbreviation messageScanJobFailed :: string where
  "messageScanJobFailed \<equiv> ''ScanJob failed''"

record ScanJobSpec =
  sp_Registry :: string
  sp_Repositories :: "ScanJobRepository list"

record ScanJobStatus =
  ss_Conditions :: "Condition list"
  ss_ImagesCount :: int
  ss_ScannedImagesCount :: int
  ss_StartTime :: "time option"
  ss_CompletionTime :: "time option"

record ScanJob =
  sj_meta :: ObjectMeta
  sj_Spec :: ScanJobSpec
  sj_Status :: ScanJobStatus

definition ScanJob_set_conditions ::
  "meta_lib \<Rightarrow> time \<Rightarrow> Condition list \<Rightarrow> ScanJob \<Rightarrow> ScanJob" where
  "ScanJob_set_conditions M now new s =
    s\<lparr>sj_Status := (sj_Status s)
        \<lparr>ss_Conditions := set_conditions M now new (ss_Conditions (sj_Status s))\<rparr>\<rparr>"

text \<open>\<open>time.Parse\<close> with the layout \<open>RFC3339Nano\<close> is the first argument.\<close>

definition ScanJob_GetCreationTimestampFromAnnotation ::
  "(string \<Rightarrow> time option) \<Rightarrow> ScanJob \<Rightarrow> time" where
  "ScanJob_GetCreationTimestampFromAnnotation parse s =
    (case map_of (om_Annotations (sj_meta s)) AnnotationScanJobCreationTimestampKey of
       Some timestampStr \<Rightarrow>
         (case parse timestampStr of
            Some timestamp \<Rightarrow> timestamp
          | None \<Rightarrow> om_CreationTimestamp (sj_meta s))
     | None \<Rightarrow> om_CreationTimestamp (sj_meta s))"

definition ScanJob_InitializeConditions :: "meta_lib \<Rightarrow> time \<Rightarrow> ScanJob \<Rightarrow> ScanJob" where
  "ScanJob_InitializeConditions M now s =
    (let gen = om_Generation (sj_meta s);
         s0 = s\<lparr>sj_Status := (sj_Status s)\<lparr>ss_Conditions := []\<rparr>\<rparr>
     in ScanJob_set_conditions M now
          [new_condition TypeScheduled ConditionUnknown ReasonScanJobPending
             messageScanJobPending gen,
           new_condition TypeInProgress ConditionUnknown ReasonScanJobPending
             messageScanJobPending gen,
           new_condition TypeComplete ConditionUnknown ReasonScanJobPending
             messageScanJobPending gen,
           new_condition TypeFailed ConditionUnknown ReasonScanJobPending
             messageScanJobPending gen] s0)"

definition ScanJob_MarkScheduled ::
  "meta_lib \<Rightarrow> time \<Rightarrow> string \<Rightarrow> string \<Rightarrow> ScanJob \<Rightarrow> ScanJob" where
  "ScanJob_MarkScheduled M now reason message s =
    (let gen = om_Generation (sj_meta s)
     in ScanJob_set_conditions M now
          [new_condition TypeScheduled ConditionTrue reason message gen,
           new_condition TypeInProgress ConditionFalse ReasonScanJobScheduled
             messageScanJobScheduled gen,
           new_condition TypeComplete ConditionFalse ReasonScanJobScheduled
             messageScanJobScheduled gen,
           new_condition TypeFailed ConditionFalse ReasonScanJobScheduled
             messageScanJobScheduled gen] s)"

definition ScanJob_MarkInProgress ::
  "meta_lib \<Rightarrow> time \<Rightarrow> string \<Rightarrow> string \<Rightarrow> ScanJob \<Rightarrow> ScanJob" where
  "ScanJob_MarkInProgress M now reason message s =
    (let gen = om_Generation (sj_meta s);
         s0 = (if ss_StartTime (sj_Status s) = None
               then s\<lparr>sj_Status := (sj_Status s)\<lparr>ss_StartTime := Some now\<rparr>\<rparr> else s)
     in ScanJob_set_conditions M now
          [new_condition TypeScheduled ConditionFalse ReasonScanJobInProgress
             messageScanJobInProgress gen,
           new_condition TypeInProgress ConditionTrue reason message gen,
           new_condition TypeComplete ConditionFalse ReasonScanJobInProgress
             messageScanJobInProgress gen,
           new_condition TypeFailed ConditionFalse ReasonScanJobInProgress
             messageScanJobInProgress gen] s0)"

definition ScanJob_MarkComplete ::
  "meta_lib \<Rightarrow> time \<Rightarrow> string \<Rightarrow> string \<Rightarrow> ScanJob \<Rightarrow> ScanJob" where
  "ScanJob_MarkComplete M now reason message s =
    (let gen = om_Generation (sj_meta s);
         s0 = s\<lparr>sj_Status := (sj_Status s)\<lparr>ss_CompletionTime := Some now\<rparr>\<rparr>
     in ScanJob_set_conditions M now
          [new_condition TypeScheduled ConditionFalse ReasonScanJobComplete
             messageScanJobCompleted gen,
           new_condition TypeInProgress ConditionFalse ReasonScanJobComplete
             messageScanJobCompleted gen,
           new_condition TypeComplete ConditionTrue reason message gen,
           new_condition TypeFailed ConditionFalse ReasonScanJobComplete
             messageScanJobCompleted gen] s0)"

definition ScanJob_MarkFailed ::
  "meta_lib \<Rightarrow> time \<Rightarrow> string \<Rightarrow> string \<Rightarrow> ScanJob \<Rightarrow> ScanJob" where
  "ScanJob_MarkFailed M now reason message s =
    (let gen = om_Generation (sj_meta s);
         s0 = s\<lparr>sj_Status := (sj_Status s)\<lparr>ss_CompletionTime := Some now\<rparr>\<rparr>
     in ScanJob_set_conditions M now
          [new_condition TypeScheduled ConditionFalse ReasonScanJobFailed
             messageScanJobFailed gen,
           new_condition TypeInProgress ConditionFalse ReasonScanJobFailed
             messageScanJobFailed gen,
           new_condition TypeComplete ConditionFalse ReasonScanJobFailed
             messageScanJobFailed gen,
           new_condition TypeFailed ConditionTrue reason message gen] s0)"

definition condition_is_true :: "meta_lib \<Rightarrow> Condition list \<Rightarrow> string \<Rightarrow> bool" where
  "condition_is_true M cs t =
    (case FindStatusCondition M cs t of None \<Rightarrow> False | Some c \<Rightarrow> c_Status c = ConditionTrue)"

definition ScanJob_IsScheduled :: "meta_lib \<Rightarrow> ScanJob \<Rightarrow> bool" where
  "ScanJob_IsScheduled M s = condition_is_true M (ss_Conditions (sj_Status s)) TypeScheduled"

definition ScanJob_IsInProgress :: "meta_lib \<Rightarrow> ScanJob \<Rightarrow> bool" where
  "ScanJob_IsInProgress M s = condition_is_true M (ss_Conditions (sj_Status s)) TypeInProgress"

definition ScanJob_IsComplete :: "meta_lib \<Rightarrow> ScanJob \<Rightarrow> bool" where
  "ScanJob_IsComplete M s = condition_is_true M (ss_Conditions (sj_Status s)) TypeComplete"

definition ScanJob_IsFailed :: "meta_lib \<Rightarrow> ScanJob \<Rightarrow> bool" where
  "ScanJob_IsFailed M s = condition_is_true M (ss_Conditions (sj_Status s)) TypeFailed"

definition ScanJob_IsPending :: "meta_lib \<Rightarrow> ScanJob \<Rightarrow> bool" where
  "ScanJob_IsPending M s \<longleftrightarrow>
    \<not> ScanJob_IsScheduled M s \<and> \<not> ScanJob_IsInProgress M s \<and> \<not> ScanJob_IsComplete M s
    \<and> \<not> ScanJob_IsFailed M s"

text \<open>A ScanJob as a value of the interface.\<close>

definition ScanJob_view :: "meta_lib \<Rightarrow> ScanJob \<Rightarrow> ConditionedJob" where
  "ScanJob_view M s =
    \<lparr>cj_IsScheduled = ScanJob_IsScheduled M s, cj_IsInProgress = ScanJob_IsInProgress M s,
     cj_IsComplete = ScanJob_IsComplete M s, cj_IsFailed = ScanJob_IsFailed M s\<rparr>"

definition scanJobSource :: "ScanJob \<Rightarrow> string" where
  "scanJobSource s =
    (if map_index (om_Labels (sj_meta s)) LabelWorkloadScanKey = LabelWorkloadScanValue
     then ''workload'' else ''registry'')"

text \<open>The label pair under which the counter is incremented, \<open>None\<close> when it is left alone.\<close>

definition RecordScanJobFinished :: "meta_lib \<Rightarrow> ScanJob \<Rightarrow> (string \<times> string) option" where
  "RecordScanJobFinished M s =
    (if \<not> JobFinished (ScanJob_view M s) then None
     else Some (jobResult (ScanJob_view M s), scanJobSource s))"

section \<open>NodeScanJob\<close>

abbreviation LabelNodeScanJobUIDKey :: string where
  "LabelNodeScanJobUIDKey \<equiv> ''sbomscanner.kubewarden.io/nodescanjob-uid''"
abbreviation AnnotationNodeScanJobCreationTimestampKey :: string where
  "AnnotationNodeScanJobCreationTimestampKey \<equiv> ''sbomscanner.kubewarden.io/creation-timestamp''"
abbreviation AnnotationNodeScanJobTriggerKey :: string where
  "AnnotationNodeScanJobTriggerKey \<equiv> ''sbomscanner.kubewarden.io/trigger''"
abbreviation AnnotationNodeScanJobNodeScanConfigurationKey :: string where
  "AnnotationNodeScanJobNodeScanConfigurationKey
     \<equiv> ''sbomscanner.kubewarden.io/nodescanconfiguration''"

abbreviation ReasonNodeScanJobInProgress :: string where
  "ReasonNodeScanJobInProgress \<equiv> ''InProgress''"
abbreviation ReasonNodeScanJobConfigurationMissing :: string where
  "ReasonNodeScanJobConfigurationMissing \<equiv> ''NodeScanConfigurationMissing''"
abbreviation ReasonNodeScanJobNodeNotFound :: string where
  "ReasonNodeScanJobNodeNotFound \<equiv> ''NodeNotFound''"
abbreviation ReasonNodeScanJobNotMatching :: string where
  "ReasonNodeScanJobNotMatching \<equiv> ''NodeNotMatching''"
abbreviation ReasonNodeScanJobPending :: string where
  "ReasonNodeScanJobPending \<equiv> ''Pending''"
abbreviation ReasonNodeScanJobSBOMGenerationInProgress :: string where
  "ReasonNodeScanJobSBOMGenerationInProgress \<equiv> ''SBOMGenerationInProgress''"
abbreviation ReasonNodeScanJobScheduled :: string where
  "ReasonNodeScanJobScheduled \<equiv> ''Scheduled''"
abbreviation ReasonNodeScanJobComplete :: string where
  "ReasonNodeScanJobComplete \<equiv> ''Complete''"
abbreviation ReasonNodeScanJobFailed :: string where
  "ReasonNodeScanJobFailed \<equiv> ''Failed''"

abbreviation messageNodeScanJobPending :: string where
  "messageNodeScanJobPending \<equiv> ''NodeScanJob is pending''"
abbreviation messageNodeScanJobScheduled :: string where
  "messageNodeScanJobScheduled \<equiv> ''NodeScanJob is scheduled''"
abbreviation messageNodeScanJobInProgress :: string where
  "messageNodeScanJobInProgress \<equiv> ''NodeScanJob is in progress''"
abbreviation messageNodeScanJobCompleted :: string where
  "messageNodeScanJobCompleted \<equiv> ''NodeScanJob completed successfully''"
abbreviation messageNodeScanJobFailed :: string where
  "messageNodeScanJobFailed \<equiv> ''NodeScanJob failed''"

record NodeScanJobSpec =
  np_NodeName :: string

record NodeScanJobStatus =
  ns_Conditions :: "Condition list"
  ns_StartTime :: "time option"
  ns_CompletionTime :: "time option"

record NodeScanJob =
  nj_meta :: ObjectMeta
  nj_Spec :: NodeScanJobSpec
  nj_Status :: NodeScanJobStatus

definition NodeScanJob_set_conditions ::
  "meta_lib \<Rightarrow> time \<Rightarrow> Condition list \<Rightarrow> NodeScanJob \<Rightarrow> NodeScanJob" where
  "NodeScanJob_set_conditions M now new s =
    s\<lparr>nj_Status := (nj_Status s)
        \<lparr>ns_Conditions := set_conditions M now new (ns_Conditions (nj_Status s))\<rparr>\<rparr>"

definition NodeScanJob_GetCreationTimestampFromAnnotation ::
  "(string \<Rightarrow> time option) \<Rightarrow> NodeScanJob \<Rightarrow> time" where
  "NodeScanJob_GetCreationTimestampFromAnnotation parse s =
    (case map_of (om_Annotations (nj_meta s)) AnnotationNodeScanJobCreationTimestampKey of
       Some timestampStr \<Rightarrow>
         (case parse timestampStr of
            Some timestamp \<Rightarrow> timestamp
          | None \<Rightarrow> om_CreationTimestamp (nj_meta s))
     | None \<Rightarrow> om_CreationTimestamp (nj_meta s))"

definition NodeScanJob_InitializeConditions :: "meta_lib \<Rightarrow> time \<Rightarrow> NodeScanJob \<Rightarrow> NodeScanJob" where
  "NodeScanJob_InitializeConditions M now s =
    (let gen = om_Generation (nj_meta s);
         s0 = s\<lparr>nj_Status := (nj_Status s)\<lparr>ns_Conditions := []\<rparr>\<rparr>
     in NodeScanJob_set_conditions M now
          [new_condition TypeScheduled ConditionUnknown ReasonNodeScanJobPending
             messageNodeScanJobPending gen,
           new_condition TypeInProgress ConditionUnknown ReasonNodeScanJobPending
             messageNodeScanJobPending gen,
           new_condition TypeComplete ConditionUnknown ReasonNodeScanJobPending
             messageNodeScanJobPending gen,
           new_condition TypeFailed ConditionUnknown ReasonNodeScanJobPending
             messageNodeScanJobPending gen] s0)"

definition NodeScanJob_MarkScheduled ::
  "meta_lib \<Rightarrow> time \<Rightarrow> string \<Rightarrow> string \<Rightarrow> NodeScanJob \<Rightarrow> NodeScanJob" where
  "NodeScanJob_MarkScheduled M now reason message s =
    (let gen = om_Generation (nj_meta s)
     in NodeScanJob_set_conditions M now
          [new_condition TypeScheduled ConditionTrue reason message gen,
           new_condition TypeInProgress ConditionFalse ReasonNodeScanJobScheduled
             messageNodeScanJobScheduled gen,
           new_condition TypeComplete ConditionFalse ReasonNodeScanJobScheduled
             messageNodeScanJobScheduled gen,
           new_condition TypeFailed ConditionFalse ReasonNodeScanJobScheduled
             messageNodeScanJobScheduled gen] s)"

definition NodeScanJob_MarkInProgress ::
  "meta_lib \<Rightarrow> time \<Rightarrow> string \<Rightarrow> string \<Rightarrow> NodeScanJob \<Rightarrow> NodeScanJob" where
  "NodeScanJob_MarkInProgress M now reason message s =
    (let gen = om_Generation (nj_meta s);
         s0 = (if ns_StartTime (nj_Status s) = None
               then s\<lparr>nj_Status := (nj_Status s)\<lparr>ns_StartTime := Some now\<rparr>\<rparr> else s)
     in NodeScanJob_set_conditions M now
          [new_condition TypeScheduled ConditionFalse ReasonNodeScanJobInProgress
             messageNodeScanJobInProgress gen,
           new_condition TypeInProgress ConditionTrue reason message gen,
           new_condition TypeComplete ConditionFalse ReasonNodeScanJobInProgress
             messageNodeScanJobInProgress gen,
           new_condition TypeFailed ConditionFalse ReasonNodeScanJobInProgress
             messageNodeScanJobInProgress gen] s0)"

definition NodeScanJob_MarkComplete ::
  "meta_lib \<Rightarrow> time \<Rightarrow> string \<Rightarrow> string \<Rightarrow> NodeScanJob \<Rightarrow> NodeScanJob" where
  "NodeScanJob_MarkComplete M now reason message s =
    (let gen = om_Generation (nj_meta s);
         s0 = s\<lparr>nj_Status := (nj_Status s)\<lparr>ns_CompletionTime := Some now\<rparr>\<rparr>
     in NodeScanJob_set_conditions M now
          [new_condition TypeScheduled ConditionFalse ReasonNodeScanJobComplete
             messageNodeScanJobCompleted gen,
           new_condition TypeInProgress ConditionFalse ReasonNodeScanJobComplete
             messageNodeScanJobCompleted gen,
           new_condition TypeComplete ConditionTrue reason message gen,
           new_condition TypeFailed ConditionFalse ReasonNodeScanJobComplete
             messageNodeScanJobCompleted gen] s0)"

definition NodeScanJob_MarkFailed ::
  "meta_lib \<Rightarrow> time \<Rightarrow> string \<Rightarrow> string \<Rightarrow> NodeScanJob \<Rightarrow> NodeScanJob" where
  "NodeScanJob_MarkFailed M now reason message s =
    (let gen = om_Generation (nj_meta s);
         s0 = s\<lparr>nj_Status := (nj_Status s)\<lparr>ns_CompletionTime := Some now\<rparr>\<rparr>
     in NodeScanJob_set_conditions M now
          [new_condition TypeScheduled ConditionFalse ReasonNodeScanJobFailed
             messageNodeScanJobFailed gen,
           new_condition TypeInProgress ConditionFalse ReasonNodeScanJobFailed
             messageNodeScanJobFailed gen,
           new_condition TypeComplete ConditionFalse ReasonNodeScanJobFailed
             messageNodeScanJobFailed gen,
           new_condition TypeFailed ConditionTrue reason message gen] s0)"

definition NodeScanJob_IsScheduled :: "meta_lib \<Rightarrow> NodeScanJob \<Rightarrow> bool" where
  "NodeScanJob_IsScheduled M s = condition_is_true M (ns_Conditions (nj_Status s)) TypeScheduled"

definition NodeScanJob_IsInProgress :: "meta_lib \<Rightarrow> NodeScanJob \<Rightarrow> bool" where
  "NodeScanJob_IsInProgress M s = condition_is_true M (ns_Conditions (nj_Status s)) TypeInProgress"

definition NodeScanJob_IsComplete :: "meta_lib \<Rightarrow> NodeScanJob \<Rightarrow> bool" where
  "NodeScanJob_IsComplete M s = condition_is_true M (ns_Conditions (nj_Status s)) TypeComplete"

definition NodeScanJob_IsFailed :: "meta_lib \<Rightarrow> NodeScanJob \<Rightarrow> bool" where
  "NodeScanJob_IsFailed M s = condition_is_true M (ns_Conditions (nj_Status s)) TypeFailed"

definition NodeScanJob_IsPending :: "meta_lib \<Rightarrow> NodeScanJob \<Rightarrow> bool" where
  "NodeScanJob_IsPending M s \<longleftrightarrow>
    \<not> NodeScanJob_IsScheduled M s \<and> \<not> NodeScanJob_IsInProgress M s \<and> \<not> NodeScanJob_IsComplete M s
    \<and> \<not> NodeScanJob_IsFailed M s"

definition NodeScanJob_view :: "meta_lib \<Rightarrow> NodeScanJob \<Rightarrow> ConditionedJob" where
  "NodeScanJob_view M s =
    \<lparr>cj_IsScheduled = NodeScanJob_IsScheduled M s, cj_IsInProgress = NodeScanJob_IsInProgress M s,
     cj_IsComplete = NodeScanJob_IsComplete M s, cj_IsFailed = NodeScanJob_IsFailed M s\<rparr>"

definition RecordNodeScanJobFinished :: "meta_lib \<Rightarrow> NodeScanJob \<Rightarrow> string option" where
  "RecordNodeScanJobFinished M s =
    (if \<not> JobFinished (NodeScanJob_view M s) then None
     else Some (jobResult (NodeScanJob_view M s)))"

section \<open>Sequences of lifecycle operations\<close>

text \<open>What a reader of the conditions sees under a type, without the transition time.\<close>

definition condition_content ::
  "meta_lib \<Rightarrow> Condition list \<Rightarrow> string \<Rightarrow> (ConditionStatus \<times> string \<times> string \<times> int) option" where
  "condition_content M cs t =
    map_option (\<lambda>c. (c_Status c, c_Reason c, c_Message c, c_ObservedGeneration c))
      (FindStatusCondition M cs t)"

text \<open>
  A phase of the lifecycle names the operation that enters it; \<open>None\<close> is the pending phase.
  \<open>ScanJob_mark\<close> and \<open>NodeScanJob_mark\<close> select the operation.
\<close>

datatype job_phase = Scheduled | InProgress | Complete | Failed

record mark_op =
  mk_phase :: job_phase
  mk_now :: time
  mk_reason :: string
  mk_message :: string

primrec phase_type :: "job_phase \<Rightarrow> string" where
  "phase_type Scheduled = TypeScheduled"
| "phase_type InProgress = TypeInProgress"
| "phase_type Complete = TypeComplete"
| "phase_type Failed = TypeFailed"

definition phase_view :: "job_phase option \<Rightarrow> ConditionedJob" where
  "phase_view p = \<lparr>cj_IsScheduled = (p = Some Scheduled), cj_IsInProgress = (p = Some InProgress),
                   cj_IsComplete = (p = Some Complete), cj_IsFailed = (p = Some Failed)\<rparr>"

definition terminal_phase :: "job_phase \<Rightarrow> bool" where
  "terminal_phase p \<longleftrightarrow> p = Complete \<or> p = Failed"

definition ScanJob_mark :: "meta_lib \<Rightarrow> mark_op \<Rightarrow> ScanJob \<Rightarrow> ScanJob" where
  "ScanJob_mark M m =
    (case mk_phase m of
       Scheduled \<Rightarrow> ScanJob_MarkScheduled M (mk_now m) (mk_reason m) (mk_message m)
     | InProgress \<Rightarrow> ScanJob_MarkInProgress M (mk_now m) (mk_reason m) (mk_message m)
     | Complete \<Rightarrow> ScanJob_MarkComplete M (mk_now m) (mk_reason m) (mk_message m)
     | Failed \<Rightarrow> ScanJob_MarkFailed M (mk_now m) (mk_reason m) (mk_message m))"

definition NodeScanJob_mark :: "meta_lib \<Rightarrow> mark_op \<Rightarrow> NodeScanJob \<Rightarrow> NodeScanJob" where
  "NodeScanJob_mark M m =
    (case mk_phase m of
       Scheduled \<Rightarrow> NodeScanJob_MarkScheduled M (mk_now m) (mk_reason m) (mk_message m)
     | InProgress \<Rightarrow> NodeScanJob_MarkInProgress M (mk_now m) (mk_reason m) (mk_message m)
     | Complete \<Rightarrow> NodeScanJob_MarkComplete M (mk_now m) (mk_reason m) (mk_message m)
     | Failed \<Rightarrow> NodeScanJob_MarkFailed M (mk_now m) (mk_reason m) (mk_message m))"

text \<open>
  What a sequence of operations amounts to: the phase of the last one, the start time of the
  first \<open>InProgress\<close> unless one was set before, the completion time of the last terminal one.
\<close>

definition last_phase :: "mark_op list \<Rightarrow> job_phase option" where
  "last_phase ms = (if ms = [] then None else Some (mk_phase (last ms)))"

definition start_after :: "time option \<Rightarrow> mark_op list \<Rightarrow> time option" where
  "start_after st ms =
    (case st of Some t \<Rightarrow> Some t
     | None \<Rightarrow> map_option mk_now (find (\<lambda>m. mk_phase m = InProgress) ms))"

definition completion_after :: "time option \<Rightarrow> mark_op list \<Rightarrow> time option" where
  "completion_after ct ms =
    (case find (\<lambda>m. terminal_phase (mk_phase m)) (rev ms) of
       Some m \<Rightarrow> Some (mk_now m) | None \<Rightarrow> ct)"


section \<open>Lemmas\<close>

lemma condition_is_true_content:
  "condition_is_true M cs t \<longleftrightarrow> (\<exists>r. condition_content M cs t = Some (ConditionTrue, r))"
  by (auto simp: condition_is_true_def condition_content_def split: option.splits)

lemma condition_content_set:
  assumes "meta_contract M"
  shows "condition_content M (SetStatusCondition M now cs c) t =
    (if t = c_Type c then Some (c_Status c, c_Reason c, c_Message c, c_ObservedGeneration c)
     else condition_content M cs t)"
proof (cases "t = c_Type c")
  case True
  then obtain tt where "FindStatusCondition M (SetStatusCondition M now cs c) t
      = Some (c\<lparr>c_LastTransitionTime := tt\<rparr>)"
    using assms unfolding meta_contract_def by blast
  with True show ?thesis by (simp add: condition_content_def)
next
  case False
  with assms show ?thesis unfolding meta_contract_def condition_content_def by simp
qed

lemma condition_content_empty: "meta_contract M \<Longrightarrow> condition_content M [] t = None"
  by (simp add: meta_contract_def condition_content_def)

lemma list_meta_contract: "meta_contract list_meta"
proof -
  have same: "\<exists>tt. find (\<lambda>d. c_Type d = c_Type c) (list_set_condition now cs c)
                = Some (c\<lparr>c_LastTransitionTime := tt\<rparr>)" for now cs c
    by (induction cs) auto
  have other: "t \<noteq> c_Type c \<Longrightarrow> find (\<lambda>d. c_Type d = t) (list_set_condition now cs c)
                = find (\<lambda>d. c_Type d = t) cs" for now cs c t
    by (induction cs) auto
  show ?thesis
    using same other by (simp add: meta_contract_def list_meta_def)
qed

lemmas lifecycle_defs =
  ScanJob_set_conditions_def set_conditions_def new_condition_def Let_def
  NodeScanJob_set_conditions_def

lemmas scanjob_ops =
  ScanJob_InitializeConditions_def ScanJob_MarkScheduled_def ScanJob_MarkInProgress_def
  ScanJob_MarkComplete_def ScanJob_MarkFailed_def

lemmas nodescanjob_ops =
  NodeScanJob_InitializeConditions_def NodeScanJob_MarkScheduled_def
  NodeScanJob_MarkInProgress_def NodeScanJob_MarkComplete_def NodeScanJob_MarkFailed_def

lemmas scanjob_flags =
  ScanJob_view_def ScanJob_IsScheduled_def ScanJob_IsInProgress_def ScanJob_IsComplete_def
  ScanJob_IsFailed_def ScanJob_IsPending_def

lemmas nodescanjob_flags =
  NodeScanJob_view_def NodeScanJob_IsScheduled_def NodeScanJob_IsInProgress_def
  NodeScanJob_IsComplete_def NodeScanJob_IsFailed_def NodeScanJob_IsPending_def

lemma phase_view_inject: "phase_view p = phase_view q \<longleftrightarrow> p = q"
proof (cases p)
  case None
  then show ?thesis by (cases q) (auto simp: phase_view_def intro: job_phase.exhaust)
next
  case (Some a)
  then show ?thesis by (cases a; cases q) (auto simp: phase_view_def)
qed

text \<open>
  The contract of a conditioned job: initialising leaves no flag set, an operation leaves exactly
  the flag of its phase set with the given reason and message, and the two time stamps follow
  the rules of \<open>start_after\<close> and \<open>completion_after\<close>.
\<close>

locale conditioned_job =
  fixes view :: "meta_lib \<Rightarrow> 'j \<Rightarrow> ConditionedJob"
    and conds :: "'j \<Rightarrow> Condition list"
    and generation :: "'j \<Rightarrow> int"
    and start_of :: "'j \<Rightarrow> time option"
    and completion_of :: "'j \<Rightarrow> time option"
    and initialize :: "meta_lib \<Rightarrow> time \<Rightarrow> 'j \<Rightarrow> 'j"
    and mark :: "meta_lib \<Rightarrow> mark_op \<Rightarrow> 'j \<Rightarrow> 'j"
  assumes view_initialize: "meta_contract M \<Longrightarrow> view M (initialize M now j) = phase_view None"
    and times_initialize: "start_of (initialize M now j) = start_of j"
      "completion_of (initialize M now j) = completion_of j"
      "generation (initialize M now j) = generation j"
    and view_mark: "meta_contract M \<Longrightarrow> view M (mark M m j) = phase_view (Some (mk_phase m))"
    and content_mark: "meta_contract M \<Longrightarrow>
      condition_content M (conds (mark M m j)) (phase_type (mk_phase m))
        = Some (ConditionTrue, mk_reason m, mk_message m, generation j)"
    and start_mark: "start_of (mark M m j) =
      (if mk_phase m = InProgress \<and> start_of j = None then Some (mk_now m) else start_of j)"
    and completion_mark: "completion_of (mark M m j) =
      (if terminal_phase (mk_phase m) then Some (mk_now m) else completion_of j)"
    and generation_mark: "generation (mark M m j) = generation j"
begin

lemma generation_marks: "generation (fold (mark M) ms j) = generation j"
  by (induction ms arbitrary: j) (auto simp: generation_mark)

lemma view_marks:
  assumes "meta_contract M"
  shows "view M (fold (mark M) ms (initialize M now j)) = phase_view (last_phase ms)"
proof (cases ms rule: rev_cases)
  case Nil
  with assms show ?thesis by (simp add: view_initialize last_phase_def)
next
  case (snoc ms' m)
  with assms show ?thesis by (simp add: view_mark last_phase_def)
qed

lemma start_marks: "start_of (fold (mark M) ms j) = start_after (start_of j) ms"
  by (induction ms arbitrary: j) (auto simp: start_mark start_after_def split: option.splits)

lemma completion_marks:
  "completion_of (fold (mark M) ms j) = completion_after (completion_of j) ms"
  by (induction ms rule: rev_induct) (auto simp: completion_mark completion_after_def)

lemma content_marks:
  assumes "meta_contract M" "ms \<noteq> []"
  shows "condition_content M (conds (fold (mark M) ms j)) (phase_type (mk_phase (last ms)))
    = Some (ConditionTrue, mk_reason (last ms), mk_message (last ms), generation j)"
  using assms(2)
proof (cases ms rule: rev_cases)
  case (snoc ms' m)
  with assms show ?thesis by (simp add: content_mark generation_marks)
qed simp

lemma finished_iff_terminal:
  assumes "meta_contract M"
  shows "JobFinished (view M (fold (mark M) ms (initialize M now j)))
    \<longleftrightarrow> (\<exists>p. last_phase ms = Some p \<and> terminal_phase p)"
  by (auto simp: view_marks[OF assms] JobFinished_def phase_view_def terminal_phase_def)

end

lemma ScanJob_mark_simps:
  "mk_phase m = Scheduled \<Longrightarrow>
     ScanJob_mark M m = ScanJob_MarkScheduled M (mk_now m) (mk_reason m) (mk_message m)"
  "mk_phase m = InProgress \<Longrightarrow>
     ScanJob_mark M m = ScanJob_MarkInProgress M (mk_now m) (mk_reason m) (mk_message m)"
  "mk_phase m = Complete \<Longrightarrow>
     ScanJob_mark M m = ScanJob_MarkComplete M (mk_now m) (mk_reason m) (mk_message m)"
  "mk_phase m = Failed \<Longrightarrow>
     ScanJob_mark M m = ScanJob_MarkFailed M (mk_now m) (mk_reason m) (mk_message m)"
  by (simp_all add: ScanJob_mark_def)

interpretation sj: conditioned_job ScanJob_view "\<lambda>s. ss_Conditions (sj_Status s)"
  "\<lambda>s. om_Generation (sj_meta s)" "\<lambda>s. ss_StartTime (sj_Status s)"
  "\<lambda>s. ss_CompletionTime (sj_Status s)" ScanJob_InitializeConditions ScanJob_mark
proof (unfold_locales, goal_cases)
  case (1 M now j)
  then show ?case
    by (simp add: scanjob_ops lifecycle_defs scanjob_flags condition_is_true_content
        condition_content_set condition_content_empty phase_view_def)
next
  case (5 M m j)
  then show ?case
    by (cases "mk_phase m")
      (simp_all add: ScanJob_mark_simps scanjob_ops lifecycle_defs scanjob_flags
        condition_is_true_content condition_content_set phase_view_def)
next
  case (6 M m j)
  then show ?case
    by (cases "mk_phase m")
      (simp_all add: ScanJob_mark_simps scanjob_ops lifecycle_defs condition_content_set)
qed (auto simp: ScanJob_mark_def scanjob_ops lifecycle_defs terminal_phase_def
       split: job_phase.splits)

interpretation nj: conditioned_job NodeScanJob_view "\<lambda>s. ns_Conditions (nj_Status s)"
  "\<lambda>s. om_Generation (nj_meta s)" "\<lambda>s. ns_StartTime (nj_Status s)"
  "\<lambda>s. ns_CompletionTime (nj_Status s)" NodeScanJob_InitializeConditions NodeScanJob_mark
proof (unfold_locales, goal_cases)
  case (1 M now j)
  then show ?case
    by (simp add: nodescanjob_ops lifecycle_defs nodescanjob_flags condition_is_true_content
        condition_content_set condition_content_empty phase_view_def)
next
  case (5 M m j)
  then show ?case
    by (cases "mk_phase m")
      (simp_all add: NodeScanJob_mark_def nodescanjob_ops lifecycle_defs nodescanjob_flags
        condition_is_true_content condition_content_set phase_view_def)
next
  case (6 M m j)
  then show ?case
    by (cases "mk_phase m")
      (simp_all add: NodeScanJob_mark_def nodescanjob_ops lifecycle_defs condition_content_set)
qed (auto simp: NodeScanJob_mark_def nodescanjob_ops lifecycle_defs terminal_phase_def
       split: job_phase.splits)

section \<open>Properties\<close>

definition sample_scanjob :: ScanJob where
  "sample_scanjob =
    \<lparr>sj_meta = empty_meta\<lparr>om_Name := ''job'', om_UID := ''u1'', om_Generation := 3\<rparr>,
     sj_Spec = \<lparr>sp_Registry = ''reg'', sp_Repositories = []\<rparr>,
     sj_Status = \<lparr>ss_Conditions = [], ss_ImagesCount = 0, ss_ScannedImagesCount = 0,
                  ss_StartTime = None, ss_CompletionTime = None\<rparr>\<rparr>"

text \<open>
  C4: after \<open>InitializeConditions\<close> and any sequence of \<open>Mark...\<close> operations a ScanJob shows exactly
  the phase of the last operation (none of the four flags, hence pending, when there was none),
  with the reason and message of that operation; its start time is the one of the first
  \<open>MarkInProgress\<close> and never moves, its completion time is the one of the last terminal operation.
\<close>

theorem scanjob_lifecycle:
  fixes s :: ScanJob
  assumes "meta_contract M"
    and s': "s' = fold (ScanJob_mark M) ms (ScanJob_InitializeConditions M now s)"
  shows "ScanJob_view M s' = phase_view (last_phase ms)
    \<and> (ScanJob_IsPending M s' \<longleftrightarrow> ms = [])
    \<and> (ms \<noteq> [] \<longrightarrow>
         condition_content M (ss_Conditions (sj_Status s')) (phase_type (mk_phase (last ms)))
           = Some (ConditionTrue, mk_reason (last ms), mk_message (last ms),
                   om_Generation (sj_meta s)))
    \<and> ss_StartTime (sj_Status s') = start_after (ss_StartTime (sj_Status s)) ms
    \<and> ss_CompletionTime (sj_Status s')
        = completion_after (ss_CompletionTime (sj_Status s)) ms"
proof (intro conjI impI)
  show view: "ScanJob_view M s' = phase_view (last_phase ms)"
    unfolding s' by (rule sj.view_marks[OF assms(1)])
  have "ScanJob_IsPending M s' \<longleftrightarrow> ScanJob_view M s' = phase_view None"
    by (auto simp: scanjob_flags phase_view_def)
  then show "ScanJob_IsPending M s' \<longleftrightarrow> ms = []"
    unfolding view by (simp add: phase_view_inject last_phase_def)
next
  assume "ms \<noteq> []"
  then show "condition_content M (ss_Conditions (sj_Status s')) (phase_type (mk_phase (last ms)))
        = Some (ConditionTrue, mk_reason (last ms), mk_message (last ms),
                om_Generation (sj_meta s))"
    unfolding s' by (simp add: sj.content_marks[OF assms(1)] sj.times_initialize)
qed (simp_all add: s' sj.start_marks sj.completion_marks sj.times_initialize)

theorem scanjob_lifecycle_witness:
  "let s' = fold (ScanJob_mark list_meta)
         [\<lparr>mk_phase = Scheduled, mk_now = 5, mk_reason = ''r1'', mk_message = ''m1''\<rparr>,
          \<lparr>mk_phase = InProgress, mk_now = 7, mk_reason = ''r2'', mk_message = ''m2''\<rparr>,
          \<lparr>mk_phase = InProgress, mk_now = 8, mk_reason = ''r3'', mk_message = ''m3''\<rparr>,
          \<lparr>mk_phase = Failed, mk_now = 9, mk_reason = ''r4'', mk_message = ''m4''\<rparr>]
         (ScanJob_InitializeConditions list_meta 4 sample_scanjob)
   in ScanJob_IsFailed list_meta s' \<and> \<not> ScanJob_IsInProgress list_meta s'
      \<and> ss_StartTime (sj_Status s') = Some 7 \<and> ss_CompletionTime (sj_Status s') = Some 9"
  using scanjob_lifecycle[OF list_meta_contract refl,
      of "[\<lparr>mk_phase = Scheduled, mk_now = 5, mk_reason = ''r1'', mk_message = ''m1''\<rparr>,
          \<lparr>mk_phase = InProgress, mk_now = 7, mk_reason = ''r2'', mk_message = ''m2''\<rparr>,
          \<lparr>mk_phase = InProgress, mk_now = 8, mk_reason = ''r3'', mk_message = ''m3''\<rparr>,
          \<lparr>mk_phase = Failed, mk_now = 9, mk_reason = ''r4'', mk_message = ''m4''\<rparr>]"
        4 sample_scanjob]
  by (simp add: ScanJob_view_def phase_view_def last_phase_def start_after_def completion_after_def
      terminal_phase_def sample_scanjob_def Let_def del: fold.simps fold_simps)

definition sample_nodescanjob :: NodeScanJob where
  "sample_nodescanjob =
    \<lparr>nj_meta = empty_meta\<lparr>om_Name := ''job'', om_UID := ''u1'', om_Generation := 3\<rparr>,
     nj_Spec = \<lparr>np_NodeName = ''node-1''\<rparr>,
     nj_Status = \<lparr>ns_Conditions = [], ns_StartTime = None, ns_CompletionTime = None\<rparr>\<rparr>"

text \<open>
  After \<open>InitializeConditions\<close> and any sequence of \<open>Mark...\<close> operations a NodeScanJob shows exactly
  the phase of the last operation (none of the four flags, hence pending, when there was none),
  with the reason and message of that operation; its start time is the one of the first
  \<open>MarkInProgress\<close> and never moves, its completion time is the one of the last terminal operation.
\<close>

theorem nodescanjob_lifecycle:
  fixes s :: NodeScanJob
  assumes "meta_contract M"
    and s': "s' = fold (NodeScanJob_mark M) ms (NodeScanJob_InitializeConditions M now s)"
  shows "NodeScanJob_view M s' = phase_view (last_phase ms)
    \<and> (NodeScanJob_IsPending M s' \<longleftrightarrow> ms = [])
    \<and> (ms \<noteq> [] \<longrightarrow>
         condition_content M (ns_Conditions (nj_Status s')) (phase_type (mk_phase (last ms)))
           = Some (ConditionTrue, mk_reason (last ms), mk_message (last ms),
                   om_Generation (nj_meta s)))
    \<and> ns_StartTime (nj_Status s') = start_after (ns_StartTime (nj_Status s)) ms
    \<and> ns_CompletionTime (nj_Status s')
        = completion_after (ns_CompletionTime (nj_Status s)) ms"
proof (intro conjI impI)
  show view: "NodeScanJob_view M s' = phase_view (last_phase ms)"
    unfolding s' by (rule nj.view_marks[OF assms(1)])
  have "NodeScanJob_IsPending M s' \<longleftrightarrow> NodeScanJob_view M s' = phase_view None"
    by (auto simp: nodescanjob_flags phase_view_def)
  then show "NodeScanJob_IsPending M s' \<longleftrightarrow> ms = []"
    unfolding view by (simp add: phase_view_inject last_phase_def)
next
  assume "ms \<noteq> []"
  then show "condition_content M (ns_Conditions (nj_Status s')) (phase_type (mk_phase (last ms)))
        = Some (ConditionTrue, mk_reason (last ms), mk_message (last ms),
                om_Generation (nj_meta s))"
    unfolding s' by (simp add: nj.content_marks[OF assms(1)] nj.times_initialize)
qed (simp_all add: s' nj.start_marks nj.completion_marks nj.times_initialize)

theorem nodescanjob_lifecycle_witness:
  "let s' = fold (NodeScanJob_mark list_meta)
         [\<lparr>mk_phase = Scheduled, mk_now = 5, mk_reason = ''r1'', mk_message = ''m1''\<rparr>,
          \<lparr>mk_phase = InProgress, mk_now = 7, mk_reason = ''r2'', mk_message = ''m2''\<rparr>,
          \<lparr>mk_phase = InProgress, mk_now = 8, mk_reason = ''r3'', mk_message = ''m3''\<rparr>,
          \<lparr>mk_phase = Failed, mk_now = 9, mk_reason = ''r4'', mk_message = ''m4''\<rparr>]
         (NodeScanJob_InitializeConditions list_meta 4 sample_nodescanjob)
   in NodeScanJob_IsFailed list_meta s' \<and> \<not> NodeScanJob_IsInProgress list_meta s'
      \<and> ns_StartTime (nj_Status s') = Some 7 \<and> ns_CompletionTime (nj_Status s') = Some 9"
  using nodescanjob_lifecycle[OF list_meta_contract refl,
      of "[\<lparr>mk_phase = Scheduled, mk_now = 5, mk_reason = ''r1'', mk_message = ''m1''\<rparr>,
          \<lparr>mk_phase = InProgress, mk_now = 7, mk_reason = ''r2'', mk_message = ''m2''\<rparr>,
          \<lparr>mk_phase = InProgress, mk_now = 8, mk_reason = ''r3'', mk_message = ''m3''\<rparr>,
          \<lparr>mk_phase = Failed, mk_now = 9, mk_reason = ''r4'', mk_message = ''m4''\<rparr>]"
        4 sample_nodescanjob]
  by (simp add: NodeScanJob_view_def phase_view_def last_phase_def start_after_def completion_after_def
      terminal_phase_def sample_nodescanjob_def Let_def del: fold.simps fold_simps)

end
