(* ===== verification/Telemetry.thy ===== *)
theory Telemetry
  imports Api_Types
begin

text \<open>
  Trace context on objects, \<open>src/internal/telemetry/annotations.go\<close>: the adapter between the
  annotations of an object and a propagator.  The propagator belongs to the OpenTelemetry library;
  what it writes for a context is the list \<open>flds\<close> of key and value pairs it hands to \<open>Set\<close>.
\<close>

definition annotationDomain :: string where
  "annotationDomain = ''sbomscanner.kubewarden.io/''"

definition TraceparentAnnotation :: string where
  "TraceparentAnnotation = annotationDomain @ ''traceparent''"

definition annotationsCarrier_Get :: "string_map \<Rightarrow> string \<Rightarrow> string" where
  "annotationsCarrier_Get carrier key = map_index carrier (annotationDomain @ key)"

definition annotationsCarrier_Set :: "string \<Rightarrow> string \<Rightarrow> string_map \<Rightarrow> string_map" where
  "annotationsCarrier_Set key value carrier = AList.update (annotationDomain @ key) value carrier"

definition annotationsCarrier_Keys :: "string_map \<Rightarrow> string list" where
  "annotationsCarrier_Keys carrier =
    map (\<lambda>(key, _). TrimPrefix key annotationDomain)
      (filter (\<lambda>(key, _). HasPrefix key annotationDomain) carrier)"

text \<open>A nil map is \<open>None\<close> and stays untouched.\<close>

definition InjectAnnotations ::
  "(string \<times> string) list \<Rightarrow> string_map option \<Rightarrow> string_map option" where
  "InjectAnnotations flds annotations =
    map_option (fold (\<lambda>(k, v). annotationsCarrier_Set k v) flds) annotations"

lemma carrier_get_set:
  "annotationsCarrier_Get (annotationsCarrier_Set k v m) k'
    = (if k = k' then v else annotationsCarrier_Get m k')"
  by (simp add: annotationsCarrier_Get_def annotationsCarrier_Set_def)

lemma carrier_keys_set:
  "set (annotationsCarrier_Keys (annotationsCarrier_Set k v m))
    = insert k (set (annotationsCarrier_Keys m))"
proof -
  have keys: "set (annotationsCarrier_Keys m) = {k. annotationDomain @ k \<in> fst ` set m}" for m
    unfolding annotationsCarrier_Keys_def
    by (force simp: HasPrefix_iff image_iff)
  show ?thesis
    by (auto simp: keys annotationsCarrier_Set_def dom_update)
qed

text \<open>Annotations outside the domain are not written.\<close>

lemma inject_other:
  assumes "InjectAnnotations flds (Some m) = Some m'"
    and "\<And>f. f \<in> fst ` set flds \<Longrightarrow> key \<noteq> annotationDomain @ f"
  shows "map_of m' key = map_of m key"
proof -
  have "map_of (fold (\<lambda>(k, v). annotationsCarrier_Set k v) flds m) key = map_of m key"
    using assms(2)
    by (induction flds arbitrary: m)
      (auto simp: annotationsCarrier_Set_def update_conv split: prod.splits)
  with assms(1) show ?thesis by (simp add: InjectAnnotations_def)
qed

end
