(* ===== verification/Registry_Runner.thy ===== *)
theory Registry_Runner
  imports Job_Lifecycle Telemetry
begin

text \<open>
  The periodic registry scan, \<open>src/internal/controller/registry_scan_runner.go\<close>: the merge of the
  rescan annotations of a Registry into the targets of one ScanJob, the decision whether a job is
  due, and one cycle over all registries with its calls to the Kubernetes API.

  A \<open>sets.Set\<close> is a list without repetition whose order stands for the arbitrary order of
  \<open>UnsortedList\<close>.  The results are sorted, so the order does not show; that it does not is part of
  what is proved.
\<close>

section \<open>Merging rescan requests\<close>

type_synonym conds_by_repo = "(string \<times> string list) list"

text \<open>The body of the loop over the repositories of one request.\<close>

definition mergeRepository ::
  "ScanJobRepository \<Rightarrow> string list \<times> conds_by_repo \<Rightarrow> string list \<times> conds_by_repo" where
  "mergeRepository repo st = (case st of (wildcardRepos, condsByRepo) \<Rightarrow>
    if sr_Name repo \<in> set wildcardRepos then (wildcardRepos, condsByRepo)
    else if sr_MatchConditions repo = []
      then (List.insert (sr_Name repo) wildcardRepos, AList.delete (sr_Name repo) condsByRepo)
    else
      (let conds = (case map_of condsByRepo (sr_Name repo) of None \<Rightarrow> [] | Some cs \<Rightarrow> cs)
       in (wildcardRepos,
           AList.update (sr_Name repo) (fold List.insert (sr_MatchConditions repo) conds)
             condsByRepo)))"

definition mergeRescanRequest ::
  "RescanRequest \<Rightarrow> string list \<times> conds_by_repo \<Rightarrow> bool \<times> string list \<times> conds_by_repo" where
  "mergeRescanRequest req st =
    (if rr_Repositories req = [] then (True, st)
     else (False, fold mergeRepository (rr_Repositories req) st))"

definition buildMergedTargets :: "string list \<Rightarrow> conds_by_repo \<Rightarrow> ScanJobRepository list" where
  "buildMergedTargets wildcardRepos condsByRepo =
    (let repoNames = sort (fold List.insert (map fst condsByRepo) wildcardRepos)
     in map (\<lambda>name. \<lparr>sr_Name = name,
               sr_MatchConditions =
                 (case map_of condsByRepo name of None \<Rightarrow> [] | Some conds \<Rightarrow> sort conds)\<rparr>)
          repoNames)"

text \<open>
  The loop over the annotations: an empty value is an empty request, a value that does not parse
  is skipped.  The state is the flag \<open>scanEverything\<close> with the two tracking sets.
\<close>

definition collectStep ::
  "(string \<Rightarrow> RescanRequest option) \<Rightarrow> string_map \<Rightarrow> string
     \<Rightarrow> bool \<times> string list \<times> conds_by_repo \<Rightarrow> bool \<times> string list \<times> conds_by_repo" where
  "collectStep unmarshal annotations key st = (case st of (scanEverything, sets) \<Rightarrow>
    (let raw = map_index annotations key;
         parsed = (if raw \<noteq> [] then unmarshal raw else Some \<lparr>rr_Repositories = []\<rparr>)
     in case parsed of
          None \<Rightarrow> (scanEverything, sets)
        | Some req \<Rightarrow>
            (case mergeRescanRequest req sets of
               (everything, sets') \<Rightarrow> (scanEverything \<or> everything, sets'))))"

definition collectRescanRequests ::
  "(string \<Rightarrow> RescanRequest option) \<Rightarrow> Registry \<Rightarrow> string list \<times> ScanJobRepository list \<times> bool" where
  "collectRescanRequests unmarshal registry =
    (let annotations = om_Annotations (rg_meta registry);
         rescanRequests =
           filter (\<lambda>key. HasPrefix key AnnotationRescanRequestedKeyPrefix) (map fst annotations)
     in if rescanRequests = [] then ([], [], False)
        else (case fold (collectStep unmarshal annotations) rescanRequests (False, [], []) of
                (scanEverything, wildcardRepos, condsByRepo) \<Rightarrow>
                  if scanEverything then (rescanRequests, [], True)
                  else (rescanRequests, buildMergedTargets wildcardRepos condsByRepo, False)))"

section \<open>One cycle of the runner\<close>

datatype runner_call =
    RunnerListRegistries
  | RunnerListScanJobs string string
  | RunnerGetRegistry NamespacedName
  | RunnerUpdateRegistry Registry
  | RunnerCreateScanJob ScanJob
  | RunnerNow

text \<open>
  The answers of the API server and of the clock after a history of calls, and the library
  functions: the condition library, the JSON decoder, \<open>sort.Slice\<close>, \<open>retry.RetryOnConflict\<close> and the
  propagation fields of the trace of the new job.
\<close>

record runner_env =
  re_ListRegistries :: "runner_call list \<Rightarrow> Registry list result"
  re_ListScanJobs :: "runner_call list \<Rightarrow> string \<Rightarrow> string \<Rightarrow> ScanJob list result"
  re_GetRegistry :: "runner_call list \<Rightarrow> NamespacedName \<Rightarrow> Registry result"
  re_UpdateRegistry :: "runner_call list \<Rightarrow> Registry \<Rightarrow> unit result"
  re_CreateScanJob :: "runner_call list \<Rightarrow> ScanJob \<Rightarrow> unit result"
  re_Now :: "runner_call list \<Rightarrow> time"
  re_meta :: meta_lib
  re_unmarshal :: "string \<Rightarrow> RescanRequest option"
  re_sort :: "ScanJob sorter"
  re_retry :: "(runner_call, unit) retrier"
  re_trace :: "(string \<times> string) list"

definition getLastScanJob :: "runner_env \<Rightarrow> Registry \<Rightarrow> (runner_call, ScanJob result) prog" where
  "getLastScanJob E registry = do {
     scanJobs \<leftarrow> call (\<lambda>h. re_ListScanJobs E h (om_Namespace (rg_meta registry))
                          (om_Name (rg_meta registry)))
                   (RunnerListScanJobs (om_Namespace (rg_meta registry))
                      (om_Name (rg_meta registry)));
     (case scanJobs of
        Inl err \<Rightarrow> fail (ErrorWrap ''failed to list scan jobs'' err)
      | Inr items \<Rightarrow>
          if items = []
          then fail (StatusError ReasonNotFound (''for registry '' @ om_Name (rg_meta registry)))
          else ok (hd (re_sort E
                 (\<lambda>i j. om_CreationTimestamp (sj_meta i) > om_CreationTimestamp (sj_meta j))
                 items)))
   }"

text \<open>\<open>time.Since\<close> reads the clock only on the path that compares the interval.\<close>

definition shouldCreateScanJob ::
  "runner_env \<Rightarrow> Registry \<Rightarrow> ScanJob option \<Rightarrow> bool \<Rightarrow> (runner_call, bool) prog" where
  "shouldCreateScanJob E registry lastScanJob hasRescanRequest =
    (if hasRescanRequest then State_Monad.return True
     else case rs_ScanInterval (rg_Spec registry) of
       None \<Rightarrow> State_Monad.return False
     | Some interval \<Rightarrow>
         if interval = 0 then State_Monad.return False
         else case lastScanJob of
           None \<Rightarrow> State_Monad.return True
         | Some job \<Rightarrow>
             (case ss_CompletionTime (sj_Status job) of
                None \<Rightarrow> State_Monad.return True
              | Some completed \<Rightarrow> do {
                  now \<leftarrow> call (re_Now E) RunnerNow;
                  State_Monad.return (\<not> time_Sub now completed < interval)
                }))"

definition newScanJob :: "runner_env \<Rightarrow> Registry \<Rightarrow> ScanJobRepository list \<Rightarrow> ScanJob" where
  "newScanJob E registry repositories =
    (let annotations = [(AnnotationScanJobTriggerKey, ''runner'')];
         labels = (if map_index (om_Labels (rg_meta registry)) LabelWorkloadScanKey
                        = LabelWorkloadScanValue
                   then [(LabelWorkloadScanKey, LabelWorkloadScanValue)] else [])
     in \<lparr>sj_meta = empty_meta
           \<lparr>om_GenerateName := om_Name (rg_meta registry) @ ''-'',
            om_Namespace := om_Namespace (rg_meta registry),
            om_Labels := labels,
            om_Annotations := the (InjectAnnotations (re_trace E) (Some annotations))\<rparr>,
         sj_Spec = \<lparr>sp_Registry = om_Name (rg_meta registry), sp_Repositories = repositories\<rparr>,
         sj_Status = \<lparr>ss_Conditions = [], ss_ImagesCount = 0, ss_ScannedImagesCount = 0,
                      ss_StartTime = None, ss_CompletionTime = None\<rparr>\<rparr>)"

definition createScanJob ::
  "runner_env \<Rightarrow> Registry \<Rightarrow> ScanJobRepository list \<Rightarrow> (runner_call, unit result) prog" where
  "createScanJob E registry repositories = do {
     r \<leftarrow> call (\<lambda>h. re_CreateScanJob E h (newScanJob E registry repositories))
            (RunnerCreateScanJob (newScanJob E registry repositories));
     (case r of
        Inl err \<Rightarrow> fail (ErrorWrap ''failed to create ScanJob'' err)
      | Inr _ \<Rightarrow> ok ())
   }"

text \<open>The loop that deletes the observed keys, and whether it deleted one.\<close>

definition dropAnnotations :: "string list \<Rightarrow> string_map \<Rightarrow> string_map" where
  "dropAnnotations keys annotations = fold AList.delete keys annotations"

definition removeRescanAttempt ::
  "runner_env \<Rightarrow> Registry \<Rightarrow> string list \<Rightarrow> (runner_call, unit result) prog" where
  "removeRescanAttempt E registry keys = do {
     r \<leftarrow> call (\<lambda>h. re_GetRegistry E h (om_Namespace (rg_meta registry), om_Name (rg_meta registry)))
            (RunnerGetRegistry (om_Namespace (rg_meta registry), om_Name (rg_meta registry)));
     (case r of
        Inl err \<Rightarrow> fail (ErrorWrap ''failed to get current registry'' err)
      | Inr current \<Rightarrow>
          (let annotations = om_Annotations (rg_meta current);
               changed = (\<exists>key \<in> set keys. map_of annotations key \<noteq> None);
               current' = current\<lparr>rg_meta := (rg_meta current)
                 \<lparr>om_Annotations := dropAnnotations keys annotations\<rparr>\<rparr>
           in if \<not> changed then ok ()
              else do {
                u \<leftarrow> call (\<lambda>h. re_UpdateRegistry E h current') (RunnerUpdateRegistry current');
                (case u of
                   Inl err \<Rightarrow> fail (ErrorWrap ''failed to update registry'' err)
                 | Inr _ \<Rightarrow> ok ())
              }))
   }"

definition removeRescanAnnotations ::
  "runner_env \<Rightarrow> Registry \<Rightarrow> string list \<Rightarrow> (runner_call, unit result) prog" where
  "removeRescanAnnotations E registry keys =
    (if keys = [] then ok ()
     else do {
       r \<leftarrow> re_retry E (removeRescanAttempt E registry keys);
       (case r of
          Inl err \<Rightarrow> fail (ErrorWrap ''failed to remove rescan annotations'' err)
        | Inr _ \<Rightarrow> ok ())
     })"

text \<open>
  The tail of \<open>checkRegistryForScan\<close>: create the job, then clear the requests it serves.
\<close>

definition createThenClear ::
  "runner_env \<Rightarrow> Registry \<Rightarrow> string list \<Rightarrow> ScanJobRepository list
     \<Rightarrow> (runner_call, unit result) prog" where
  "createThenClear E registry rescanRequests targets = do {
     created \<leftarrow> createScanJob E registry targets;
     (case created of
        Inl err \<Rightarrow> fail (ErrorWrap (''failed to create scan job for registry ''
                                   @ om_Name (rg_meta registry)) err)
      | Inr _ \<Rightarrow>
          if rescanRequests \<noteq> []
          then do {
            removed \<leftarrow> removeRescanAnnotations E registry rescanRequests;
            (case removed of
               Inl err \<Rightarrow> fail (ErrorWrap (''failed to remove rescan annotations for registry ''
                                          @ om_Name (rg_meta registry)) err)
             | Inr _ \<Rightarrow> ok ())
          }
          else ok ())
   }"

text \<open>
  The part of \<open>checkRegistryForScan\<close> after the last job is known; \<open>None\<close> is the \<open>nil\<close> pointer that
  \<open>getLastScanJob\<close> returns with a not-found error.
\<close>

definition scanRegistryAfter ::
  "runner_env \<Rightarrow> Registry \<Rightarrow> string list \<Rightarrow> ScanJobRepository list \<Rightarrow> bool \<Rightarrow> ScanJob option
     \<Rightarrow> (runner_call, unit result) prog" where
  "scanRegistryAfter E registry rescanRequests mergedTargets scanEverything lastScanJob =
    (let hasRescanRequest = (rescanRequests \<noteq> []);
         running = (case lastScanJob of
                      None \<Rightarrow> False
                    | Some job \<Rightarrow> \<not> ScanJob_IsComplete (re_meta E) job
                                  \<and> \<not> ScanJob_IsFailed (re_meta E) job);
         targets = (if hasRescanRequest \<and> \<not> scanEverything then mergedTargets else [])
     in if running then ok ()
        else do {
          due \<leftarrow> shouldCreateScanJob E registry lastScanJob hasRescanRequest;
          if \<not> due then ok () else createThenClear E registry rescanRequests targets
        })"

definition checkRegistryForScan :: "runner_env \<Rightarrow> Registry \<Rightarrow> (runner_call, unit result) prog" where
  "checkRegistryForScan E registry =
    (case collectRescanRequests (re_unmarshal E) registry of
       (rescanRequests, mergedTargets, scanEverything) \<Rightarrow> do {
         lastScanJob \<leftarrow> getLastScanJob E registry;
         (case lastScanJob of
            Inl err \<Rightarrow>
              if \<not> IsNotFound err
              then fail (ErrorWrap (''failed to get last scan job for registry ''
                                      @ om_Name (rg_meta registry)) err)
              else scanRegistryAfter E registry rescanRequests mergedTargets scanEverything None
          | Inr job \<Rightarrow>
              scanRegistryAfter E registry rescanRequests mergedTargets scanEverything (Some job))
       })"

text \<open>One registry that fails is logged and does not stop the cycle.\<close>

primrec scanEach :: "runner_env \<Rightarrow> Registry list \<Rightarrow> (runner_call, unit result) prog" where
  "scanEach E [] = ok ()"
| "scanEach E (registry # registries) = do {
     _ \<leftarrow> checkRegistryForScan E registry;
     scanEach E registries
   }"

definition scanRegistries :: "runner_env \<Rightarrow> (runner_call, unit result) prog" where
  "scanRegistries E = do {
     registries \<leftarrow> call (re_ListRegistries E) RunnerListRegistries;
     (case registries of
        Inl err \<Rightarrow> fail (ErrorWrap ''failed to list registries'' err)
      | Inr items \<Rightarrow> scanEach E items)
   }"

section \<open>Lemmas on merging\<close>

text \<open>
  The specification of the merge, on the set of repository entries of all parsed requests: the
  repositories in order of their names, each with no condition when some entry asks for all of it
  and with the union of the conditions otherwise.
\<close>

definition wildcarded :: "ScanJobRepository set \<Rightarrow> string \<Rightarrow> bool" where
  "wildcarded es n \<longleftrightarrow> (\<exists>e \<in> es. sr_Name e = n \<and> sr_MatchConditions e = [])"

definition requested_conditions :: "ScanJobRepository set \<Rightarrow> string \<Rightarrow> string set" where
  "requested_conditions es n = (\<Union>e \<in> {e \<in> es. sr_Name e = n}. set (sr_MatchConditions e))"

definition union_targets :: "ScanJobRepository set \<Rightarrow> ScanJobRepository list" where
  "union_targets es =
    map (\<lambda>n. \<lparr>sr_Name = n,
               sr_MatchConditions =
                 (if wildcarded es n then [] else sorted_list_of_set (requested_conditions es n))\<rparr>)
      (sorted_list_of_set (sr_Name ` es))"

definition parse_request :: "(string \<Rightarrow> RescanRequest option) \<Rightarrow> string \<Rightarrow> RescanRequest option" where
  "parse_request unmarshal raw =
    (if raw \<noteq> [] then unmarshal raw else Some \<lparr>rr_Repositories = []\<rparr>)"

definition parsed_requests ::
  "(string \<Rightarrow> RescanRequest option) \<Rightarrow> string_map \<Rightarrow> string list \<Rightarrow> RescanRequest list" where
  "parsed_requests unmarshal annotations keys =
    List.map_filter (\<lambda>k. parse_request unmarshal (map_index annotations k)) keys"

lemma fold_insert_set [simp]: "set (fold List.insert xs ys) = set xs \<union> set ys"
  by (induction xs arbitrary: ys) auto

lemma fold_insert_distinct [simp]: "distinct ys \<Longrightarrow> distinct (fold List.insert xs ys)"
  by (induction xs arbitrary: ys) auto

lemma sort_distinct_set: "distinct xs \<Longrightarrow> sort xs = sorted_list_of_set (set xs)"
  by (simp add: sorted_list_of_set_sort_remdups distinct_remdups_id)

text \<open>What the two tracking sets hold after the entries \<open>es\<close> have been merged.\<close>

definition tracks :: "ScanJobRepository set \<Rightarrow> string list \<times> conds_by_repo \<Rightarrow> bool" where
  "tracks es st \<longleftrightarrow> (case st of (w, c) \<Rightarrow>
    distinct w \<and> distinct (map fst c) \<and> set w = {n. wildcarded es n}
    \<and> (\<forall>n cs. map_of c n = Some cs \<longrightarrow> distinct cs)
    \<and> (\<forall>n. map_option set (map_of c n) =
           (if n \<in> sr_Name ` es \<and> \<not> wildcarded es n then Some (requested_conditions es n)
            else None)))"

lemma tracks_empty: "tracks {} ([], [])"
  by (simp add: tracks_def wildcarded_def)

lemma wildcarded_insert:
  "wildcarded (insert e es) n \<longleftrightarrow> (sr_Name e = n \<and> sr_MatchConditions e = []) \<or> wildcarded es n"
  by (auto simp: wildcarded_def)

lemma requested_conditions_insert:
  "requested_conditions (insert e es) n =
    (if sr_Name e = n then set (sr_MatchConditions e) \<union> requested_conditions es n
     else requested_conditions es n)"
  by (auto simp: requested_conditions_def)

lemma requested_conditions_none: "n \<notin> sr_Name ` es \<Longrightarrow> requested_conditions es n = {}"
  by (auto simp: requested_conditions_def)

lemma tracksI:
  assumes "distinct w" "distinct (map fst c)" "set w = {n. wildcarded es n}"
    and "\<And>n cs. map_of c n = Some cs \<Longrightarrow> distinct cs"
    and "\<And>n. map_option set (map_of c n) =
           (if n \<in> sr_Name ` es \<and> \<not> wildcarded es n then Some (requested_conditions es n)
            else None)"
  shows "tracks es (w, c)"
  using assms unfolding tracks_def prod.case by blast

lemma tracksD:
  assumes "tracks es (w, c)"
  shows "distinct w" "distinct (map fst c)" "set w = {n. wildcarded es n}"
    and "\<And>n cs. map_of c n = Some cs \<Longrightarrow> distinct cs"
    and "\<And>n. map_option set (map_of c n) =
           (if n \<in> sr_Name ` es \<and> \<not> wildcarded es n then Some (requested_conditions es n)
            else None)"
  using assms unfolding tracks_def prod.case by blast+

lemma tracks_mergeRepository:
  assumes "tracks es st"
  shows "tracks (insert e es) (mergeRepository e st)"
proof -
  obtain w c where st: "st = (w, c)" by fastforce
  note tr = tracksD[OF assms[unfolded st]]
  let ?N = "sr_Name e" and ?C = "sr_MatchConditions e"
  have in_names: "n \<in> sr_Name ` insert e es \<longleftrightarrow> n = ?N \<or> n \<in> sr_Name ` es" for n
    by auto
  consider "wildcarded es ?N" | "\<not> wildcarded es ?N" "?C = []"
    | "\<not> wildcarded es ?N" "?C \<noteq> []" by blast
  then show ?thesis
  proof cases
    case 1
    then have m: "mergeRepository e st = (w, c)" by (simp add: mergeRepository_def st tr(3))
    have wild: "wildcarded (insert e es) = wildcarded es"
      using 1 by (auto simp: wildcarded_insert)
    show ?thesis
      unfolding m
    proof (rule tracksI)
      show "map_option set (map_of c n) =
           (if n \<in> sr_Name ` insert e es \<and> \<not> wildcarded (insert e es) n
            then Some (requested_conditions (insert e es) n) else None)" for n
      proof (cases "n = ?N")
        case True
        with 1 show ?thesis unfolding tr(5) wild by simp
      next
        case False
        then show ?thesis unfolding tr(5) wild in_names by (auto simp: requested_conditions_insert)
      qed
      show "distinct cs" if "map_of c n = Some cs" for n cs
        using that by (rule tr(4))
    qed (simp_all add: tr(1,2,3) wild)
  next
    case 2
    then have m: "mergeRepository e st = (List.insert ?N w, AList.delete ?N c)"
      by (simp add: mergeRepository_def st tr(3))
    show ?thesis
      unfolding m
    proof (rule tracksI)
      show "map_option set (map_of (AList.delete ?N c) n) =
           (if n \<in> sr_Name ` insert e es \<and> \<not> wildcarded (insert e es) n
            then Some (requested_conditions (insert e es) n) else None)" for n
      proof (cases "n = ?N")
        case True
        with 2 show ?thesis by (simp add: delete_conv wildcarded_insert)
      next
        case False
        then have "map_of (AList.delete ?N c) n = map_of c n" by (simp add: delete_conv)
        with False show ?thesis
          by (simp add: tr(5) in_names wildcarded_insert requested_conditions_insert
              del: map_option_eq_Some)
      qed
      show "distinct cs" if "map_of (AList.delete ?N c) n = Some cs" for n cs
        using that tr(4)[of n cs] by (simp add: delete_conv split: if_splits)
      show "set (List.insert ?N w) = {n. wildcarded (insert e es) n}"
        using 2 tr(3) by (auto simp: wildcarded_insert)
    qed (simp_all add: tr(1,2) distinct_delete)
  next
    case 3
    define cs where "cs = (case map_of c ?N of None \<Rightarrow> [] | Some cs \<Rightarrow> cs)"
    have m: "mergeRepository e st = (w, AList.update ?N (fold List.insert ?C cs) c)"
      using 3 by (simp add: mergeRepository_def st tr(3) cs_def)
    have cs: "set cs = requested_conditions es ?N \<and> distinct cs"
      using tr(4,5)[of ?N] 3 requested_conditions_none[of ?N es]
      by (cases "map_of c ?N") (simp_all add: cs_def split: if_splits)
    have wild: "wildcarded (insert e es) = wildcarded es"
      using 3 by (auto simp: wildcarded_insert)
    show ?thesis
      unfolding m
    proof (rule tracksI)
      show "map_option set (map_of (AList.update ?N (fold List.insert ?C cs) c) n) =
           (if n \<in> sr_Name ` insert e es \<and> \<not> wildcarded (insert e es) n
            then Some (requested_conditions (insert e es) n) else None)" for n
      proof (cases "n = ?N")
        case True
        with 3 cs show ?thesis by (simp add: wild update_conv requested_conditions_insert)
      next
        case False
        then have "map_of (AList.update ?N (fold List.insert ?C cs) c) n = map_of c n"
          by (simp add: update_conv)
        with False show ?thesis
          by (simp add: tr(5) in_names wild requested_conditions_insert del: map_option_eq_Some)
      qed
      show "distinct ds" if "map_of (AList.update ?N (fold List.insert ?C cs) c) n = Some ds"
        for n ds
        using that tr(4)[of n ds] cs by (auto simp: update_conv split: if_splits)
    qed (simp_all add: tr(1,2,3) wild distinct_update)
  qed
qed

lemma tracks_fold:
  "tracks es st \<Longrightarrow> tracks (set rs \<union> es) (fold mergeRepository rs st)"
proof (induction rs arbitrary: es st)
  case (Cons r rs)
  from Cons.IH[OF tracks_mergeRepository[OF Cons.prems, of r]] show ?case by simp
qed simp

text \<open>The targets built from the tracking sets are the specified ones.\<close>

lemma buildMergedTargets_union:
  assumes "tracks es (w, c)"
  shows "buildMergedTargets w c = union_targets es"
proof -
  note tr = tracksD[OF assms]
  have "fst ` set c = {n \<in> sr_Name ` es. \<not> wildcarded es n}"
  proof -
    have "fst ` set c = {n. map_of c n \<noteq> None}"
      by (auto simp: map_of_eq_None_iff)
    also have "\<dots> = {n. map_option set (map_of c n) \<noteq> None}" by simp
    finally show ?thesis unfolding tr(5) by (simp split: if_splits)
  qed
  then have names: "fst ` set c \<union> set w = sr_Name ` es"
    unfolding tr(3) by (auto simp: wildcarded_def)
  have conds: "(case map_of c n of None \<Rightarrow> [] | Some conds \<Rightarrow> sort conds) =
      (if wildcarded es n then [] else sorted_list_of_set (requested_conditions es n))"
    if "n \<in> sr_Name ` es" for n
    using that tr(4,5)[of n]
    by (cases "map_of c n") (auto simp: sort_distinct_set split: if_splits)
  have sorted: "sort (fold List.insert (map fst c) w) = sorted_list_of_set (sr_Name ` es)"
    using sort_distinct_set[OF fold_insert_distinct[OF tr(1)], of "map fst c"] names by simp
  have "finite (sr_Name ` es)"
    unfolding names[symmetric] by simp
  then show ?thesis
    unfolding buildMergedTargets_def union_targets_def Let_def sorted
    by (intro map_cong refl) (simp add: conds)
qed

lemma collectStep_parse:
  "collectStep unmarshal annotations key (everything, st) =
    (case parse_request unmarshal (map_index annotations key) of
       None \<Rightarrow> (everything, st)
     | Some req \<Rightarrow> (everything \<or> rr_Repositories req = [],
                     fold mergeRepository (rr_Repositories req) st))"
  by (simp add: collectStep_def parse_request_def mergeRescanRequest_def Let_def
      split: option.splits)

lemma collect_fold:
  "fold (collectStep unmarshal annotations) keys (everything, st) =
    (everything \<or> (\<exists>req \<in> set (parsed_requests unmarshal annotations keys).
                     rr_Repositories req = []),
     fold mergeRepository
       (concat (map rr_Repositories (parsed_requests unmarshal annotations keys))) st)"
  by (induction keys arbitrary: everything st)
    (auto simp: parsed_requests_def map_filter_simps collectStep_parse split: option.splits)

lemma collectRescanRequests_eq:
  assumes "keys = filter (\<lambda>key. HasPrefix key AnnotationRescanRequestedKeyPrefix)
                    (map fst (om_Annotations (rg_meta registry)))"
    and "reqs = parsed_requests unmarshal (om_Annotations (rg_meta registry)) keys"
    and "everything \<longleftrightarrow> (\<exists>req \<in> set reqs. rr_Repositories req = [])"
  shows "collectRescanRequests unmarshal registry =
    (keys,
     if everything then [] else union_targets (\<Union>req \<in> set reqs. set (rr_Repositories req)),
     everything)"
proof (cases "keys = []")
  case True
  then show ?thesis
    using assms by (simp add: collectRescanRequests_def Let_def parsed_requests_def
        map_filter_simps union_targets_def)
next
  case False
  let ?es = "concat (map rr_Repositories reqs)"
  obtain w c where st: "fold mergeRepository ?es ([], []) = (w, c)" by fastforce
  have "buildMergedTargets w c = union_targets (set ?es)"
    using buildMergedTargets_union[of "set ?es" w c] tracks_fold[OF tracks_empty, of ?es] st
    by simp
  with False st show ?thesis
    using assms unfolding collectRescanRequests_def Let_def
    by (simp add: collect_fold)
qed

section \<open>Lemmas on one cycle\<close>

text \<open>The most recent job of the list, \<open>None\<close> when there is none.\<close>

definition newest_job :: "runner_env \<Rightarrow> ScanJob list \<Rightarrow> ScanJob option" where
  "newest_job E items =
    (if items = [] then None
     else Some (hd (re_sort E
            (\<lambda>i j. om_CreationTimestamp (sj_meta i) > om_CreationTimestamp (sj_meta j)) items)))"

definition job_running :: "runner_env \<Rightarrow> ScanJob option \<Rightarrow> bool" where
  "job_running E prev =
    (case prev of None \<Rightarrow> False | Some job \<Rightarrow> \<not> JobFinished (ScanJob_view (re_meta E) job))"

definition interval_elapsed :: "time \<Rightarrow> Registry \<Rightarrow> ScanJob option \<Rightarrow> bool" where
  "interval_elapsed now registry prev =
    (case rs_ScanInterval (rg_Spec registry) of
       None \<Rightarrow> False
     | Some interval \<Rightarrow> interval \<noteq> 0 \<and>
         (case Option.bind prev (\<lambda>job. ss_CompletionTime (sj_Status job)) of
            None \<Rightarrow> True | Some completed \<Rightarrow> interval \<le> time_Sub now completed))"

lemma newest_job_max:
  assumes "sorter_contract (re_sort E)" "newest_job E items = Some job"
  shows "job \<in> set items"
    and "i \<in> set items \<Longrightarrow> om_CreationTimestamp (sj_meta i) \<le> om_CreationTimestamp (sj_meta job)"
proof -
  let ?lt = "\<lambda>i j. om_CreationTimestamp (sj_meta i) > om_CreationTimestamp (sj_meta j)"
  let ?s = "re_sort E ?lt items"
  have "strict_weak ?lt" by (auto simp: strict_weak_def)
  then have s: "mset ?s = mset items" "sorted_wrt (\<lambda>x y. \<not> ?lt y x) ?s"
    using assms(1) unfolding sorter_contract_def by blast+
  have set: "set ?s = set items" using s(1) by (metis set_mset_mset)
  have job: "job = hd ?s" "items \<noteq> []"
    using assms(2) by (auto simp: newest_job_def split: if_splits)
  then obtain ys where ys: "?s = job # ys"
    using set by (cases ?s) auto
  then show "job \<in> set items" using set by auto
  show "i \<in> set items \<Longrightarrow> om_CreationTimestamp (sj_meta i) \<le> om_CreationTimestamp (sj_meta job)"
    using set s(2) unfolding ys by fastforce
qed

fun is_create :: "runner_call \<Rightarrow> bool" where
  "is_create (RunnerCreateScanJob _) = True"
| "is_create _ = False"

lemma emits_removeRescanAttempt:
  "emits (\<lambda>c. \<not> is_create c) (removeRescanAttempt E registry keys)"
  unfolding removeRescanAttempt_def Let_def by (intro emits_intros) simp_all

lemma emits_removeRescanAnnotations:
  assumes "retrier_contract (re_retry E)"
  shows "emits (\<lambda>c. \<not> is_create c) (removeRescanAnnotations E registry keys)"
  unfolding removeRescanAnnotations_def
  by (intro emits_intros emits_retrier[OF assms] emits_removeRescanAttempt)

lemma createThenClear_creates:
  assumes "retrier_contract (re_retry E)"
  shows "\<exists>new. snd (run_state (createThenClear E registry reqs targets) h) = h @ new
    \<and> filter is_create new = [RunnerCreateScanJob (newScanJob E registry targets)]"
proof -
  let ?c = "RunnerCreateScanJob (newScanJob E registry targets)"
  obtain n where n: "snd (run_state (removeRescanAnnotations E registry reqs) (h @ [?c]))
      = (h @ [?c]) @ n" "list_all (\<lambda>c. \<not> is_create c) n"
    using emits_removeRescanAnnotations[OF assms, of registry reqs] unfolding emits_def by blast
  have "filter is_create n = []"
    using n(2) by (simp add: filter_empty_conv list_all_iff)
  with n(1) show ?thesis
    by (auto simp: createThenClear_def createScanJob_def split: sum.splits prod.splits)
qed

lemma shouldCreateScanJob_run:
  "\<exists>pre. run_state (shouldCreateScanJob E registry prev requested) h =
      (requested \<or> interval_elapsed (re_Now E h) registry prev, h @ pre) \<and> filter is_create pre = []"
  by (auto simp: shouldCreateScanJob_def interval_elapsed_def split: option.splits)

lemma scanRegistryAfter_creates:
  assumes "retrier_contract (re_retry E)"
  shows "\<exists>new. snd (run_state (scanRegistryAfter E registry reqs targets everything prev) h) = h @ new
    \<and> filter is_create new =
       (if \<not> job_running E prev \<and> (reqs \<noteq> [] \<or> interval_elapsed (re_Now E h) registry prev)
        then [RunnerCreateScanJob (newScanJob E registry
                (if reqs \<noteq> [] \<and> \<not> everything then targets else []))]
        else [])"
proof -
  let ?t = "if reqs \<noteq> [] \<and> \<not> everything then targets else []"
  have run: "scanRegistryAfter E registry reqs targets everything prev =
      (if job_running E prev then ok ()
       else do { due \<leftarrow> shouldCreateScanJob E registry prev (reqs \<noteq> []);
                 if \<not> due then ok () else createThenClear E registry reqs ?t })"
    by (simp add: scanRegistryAfter_def job_running_def JobFinished_def ScanJob_view_def Let_def
        split: option.splits)
  obtain pre where pre: "run_state (shouldCreateScanJob E registry prev (reqs \<noteq> [])) h =
      (reqs \<noteq> [] \<or> interval_elapsed (re_Now E h) registry prev, h @ pre)" "filter is_create pre = []"
    using shouldCreateScanJob_run by blast
  obtain new where new: "snd (run_state (createThenClear E registry reqs ?t) (h @ pre)) = (h @ pre) @ new"
      "filter is_create new = [RunnerCreateScanJob (newScanJob E registry ?t)]"
    using createThenClear_creates[OF assms] by blast
  show ?thesis
  proof (cases "\<not> job_running E prev \<and> (reqs \<noteq> [] \<or> interval_elapsed (re_Now E h) registry prev)")
    case True
    then show ?thesis using pre new by (intro exI[of _ "pre @ new"]) (simp add: run)
  next
    case False
    then show ?thesis using pre by (auto simp: run)
  qed
qed

text \<open>
  When an update of a Registry is justified: a job has been created, and the update writes what
  the preceding read returned, without the served annotations.
\<close>

definition job_created :: "runner_env \<Rightarrow> runner_call list \<Rightarrow> bool" where
  "job_created E h \<longleftrightarrow>
    (\<exists>h0 job t. h = h0 @ RunnerCreateScanJob job # t \<and> re_CreateScanJob E h0 job = Inr ())"

definition cleared :: "string list \<Rightarrow> Registry \<Rightarrow> Registry" where
  "cleared keys r = r\<lparr>rg_meta := (rg_meta r)
     \<lparr>om_Annotations := dropAnnotations keys (om_Annotations (rg_meta r))\<rparr>\<rparr>"

definition update_justified ::
  "runner_env \<Rightarrow> Registry \<Rightarrow> string list \<Rightarrow> runner_call list \<Rightarrow> runner_call \<Rightarrow> bool" where
  "update_justified E registry keys h c \<longleftrightarrow>
    (\<forall>r. c = RunnerUpdateRegistry r \<longrightarrow>
      (\<exists>h' current. let key = (om_Namespace (rg_meta registry), om_Name (rg_meta registry)) in
         h = h' @ [RunnerGetRegistry key] \<and> re_GetRegistry E h' key = Inr current
         \<and> r = cleared keys current \<and> job_created E h'))"

lemma map_of_dropAnnotations:
  "map_of (dropAnnotations keys m) k = (if k \<in> set keys then None else map_of m k)"
  unfolding dropAnnotations_def
  by (induction keys arbitrary: m) (auto simp: delete_conv)

lemma job_created_append: "job_created E h \<Longrightarrow> job_created E (h @ n)"
  unfolding job_created_def by fastforce

lemma guarded_removeRescanAttempt:
  assumes "job_created E h"
  shows "guarded (update_justified E registry keys) h (removeRescanAttempt E registry keys)"
  unfolding removeRescanAttempt_def Let_def
  by (intro guarded_bind guarded_cases)
    (use assms in \<open>auto simp: update_justified_def cleared_def\<close>)

lemma guarded_createThenClear:
  assumes "retrier_contract (re_retry E)"
  shows "guarded (update_justified E registry keys) h (createThenClear E registry keys targets)"
  unfolding createThenClear_def createScanJob_def removeRescanAnnotations_def
proof (intro guarded_bind guarded_cases guarded_retrier[OF assms] guarded_removeRescanAttempt)
  fix n and created :: "unit result" and h' u
  assume "run_state (call (\<lambda>h. re_CreateScanJob E h (newScanJob E registry targets))
        (RunnerCreateScanJob (newScanJob E registry targets)) \<bind>
      case_sum (\<lambda>err. fail (ErrorWrap ''failed to create ScanJob'' err)) (\<lambda>_. ok ())) h
      = (created, h')" and "created = Inr u"
  then have "job_created E h'"
    unfolding job_created_def by (fastforce split: sum.splits)
  then show "job_created E (h' @ n)" by (rule job_created_append)
qed (simp_all add: update_justified_def)

lemma guarded_checkRegistryForScan:
  assumes "retrier_contract (re_retry E)"
    and "collectRescanRequests (re_unmarshal E) registry = (keys, targets, everything)"
  shows "guarded (update_justified E registry keys) h (checkRegistryForScan E registry)"
proof -
  have after: "guarded (update_justified E registry keys) h'
      (scanRegistryAfter E registry keys targets everything prev)" for h' prev
    unfolding scanRegistryAfter_def shouldCreateScanJob_def Let_def
    by (intro guarded_bind guarded_cases guarded_createThenClear[OF assms(1)])
      (simp_all add: update_justified_def)
  show ?thesis
    unfolding checkRegistryForScan_def getLastScanJob_def assms(2) prod.case
    by (intro guarded_bind guarded_cases after) (simp_all add: update_justified_def)
qed

lemma checkRegistryForScan_creates:
  assumes "retrier_contract (re_retry E)"
    and "re_ListScanJobs E [] (om_Namespace (rg_meta registry)) (om_Name (rg_meta registry))
           = Inr items"
    and "collectRescanRequests (re_unmarshal E) registry = (reqs, targets, everything)"
    and "h = [RunnerListScanJobs (om_Namespace (rg_meta registry)) (om_Name (rg_meta registry))]"
  shows "filter is_create (calls (checkRegistryForScan E registry)) =
    (if \<not> job_running E (newest_job E items)
        \<and> (reqs \<noteq> [] \<or> interval_elapsed (re_Now E h) registry (newest_job E items))
     then [RunnerCreateScanJob (newScanJob E registry
             (if reqs \<noteq> [] \<and> \<not> everything then targets else []))]
     else [])"
proof -
  have "snd (run_state (checkRegistryForScan E registry) []) =
      snd (run_state (scanRegistryAfter E registry reqs targets everything (newest_job E items)) h)"
    using assms(2-4)
    by (auto simp: checkRegistryForScan_def getLastScanJob_def newest_job_def)
  moreover obtain new where
    "snd (run_state (scanRegistryAfter E registry reqs targets everything (newest_job E items)) h)
       = h @ new"
    "filter is_create new =
       (if \<not> job_running E (newest_job E items)
           \<and> (reqs \<noteq> [] \<or> interval_elapsed (re_Now E h) registry (newest_job E items))
        then [RunnerCreateScanJob (newScanJob E registry
                (if reqs \<noteq> [] \<and> \<not> everything then targets else []))]
        else [])"
    using scanRegistryAfter_creates[OF assms(1)] by blast
  ultimately show ?thesis
    unfolding calls_def using assms(4) by simp
qed

text \<open>A concrete environment: one registry, one finished job, and an API server that agrees.\<close>

definition sample_registry :: Registry where
  "sample_registry =
    \<lparr>rg_meta = empty_meta
       \<lparr>om_Name := ''hub'', om_Namespace := ''ns'',
        om_Annotations := [(''sbomscanner.kubewarden.io/rescan-requested-1'', ''a''),
                           (''sbomscanner.kubewarden.io/rescan-requested-2'', ''b''),
                           (''team'', ''x'')]\<rparr>,
     rg_Spec = \<lparr>rs_URI = ''ghcr.io'', rs_CatalogType = CatalogTypeNoCatalog, rs_Repositories = [],
                rs_AuthSecret = [], rs_ScanInterval = Some 60, rs_CABundle = [],
                rs_CABundleRef = None, rs_Insecure = False, rs_Platforms = []\<rparr>,
     rg_Conditions = []\<rparr>"

definition sample_unmarshal :: "string \<Rightarrow> RescanRequest option" where
  "sample_unmarshal raw =
    (if raw = ''a'' then Some \<lparr>rr_Repositories = [\<lparr>sr_Name = ''r1'', sr_MatchConditions = [''c2'']\<rparr>]\<rparr>
     else if raw = ''b'' then Some \<lparr>rr_Repositories = [\<lparr>sr_Name = ''r1'', sr_MatchConditions = [''c1'']\<rparr>]\<rparr>
     else None)"

definition sample_done_job :: ScanJob where
  "sample_done_job = ScanJob_MarkComplete list_meta 100 ''AllImagesScanned'' ''ok''
    \<lparr>sj_meta = empty_meta\<lparr>om_Name := ''hub-1'', om_Namespace := ''ns''\<rparr>,
     sj_Spec = \<lparr>sp_Registry = ''hub'', sp_Repositories = []\<rparr>,
     sj_Status = \<lparr>ss_Conditions = [], ss_ImagesCount = 0, ss_ScannedImagesCount = 0,
                  ss_StartTime = None, ss_CompletionTime = None\<rparr>\<rparr>"

definition sample_runner_env :: runner_env where
  "sample_runner_env =
    \<lparr>re_ListRegistries = (\<lambda>h. Inr [sample_registry]),
     re_ListScanJobs = (\<lambda>h ns reg. Inr [sample_done_job]),
     re_GetRegistry = (\<lambda>h key. Inr (sample_registry\<lparr>rg_meta := (rg_meta sample_registry)
        \<lparr>om_Annotations := (''late'', ''1'') # om_Annotations (rg_meta sample_registry)\<rparr>\<rparr>)),
     re_UpdateRegistry = (\<lambda>h r. Inr ()),
     re_CreateScanJob = (\<lambda>h j. Inr ()),
     re_Now = (\<lambda>h. 130),
     re_meta = list_meta,
     re_unmarshal = sample_unmarshal,
     re_sort = insertion_sorter,
     re_retry = retry_times 4,
     re_trace = []\<rparr>"

section \<open>Properties\<close>

text \<open>
  C6: the rescan annotations of a Registry are merged into the union of their requests.  The
  observed keys are the annotation keys with the rescan prefix; a full scan results exactly when
  some parsed payload names no repository; otherwise the targets are the requested repositories
  in order of their names, each without conditions when some payload asks for all of it and with
  the sorted union of the requested conditions otherwise.
\<close>

theorem rescan_requests_union:
  "collectRescanRequests unmarshal registry =
    (let annotations = om_Annotations (rg_meta registry);
         keys = filter (\<lambda>key. HasPrefix key AnnotationRescanRequestedKeyPrefix)
                  (map fst annotations);
         reqs = parsed_requests unmarshal annotations keys;
         everything = list_ex (\<lambda>req. rr_Repositories req = []) reqs
     in (keys,
         if everything then [] else union_targets (\<Union>req \<in> set reqs. set (rr_Repositories req)),
         everything))"
  using collectRescanRequests_eq[OF refl refl refl, of unmarshal registry]
  by (simp add: Let_def list_ex_iff)

text \<open>
  The merged targets and the full-scan flag do not depend on the order in which the map of
  annotations is visited.
\<close>

theorem rescan_merge_order_independent:
  assumes "distinct (map fst m)" "mset m = mset m'"
    and "om_Annotations (rg_meta r) = m" "om_Annotations (rg_meta r') = m'"
  shows "snd (collectRescanRequests unmarshal r) = snd (collectRescanRequests unmarshal r')"
proof -
  have dist: "distinct (map fst m')" and set: "set m = set m'"
    using assms(1,2) by (metis mset_map mset_eq_imp_distinct_iff, metis set_mset_mset)
  have "map_of m = map_of m'"
    using assms(1) dist set by (metis map_of_inject_set)
  then have same: "map_index m = map_index m'"
    by (simp add: map_index_def fun_eq_iff)
  let ?keys = "\<lambda>m. filter (\<lambda>key. HasPrefix key AnnotationRescanRequestedKeyPrefix) (map fst m)"
  have "set (parsed_requests unmarshal m (?keys m)) = set (parsed_requests unmarshal m' (?keys m'))"
    using set same by (auto simp: parsed_requests_def map_filter_def image_iff)
  then show ?thesis
    unfolding collectRescanRequests_eq[OF refl refl refl] assms(3,4) snd_conv by simp
qed

theorem rescan_merge_order_independent_witness:
  "snd (collectRescanRequests sample_unmarshal sample_registry) =
     snd (collectRescanRequests sample_unmarshal
       (sample_registry\<lparr>rg_meta := (rg_meta sample_registry)
          \<lparr>om_Annotations := rev (om_Annotations (rg_meta sample_registry))\<rparr>\<rparr>))
   \<and> snd (collectRescanRequests sample_unmarshal sample_registry) =
     ([\<lparr>sr_Name = ''r1'', sr_MatchConditions = [''c1'', ''c2'']\<rparr>], False)"
proof
  show "snd (collectRescanRequests sample_unmarshal sample_registry) =
     snd (collectRescanRequests sample_unmarshal
       (sample_registry\<lparr>rg_meta := (rg_meta sample_registry)
          \<lparr>om_Annotations := rev (om_Annotations (rg_meta sample_registry))\<rparr>\<rparr>))"
    by (rule rescan_merge_order_independent[OF _ _ refl refl]) (simp_all add: sample_registry_def)
  show "snd (collectRescanRequests sample_unmarshal sample_registry) =
     ([\<lparr>sr_Name = ''r1'', sr_MatchConditions = [''c1'', ''c2'']\<rparr>], False)"
    by code_simp
qed

text \<open>
  C5: one check of a registry creates at most one ScanJob, and creates it exactly when the most
  recent job of the registry is finished (or there is none) and either a rescan was requested or
  the scan interval is set, is not zero and has elapsed since the completion of that job.  The
  job targets the merged repositories when the requests narrow the scan and the whole registry
  otherwise; the most recent job is one with the greatest creation time.
\<close>

theorem registry_scan_decision:
  assumes "retrier_contract (re_retry E)" "sorter_contract (re_sort E)"
    and "re_ListScanJobs E [] (om_Namespace (rg_meta registry)) (om_Name (rg_meta registry))
           = Inr items"
    and "collectRescanRequests (re_unmarshal E) registry = (reqs, targets, everything)"
    and "h = [RunnerListScanJobs (om_Namespace (rg_meta registry)) (om_Name (rg_meta registry))]"
    and "prev = newest_job E items"
  shows "filter is_create (calls (checkRegistryForScan E registry)) =
      (if \<not> job_running E prev \<and> (reqs \<noteq> [] \<or> interval_elapsed (re_Now E h) registry prev)
       then [RunnerCreateScanJob (newScanJob E registry
               (if reqs \<noteq> [] \<and> \<not> everything then targets else []))]
       else [])
    \<and> (\<forall>job. prev = Some job \<longrightarrow> job \<in> set items \<and>
         (\<forall>i \<in> set items. om_CreationTimestamp (sj_meta i) \<le> om_CreationTimestamp (sj_meta job)))"
  unfolding assms(6)
  using checkRegistryForScan_creates[OF assms(1,3,4,5)] newest_job_max[OF assms(2)] by blast

theorem registry_scan_decision_witness:
  "filter is_create (calls (checkRegistryForScan sample_runner_env sample_registry)) =
     [RunnerCreateScanJob (newScanJob sample_runner_env sample_registry
        [\<lparr>sr_Name = ''r1'', sr_MatchConditions = [''c1'', ''c2'']\<rparr>])]"
proof -
  have retry: "retrier_contract (re_retry sample_runner_env)"
    and sorter: "sorter_contract (re_sort sample_runner_env)"
    by (simp_all add: sample_runner_env_def retry_times_contract insertion_sorter_contract)
  have jobs: "re_ListScanJobs sample_runner_env [] (om_Namespace (rg_meta sample_registry))
      (om_Name (rg_meta sample_registry)) = Inr [sample_done_job]"
    by (simp add: sample_runner_env_def)
  have reqs: "collectRescanRequests (re_unmarshal sample_runner_env) sample_registry =
      ([''sbomscanner.kubewarden.io/rescan-requested-1'',
        ''sbomscanner.kubewarden.io/rescan-requested-2''],
       [\<lparr>sr_Name = ''r1'', sr_MatchConditions = [''c1'', ''c2'']\<rparr>], False)"
    by code_simp
  have "\<not> job_running sample_runner_env (newest_job sample_runner_env [sample_done_job])"
    by code_simp
  then show ?thesis
    using registry_scan_decision[OF retry sorter jobs reqs refl refl] by simp
qed

text \<open>
  A registry is updated only after its ScanJob was created, and the update writes exactly what
  the preceding read of the registry returned, without the annotations that the job serves.  An
  annotation added by somebody else in the meantime is kept.
\<close>

theorem rescan_clear_keeps_others:
  assumes "retrier_contract (re_retry E)"
    and "collectRescanRequests (re_unmarshal E) registry = (keys, targets, everything)"
    and "calls (checkRegistryForScan E registry) = pre @ RunnerUpdateRegistry r # post"
    and "key = (om_Namespace (rg_meta registry), om_Name (rg_meta registry))"
  shows "\<exists>h' current. pre = h' @ [RunnerGetRegistry key] \<and> re_GetRegistry E h' key = Inr current
    \<and> r = cleared keys current \<and> job_created E h'
    \<and> (\<forall>k. map_of (om_Annotations (rg_meta r)) k =
          (if k \<in> set keys then None else map_of (om_Annotations (rg_meta current)) k))"
  using guarded_calls[OF guarded_checkRegistryForScan[OF assms(1,2)] assms(3)] assms(4)
  by (auto simp: update_justified_def Let_def cleared_def map_of_dropAnnotations)

theorem rescan_clear_keeps_others_witness:
  "\<exists>pre r post. calls (checkRegistryForScan sample_runner_env sample_registry)
       = pre @ RunnerUpdateRegistry r # post
     \<and> map_of (om_Annotations (rg_meta r)) ''late'' = Some ''1''
     \<and> map_of (om_Annotations (rg_meta r)) ''sbomscanner.kubewarden.io/rescan-requested-1'' = None"
proof -
  have retry: "retrier_contract (re_retry sample_runner_env)"
    by (simp add: sample_runner_env_def retry_times_contract)
  have reqs: "collectRescanRequests (re_unmarshal sample_runner_env) sample_registry =
      ([''sbomscanner.kubewarden.io/rescan-requested-1'',
        ''sbomscanner.kubewarden.io/rescan-requested-2''],
       [\<lparr>sr_Name = ''r1'', sr_MatchConditions = [''c1'', ''c2'']\<rparr>], False)"
    by code_simp
  obtain pre r where trace: "calls (checkRegistryForScan sample_runner_env sample_registry)
       = pre @ [RunnerUpdateRegistry r]"
  proof -
    have "case rev (calls (checkRegistryForScan sample_runner_env sample_registry)) of
        RunnerUpdateRegistry r # _ \<Rightarrow> True | _ \<Rightarrow> False"
      by code_simp
    then show thesis
      using that[of "rev _"] by (auto simp: rev_swap split: list.splits runner_call.splits)
  qed
  obtain h' current where "re_GetRegistry sample_runner_env h'
      (om_Namespace (rg_meta sample_registry), om_Name (rg_meta sample_registry)) = Inr current"
    and "\<And>k. map_of (om_Annotations (rg_meta r)) k =
          (if k \<in> set [''sbomscanner.kubewarden.io/rescan-requested-1'',
             ''sbomscanner.kubewarden.io/rescan-requested-2''] then None
           else map_of (om_Annotations (rg_meta current)) k)"
    using rescan_clear_keeps_others[OF retry reqs trace refl] by blast
  then have "map_of (om_Annotations (rg_meta r)) ''late'' = Some ''1''"
    "map_of (om_Annotations (rg_meta r)) ''sbomscanner.kubewarden.io/rescan-requested-1'' = None"
    by (auto simp: sample_runner_env_def)
  with trace show ?thesis by blast
qed

text \<open>
  When a registry carries rescan annotations and none of them parses, the job that is created
  carries no target at all, so the whole registry is scanned.
\<close>

theorem malformed_rescan_scans_everything:
  assumes "retrier_contract (re_retry E)"
    and "re_ListScanJobs E [] (om_Namespace (rg_meta registry)) (om_Name (rg_meta registry))
           = Inr []"
    and "keys = filter (\<lambda>key. HasPrefix key AnnotationRescanRequestedKeyPrefix)
                  (map fst (om_Annotations (rg_meta registry)))"
    and "keys \<noteq> []"
    and "parsed_requests (re_unmarshal E) (om_Annotations (rg_meta registry)) keys = []"
  shows "filter is_create (calls (checkRegistryForScan E registry)) =
    [RunnerCreateScanJob (newScanJob E registry [])]"
proof -
  have "collectRescanRequests (re_unmarshal E) registry = (keys, [], False)"
    using collectRescanRequests_eq[OF assms(3) refl refl, of "re_unmarshal E"] assms(5)
    by (simp add: union_targets_def)
  from checkRegistryForScan_creates[OF assms(1,2) this refl] show ?thesis
    using assms(4) by (simp add: newest_job_def job_running_def)
qed

theorem malformed_rescan_scans_everything_witness:
  "let E = sample_runner_env\<lparr>re_ListScanJobs := (\<lambda>h ns reg. Inr []), re_unmarshal := (\<lambda>raw. None)\<rparr>
   in filter is_create (calls (checkRegistryForScan E sample_registry)) =
      [RunnerCreateScanJob (newScanJob E sample_registry [])]"
  unfolding Let_def
  by (rule malformed_rescan_scans_everything[OF _ _ refl])
    (simp_all add: sample_runner_env_def sample_registry_def retry_times_contract HasPrefix_def
      parsed_requests_def parse_request_def map_filter_simps)

end
