(* ===== verification/Filters.thy ===== *)
theory Filters
  imports Api_Types
begin

text \<open>
  The filters of the catalog: tag expressions (\<open>src/internal/cel/tag.go\<close>,
  \<open>src/internal/filters/tag.go\<close>), platforms (\<open>src/internal/filters/platform.go\<close>) and the skip
  patterns of node scans (\<open>src/internal/skippatterns/skippatterns.go\<close>).  The CEL compiler, cost
  estimator and interpreter belong to a library; they are the fields of \<open>cel_lib\<close>.
\<close>

section \<open>Tag expressions\<close>

datatype cel_value = CelBool bool | CelOther

record 'ast cel_lib =
  cel_Compile :: "string \<Rightarrow> 'ast result"
  cel_EstimateCostMax :: "'ast \<Rightarrow> nat result"
  cel_Program :: "'ast \<Rightarrow> nat \<Rightarrow> (string \<Rightarrow> cel_value result) result"
  cel_OutputIsBool :: "'ast \<Rightarrow> bool"

definition tagEvaluatorCostLimit :: nat where
  "tagEvaluatorCostLimit = 100"

definition TagEvaluator_compile :: "'ast cel_lib \<Rightarrow> string \<Rightarrow> 'ast result" where
  "TagEvaluator_compile L expression =
    (case cel_Compile L expression of
       Inl err \<Rightarrow> Inl (ErrorWrap ''failed to compile expression'' err)
     | Inr ast \<Rightarrow>
         (case cel_EstimateCostMax L ast of
            Inl err \<Rightarrow> Inl (ErrorWrap ''failed to estimate expression cost'' err)
          | Inr cost \<Rightarrow>
              if cost > tagEvaluatorCostLimit then Inl (ErrorNew ''expression cost exceeds limit'')
              else Inr ast))"

definition TagEvaluator_Evaluate :: "'ast cel_lib \<Rightarrow> string \<Rightarrow> string \<Rightarrow> bool result" where
  "TagEvaluator_Evaluate L expression tag =
    (case TagEvaluator_compile L expression of
       Inl err \<Rightarrow> Inl err
     | Inr ast \<Rightarrow>
         (case cel_Program L ast tagEvaluatorCostLimit of
            Inl err \<Rightarrow> Inl (ErrorWrap ''failed to create CEL program'' err)
          | Inr prg \<Rightarrow>
              (case prg tag of
                 Inl err \<Rightarrow> Inl (ErrorWrap ''failed to evaluate expression'' err)
               | Inr val \<Rightarrow>
                   (case val of
                      CelBool result \<Rightarrow> Inr result
                    | CelOther \<Rightarrow> Inl (ErrorNew ''expression did not evaluate to a boolean'')))))"

definition TagEvaluator_Validate :: "'ast cel_lib \<Rightarrow> string \<Rightarrow> unit result" where
  "TagEvaluator_Validate L expression =
    (case TagEvaluator_compile L expression of
       Inl err \<Rightarrow> Inl err
     | Inr ast \<Rightarrow>
         if \<not> cel_OutputIsBool L ast then Inl (ErrorNew ''must evaluate to bool'') else Inr ())"

text \<open>
  The loop over the match conditions.  An operator other than \<open>And\<close> and \<open>Or\<close> matches no case of the
  switch, so the loop evaluates everything and the final comparison gives \<open>False\<close>.
\<close>

primrec filterConditions ::
  "(string \<Rightarrow> string \<Rightarrow> bool result) \<Rightarrow> MatchOperator \<Rightarrow> string \<Rightarrow> MatchCondition list \<Rightarrow> bool result" where
  "filterConditions eval op tag [] = Inr (op = MatchOperatorAnd)"
| "filterConditions eval op tag (mc # mcs) =
    (case eval (mc_Expression mc) tag of
       Inl err \<Rightarrow> Inl (ErrorWrap (''cannot evaluate expression '' @ mc_Name mc) err)
     | Inr allowed \<Rightarrow>
         if op = MatchOperatorAnd \<and> \<not> allowed then Inr False
         else if op = MatchOperatorOr \<and> allowed then Inr True
         else filterConditions eval op tag mcs)"

definition FilterByTag :: "'ast cel_lib \<Rightarrow> Repository option \<Rightarrow> string \<Rightarrow> bool result" where
  "FilterByTag L repository tag =
    (case repository of
       None \<Rightarrow> Inr True
     | Some r \<Rightarrow>
         if rp_MatchConditions r = [] then Inr True
         else
           (let op = (if rp_MatchOperator r = [] then MatchOperatorAnd else rp_MatchOperator r)
            in filterConditions (TagEvaluator_Evaluate L) op tag (rp_MatchConditions r)))"

section \<open>Platforms\<close>

definition IsPlatformAllowed :: "string \<Rightarrow> string \<Rightarrow> string \<Rightarrow> Platform list \<Rightarrow> bool" where
  "IsPlatformAllowed os architecture variant allowedPlatforms =
    (if os = ''unknown'' \<and> architecture = ''unknown'' then False
     else if allowedPlatforms = [] then True
     else list_ex (\<lambda>allowed.
            if pl_Variant allowed = []
            then os = pl_OS allowed \<and> architecture = pl_Architecture allowed
            else os = pl_OS allowed \<and> architecture = pl_Architecture allowed
                 \<and> variant = pl_Variant allowed) allowedPlatforms)"

section \<open>Skip patterns\<close>

text \<open>\<open>strings.TrimSpace\<close> on the ASCII white space characters.\<close>

definition IsSpace :: "char \<Rightarrow> bool" where
  "IsSpace c \<longleftrightarrow> c \<in> {CHR '' '', CHR 0x09, CHR 0x0A, CHR 0x0B, CHR 0x0C, CHR 0x0D}"

definition TrimSpace :: "string \<Rightarrow> string" where
  "TrimSpace s = rev (dropWhile IsSpace (rev (dropWhile IsSpace s)))"

record ParseResult =
  pr_SkipDirs :: "string list"
  pr_SkipFiles :: "string list"

definition parsePattern :: "string \<Rightarrow> ParseResult \<Rightarrow> ParseResult" where
  "parsePattern pattern result =
    (let p = TrimSpace pattern
     in if p = [] then result
        else if last p = CHR ''/''
        then result\<lparr>pr_SkipDirs := pr_SkipDirs result @ [butlast p]\<rparr>
        else result\<lparr>pr_SkipFiles := pr_SkipFiles result @ [p]\<rparr>)"

definition Parse :: "string list \<Rightarrow> ParseResult" where
  "Parse patterns = fold parsePattern patterns \<lparr>pr_SkipDirs = [], pr_SkipFiles = []\<rparr>"

section \<open>Lemmas\<close>

text \<open>With a verdict \<open>v\<close> for every condition the loop computes the conjunction or the disjunction.\<close>

lemma filterConditions_verdict:
  assumes "\<And>mc. mc \<in> set mcs \<Longrightarrow> eval (mc_Expression mc) tag = Inr (v mc)"
  shows "filterConditions eval MatchOperatorAnd tag mcs = Inr (list_all v mcs)"
    and "filterConditions eval MatchOperatorOr tag mcs = Inr (list_ex v mcs)"
  using assms by (induction mcs) auto

text \<open>An accepted tag has no failing condition in front of the one that decides.\<close>

lemma filterConditions_accepts:
  "filterConditions eval op tag mcs = Inr True \<Longrightarrow>
    (op = MatchOperatorAnd \<and> (\<forall>mc \<in> set mcs. eval (mc_Expression mc) tag = Inr True))
    \<or> (op = MatchOperatorOr \<and> (\<exists>mc \<in> set mcs. eval (mc_Expression mc) tag = Inr True))"
  by (induction mcs) (auto split: sum.splits if_splits)

lemma Parse_patterns:
  "fold parsePattern ps r =
    \<lparr>pr_SkipDirs = pr_SkipDirs r
       @ map butlast (filter (\<lambda>p. p \<noteq> [] \<and> last p = CHR ''/'') (map TrimSpace ps)),
     pr_SkipFiles = pr_SkipFiles r
       @ filter (\<lambda>p. p \<noteq> [] \<and> last p \<noteq> CHR ''/'') (map TrimSpace ps)\<rparr>"
  by (induction ps arbitrary: r) (auto simp: parsePattern_def Let_def)

section \<open>Properties\<close>

text \<open>
  A tag passes the filter of a repository exactly as the operator says: without conditions
  always, with \<open>Or\<close> when some condition accepts it, with \<open>And\<close> or no operator when all of them do,
  provided that every expression evaluates.
\<close>

theorem filter_by_tag_meaning:
  assumes "\<And>mc. mc \<in> set (rp_MatchConditions r) \<Longrightarrow>
             TagEvaluator_Evaluate L (mc_Expression mc) tag = Inr (v mc)"
    and "rp_MatchOperator r \<in> {[], MatchOperatorAnd, MatchOperatorOr}"
  shows "FilterByTag L (Some r) tag = Inr
    (rp_MatchConditions r = []
     \<or> (if rp_MatchOperator r = MatchOperatorOr then list_ex v (rp_MatchConditions r)
        else list_all v (rp_MatchConditions r)))"
  using assms(2) filterConditions_verdict[of "rp_MatchConditions r" "TagEvaluator_Evaluate L" tag v,
    OF assms(1)]
  by (auto simp: FilterByTag_def Let_def)

definition sample_cel :: "string cel_lib" where
  "sample_cel = \<lparr>cel_Compile = Inr, cel_EstimateCostMax = (\<lambda>ast. Inr (length ast)),
     cel_Program = (\<lambda>ast limit. Inr (\<lambda>tag. Inr (CelBool (HasPrefix tag ast)))),
     cel_OutputIsBool = (\<lambda>ast. True)\<rparr>"

definition sample_or_repository :: Repository where
  "sample_or_repository =
    \<lparr>rp_Name = ''app'',
     rp_MatchConditions = [\<lparr>mc_Name = ''c1'', mc_Expression = ''v1'', mc_Labels = []\<rparr>,
                           \<lparr>mc_Name = ''c2'', mc_Expression = ''v2'', mc_Labels = []\<rparr>],
     rp_MatchOperator = MatchOperatorOr\<rparr>"

theorem filter_by_tag_meaning_witness:
  "FilterByTag sample_cel (Some sample_or_repository) ''v2.0'' = Inr True"
proof -
  have "TagEvaluator_Evaluate sample_cel (mc_Expression mc) ''v2.0''
      = Inr (HasPrefix ''v2.0'' (mc_Expression mc))"
    if "mc \<in> set (rp_MatchConditions sample_or_repository)" for mc
    using that by (auto simp: TagEvaluator_Evaluate_def TagEvaluator_compile_def sample_cel_def
        tagEvaluatorCostLimit_def sample_or_repository_def)
  from filter_by_tag_meaning[of sample_or_repository, OF this] show ?thesis
    by (simp add: sample_or_repository_def HasPrefix_def)
qed

text \<open>
  The skip patterns are split without loss: every pattern that is not blank ends up, trimmed,
  either as a directory with its trailing slash removed or as a file, in the given order, and
  nothing else does.
\<close>

theorem skip_patterns_partition:
  "Parse patterns =
    \<lparr>pr_SkipDirs = map butlast
       (filter (\<lambda>p. p \<noteq> [] \<and> last p = CHR ''/'') (map TrimSpace patterns)),
     pr_SkipFiles = filter (\<lambda>p. p \<noteq> [] \<and> last p \<noteq> CHR ''/'') (map TrimSpace patterns)\<rparr>
   \<and> length (pr_SkipDirs (Parse patterns)) + length (pr_SkipFiles (Parse patterns))
      = length (filter (\<lambda>p. TrimSpace p \<noteq> []) patterns)"
proof -
  have "length (filter (\<lambda>p. p \<noteq> [] \<and> last p = CHR ''/'') qs)
      + length (filter (\<lambda>p. p \<noteq> [] \<and> last p \<noteq> CHR ''/'') qs)
      = length (filter (\<lambda>p. p \<noteq> []) qs)" for qs :: "string list"
    by (induction qs) auto
  from this[of "map TrimSpace patterns"] show ?thesis
    by (simp add: Parse_def Parse_patterns filter_map comp_def)
qed

end
