(* ===== verification/Registry_Client.thy ===== *)
theory Registry_Client
  imports Api_Types
begin

text \<open>
  Access to a registry: which manifests are container images and what the scanner reads from them
  (\<open>src/internal/handlers/registry/client.go\<close>), the CA bundle
  (\<open>src/internal/handlers/cabundle/cabundle.go\<close>) and the credentials
  (\<open>src/internal/handlers/dockerauth/auth.go\<close>).

  The image library is a parameter: the media type predicates and the two manifest parsers are
  fields of \<open>media_lib\<close>; an image of the library is the record of what its methods return.
\<close>

section \<open>Manifests\<close>

record V1Platform =
  vp_OS :: string
  vp_Architecture :: string
  vp_Variant :: string
  vp_String :: string

record Manifest =
  mf_ArtifactType :: string
  mf_ConfigMediaType :: string
  mf_LayerMediaTypes :: "string list"

record IndexEntry =
  ie_Digest :: string
  ie_Platform :: "V1Platform option"

record IndexManifest =
  ix_ArtifactType :: string
  ix_Manifests :: "IndexEntry list"

record Descriptor =
  de_MediaType :: string
  de_Manifest :: string

record media_lib =
  ml_IsImage :: "string \<Rightarrow> bool"
  ml_IsIndex :: "string \<Rightarrow> bool"
  ml_IsConfig :: "string \<Rightarrow> bool"
  ml_IsLayer :: "string \<Rightarrow> bool"
  ml_ParseManifest :: "string \<Rightarrow> Manifest option result"
  ml_ParseIndexManifest :: "string \<Rightarrow> IndexManifest result"

definition IsContainerImageManifest :: "media_lib \<Rightarrow> string \<Rightarrow> Manifest option \<Rightarrow> bool" where
  "IsContainerImageManifest L mediaType manifest =
    (case manifest of
       None \<Rightarrow> False
     | Some m \<Rightarrow>
         if \<not> ml_IsImage L mediaType then False
         else if mf_ArtifactType m \<noteq> [] then False
         else if \<not> ml_IsConfig L (mf_ConfigMediaType m) then False
         else list_all (ml_IsLayer L) (mf_LayerMediaTypes m))"

definition IsContainerImage :: "media_lib \<Rightarrow> Descriptor \<Rightarrow> bool result" where
  "IsContainerImage L desc =
    (if ml_IsIndex L (de_MediaType desc)
     then (case ml_ParseIndexManifest L (de_Manifest desc) of
             Inl err \<Rightarrow> Inl (ErrorWrap ''cannot parse index manifest'' err)
           | Inr index \<Rightarrow> Inr (ix_ArtifactType index = []))
     else if \<not> ml_IsImage L (de_MediaType desc) then Inr False
     else (case ml_ParseManifest L (de_Manifest desc) of
             Inl err \<Rightarrow> Inl (ErrorWrap ''cannot parse manifest'' err)
           | Inr manifest \<Rightarrow> Inr (IsContainerImageManifest L (de_MediaType desc) manifest)))"

section \<open>Image details\<close>

abbreviation ErrNotContainerImage :: string where
  "ErrNotContainerImage \<equiv> ''not a container image''"
abbreviation ErrNoPlatform :: string where "ErrNoPlatform \<equiv> ''no platform found''"

record Layer =
  ly_Digest :: "string result"
  ly_DiffID :: "string result"

record History =
  hi_CreatedBy :: string
  hi_EmptyLayer :: bool

record ConfigFile =
  cf_History :: "History list"
  cf_Platform :: "V1Platform option"

record crane_image =
  ci_MediaType :: "string result"
  ci_Manifest :: "Manifest option result"
  ci_ConfigFile :: "ConfigFile result"
  ci_Digest :: "string result"
  ci_Layers :: "Layer list result"

record ImageDetails =
  id_Digest :: string
  id_Layers :: "Layer list"
  id_History :: "History list"
  id_Platform :: V1Platform

definition imageDetails ::
  "media_lib \<Rightarrow> crane_image \<Rightarrow> V1Platform option \<Rightarrow> string \<Rightarrow> ImageDetails result" where
  "imageDetails L img platform label =
    (case ci_MediaType img of
       Inl err \<Rightarrow> Inl (ErrorWrap (''cannot read media type for '' @ label) err)
     | Inr mediaType \<Rightarrow>
     (case ci_Manifest img of
       Inl err \<Rightarrow> Inl (ErrorWrap (''cannot read manifest for '' @ label) err)
     | Inr manifest \<Rightarrow>
         if \<not> IsContainerImageManifest L mediaType manifest
         then Inl (ErrorWrap label (ErrorSentinel ErrNotContainerImage))
         else
     (case ci_ConfigFile img of
       Inl err \<Rightarrow> Inl (ErrorWrap (''cannot read config for '' @ label) err)
     | Inr cfgFile \<Rightarrow>
     (case ci_Digest img of
       Inl err \<Rightarrow> Inl (ErrorWrap (''cannot compute image digest for '' @ label) err)
     | Inr imageDigest \<Rightarrow>
     (case (if platform = None then cf_Platform cfgFile else platform) of
       None \<Rightarrow> Inl (ErrorWrap label (ErrorSentinel ErrNoPlatform))
     | Some p \<Rightarrow>
     (case ci_Layers img of
       Inl err \<Rightarrow> Inl (ErrorWrap (''cannot read layers for '' @ label) err)
     | Inr layers \<Rightarrow>
         Inr \<lparr>id_Digest = imageDigest, id_Layers = layers, id_History = cf_History cfgFile,
              id_Platform = p\<rparr>))))))"

section \<open>CA bundle and credentials\<close>

record ConfigMap =
  cm_Data :: string_map
  cm_BinaryData :: string_map

record Secret =
  sc_Type :: string
  sc_Data :: string_map

datatype access_call =
    AGetConfigMap NamespacedName
  | AGetSecret NamespacedName
  | AMkdirTemp
  | AStoreCredentials string string string
  | ASaveConfig string
  | ASetenv string string

text \<open>
  The services: the two reads of the API server, the docker configuration library
  (\<open>LoadFromReader\<close>, the credentials store and \<open>Save\<close>), the file system and the environment;
  \<open>ae_validPEM\<close> is \<open>AppendCertsFromPEM\<close> on an empty pool.
\<close>

record access_env =
  ae_GetConfigMap :: "access_call list \<Rightarrow> NamespacedName \<Rightarrow> ConfigMap result"
  ae_GetSecret :: "access_call list \<Rightarrow> NamespacedName \<Rightarrow> Secret result"
  ae_LoadConfig :: "string \<Rightarrow> unit result"
  ae_GetCredentials :: "string \<Rightarrow> string \<Rightarrow> (string \<times> string) result"
  ae_MkdirTemp :: "access_call list \<Rightarrow> string result"
  ae_StoreCredentials :: "access_call list \<Rightarrow> string \<Rightarrow> string \<Rightarrow> string \<Rightarrow> unit result"
  ae_SaveConfig :: "access_call list \<Rightarrow> string \<Rightarrow> unit result"
  ae_Setenv :: "access_call list \<Rightarrow> string \<Rightarrow> string \<Rightarrow> unit result"
  ae_validPEM :: "string \<Rightarrow> bool"
  ae_DefaultRegistry :: string
  ae_DefaultAuthKey :: string

definition keyOrDefault :: "string \<Rightarrow> string" where
  "keyOrDefault key = (if key = [] then ''ca.crt'' else key)"

definition cabundle_validate :: "access_env \<Rightarrow> string \<Rightarrow> string result" where
  "cabundle_validate E bundle =
    (if \<not> ae_validPEM E bundle
     then Inl (ErrorNew ''CA bundle does not contain any valid PEM-encoded certificate'')
     else Inr bundle)"

definition readConfigMapKey ::
  "access_env \<Rightarrow> CABundleKeySelector \<Rightarrow> string \<Rightarrow> (access_call, string result) prog" where
  "readConfigMapKey E selector namespace = do {
     let key = keyOrDefault (ck_Key selector);
     r \<leftarrow> call (\<lambda>h. ae_GetConfigMap E h (namespace, ck_Name selector))
            (AGetConfigMap (namespace, ck_Name selector));
     (case r of
        Inl err \<Rightarrow> fail (ErrorWrap (''cannot get CA bundle ConfigMap '' @ namespace @ ''/''
                                   @ ck_Name selector) err)
      | Inr configMap \<Rightarrow>
          (case map_of (cm_Data configMap) key of
             Some value \<Rightarrow> ok value
           | None \<Rightarrow>
               (case map_of (cm_BinaryData configMap) key of
                  Some value \<Rightarrow> ok value
                | None \<Rightarrow> fail (ErrorNew (''CA bundle ConfigMap '' @ namespace @ ''/''
                            @ ck_Name selector @ '' has no key '' @ key)))))
   }"

definition readSecretKey ::
  "access_env \<Rightarrow> CABundleKeySelector \<Rightarrow> string \<Rightarrow> (access_call, string result) prog" where
  "readSecretKey E selector namespace = do {
     let key = keyOrDefault (ck_Key selector);
     r \<leftarrow> call (\<lambda>h. ae_GetSecret E h (namespace, ck_Name selector))
            (AGetSecret (namespace, ck_Name selector));
     (case r of
        Inl err \<Rightarrow> fail (ErrorWrap (''cannot get CA bundle Secret '' @ namespace @ ''/''
                                   @ ck_Name selector) err)
      | Inr secret \<Rightarrow>
          (case map_of (sc_Data secret) key of
             Some value \<Rightarrow> ok value
           | None \<Rightarrow> fail (ErrorNew (''CA bundle Secret '' @ namespace @ ''/''
                       @ ck_Name selector @ '' has no key '' @ key))))
   }"

definition readRef ::
  "access_env \<Rightarrow> CABundleSource \<Rightarrow> string \<Rightarrow> (access_call, string result) prog" where
  "readRef E ref namespace =
    (case cs_ConfigMap ref of
       Some selector \<Rightarrow> readConfigMapKey E selector namespace
     | None \<Rightarrow>
         (case cs_Secret ref of
            Some selector \<Rightarrow> readSecretKey E selector namespace
          | None \<Rightarrow> fail (ErrorNew ''caBundleRef must reference either a ConfigMap or a Secret'')))"

text \<open>\<open>None\<close> is the \<open>nil\<close> bundle of a registry that configures none.\<close>

definition Resolve ::
  "access_env \<Rightarrow> Registry \<Rightarrow> string \<Rightarrow> (access_call, string option result) prog" where
  "Resolve E registry installationNamespace =
    (if rs_CABundle (rg_Spec registry) \<noteq> []
     then State_Monad.return (map_sum id Some (cabundle_validate E (rs_CABundle (rg_Spec registry))))
     else case rs_CABundleRef (rg_Spec registry) of
       None \<Rightarrow> ok None
     | Some ref \<Rightarrow> do {
         let namespace = (if IsManagedByWorkloadScan registry then installationNamespace
                          else om_Namespace (rg_meta registry));
         bundle \<leftarrow> readRef E ref namespace;
         (case bundle of
            Inl err \<Rightarrow> fail err
          | Inr b \<Rightarrow> State_Monad.return (map_sum id Some (cabundle_validate E b)))
       })"

abbreviation SecretTypeDockerConfigJson :: string where
  "SecretTypeDockerConfigJson \<equiv> ''kubernetes.io/dockerconfigjson''"
abbreviation DockerConfigJsonKey :: string where "DockerConfigJsonKey \<equiv> ''.dockerconfigjson''"

definition createDockerConfigJSON ::
  "access_env \<Rightarrow> string \<Rightarrow> string \<Rightarrow> (access_call, string result) prog" where
  "createDockerConfigJSON E serverAddress data =
    (case ae_LoadConfig E data of
       Inl err \<Rightarrow> fail (ErrorWrap ''failed to load docker config'' err)
     | Inr _ \<Rightarrow>
         (let address = (if serverAddress = ae_DefaultRegistry E then ae_DefaultAuthKey E
                         else serverAddress)
          in case ae_GetCredentials E data address of
               Inl err \<Rightarrow> fail (ErrorWrap ''failed to get credentials from store'' err)
             | Inr (username, password) \<Rightarrow> do {
                 dir \<leftarrow> call (ae_MkdirTemp E) AMkdirTemp;
                 (case dir of
                    Inl err \<Rightarrow>
                      fail (ErrorWrap ''failed to create temporary dockerconfig dir'' err)
                  | Inr dockerConfig \<Rightarrow> do {
                      stored \<leftarrow> call (\<lambda>h. ae_StoreCredentials E h address username password)
                                  (AStoreCredentials address username password);
                      (case stored of
                         Inl err \<Rightarrow> fail (ErrorWrap ''failed to store credentials'' err)
                       | Inr _ \<Rightarrow> do {
                           saved \<leftarrow> call (\<lambda>h. ae_SaveConfig E h (dockerConfig @ ''/config.json''))
                                      (ASaveConfig (dockerConfig @ ''/config.json''));
                           (case saved of
                              Inl err \<Rightarrow> fail (ErrorWrap ''failed to save docker config'' err)
                            | Inr _ \<Rightarrow> ok dockerConfig)
                         })
                    })
               }))"

definition BuildDockerConfigForRegistry ::
  "access_env \<Rightarrow> Registry \<Rightarrow> string \<Rightarrow> (access_call, string result) prog" where
  "BuildDockerConfigForRegistry E registry installationNamespace = do {
     let secretNamespace = (if IsManagedByWorkloadScan registry then installationNamespace
                            else om_Namespace (rg_meta registry));
     let key = (secretNamespace, rs_AuthSecret (rg_Spec registry));
     r \<leftarrow> call (\<lambda>h. ae_GetSecret E h key) (AGetSecret key);
     (case r of
        Inl err \<Rightarrow> fail (ErrorWrap (''cannot get Secret '' @ rs_AuthSecret (rg_Spec registry)) err)
      | Inr authSecret \<Rightarrow>
          if sc_Type authSecret \<noteq> SecretTypeDockerConfigJson
          then fail (ErrorNew (''secret is not of type '' @ SecretTypeDockerConfigJson))
          else do {
            created \<leftarrow> createDockerConfigJSON E (rs_URI (rg_Spec registry))
                         (map_index (sc_Data authSecret) DockerConfigJsonKey);
            (case created of
               Inl err \<Rightarrow> fail (ErrorWrap ''cannot create dockerconfig file'' err)
             | Inr dockerConfig \<Rightarrow> do {
                 s \<leftarrow> call (\<lambda>h. ae_Setenv E h ''DOCKER_CONFIG'' dockerConfig)
                        (ASetenv ''DOCKER_CONFIG'' dockerConfig);
                 (case s of
                    Inl err \<Rightarrow> fail (ErrorWrap ''cannot set DOCKER_CONFIG env'' err)
                  | Inr _ \<Rightarrow> ok dockerConfig)
               })
          })
   }"

section \<open>Lemmas\<close>

text \<open>The namespace in which objects named by a registry are looked up.\<close>

definition lookup_namespace :: "Registry \<Rightarrow> string \<Rightarrow> string" where
  "lookup_namespace registry installationNamespace =
    (if IsManagedByWorkloadScan registry then installationNamespace
     else om_Namespace (rg_meta registry))"

fun reads_in :: "string \<Rightarrow> access_call \<Rightarrow> bool" where
  "reads_in ns (AGetConfigMap k) = (fst k = ns)"
| "reads_in ns (AGetSecret k) = (fst k = ns)"
| "reads_in ns _ = True"

lemma emits_readRef: "emits (reads_in ns) (readRef E ref ns)"
  unfolding readRef_def readConfigMapKey_def readSecretKey_def Let_def
  by (intro emits_intros) simp_all

lemma emits_Resolve: "emits (reads_in (lookup_namespace registry ns)) (Resolve E registry ns)"
  unfolding Resolve_def Let_def lookup_namespace_def
  by (intro emits_intros emits_readRef)

lemma emits_BuildDockerConfig:
  "emits (reads_in (lookup_namespace registry ns)) (BuildDockerConfigForRegistry E registry ns)"
  unfolding BuildDockerConfigForRegistry_def createDockerConfigJSON_def Let_def lookup_namespace_def
  by (intro emits_intros) simp_all

section \<open>Properties\<close>

text \<open>
  A manifest counts as a container image exactly when its media type is an image manifest, it
  has no artifact type, its configuration is an image configuration and every layer is an image
  layer.  What the scanner reads from an image comes from such a manifest: the digest, the layers
  and the history are the ones of the image, and the platform is the requested one or, when none
  was requested, the one of the configuration.
\<close>

theorem image_details_of_container_image:
  "imageDetails L img platform label = Inr d \<longleftrightarrow>
    (case (ci_MediaType img, ci_Manifest img, ci_ConfigFile img) of
       (Inr mediaType, Inr (Some m), Inr cfg) \<Rightarrow>
         ml_IsImage L mediaType \<and> mf_ArtifactType m = [] \<and> ml_IsConfig L (mf_ConfigMediaType m)
         \<and> list_all (ml_IsLayer L) (mf_LayerMediaTypes m)
         \<and> ci_Digest img = Inr (id_Digest d) \<and> ci_Layers img = Inr (id_Layers d)
         \<and> id_History d = cf_History cfg
         \<and> (if platform = None then cf_Platform cfg else platform) = Some (id_Platform d)
     | _ \<Rightarrow> False)"
  unfolding imageDetails_def IsContainerImageManifest_def
  by (cases d) (auto split: sum.splits option.splits if_splits)

text \<open>
  Secrets and config maps named by a registry are never read across namespaces: the CA bundle
  and the credentials of a registry are looked up in its own namespace, and in the installation
  namespace when and only when the workload scan manages the registry.
\<close>

theorem registry_reads_one_namespace:
  "list_all (reads_in (if IsManagedByWorkloadScan registry then installationNamespace
                       else om_Namespace (rg_meta registry)))
     (calls (Resolve E registry installationNamespace)
      @ calls (BuildDockerConfigForRegistry E registry installationNamespace))"
  unfolding list_all_append list_all_iff lookup_namespace_def[symmetric]
  using emits_calls[OF emits_Resolve] emits_calls[OF emits_BuildDockerConfig] by auto

end
