(* ===== verification/ScanJob_Controller.thy ===== *)
theory ScanJob_Controller
  imports Job_Lifecycle
begin

text \<open>
  The controllers that drive a ScanJob, \<open>src/internal/controller/scanjob_controller.go\<close> and
  \<open>src/internal/controller/vulnerabilityreport_controller.go\<close>, with the messages of
  \<open>src/internal/handlers/messages.go\<close> and the registry snapshot of
  \<open>src/internal/handlers/registry_snapshot.go\<close>.

  The Kubernetes client decodes the answer of a write into the object that was written, so the
  answer of \<open>Patch\<close> and \<open>Status().Update\<close> is the object in memory after the call.
\<close>

section \<open>Messages\<close>

abbreviation GenerateSBOMSubject :: string where
  "GenerateSBOMSubject \<equiv> ''sbomscanner.sbom.generate''"
abbreviation ScanSBOMSubject :: string where "ScanSBOMSubject \<equiv> ''sbomscanner.sbom.scan''"
abbreviation CreateCatalogSubject :: string where
  "CreateCatalogSubject \<equiv> ''sbomscanner.catalog.create''"
abbreviation GenerateNodeSBOMSubject :: string where
  "GenerateNodeSBOMSubject \<equiv> ''sbomscanner.nodesbom.generate''"
abbreviation ScanNodeSBOMSubject :: string where
  "ScanNodeSBOMSubject \<equiv> ''sbomscanner.nodesbom.scan''"

record ObjectRef =
  ob_Name :: string
  ob_Namespace :: string
  ob_UID :: string

record BaseMessage =
  bm_ScanJob :: ObjectRef

type_synonym CreateCatalogMessage = BaseMessage

record GenerateSBOMMessage = BaseMessage +
  gm_Image :: ObjectRef

record ScanSBOMMessage = BaseMessage +
  sm_SBOM :: ObjectRef

record NodeBaseMessage =
  nb_NodeScanJob :: ObjectRef

record GenerateNodeSBOMMessage = NodeBaseMessage +
  gn_Node :: ObjectRef

record ScanNodeSBOMMessage = NodeBaseMessage +
  sn_NodeSBOM :: ObjectRef

section \<open>The registry snapshot\<close>

text \<open>\<open>json.Unmarshal\<close> into a Registry is the first argument.\<close>

definition registryFromScanJob ::
  "(string \<Rightarrow> Registry result) \<Rightarrow> ScanJob \<Rightarrow> Registry result" where
  "registryFromScanJob unmarshal scanJob =
    (let m = sj_meta scanJob; here = om_Namespace m @ ''/'' @ om_Name m
     in case map_of (om_Annotations m) AnnotationScanJobRegistryKey of
          None \<Rightarrow> Inl (ErrorNew (''scan job '' @ here @ '' does not have a registry annotation''))
        | Some registryData \<Rightarrow>
            (case unmarshal registryData of
               Inl err \<Rightarrow>
                 Inl (ErrorWrap (''cannot unmarshal registry data from scan job '' @ here) err)
             | Inr registry \<Rightarrow>
                 if om_Namespace (rg_meta registry) \<noteq> om_Namespace m
                    \<or> om_Name (rg_meta registry) \<noteq> sp_Registry (sj_Spec scanJob)
                 then Inl (ErrorNew (''registry annotation of scan job '' @ here
                        @ '' refers to registry '' @ om_Namespace (rg_meta registry) @ ''/''
                        @ om_Name (rg_meta registry) @ '', expected '' @ om_Namespace m @ ''/''
                        @ sp_Registry (sj_Spec scanJob)))
                 else Inr registry))"

section \<open>Validation of the targets\<close>

text \<open>
  The loops of \<open>validateScanJobTargets\<close>: \<open>None\<close> when everything is declared, otherwise the reason and
  the message of the first target that is not.  \<open>quote\<close> is the \<open>%q\<close> verb of \<open>fmt\<close>.
\<close>

primrec validateConditions ::
  "(string \<Rightarrow> string) \<Rightarrow> Registry \<Rightarrow> string \<Rightarrow> Repository \<Rightarrow> string list
     \<Rightarrow> (string \<times> string) option" where
  "validateConditions quote registry target repository [] = None"
| "validateConditions quote registry target repository (conditionName # names) =
    (if \<not> list_ex (\<lambda>mc. mc_Name mc = conditionName) (rp_MatchConditions repository)
     then Some (ReasonScanJobMatchConditionNotFound,
                ''match condition '' @ quote conditionName @ '' is not declared on repository ''
                @ quote target @ '' of registry '' @ quote (om_Name (rg_meta registry)))
     else validateConditions quote registry target repository names)"

primrec validateTargets ::
  "(string \<Rightarrow> string) \<Rightarrow> string \<Rightarrow> Registry \<Rightarrow> ScanJobRepository list
     \<Rightarrow> (string \<times> string) option" where
  "validateTargets quote D registry [] = None"
| "validateTargets quote D registry (target # targets) =
    (case GetRepository D registry (sr_Name target) of
       None \<Rightarrow> Some (ReasonScanJobRepositoryNotFound,
                     ''repository '' @ quote (sr_Name target) @ '' is not declared on registry ''
                     @ quote (om_Name (rg_meta registry)))
     | Some repository \<Rightarrow>
         (case validateConditions quote registry (sr_Name target) repository
                 (sr_MatchConditions target) of
            Some e \<Rightarrow> Some e
          | None \<Rightarrow> validateTargets quote D registry targets))"

definition validateScanJobTargets ::
  "(string \<Rightarrow> string) \<Rightarrow> string \<Rightarrow> ScanJob \<Rightarrow> Registry \<Rightarrow> (string \<times> string) option" where
  "validateScanJobTargets quote D scanJob registry =
    validateTargets quote D registry (sp_Repositories (sj_Spec scanJob))"

section \<open>The ScanJob controller\<close>

datatype scanjob_call =
    SJGetScanJob NamespacedName
  | SJListScanJobs string string
  | SJDeleteScanJob ScanJob
  | SJGetRegistry NamespacedName
  | SJPatchScanJob ScanJob ScanJob
  | SJPublish string string string
  | SJUpdateStatus ScanJob
  | SJNow
  | SJMetric "string \<times> string"

record scanjob_env =
  se_GetScanJob :: "scanjob_call list \<Rightarrow> NamespacedName \<Rightarrow> ScanJob result"
  se_ListScanJobs :: "scanjob_call list \<Rightarrow> string \<Rightarrow> string \<Rightarrow> ScanJob list result"
  se_DeleteScanJob :: "scanjob_call list \<Rightarrow> ScanJob \<Rightarrow> unit result"
  se_GetRegistry :: "scanjob_call list \<Rightarrow> NamespacedName \<Rightarrow> Registry result"
  se_PatchScanJob :: "scanjob_call list \<Rightarrow> ScanJob \<Rightarrow> ScanJob \<Rightarrow> ScanJob result"
  se_Publish :: "scanjob_call list \<Rightarrow> string \<Rightarrow> string \<Rightarrow> string \<Rightarrow> unit result"
  se_UpdateStatus :: "scanjob_call list \<Rightarrow> ScanJob \<Rightarrow> ScanJob result"
  se_Now :: "scanjob_call list \<Rightarrow> time"
  se_meta :: meta_lib
  se_parseTime :: "string \<Rightarrow> time option"
  se_sort :: "ScanJob sorter"
  se_quote :: "string \<Rightarrow> string"
  se_DefaultRegistry :: string
  se_marshalRegistry :: "Registry \<Rightarrow> string result"
  se_marshalMessage :: "CreateCatalogMessage \<Rightarrow> string result"
  se_SetControllerReference :: "Registry \<Rightarrow> ScanJob \<Rightarrow> ScanJob result"

definition scanJobsHistoryLimit :: nat where
  "scanJobsHistoryLimit = 10"

text \<open>The body of the loop that deletes the oldest jobs.\<close>

definition deleteOldScanJob :: "scanjob_env \<Rightarrow> ScanJob \<Rightarrow> (scanjob_call, unit result) prog" where
  "deleteOldScanJob E scanJob = do {
     r \<leftarrow> call (\<lambda>h. se_DeleteScanJob E h scanJob) (SJDeleteScanJob scanJob);
     (case r of
        Inl err \<Rightarrow> fail (ErrorWrap (''failed to delete old ScanJob '' @ om_Name (sj_meta scanJob)) err)
      | Inr _ \<Rightarrow> ok ())
   }"

definition cleanupOldScanJobs :: "scanjob_env \<Rightarrow> ScanJob \<Rightarrow> (scanjob_call, unit result) prog" where
  "cleanupOldScanJobs E currentScanJob = do {
     let ns = om_Namespace (sj_meta currentScanJob);
     let reg = sp_Registry (sj_Spec currentScanJob);
     scanJobList \<leftarrow> call (\<lambda>h. se_ListScanJobs E h ns reg) (SJListScanJobs ns reg);
     (case scanJobList of
        Inl err \<Rightarrow> fail (ErrorWrap (''failed to list ScanJobs for registry '' @ reg) err)
      | Inr items \<Rightarrow>
          if length items \<le> scanJobsHistoryLimit then ok ()
          else
            (let sorted = se_sort E
                   (\<lambda>i j. ScanJob_GetCreationTimestampFromAnnotation (se_parseTime E) i
                            < ScanJob_GetCreationTimestampFromAnnotation (se_parseTime E) j) items;
                 scanJobsToDelete = length items - scanJobsHistoryLimit
             in for_each (deleteOldScanJob E) (take scanJobsToDelete sorted)))
   }"

text \<open>
  The annotation with the snapshot is written with a patch, which triggers a new reconciliation.
  The first component of the result is the object in memory.
\<close>

definition patchRegistrySnapshot ::
  "scanjob_env \<Rightarrow> Registry \<Rightarrow> ScanJob \<Rightarrow> (scanjob_call, ScanJob \<times> unit result) prog" where
  "patchRegistrySnapshot E registry scanJob =
    (case se_marshalRegistry E registry of
       Inl err \<Rightarrow> State_Monad.return
         (scanJob, Inl (ErrorWrap ''failed to marshal registry data'' err))
     | Inr registryData \<Rightarrow>
         (case se_SetControllerReference E registry scanJob of
            Inl err \<Rightarrow> State_Monad.return
              (scanJob, Inl (ErrorWrap ''failed to set owner reference on ScanJob'' err))
          | Inr owned \<Rightarrow> do {
              let annotated = owned\<lparr>sj_meta := (sj_meta owned)
                \<lparr>om_Annotations := AList.update AnnotationScanJobRegistryKey registryData
                   (om_Annotations (sj_meta owned))\<rparr>\<rparr>;
              r \<leftarrow> call (\<lambda>h. se_PatchScanJob E h scanJob annotated) (SJPatchScanJob scanJob annotated);
              (case r of
                 Inl err \<Rightarrow> State_Monad.return
                   (annotated, Inl (ErrorWrap ''failed to update ScanJob with registry data'' err))
               | Inr patched \<Rightarrow> State_Monad.return (patched, Inr ()))
            }))"

definition publishCreateCatalog ::
  "scanjob_env \<Rightarrow> ScanJob \<Rightarrow> (scanjob_call, ScanJob \<times> unit result) prog" where
  "publishCreateCatalog E scanJob = do {
     let messageID = ''createCatalog/'' @ om_UID (sj_meta scanJob);
     (case se_marshalMessage E \<lparr>bm_ScanJob = \<lparr>ob_Name = om_Name (sj_meta scanJob),
              ob_Namespace = om_Namespace (sj_meta scanJob), ob_UID = om_UID (sj_meta scanJob)\<rparr>\<rparr> of
        Inl err \<Rightarrow> State_Monad.return
          (scanJob, Inl (ErrorWrap ''unable to marshal CreateCatalog message'' err))
      | Inr message \<Rightarrow> do {
          r \<leftarrow> call (\<lambda>h. se_Publish E h CreateCatalogSubject messageID message)
                 (SJPublish CreateCatalogSubject messageID message);
          (case r of
             Inl err \<Rightarrow> State_Monad.return
               (scanJob, Inl (ErrorWrap ''unable to publish CreateSBOM message'' err))
           | Inr _ \<Rightarrow> do {
               now \<leftarrow> call (se_Now E) SJNow;
               State_Monad.return
                 (ScanJob_MarkScheduled (se_meta E) now ReasonScanJobScheduled
                    ''ScanJob has been scheduled for processing by the controller'' scanJob, Inr ())
             })
        })
   }"

definition reconcileScanJob ::
  "scanjob_env \<Rightarrow> ScanJob \<Rightarrow> (scanjob_call, ScanJob \<times> unit result) prog" where
  "reconcileScanJob E scanJob = do {
     cleaned \<leftarrow> cleanupOldScanJobs E scanJob;
     (case cleaned of
        Inl err \<Rightarrow> State_Monad.return
          (scanJob, Inl (ErrorWrap ''failed to cleanup old ScanJobs'' err))
      | Inr _ \<Rightarrow> do {
          let key = (om_Namespace (sj_meta scanJob), sp_Registry (sj_Spec scanJob));
          got \<leftarrow> call (\<lambda>h. se_GetRegistry E h key) (SJGetRegistry key);
          (case got of
             Inl err \<Rightarrow>
               if IsNotFound err
               then do {
                 now \<leftarrow> call (se_Now E) SJNow;
                 State_Monad.return
                   (ScanJob_MarkFailed (se_meta E) now ReasonScanJobRegistryNotFound
                      (''Registry '' @ sp_Registry (sj_Spec scanJob) @ '' not found'') scanJob,
                    Inr ())
               }
               else State_Monad.return
                 (scanJob, Inl (ErrorWrap (''unable to get Registry ''
                                            @ sp_Registry (sj_Spec scanJob)) err))
           | Inr registry \<Rightarrow>
               (case validateScanJobTargets (se_quote E) (se_DefaultRegistry E) scanJob registry of
                  Some (reason, message) \<Rightarrow> do {
                    now \<leftarrow> call (se_Now E) SJNow;
                    State_Monad.return
                      (ScanJob_MarkFailed (se_meta E) now reason message scanJob, Inr ())
                  }
                | None \<Rightarrow>
                    if map_of (om_Annotations (sj_meta scanJob)) AnnotationScanJobRegistryKey = None
                    then patchRegistrySnapshot E registry scanJob
                    else publishCreateCatalog E scanJob))
        })
   }"

text \<open>The counter of finished jobs, incremented after a successful status update.\<close>

definition recordScanJobFinished :: "meta_lib \<Rightarrow> ScanJob \<Rightarrow> (scanjob_call, unit) prog" where
  "recordScanJobFinished M scanJob =
    (case RecordScanJobFinished M scanJob of
       None \<Rightarrow> State_Monad.return ()
     | Some labels \<Rightarrow> call (\<lambda>h. ()) (SJMetric labels))"

definition ScanJobReconciler_Reconcile ::
  "scanjob_env \<Rightarrow> NamespacedName \<Rightarrow> (scanjob_call, unit result) prog" where
  "ScanJobReconciler_Reconcile E req = do {
     got \<leftarrow> call (\<lambda>h. se_GetScanJob E h req) (SJGetScanJob req);
     (case got of
        Inl err \<Rightarrow>
          if IsNotFound err then ok () else fail (ErrorWrap ''unable to get ScanJob'' err)
      | Inr scanJob \<Rightarrow>
          if om_DeletionTimestamp (sj_meta scanJob) \<noteq> None then ok ()
          else if \<not> ScanJob_IsPending (se_meta E) scanJob then ok ()
          else do {
            now \<leftarrow> call (se_Now E) SJNow;
            reconciled \<leftarrow> reconcileScanJob E (ScanJob_InitializeConditions (se_meta E) now scanJob);
            (case reconciled of
               (scanJob', reconcileErr) \<Rightarrow> do {
                 updated \<leftarrow> call (\<lambda>h. se_UpdateStatus E h scanJob') (SJUpdateStatus scanJob');
                 (case updated of
                    Inl err \<Rightarrow> fail (ErrorWrap ''failed to update ScanJob status'' err)
                  | Inr persisted \<Rightarrow> do {
                      _ \<leftarrow> recordScanJobFinished (se_meta E) persisted;
                      State_Monad.return reconcileErr
                    })
               })
          })
   }"

section \<open>The VulnerabilityReport controller\<close>

datatype vulnreport_call =
    VRGetReport NamespacedName
  | VRListScanJobsByUID string
  | VRListReports string string
  | VRUpdateStatus ScanJob
  | VRNow
  | VRMetric "string \<times> string"

text \<open>The reports are read as partial objects: only their metadata.\<close>

record vulnreport_env =
  ve_GetReport :: "vulnreport_call list \<Rightarrow> NamespacedName \<Rightarrow> ObjectMeta result"
  ve_ListScanJobsByUID :: "vulnreport_call list \<Rightarrow> string \<Rightarrow> ScanJob list result"
  ve_ListReports :: "vulnreport_call list \<Rightarrow> string \<Rightarrow> string \<Rightarrow> ObjectMeta list result"
  ve_UpdateStatus :: "vulnreport_call list \<Rightarrow> ScanJob \<Rightarrow> ScanJob result"
  ve_Now :: "vulnreport_call list \<Rightarrow> time"
  ve_meta :: meta_lib

definition scannedStatus :: "meta_lib \<Rightarrow> time \<Rightarrow> nat \<Rightarrow> ScanJob \<Rightarrow> ScanJob" where
  "scannedStatus M now reports scanJob =
    (let counted = scanJob\<lparr>sj_Status := (sj_Status scanJob)
                     \<lparr>ss_ScannedImagesCount := int reports\<rparr>\<rparr>
     in if ScanJob_IsFailed M counted then counted
        else if ss_ScannedImagesCount (sj_Status counted) = ss_ImagesCount (sj_Status counted)
        then ScanJob_MarkComplete M now ReasonScanJobAllImagesScanned
               ''All images scanned successfully'' counted
        else ScanJob_MarkInProgress M now ReasonScanJobImageScanInProgress
               ''Image scan in progress'' counted)"

definition VulnerabilityReportReconciler_Reconcile ::
  "vulnreport_env \<Rightarrow> NamespacedName \<Rightarrow> (vulnreport_call, unit result) prog" where
  "VulnerabilityReportReconciler_Reconcile E req = do {
     got \<leftarrow> call (\<lambda>h. ve_GetReport E h req) (VRGetReport req);
     (case got of
        Inl err \<Rightarrow>
          if \<not> IsNotFound err
          then fail (ErrorWrap ''unable to fetch the VulnerabilityReport'' err) else ok ()
      | Inr report \<Rightarrow>
          if om_DeletionTimestamp report \<noteq> None then ok ()
          else (case map_of (om_Labels report) LabelScanJobUIDKey of
            None \<Rightarrow> ok ()
          | Some scanJobUID \<Rightarrow> do {
              scanJobs \<leftarrow> call (\<lambda>h. ve_ListScanJobsByUID E h scanJobUID)
                            (VRListScanJobsByUID scanJobUID);
              (case scanJobs of
                 Inl err \<Rightarrow>
                   fail (ErrorWrap (''failed to get ScanJob by UID '' @ scanJobUID) err)
               | Inr [] \<Rightarrow> ok ()
               | Inr (scanJob # _) \<Rightarrow>
                   if ScanJob_IsComplete (ve_meta E) scanJob then ok ()
                   else do {
                     reports \<leftarrow> call (\<lambda>h. ve_ListReports E h (fst req) scanJobUID)
                                  (VRListReports (fst req) scanJobUID);
                     (case reports of
                        Inl err \<Rightarrow> fail (ErrorWrap ''failed to list VulnerabilityReports'' err)
                      | Inr items \<Rightarrow> do {
                          now \<leftarrow> call (ve_Now E) VRNow;
                          let wasFailed = ScanJob_IsFailed (ve_meta E) scanJob;
                          let scanJob' = scannedStatus (ve_meta E) now (length items) scanJob;
                          updated \<leftarrow> call (\<lambda>h. ve_UpdateStatus E h scanJob') (VRUpdateStatus scanJob');
                          (case updated of
                             Inl err \<Rightarrow> fail (ErrorWrap ''failed to update ScanJob status'' err)
                           | Inr persisted \<Rightarrow>
                               (case (if wasFailed then None
                                      else RecordScanJobFinished (ve_meta E) persisted) of
                                  None \<Rightarrow> ok ()
                                | Some labels \<Rightarrow> do {
                                    _ \<leftarrow> call (\<lambda>h. ()) (VRMetric labels);
                                    ok ()
                                  }))
                        })
                   })
            }))
   }"

section \<open>Lemmas on validation\<close>

text \<open>What it means that every target of a job is declared on the registry.\<close>

definition target_declared :: "string \<Rightarrow> Registry \<Rightarrow> ScanJobRepository \<Rightarrow> bool" where
  "target_declared D registry target \<longleftrightarrow>
    (\<exists>repository. GetRepository D registry (sr_Name target) = Some repository
       \<and> set (sr_MatchConditions target) \<subseteq> mc_Name ` set (rp_MatchConditions repository))"

lemma validateConditions_None:
  "validateConditions q registry t repository names = None
    \<longleftrightarrow> set names \<subseteq> mc_Name ` set (rp_MatchConditions repository)"
  by (induction names) (auto simp: list_ex_iff)

lemma validateTargets_None:
  "validateTargets q D registry targets = None
    \<longleftrightarrow> list_all (target_declared D registry) targets"
proof (induction targets)
  case (Cons t ts)
  have "target_declared D registry t \<longleftrightarrow>
      (\<exists>rp. GetRepository D registry (sr_Name t) = Some rp
         \<and> validateConditions q registry (sr_Name t) rp (sr_MatchConditions t) = None)"
    by (simp add: target_declared_def validateConditions_None)
  with Cons show ?case by (auto split: option.splits)
qed simp

lemma validateConditions_reason:
  "validateConditions q registry t repository names = Some (reason, message)
    \<Longrightarrow> reason = ReasonScanJobMatchConditionNotFound"
  by (induction names) (auto split: if_splits)

lemma validateTargets_reason:
  "validateTargets q D registry targets = Some (reason, message) \<Longrightarrow>
    reason = ReasonScanJobRepositoryNotFound \<or> reason = ReasonScanJobMatchConditionNotFound"
  by (induction targets) (auto split: option.splits dest: validateConditions_reason)

section \<open>Lemmas on the cleanup\<close>

definition deleted_jobs :: "scanjob_call list \<Rightarrow> ScanJob list" where
  "deleted_jobs cs =
    List.map_filter (\<lambda>c. case c of SJDeleteScanJob j \<Rightarrow> Some j | _ \<Rightarrow> None) cs"

lemma deleted_jobs_append: "deleted_jobs (xs @ ys) = deleted_jobs xs @ deleted_jobs ys"
  by (simp add: deleted_jobs_def map_filter_def)

lemma deleted_jobs_map: "deleted_jobs (map SJDeleteScanJob js) = js"
  by (induction js) (simp_all add: deleted_jobs_def map_filter_simps)

lemma deleted_jobs_list: "deleted_jobs (SJListScanJobs ns reg # cs) = deleted_jobs cs"
  by (simp add: deleted_jobs_def map_filter_simps)

lemma run_deletes:
  assumes "\<And>h j. se_DeleteScanJob E h j = Inr ()"
  shows "run_state (for_each (deleteOldScanJob E) js) h = (Inr (), h @ map SJDeleteScanJob js)"
  by (induction js arbitrary: h) (simp_all add: assms deleteOldScanJob_def)

text \<open>A sorted list split at a position: everything before is at most everything after.\<close>

lemma sorter_split:
  fixes f :: "'a \<Rightarrow> int"
  assumes "sorter_contract srt" "ys = srt (\<lambda>i j. f i < f j) xs"
  shows "mset xs = mset (take n ys) + mset (drop n ys)"
    and "\<lbrakk>d \<in> set (take n ys); k \<in> set (drop n ys)\<rbrakk> \<Longrightarrow> f d \<le> f k"
proof -
  have ys: "mset ys = mset xs" "sorted_wrt (\<lambda>x y. \<not> f y < f x) ys"
    using assms strict_weak_key[of f] unfolding sorter_contract_def by blast+
  show "mset xs = mset (take n ys) + mset (drop n ys)"
    by (metis append_take_drop_id mset_append ys(1))
  have "sorted_wrt (\<lambda>x y. \<not> f y < f x) (take n ys @ drop n ys)"
    using ys(2) by simp
  then show "\<lbrakk>d \<in> set (take n ys); k \<in> set (drop n ys)\<rbrakk> \<Longrightarrow> f d \<le> f k"
    unfolding sorted_wrt_append by fastforce
qed

section \<open>Lemmas on the reconciliation\<close>

fun is_cleanup :: "scanjob_call \<Rightarrow> bool" where
  "is_cleanup (SJListScanJobs _ _) = True"
| "is_cleanup (SJDeleteScanJob _) = True"
| "is_cleanup _ = False"

lemma emits_cleanup: "emits is_cleanup (cleanupOldScanJobs E job)"
  unfolding cleanupOldScanJobs_def deleteOldScanJob_def Let_def
  by (intro emits_intros) simp_all

text \<open>\<open>controllerutil.SetControllerReference\<close> writes the owner references and nothing else.\<close>

definition owner_contract :: "scanjob_env \<Rightarrow> bool" where
  "owner_contract E \<longleftrightarrow>
    (\<forall>r j j'. se_SetControllerReference E r j = Inr j' \<longrightarrow>
       (\<exists>refs. j' = j\<lparr>sj_meta := (sj_meta j)\<lparr>om_OwnerReferences := refs\<rparr>\<rparr>))"

text \<open>
  The outcomes of \<open>reconcileScanJob\<close> on the job \<open>j\<close>, as the job \<open>s\<close> in memory and the error after the
  history \<open>h\<close>: nothing changed and an error, the job failed because the registry or a target does
  not exist, the snapshot was patched in, or the message was published and the job is scheduled.
\<close>

inductive reconcile_outcome ::
  "scanjob_env \<Rightarrow> ScanJob \<Rightarrow> ScanJob \<Rightarrow> unit result \<Rightarrow> scanjob_call list \<Rightarrow> bool" for E j where
  outcome_error: "sj_Status s = sj_Status j \<Longrightarrow> reconcile_outcome E j s (Inl e) h"
| outcome_no_registry:
    "\<lbrakk>se_GetRegistry E h (om_Namespace (sj_meta j), sp_Registry (sj_Spec j)) = Inl e; IsNotFound e\<rbrakk>
     \<Longrightarrow> reconcile_outcome E j
          (ScanJob_MarkFailed (se_meta E) now ReasonScanJobRegistryNotFound
             (''Registry '' @ sp_Registry (sj_Spec j) @ '' not found'') j) (Inr ())
          (h @ SJGetRegistry (om_Namespace (sj_meta j), sp_Registry (sj_Spec j)) # t)"
| outcome_bad_target:
    "\<lbrakk>se_GetRegistry E h (om_Namespace (sj_meta j), sp_Registry (sj_Spec j)) = Inr registry;
      validateScanJobTargets (se_quote E) (se_DefaultRegistry E) j registry
        = Some (reason, message)\<rbrakk>
     \<Longrightarrow> reconcile_outcome E j (ScanJob_MarkFailed (se_meta E) now reason message j) (Inr ())
          (h @ SJGetRegistry (om_Namespace (sj_meta j), sp_Registry (sj_Spec j)) # t)"
| outcome_patched:
    "\<lbrakk>map_of (om_Annotations (sj_meta j)) AnnotationScanJobRegistryKey = None;
      se_PatchScanJob E h old new = Inr s\<rbrakk>
     \<Longrightarrow> reconcile_outcome E j s (Inr ()) (h @ SJPatchScanJob old new # t)"
| outcome_scheduled:
    "\<lbrakk>map_of (om_Annotations (sj_meta j)) AnnotationScanJobRegistryKey \<noteq> None;
      se_Publish E h CreateCatalogSubject (''createCatalog/'' @ om_UID (sj_meta j)) message
        = Inr ()\<rbrakk>
     \<Longrightarrow> reconcile_outcome E j
          (ScanJob_MarkScheduled (se_meta E) now ReasonScanJobScheduled
             ''ScanJob has been scheduled for processing by the controller'' j) (Inr ())
          (h @ SJPublish CreateCatalogSubject (''createCatalog/'' @ om_UID (sj_meta j)) message # t)"

lemma publish_outcome:
  assumes "map_of (om_Annotations (sj_meta j)) AnnotationScanJobRegistryKey \<noteq> None"
    and "run_state (publishCreateCatalog E j) h = ((s, r), h')"
  shows "reconcile_outcome E j s r h'"
proof -
  let ?id = "''createCatalog/'' @ om_UID (sj_meta j)"
  let ?m = "se_marshalMessage E \<lparr>bm_ScanJob = \<lparr>ob_Name = om_Name (sj_meta j),
              ob_Namespace = om_Namespace (sj_meta j), ob_UID = om_UID (sj_meta j)\<rparr>\<rparr>"
  show ?thesis
  proof (cases ?m)
    case (Inl e)
    with assms(2) show ?thesis
      unfolding publishCreateCatalog_def Let_def by (auto intro: outcome_error)
  next
    case (Inr message)
    show ?thesis
    proof (cases "se_Publish E h CreateCatalogSubject ?id message")
      case (Inl e)
      with Inr assms(2) show ?thesis
        unfolding publishCreateCatalog_def Let_def by (auto intro: outcome_error)
    next
      case ok: (Inr u)
      from outcome_scheduled[where t = "[SJNow]" and h = h and message = message and E = E,
          OF assms(1)] ok Inr assms(2)
      show ?thesis
        unfolding publishCreateCatalog_def Let_def by auto
    qed
  qed
qed

lemma patch_outcome:
  assumes "owner_contract E"
    and "map_of (om_Annotations (sj_meta j)) AnnotationScanJobRegistryKey = None"
    and "run_state (patchRegistrySnapshot E registry j) h = ((s, r), h')"
  shows "reconcile_outcome E j s r h'"
proof (cases r)
  case (Inl e)
  have owned: "sj_Status j' = sj_Status j" if "se_SetControllerReference E registry j = Inr j'" for j'
    using assms(1) that unfolding owner_contract_def by fastforce
  from Inl have "sj_Status s = sj_Status j"
    using assms(3) unfolding patchRegistrySnapshot_def Let_def
    by (auto split: sum.splits simp: owned)
  with Inl show ?thesis by (simp add: outcome_error)
next
  case (Inr u)
  then have "\<exists>old new. h' = h @ [SJPatchScanJob old new] \<and> se_PatchScanJob E h old new = Inr s"
    using assms(3) unfolding patchRegistrySnapshot_def Let_def by (auto split: sum.splits)
  with Inr outcome_patched[OF assms(2)] show ?thesis by auto
qed

lemma reconcileScanJob_outcome:
  assumes "owner_contract E" "run_state (reconcileScanJob E j) h = ((s, r), h')"
  shows "reconcile_outcome E j s r h'"
proof -
  let ?key = "(om_Namespace (sj_meta j), sp_Registry (sj_Spec j))"
  obtain c hc where c: "run_state (cleanupOldScanJobs E j) h = (c, hc)" by fastforce
  show ?thesis
  proof (cases c)
    case (Inl e)
    with c assms(2) show ?thesis
      by (auto simp: reconcileScanJob_def intro: outcome_error)
  next
    case clean: (Inr u)
    note run = assms(2)[unfolded reconcileScanJob_def Let_def run_state_bind c clean prod.case
        sum.case run_call]
    show ?thesis
    proof (cases "se_GetRegistry E hc ?key")
      case (Inl e)
      with run show ?thesis
        using outcome_no_registry[where t = "[SJNow]", OF Inl]
        by (auto intro: outcome_error split: if_splits)
    next
      case got: (Inr registry)
      show ?thesis
      proof (cases "validateScanJobTargets (se_quote E) (se_DefaultRegistry E) j registry")
        case (Some e)
        with run got show ?thesis
          using outcome_bad_target[where t = "[SJNow]", OF got]
          by (auto split: prod.splits)
      next
        case None
        with run got show ?thesis
          by (auto intro: publish_outcome patch_outcome[OF assms(1)] split: if_splits)
      qed
    qed
  qed
qed

fun is_status_update :: "scanjob_call \<Rightarrow> bool" where
  "is_status_update (SJUpdateStatus _) = True"
| "is_status_update (SJMetric _) = True"
| "is_status_update _ = False"

lemma emits_reconcileScanJob:
  "emits (\<lambda>c. \<not> is_status_update c) (reconcileScanJob E j)"
proof -
  have "emits (\<lambda>c. \<not> is_status_update c) (cleanupOldScanJobs E j)"
    by (rule emits_mono[OF emits_cleanup]) (auto elim: is_cleanup.elims)
  then show ?thesis
    unfolding reconcileScanJob_def patchRegistrySnapshot_def publishCreateCatalog_def Let_def
    by (intro emits_intros) simp_all
qed

text \<open>The pending job as the reconciliation starts from it.\<close>

definition initialized_job :: "scanjob_env \<Rightarrow> NamespacedName \<Rightarrow> ScanJob \<Rightarrow> ScanJob" where
  "initialized_job E req job =
    ScanJob_InitializeConditions (se_meta E) (se_Now E [SJGetScanJob req]) job"

text \<open>A reconciliation that gets as far as writing the status has read a pending job.\<close>

lemma Reconcile_update:
  assumes "calls (ScanJobReconciler_Reconcile E req) = pre @ SJUpdateStatus s # post"
  obtains job r where "se_GetScanJob E [] req = Inr job"
    "om_DeletionTimestamp (sj_meta job) = None" "ScanJob_IsPending (se_meta E) job"
    "run_state (reconcileScanJob E (initialized_job E req job)) [SJGetScanJob req, SJNow]
       = ((s, r), pre)"
proof -
  let ?P = "\<lambda>h c. \<forall>s. c = SJUpdateStatus s \<longrightarrow>
    (\<exists>job r. se_GetScanJob E [] req = Inr job
       \<and> om_DeletionTimestamp (sj_meta job) = None \<and> ScanJob_IsPending (se_meta E) job
       \<and> run_state (reconcileScanJob E (initialized_job E req job)) [SJGetScanJob req, SJNow]
           = ((s, r), h))"
  have rec: "guarded ?P h (reconcileScanJob E j)" for h j
    by (rule guarded_emits[OF emits_reconcileScanJob]) auto
  have "guarded ?P [] (ScanJobReconciler_Reconcile E req)"
    unfolding ScanJobReconciler_Reconcile_def recordScanJobFinished_def
    by (intro guarded_bind guarded_cases rec; clarsimp intro!: guarded_bind guarded_cases)
      (auto simp: initialized_job_def intro!: guarded_bind guarded_cases)
  from guarded_calls[OF this assms] that show thesis by blast
qed

lemma initialized_job_meta [simp]:
  "sj_meta (initialized_job E req job) = sj_meta job"
  "sj_Spec (initialized_job E req job) = sj_Spec job"
  by (simp_all add: initialized_job_def ScanJob_InitializeConditions_def
      ScanJob_set_conditions_def Let_def)

lemma mark_views:
  assumes "meta_contract M"
  shows "ScanJob_view M (ScanJob_MarkScheduled M now r m j) = phase_view (Some Scheduled)"
    and "ScanJob_view M (ScanJob_MarkInProgress M now r m j) = phase_view (Some InProgress)"
    and "ScanJob_view M (ScanJob_MarkComplete M now r m j) = phase_view (Some Complete)"
    and "ScanJob_view M (ScanJob_MarkFailed M now r m j) = phase_view (Some Failed)"
    and "ScanJob_view M (ScanJob_InitializeConditions M now j) = phase_view None"
  using assms sj.view_mark[OF assms, of "\<lparr>mk_phase = Scheduled, mk_now = now, mk_reason = r, mk_message = m\<rparr>" j]
    sj.view_mark[OF assms, of "\<lparr>mk_phase = InProgress, mk_now = now, mk_reason = r, mk_message = m\<rparr>" j]
    sj.view_mark[OF assms, of "\<lparr>mk_phase = Complete, mk_now = now, mk_reason = r, mk_message = m\<rparr>" j]
    sj.view_mark[OF assms, of "\<lparr>mk_phase = Failed, mk_now = now, mk_reason = r, mk_message = m\<rparr>" j]
  by (simp_all add: ScanJob_mark_def sj.view_initialize)

lemma view_status: "sj_Status s = sj_Status j \<Longrightarrow> ScanJob_view M s = ScanJob_view M j"
  by (simp add: scanjob_flags)

text \<open>
  A concrete environment: a registry with one repository, a pending job that targets it and
  carries the snapshot annotation, and twelve jobs of the registry.
\<close>

definition sample_target_registry :: Registry where
  "sample_target_registry =
    \<lparr>rg_meta = empty_meta\<lparr>om_Name := ''hub'', om_Namespace := ''ns''\<rparr>,
     rg_Spec = \<lparr>rs_URI = ''ghcr.io'', rs_CatalogType = CatalogTypeNoCatalog,
                rs_Repositories = [\<lparr>rp_Name = ''app'',
                  rp_MatchConditions = [\<lparr>mc_Name = ''stable'', mc_Expression = ''true'', mc_Labels = []\<rparr>],
                  rp_MatchOperator = MatchOperatorAnd\<rparr>],
                rs_AuthSecret = [], rs_ScanInterval = None, rs_CABundle = [],
                rs_CABundleRef = None, rs_Insecure = False, rs_Platforms = []\<rparr>,
     rg_Conditions = []\<rparr>"

definition sample_pending_job :: ScanJob where
  "sample_pending_job =
    \<lparr>sj_meta = empty_meta\<lparr>om_Name := ''job'', om_Namespace := ''ns'', om_UID := ''u1'',
        om_Annotations := [(AnnotationScanJobRegistryKey, ''{}'')]\<rparr>,
     sj_Spec = \<lparr>sp_Registry = ''hub'',
                sp_Repositories = [\<lparr>sr_Name = ''app'', sr_MatchConditions = [''stable'']\<rparr>]\<rparr>,
     sj_Status = \<lparr>ss_Conditions = [], ss_ImagesCount = 2, ss_ScannedImagesCount = 0,
                  ss_StartTime = None, ss_CompletionTime = None\<rparr>\<rparr>"

definition aged_job :: "int \<Rightarrow> ScanJob" where
  "aged_job t = sample_pending_job\<lparr>sj_meta := (sj_meta sample_pending_job)\<lparr>om_CreationTimestamp := t\<rparr>\<rparr>"

definition sample_scanjob_env :: scanjob_env where
  "sample_scanjob_env =
    \<lparr>se_GetScanJob = (\<lambda>h key. Inr sample_pending_job),
     se_ListScanJobs = (\<lambda>h ns reg. Inr (map aged_job [5, 3, 9, 1, 2, 8, 7, 6, 4, 12, 11, 10])),
     se_DeleteScanJob = (\<lambda>h j. Inr ()),
     se_GetRegistry = (\<lambda>h key. Inr sample_target_registry),
     se_PatchScanJob = (\<lambda>h old new. Inr new),
     se_Publish = (\<lambda>h subject messageID message. Inr ()),
     se_UpdateStatus = (\<lambda>h j. Inr j),
     se_Now = (\<lambda>h. 50),
     se_meta = list_meta,
     se_parseTime = (\<lambda>s. None),
     se_sort = insertion_sorter,
     se_quote = (\<lambda>s. s),
     se_DefaultRegistry = ''index.docker.io'',
     se_marshalRegistry = (\<lambda>r. Inr ''{}''),
     se_marshalMessage = (\<lambda>m. Inr ''{}''),
     se_SetControllerReference = (\<lambda>r j. Inr j)\<rparr>"

lemma sample_owner_contract: "owner_contract sample_scanjob_env"
  unfolding owner_contract_def
proof (intro allI impI)
  fix r j j'
  assume "se_SetControllerReference sample_scanjob_env r j = Inr j'"
  then have "j' = j\<lparr>sj_meta := (sj_meta j)\<lparr>om_OwnerReferences := om_OwnerReferences (sj_meta j)\<rparr>\<rparr>"
    by (simp add: sample_scanjob_env_def)
  then show "\<exists>refs. j' = j\<lparr>sj_meta := (sj_meta j)\<lparr>om_OwnerReferences := refs\<rparr>\<rparr>" ..
qed

lemma rev_eq_snoc: "rev xs = y # ys \<Longrightarrow> xs = rev ys @ [y]"
  by (simp add: rev_swap)

section \<open>Properties of the ScanJob controller\<close>

text \<open>
  The validation of the targets accepts a job exactly when every target names a repository
  that the registry declares and only match conditions of that repository; a rejection carries
  the reason of a missing repository or of a missing match condition.
\<close>

theorem validate_targets_iff:
  "(validateScanJobTargets q D job registry = None
      \<longleftrightarrow> list_all (target_declared D registry) (sp_Repositories (sj_Spec job)))
   \<and> fst ` Option.set_option (validateScanJobTargets q D job registry)
      \<subseteq> {ReasonScanJobRepositoryNotFound, ReasonScanJobMatchConditionNotFound}"
  unfolding validateScanJobTargets_def
  by (auto simp: validateTargets_None dest!: validateTargets_reason)

text \<open>
  The worker trusts a registry snapshot only when it names the registry of the job in the
  namespace of the job; every other annotation, a missing one included, is an error.
\<close>

theorem registry_snapshot_checked:
  "registryFromScanJob unmarshal job = Inr registry \<longleftrightarrow>
    Option.bind (map_of (om_Annotations (sj_meta job)) AnnotationScanJobRegistryKey)
      (\<lambda>data. case unmarshal data of Inl e \<Rightarrow> None | Inr r \<Rightarrow> Some r) = Some registry
    \<and> om_Namespace (rg_meta registry) = om_Namespace (sj_meta job)
    \<and> om_Name (rg_meta registry) = sp_Registry (sj_Spec job)"
  unfolding registryFromScanJob_def Let_def
  by (auto split: option.splits sum.splits if_splits)

text \<open>
  A ScanJob that is being deleted or that has left the pending phase is not touched: the
  reconciliation reads it and returns, so a repeated event does not publish a second message.
\<close>

theorem reconcile_ignores_started:
  assumes "se_GetScanJob E [] req = Inr job"
    and "om_DeletionTimestamp (sj_meta job) \<noteq> None \<or> \<not> ScanJob_IsPending (se_meta E) job"
  shows "calls (ScanJobReconciler_Reconcile E req) = [SJGetScanJob req]
    \<and> answer_of (ScanJobReconciler_Reconcile E req) = Inr ()"
  using assms by (auto simp: ScanJobReconciler_Reconcile_def calls_def answer_of_def)

theorem reconcile_ignores_started_witness:
  "let E = sample_scanjob_env\<lparr>se_GetScanJob := (\<lambda>h key. Inr
             (ScanJob_MarkScheduled list_meta 7 ''Scheduled'' ''queued'' sample_pending_job))\<rparr>
   in calls (ScanJobReconciler_Reconcile E (''ns'', ''job'')) = [SJGetScanJob (''ns'', ''job'')]"
proof -
  let ?job = "ScanJob_MarkScheduled list_meta 7 ''Scheduled'' ''queued'' sample_pending_job"
  let ?E = "sample_scanjob_env\<lparr>se_GetScanJob := (\<lambda>h key. Inr ?job)\<rparr>"
  have "se_GetScanJob ?E [] (''ns'', ''job'') = Inr ?job" by simp
  moreover have "\<not> ScanJob_IsPending (se_meta ?E) ?job" by code_simp
  ultimately show ?thesis
    using reconcile_ignores_started[of ?E "(''ns'', ''job'')" ?job] by simp
qed



text \<open>
  C8: the cleanup keeps the ten most recent jobs of the registry: when the deletions succeed,
  the jobs of the registry are split into deleted and kept ones, at most ten are kept and as many
  as there are up to ten, and no deleted job is younger than a kept one.
\<close>

theorem cleanup_keeps_newest:
  assumes "sorter_contract (se_sort E)"
    and "se_ListScanJobs E [] (om_Namespace (sj_meta job)) (sp_Registry (sj_Spec job)) = Inr items"
    and "\<And>h j. se_DeleteScanJob E h j = Inr ()"
    and "age = ScanJob_GetCreationTimestampFromAnnotation (se_parseTime E)"
  shows "answer_of (cleanupOldScanJobs E job) = Inr ()
    \<and> (\<exists>kept. mset items = mset (deleted_jobs (calls (cleanupOldScanJobs E job))) + mset kept
         \<and> length kept = min (length items) 10
         \<and> (\<forall>d \<in> set (deleted_jobs (calls (cleanupOldScanJobs E job))). \<forall>k \<in> set kept. age d \<le> age k))"
proof (cases "length items \<le> scanJobsHistoryLimit")
  case True
  then have "calls (cleanupOldScanJobs E job) =
      [SJListScanJobs (om_Namespace (sj_meta job)) (sp_Registry (sj_Spec job))]"
    and "answer_of (cleanupOldScanJobs E job) = Inr ()"
    using assms(2) by (simp_all add: cleanupOldScanJobs_def Let_def calls_def answer_of_def)
  with True show ?thesis
    by (intro conjI exI[of _ items])
      (simp_all add: deleted_jobs_def map_filter_simps scanJobsHistoryLimit_def)
next
  case False
  define ys where "ys = se_sort E (\<lambda>i j. age i < age j) items"
  let ?n = "length items - scanJobsHistoryLimit"
  have run: "run_state (cleanupOldScanJobs E job) [] =
      (Inr (), [SJListScanJobs (om_Namespace (sj_meta job)) (sp_Registry (sj_Spec job))]
               @ map SJDeleteScanJob (take ?n ys))"
    using assms(2) False
    by (simp add: cleanupOldScanJobs_def Let_def run_deletes[OF assms(3)] ys_def assms(4))
  have del: "deleted_jobs (calls (cleanupOldScanJobs E job)) = take ?n ys"
    unfolding calls_def run by (simp add: deleted_jobs_list deleted_jobs_map)
  have split: "mset items = mset (take ?n ys) + mset (drop ?n ys)"
    by (rule sorter_split(1)[OF assms(1) ys_def])
  have ordered: "\<lbrakk>d \<in> set (take ?n ys); k \<in> set (drop ?n ys)\<rbrakk> \<Longrightarrow> age d \<le> age k" for d k
    by (rule sorter_split(2)[OF assms(1) ys_def])
  have "length ys = length items"
    using split by (metis append_take_drop_id mset_append size_mset)
  then show ?thesis
    unfolding del using split ordered run False
    by (intro conjI exI[of _ "drop ?n ys"]) (auto simp: answer_of_def scanJobsHistoryLimit_def)
qed

theorem cleanup_keeps_newest_witness:
  "\<exists>kept. mset (map aged_job [5, 3, 9, 1, 2, 8, 7, 6, 4, 12, 11, 10])
       = mset (deleted_jobs (calls (cleanupOldScanJobs sample_scanjob_env sample_pending_job)))
         + mset kept \<and> length kept = 10"
proof -
  have "sorter_contract (se_sort sample_scanjob_env)"
    by (simp add: sample_scanjob_env_def insertion_sorter_contract)
  from cleanup_keeps_newest[OF this, of sample_pending_job
      "map aged_job [5, 3, 9, 1, 2, 8, 7, 6, 4, 12, 11, 10]"]
  show ?thesis by (auto simp: sample_scanjob_env_def)
qed

section \<open>Properties of the VulnerabilityReport controller\<close>

definition sample_vulnreport_env :: vulnreport_env where
  "sample_vulnreport_env =
    \<lparr>ve_GetReport = (\<lambda>h key. Inr (empty_meta\<lparr>om_Labels := [(LabelScanJobUIDKey, ''u1'')]\<rparr>)),
     ve_ListScanJobsByUID = (\<lambda>h uid. Inr [sample_pending_job]),
     ve_ListReports = (\<lambda>h ns uid. Inr [empty_meta, empty_meta]),
     ve_UpdateStatus = (\<lambda>h j. Inr j),
     ve_Now = (\<lambda>h. 60),
     ve_meta = list_meta\<rparr>"

lemma sample_vulnreport_trace:
  obtains pre s labels where
    "calls (VulnerabilityReportReconciler_Reconcile sample_vulnreport_env (''ns'', ''report''))
      = pre @ [VRUpdateStatus s, VRMetric labels]"
proof -
  have "case rev (calls (VulnerabilityReportReconciler_Reconcile sample_vulnreport_env (''ns'', ''report''))) of
      VRMetric labels # VRUpdateStatus s # _ \<Rightarrow> True | _ \<Rightarrow> False"
    by code_simp
  then obtain s labels ys where
    "rev (calls (VulnerabilityReportReconciler_Reconcile sample_vulnreport_env (''ns'', ''report'')))
       = VRMetric labels # VRUpdateStatus s # ys"
    by (auto split: list.splits vulnreport_call.splits)
  from rev_eq_snoc[OF this] that show thesis by simp
qed

lemma scannedStatus_counts:
  "ss_ScannedImagesCount (sj_Status (scannedStatus M now n job)) = int n"
  "ss_ImagesCount (sj_Status (scannedStatus M now n job)) = ss_ImagesCount (sj_Status job)"
  by (simp_all add: scannedStatus_def ScanJob_MarkComplete_def ScanJob_MarkInProgress_def
      ScanJob_set_conditions_def Let_def)

lemma scannedStatus_phase:
  assumes "meta_contract M"
  shows "if ScanJob_IsFailed M job
         then ss_Conditions (sj_Status (scannedStatus M now n job)) = ss_Conditions (sj_Status job)
         else ScanJob_view M (scannedStatus M now n job) =
                phase_view (Some (if int n = ss_ImagesCount (sj_Status job)
                                  then Complete else InProgress))"
proof -
  have "ScanJob_IsFailed M (job\<lparr>sj_Status := (sj_Status job)\<lparr>ss_ScannedImagesCount := int n\<rparr>\<rparr>)
      = ScanJob_IsFailed M job"
    by (simp add: ScanJob_IsFailed_def)
  then show ?thesis
    by (simp add: scannedStatus_def mark_views[OF assms] Let_def)
qed

text \<open>
  When a vulnerability report is reconciled, the status that is persisted is the one of the
  job its label names, which was not complete; the number of scanned images is the number of
  reports of the job; a failed job keeps its conditions, and any other job becomes complete
  exactly when that number equals the number of images, and is in progress otherwise.
\<close>

theorem report_progress_persisted:
  assumes "meta_contract (ve_meta E)"
    and "calls (VulnerabilityReportReconciler_Reconcile E req) = pre @ VRUpdateStatus s # post"
  shows "\<exists>uid job jobs reports.
      ve_ListScanJobsByUID E [VRGetReport req] uid = Inr (job # jobs)
    \<and> ve_ListReports E [VRGetReport req, VRListScanJobsByUID uid] (fst req) uid = Inr reports
    \<and> \<not> ScanJob_IsComplete (ve_meta E) job
    \<and> ss_ScannedImagesCount (sj_Status s) = int (length reports)
    \<and> ss_ImagesCount (sj_Status s) = ss_ImagesCount (sj_Status job)
    \<and> (if ScanJob_IsFailed (ve_meta E) job
       then ss_Conditions (sj_Status s) = ss_Conditions (sj_Status job)
       else ScanJob_view (ve_meta E) s =
              phase_view (Some (if int (length reports) = ss_ImagesCount (sj_Status job)
                                then Complete else InProgress)))"
proof -
  let ?P = "\<lambda>h c. \<forall>s. c = VRUpdateStatus s \<longrightarrow> (\<exists>uid job jobs reports now.
      ve_ListScanJobsByUID E [VRGetReport req] uid = Inr (job # jobs)
    \<and> ve_ListReports E [VRGetReport req, VRListScanJobsByUID uid] (fst req) uid = Inr reports
    \<and> \<not> ScanJob_IsComplete (ve_meta E) job
    \<and> s = scannedStatus (ve_meta E) now (length reports) job)"
  have "guarded ?P [] (VulnerabilityReportReconciler_Reconcile E req)"
    unfolding VulnerabilityReportReconciler_Reconcile_def Let_def
    by (auto intro!: guarded_bind split: sum.split list.split option.split) blast
  from guarded_calls[OF this assms(2)] obtain uid job jobs reports now where
      "ve_ListScanJobsByUID E [VRGetReport req] uid = Inr (job # jobs)"
      "ve_ListReports E [VRGetReport req, VRListScanJobsByUID uid] (fst req) uid = Inr reports"
      "\<not> ScanJob_IsComplete (ve_meta E) job"
      "s = scannedStatus (ve_meta E) now (length reports) job"
    by blast
  then show ?thesis
    using scannedStatus_phase[OF assms(1), of job now "length reports"] scannedStatus_counts
    by (intro exI[of _ uid] exI[of _ job] exI[of _ jobs] exI[of _ reports]) simp
qed

theorem report_progress_persisted_witness:
  "\<exists>pre s post.
      calls (VulnerabilityReportReconciler_Reconcile sample_vulnreport_env (''ns'', ''report''))
        = pre @ VRUpdateStatus s # post
    \<and> ss_ScannedImagesCount (sj_Status s) = 2 \<and> ScanJob_IsComplete list_meta s"
proof -
  obtain pre s labels where trace:
    "calls (VulnerabilityReportReconciler_Reconcile sample_vulnreport_env (''ns'', ''report''))
      = pre @ VRUpdateStatus s # [VRMetric labels]"
    using sample_vulnreport_trace by blast
  have "meta_contract (ve_meta sample_vulnreport_env)"
    by (simp add: sample_vulnreport_env_def list_meta_contract)
  moreover have "\<not> ScanJob_IsFailed list_meta sample_pending_job" by code_simp
  ultimately have "ss_ScannedImagesCount (sj_Status s) = 2"
    "ScanJob_view list_meta s = phase_view (Some Complete)"
    using report_progress_persisted[OF _ trace]
    by (auto simp: sample_vulnreport_env_def sample_pending_job_def)
  with trace show ?thesis by (auto simp: ScanJob_view_def phase_view_def)
qed

text \<open>
  C9: the counter of finished jobs is incremented at most once in a reconciliation of a report,
  as its last action, right after a successful status update that persisted a finished job, and
  only when the job was neither complete nor failed before.
\<close>

theorem report_completion_counted_once:
  assumes "calls (VulnerabilityReportReconciler_Reconcile E req) = pre @ VRMetric labels # post"
  shows "post = []
    \<and> (\<exists>h s persisted. pre = h @ [VRUpdateStatus s] \<and> ve_UpdateStatus E h s = Inr persisted
         \<and> JobFinished (ScanJob_view (ve_meta E) persisted)
         \<and> labels = (jobResult (ScanJob_view (ve_meta E) persisted), scanJobSource persisted))
    \<and> (\<exists>uid job jobs. ve_ListScanJobsByUID E [VRGetReport req] uid = Inr (job # jobs)
         \<and> \<not> JobFinished (ScanJob_view (ve_meta E) job))"
  using assms
  unfolding VulnerabilityReportReconciler_Reconcile_def calls_def Let_def
  by (auto simp: RecordScanJobFinished_def JobFinished_def ScanJob_view_def append_eq_Cons_conv Cons_eq_append_conv
      split: sum.splits list.splits option.splits if_splits)

theorem report_completion_counted_once_witness:
  "\<exists>pre labels.
      calls (VulnerabilityReportReconciler_Reconcile sample_vulnreport_env (''ns'', ''report''))
        = pre @ [VRMetric labels]
    \<and> (\<exists>h s. pre = h @ [VRUpdateStatus s])"
proof -
  obtain pre s labels where
    "calls (VulnerabilityReportReconciler_Reconcile sample_vulnreport_env (''ns'', ''report''))
      = (pre @ [VRUpdateStatus s]) @ VRMetric labels # []"
    using sample_vulnreport_trace by (metis append_Cons append_Nil append_assoc)
  from report_completion_counted_once[OF this] this show ?thesis by blast
qed

end
