(* ===== verification/Catalog.thy ===== *)
theory Catalog
  imports Filters Registry_Client ScanJob_Controller
begin

text \<open>
  Cataloguing a registry, \<open>src/internal/handlers/create_catalog.go\<close>: the worker that turns the
  CreateCatalog message of a ScanJob into Image resources and one GenerateSBOM message per image.

  The names of the image reference library are records of what their methods return, the parsers
  are parameters whose first argument says whether the insecure option is set.  The registry
  client is a set of calls; theory \<open>Registry_Client\<close> models what it computes locally.
\<close>

section \<open>Images\<close>

record ImageMetadata =
  md_Registry :: string
  md_RegistryURI :: string
  md_Repository :: string
  md_Tag :: string
  md_Platform :: string
  md_Digest :: string
  md_IndexDigest :: string

record ImageLayer =
  il_Command :: string
  il_Digest :: string
  il_DiffID :: string

record ImageWorkloadScanReports =
  iw_Name :: string
  iw_Namespace :: string

record Image =
  im_meta :: ObjectMeta
  im_ImageMetadata :: ImageMetadata
  im_Layers :: "ImageLayer list"
  im_WorkloadScanReports :: "ImageWorkloadScanReports list"

record Reference =
  rf_Name :: string
  rf_String :: string
  rf_ContextName :: string
  rf_RegistryStr :: string
  rf_RepositoryStr :: string
  rf_Identifier :: string

record RepositoryName =
  rn_Name :: string
  rn_RepositoryStr :: string

section \<open>The environment\<close>

record Transport =
  tr_InsecureSkipVerify :: bool
  tr_RootCAs :: "string list option"

datatype catalog_call =
    CCGetScanJob NamespacedName
  | CCUpdateStatus ScanJob
  | CCNow
  | CCAccess access_call
  | CCClient Transport
  | CCDockerCleanup string
  | CCCatalog string
  | CCListTags RepositoryName
  | CCListImages string string
  | CCAck
  | CCGetDescriptor Reference
  | CCRemoteImage Reference
  | CCIndexImage Descriptor string
  | CCCreateImage Image
  | CCDeleteImage NamespacedName
  | CCMetric "string \<times> string"
  | CCPublish string string string

fun as_access :: "catalog_call \<Rightarrow> access_call option" where
  "as_access (CCAccess c) = Some c"
| "as_access _ = None"

text \<open>
  \<open>ce_CatalogPages\<close> and \<open>ce_TagPages\<close> answer with the pages of the listing, each of which may fail
  to arrive.  A certificate pool is the list of bundles it holds.
\<close>

record 'ast catalog_env =
  ce_GetScanJob :: "catalog_call list \<Rightarrow> NamespacedName \<Rightarrow> ScanJob result"
  ce_UpdateStatus :: "catalog_call list \<Rightarrow> ScanJob \<Rightarrow> ScanJob result"
  ce_Now :: "catalog_call list \<Rightarrow> time"
  ce_CatalogPages :: "catalog_call list \<Rightarrow> string \<Rightarrow> string list result list result"
  ce_TagPages :: "catalog_call list \<Rightarrow> RepositoryName \<Rightarrow> string list result list result"
  ce_ListImages :: "catalog_call list \<Rightarrow> string \<Rightarrow> string \<Rightarrow> Image list result"
  ce_Ack :: "catalog_call list \<Rightarrow> unit result"
  ce_RemoteGet :: "catalog_call list \<Rightarrow> Reference \<Rightarrow> Descriptor result"
  ce_RemoteImage :: "catalog_call list \<Rightarrow> Reference \<Rightarrow> crane_image result"
  ce_IndexImage :: "catalog_call list \<Rightarrow> Descriptor \<Rightarrow> string \<Rightarrow> crane_image result"
  ce_CreateImage :: "catalog_call list \<Rightarrow> Image \<Rightarrow> unit result"
  ce_DeleteImage :: "catalog_call list \<Rightarrow> NamespacedName \<Rightarrow> unit result"
  ce_Publish :: "catalog_call list \<Rightarrow> string \<Rightarrow> string \<Rightarrow> string \<Rightarrow> unit result"
  ce_access :: access_env
  ce_installationNamespace :: string
  ce_meta :: meta_lib
  ce_media :: media_lib
  ce_NewTagEvaluator :: "'ast cel_lib result"
  ce_RetryOnConflict :: "(catalog_call, ScanJob \<times> bool) retrier"
  ce_DefaultTransportIsHTTP :: bool
  ce_SystemCertPool :: "string list result"
  ce_NewPuller :: "unit result"
  ce_DefaultRegistry :: string
  ce_quote :: "string \<Rightarrow> string"
  ce_pathJoin :: "string \<Rightarrow> string \<Rightarrow> string"
  ce_TagString :: "RepositoryName \<Rightarrow> string \<Rightarrow> string"
  ce_ParseReference :: "bool \<Rightarrow> string \<Rightarrow> Reference result"
  ce_NewRegistry :: "bool \<Rightarrow> string \<Rightarrow> string result"
  ce_NewRepository :: "bool \<Rightarrow> string \<Rightarrow> RepositoryName result"
  ce_NewDigest :: "bool \<Rightarrow> string \<Rightarrow> string result"
  ce_NewTag :: "bool \<Rightarrow> string \<Rightarrow> string result"
  ce_ImageIndex :: "Descriptor \<Rightarrow> unit result"
  ce_IndexManifest :: "Descriptor \<Rightarrow> IndexManifest result"
  ce_IndexDigest :: "Descriptor \<Rightarrow> string result"
  ce_base64 :: "string \<Rightarrow> string"
  ce_sha256hex :: "string \<Rightarrow> string"
  ce_SetImageOwner :: "Registry \<Rightarrow> Image \<Rightarrow> Image result"
  ce_unmarshalMessage :: "string \<Rightarrow> CreateCatalogMessage result"
  ce_unmarshalRegistry :: "string \<Rightarrow> Registry result"
  ce_marshalMessage :: "GenerateSBOMMessage \<Rightarrow> string result"

section \<open>The registry client\<close>

primrec collectPages ::
  "string \<Rightarrow> (string \<Rightarrow> string) \<Rightarrow> string list result list \<Rightarrow> string list result" where
  "collectPages failure f [] = Inr []"
| "collectPages failure f (page # pages) =
    (case page of
       Inl err \<Rightarrow> Inl (ErrorWrap failure err)
     | Inr xs \<Rightarrow> map_sum id (\<lambda>rest. map f xs @ rest) (collectPages failure f pages))"

definition Client_Catalog ::
  "'ast catalog_env \<Rightarrow> string \<Rightarrow> (catalog_call, string list result) prog" where
  "Client_Catalog E reg =
    (case ce_NewPuller E of
       Inl err \<Rightarrow> fail (ErrorWrap ''cannot create puller'' err)
     | Inr _ \<Rightarrow> do {
         catalogger \<leftarrow> call (\<lambda>h. ce_CatalogPages E h reg) (CCCatalog reg);
         (case catalogger of
            Inl err \<Rightarrow> fail (ErrorWrap (''cannot create catalogger for '' @ reg) err)
          | Inr pages \<Rightarrow>
              State_Monad.return
                (collectPages (''cannot iterate over repository '' @ reg @ '' contents'')
                   (ce_pathJoin E reg) pages))
       })"

definition Client_ListRepositoryContents ::
  "'ast catalog_env \<Rightarrow> RepositoryName \<Rightarrow> (catalog_call, string list result) prog" where
  "Client_ListRepositoryContents E repo =
    (case ce_NewPuller E of
       Inl err \<Rightarrow> fail (ErrorWrap ''cannot create puller'' err)
     | Inr _ \<Rightarrow> do {
         lister \<leftarrow> call (\<lambda>h. ce_TagPages E h repo) (CCListTags repo);
         (case lister of
            Inl err \<Rightarrow> fail (ErrorWrap (''cannot create lister for repository '' @ rn_Name repo) err)
          | Inr pages \<Rightarrow>
              State_Monad.return (collectPages ''cannot iterate over repository contents''
                (ce_TagString E repo) pages))
       })"

definition Client_GetDescriptor ::
  "'ast catalog_env \<Rightarrow> Reference \<Rightarrow> (catalog_call, Descriptor result) prog" where
  "Client_GetDescriptor E ref = do {
     r \<leftarrow> call (\<lambda>h. ce_RemoteGet E h ref) (CCGetDescriptor ref);
     (case r of
        Inl err \<Rightarrow>
          fail (ErrorWrap (''cannot fetch descriptor for '' @ ce_quote E (rf_String ref)) err)
      | Inr desc \<Rightarrow> ok desc)
   }"

definition Client_GetImageDetailsFromIndex ::
  "'ast catalog_env \<Rightarrow> Descriptor \<Rightarrow> string \<Rightarrow> V1Platform \<Rightarrow> (catalog_call, ImageDetails result) prog" where
  "Client_GetImageDetailsFromIndex E desc digest platform = do {
     r \<leftarrow> call (\<lambda>h. ce_IndexImage E h desc digest) (CCIndexImage desc digest);
     (case r of
        Inl err \<Rightarrow> fail (ErrorWrap (''cannot get image by digest '' @ digest) err)
      | Inr img \<Rightarrow> State_Monad.return (imageDetails (ce_media E) img (Some platform) digest))
   }"

text \<open>The handler always asks for no platform.\<close>

definition Client_GetImageDetails ::
  "'ast catalog_env \<Rightarrow> Reference \<Rightarrow> (catalog_call, ImageDetails result) prog" where
  "Client_GetImageDetails E ref = do {
     r \<leftarrow> call (\<lambda>h. ce_RemoteImage E h ref) (CCRemoteImage ref);
     (case r of
        Inl err \<Rightarrow> fail (ErrorWrap (''cannot fetch image '' @ ce_quote E (rf_String ref)) err)
      | Inr img \<Rightarrow> State_Monad.return (imageDetails (ce_media E) img None (rf_Name ref)))
   }"

section \<open>Targets\<close>

definition applyTarget ::
  "(string \<Rightarrow> string) \<Rightarrow> string \<Rightarrow> Registry \<Rightarrow> ScanJobRepository \<Rightarrow> Repository result" where
  "applyTarget quote D registry target =
    (case GetRepository D registry (sr_Name target) of
       None \<Rightarrow> Inl (ErrorNew (''repository '' @ quote (sr_Name target)
                 @ '' not declared on registry '' @ quote (om_Name (rg_meta registry))))
     | Some repository \<Rightarrow>
         if sr_MatchConditions target = [] then Inr repository
         else
           (let targetMatchConditions = fold List.insert (sr_MatchConditions target) [];
                filteredConditions = filter (\<lambda>mc. mc_Name mc \<in> set targetMatchConditions)
                                       (rp_MatchConditions repository)
            in if length filteredConditions \<noteq> length targetMatchConditions
               then Inl (ErrorNew (''one or more MatchConditions of target repository ''
                      @ quote (sr_Name target) @ '' not found on registry ''
                      @ quote (om_Name (rg_meta registry))))
               else Inr (repository\<lparr>rp_MatchConditions := filteredConditions\<rparr>)))"

primrec applyTargets ::
  "(string \<Rightarrow> string) \<Rightarrow> string \<Rightarrow> Registry \<Rightarrow> ScanJobRepository list \<Rightarrow> Repository list result" where
  "applyTargets quote D registry [] = Inr []"
| "applyTargets quote D registry (target # targets) =
    (case applyTarget quote D registry target of
       Inl err \<Rightarrow> Inl err
     | Inr repository \<Rightarrow> map_sum id (Cons repository) (applyTargets quote D registry targets))"

definition applyTargetsToRegistry ::
  "(string \<Rightarrow> string) \<Rightarrow> string \<Rightarrow> Registry \<Rightarrow> ScanJob \<Rightarrow> Registry result" where
  "applyTargetsToRegistry quote D registry scanJob =
    (if sp_Repositories (sj_Spec scanJob) = [] then Inr registry
     else map_sum id
            (\<lambda>repositories. registry\<lparr>rg_Spec := (rg_Spec registry)\<lparr>rs_Repositories := repositories\<rparr>\<rparr>)
            (applyTargets quote D registry (sp_Repositories (sj_Spec scanJob))))"

section \<open>Discovery\<close>

text \<open>\<open>nameOptions\<close> returns the insecure option exactly for insecure registries.\<close>

definition nameOptions :: "Registry \<Rightarrow> bool" where
  "nameOptions registry = rs_Insecure (rg_Spec registry)"

definition discoverRepositories ::
  "'ast catalog_env \<Rightarrow> Registry \<Rightarrow> (catalog_call, string list result) prog" where
  "discoverRepositories E registry =
    (case ce_NewRegistry E (nameOptions registry) (rs_URI (rg_Spec registry)) of
       Inl err \<Rightarrow> fail (ErrorWrap (''cannot parse registry '' @ om_Name (rg_meta registry) @ '' ''
                                  @ om_Namespace (rg_meta registry)) err)
     | Inr reg \<Rightarrow>
         if rs_Repositories (rg_Spec registry) = []
         then do {
           r \<leftarrow> Client_Catalog E reg;
           (case r of
              Inl err \<Rightarrow> fail (ErrorWrap ''cannot discover repositories'' err)
            | Inr allRepositories \<Rightarrow> ok allRepositories)
         }
         else ok (map (\<lambda>repository. ce_pathJoin E reg (rp_Name repository))
                    (rs_Repositories (rg_Spec registry))))"

text \<open>
  The loop of \<open>workloadRepositoryReferences\<close> over the conditions, with the references found so far
  and whether one of them is a digest.  \<open>Inr None\<close> is the result that leaves the repository to a
  listing.
\<close>

fun workloadReferences ::
  "'ast catalog_env \<Rightarrow> Registry \<Rightarrow> RepositoryName \<Rightarrow> MatchCondition list \<Rightarrow> string list \<Rightarrow> bool
     \<Rightarrow> string list option result" where
  "workloadReferences E registry repo [] references hasDigest =
    Inr (if \<not> hasDigest then None else Some (sort references))"
| "workloadReferences E registry repo (condition # conditions) references hasDigest =
    (let identifier = TrimPrefix (mc_Name condition) ''tag-''
     in if \<not> HasPrefix (mc_Name condition) ''tag-''
           \<or> mc_Expression condition \<noteq> ''tag == '' @ ce_quote E identifier
        then Inr None
        else
          (let isDigest = HasPrefix identifier ''sha256:'';
               ref = (if isDigest
                      then ce_NewDigest E (nameOptions registry) (rn_Name repo @ ''@'' @ identifier)
                      else ce_NewTag E (nameOptions registry) (rn_Name repo @ '':'' @ identifier))
           in case ref of
                Inl err \<Rightarrow> Inl (ErrorWrap (''invalid workload reference '' @ ce_quote E identifier
                                @ '' in repository '' @ ce_quote E (rn_Name repo)) err)
              | Inr refName \<Rightarrow>
                  workloadReferences E registry repo conditions (List.insert refName references)
                    (hasDigest \<or> isDigest)))"

definition workloadRepositoryReferences ::
  "'ast catalog_env \<Rightarrow> Registry \<Rightarrow> RepositoryName \<Rightarrow> string list option result" where
  "workloadRepositoryReferences E registry repo =
    (if \<not> IsManagedByWorkloadScan registry then Inr None
     else case GetRepository (ce_DefaultRegistry E) registry (rn_RepositoryStr repo) of
       None \<Rightarrow> Inr None
     | Some repository \<Rightarrow>
         if rp_MatchOperator repository \<noteq> MatchOperatorOr \<or> rp_MatchConditions repository = []
         then Inr None
         else workloadReferences E registry repo (rp_MatchConditions repository) [] False)"

definition discoverImages ::
  "'ast catalog_env \<Rightarrow> Registry \<Rightarrow> string \<Rightarrow> (catalog_call, string list result) prog" where
  "discoverImages E registry repository =
    (case ce_NewRepository E (nameOptions registry) repository of
       Inl err \<Rightarrow> fail (ErrorWrap (''cannot parse repository name '' @ ce_quote E repository) err)
     | Inr repo \<Rightarrow>
         (case workloadRepositoryReferences E registry repo of
            Inl err \<Rightarrow> fail err
          | Inr (Some references) \<Rightarrow> ok references
          | Inr None \<Rightarrow> do {
              r \<leftarrow> Client_ListRepositoryContents E repo;
              (case r of
                 Inl err \<Rightarrow> fail (ErrorWrap ''cannot list repository contents'' err)
               | Inr contents \<Rightarrow> ok contents)
            }))"

definition discoverReferences ::
  "'ast catalog_env \<Rightarrow> Registry \<Rightarrow> string list \<Rightarrow> (catalog_call, string list result) prog" where
  "discoverReferences E registry repositories =
    fold_prog (\<lambda>repository references. do {
      r \<leftarrow> discoverImages E registry repository;
      (case r of
         Inl err \<Rightarrow> fail (ErrorWrap (''cannot discover images in registry ''
                                     @ om_Name (rg_meta registry)) err)
       | Inr repoImages \<Rightarrow> ok (fold List.insert repoImages references))
    }) repositories []"

section \<open>From references to images\<close>

text \<open>
  The loop over the history.  The guard compares with \<open><\<close>, so a counter equal to the number of
  layers passes it and the index expression panics.
\<close>

primrec imageLayersFrom ::
  "(string \<Rightarrow> string) \<Rightarrow> Layer list \<Rightarrow> nat \<Rightarrow> History list \<Rightarrow> ImageLayer list result" where
  "imageLayersFrom base64 layers layerCounter [] = Inr []"
| "imageLayersFrom base64 layers layerCounter (history # rest) =
    (if hi_EmptyLayer history then imageLayersFrom base64 layers layerCounter rest
     else if length layers < layerCounter then Inl (ErrorNew ''layer not found'')
     else if length layers \<le> layerCounter then Inl (ErrorPanic ''index out of range'')
     else
       (case ly_Digest (layers ! layerCounter) of
          Inl err \<Rightarrow> Inl (ErrorWrap ''cannot read layer digest'' err)
        | Inr digest \<Rightarrow>
       (case ly_DiffID (layers ! layerCounter) of
          Inl err \<Rightarrow> Inl (ErrorWrap ''cannot read layer diffID'' err)
        | Inr diffID \<Rightarrow>
            map_sum id
              (Cons \<lparr>il_Command = base64 (hi_CreatedBy history), il_Digest = digest,
                     il_DiffID = diffID\<rparr>)
              (imageLayersFrom base64 layers (Suc layerCounter) rest))))"

definition computeImageUID :: "(string \<Rightarrow> string) \<Rightarrow> string \<Rightarrow> string \<Rightarrow> string \<Rightarrow> string \<Rightarrow> string" where
  "computeImageUID sha256hex registryName name identifier digest =
    sha256hex (registryName @ ''/'' @ name @ '':'' @ identifier @ ''@'' @ digest)"

definition imageDetailsToImage ::
  "'ast catalog_env \<Rightarrow> Reference \<Rightarrow> ImageDetails \<Rightarrow> Registry \<Rightarrow> string \<Rightarrow> Image result" where
  "imageDetailsToImage E ref details registry indexDigest =
    (case imageLayersFrom (ce_base64 E) (id_Layers details) 0 (id_History details) of
       Inl err \<Rightarrow> Inl err
     | Inr imageLayers \<Rightarrow>
         (let labels = [(LabelManagedByKey, LabelManagedByValue), (LabelPartOfKey, LabelPartOfValue)]
                @ (if map_index (om_Labels (rg_meta registry)) LabelWorkloadScanKey
                        = LabelWorkloadScanValue
                   then [(LabelWorkloadScanKey, LabelWorkloadScanValue)] else []);
              img = \<lparr>im_meta = empty_meta
                  \<lparr>om_Name := computeImageUID (ce_sha256hex E) (om_Name (rg_meta registry))
                      (rf_ContextName ref) (rf_Identifier ref) (id_Digest details),
                   om_Namespace := om_Namespace (rg_meta registry),
                   om_Labels := labels\<rparr>,
                im_ImageMetadata = \<lparr>md_Registry = om_Name (rg_meta registry),
                  md_RegistryURI = rf_RegistryStr ref,
                  md_Repository = rf_RepositoryStr ref,
                  md_Tag = rf_Identifier ref,
                  md_Platform = vp_String (id_Platform details),
                  md_Digest = id_Digest details,
                  md_IndexDigest = indexDigest\<rparr>,
                im_Layers = imageLayers,
                im_WorkloadScanReports = []\<rparr>
          in case ce_SetImageOwner E registry img of
               Inl err \<Rightarrow> Inl (ErrorWrap ''cannot set owner reference'' err)
             | Inr owned \<Rightarrow> Inr owned))"

definition ack :: "'ast catalog_env \<Rightarrow> (catalog_call, unit result) prog" where
  "ack E = call (ce_Ack E) CCAck"

definition singleArchRefToImages ::
  "'ast catalog_env \<Rightarrow> Reference \<Rightarrow> Registry \<Rightarrow> (catalog_call, Image list result) prog" where
  "singleArchRefToImages E ref registry = do {
     r \<leftarrow> Client_GetImageDetails E ref;
     (case r of
        Inl err \<Rightarrow>
          if ErrorIs err ErrNotContainerImage then ok []
          else if ErrorIs err ErrNoPlatform then ok []
          else fail (ErrorWrap (''cannot get image details for '' @ ce_quote E (rf_Name ref)) err)
      | Inr details \<Rightarrow>
          if \<not> IsPlatformAllowed (vp_OS (id_Platform details)) (vp_Architecture (id_Platform details))
                 (vp_Variant (id_Platform details)) (rs_Platforms (rg_Spec registry))
          then ok []
          else (case imageDetailsToImage E ref details registry [] of
            Inl err \<Rightarrow> fail (ErrorWrap (''cannot convert image details to image for ''
                                       @ ce_quote E (rf_Name ref)) err)
          | Inr img \<Rightarrow> do {
              a \<leftarrow> ack E;
              (case a of
                 Inl err \<Rightarrow> fail (ErrorWrap ''failed to ack message as in progress'' err)
               | Inr _ \<Rightarrow> ok [img])
            }))
   }"

text \<open>One entry of an image index; the accumulator is the list of images found so far.\<close>

definition indexEntryToImages ::
  "'ast catalog_env \<Rightarrow> Reference \<Rightarrow> Registry \<Rightarrow> Descriptor \<Rightarrow> string \<Rightarrow> IndexEntry \<Rightarrow> Image list
     \<Rightarrow> (catalog_call, Image list result) prog" where
  "indexEntryToImages E ref registry desc indexDigest m images =
    (case ie_Platform m of
       None \<Rightarrow> ok images
     | Some platform \<Rightarrow>
         if \<not> IsPlatformAllowed (vp_OS platform) (vp_Architecture platform) (vp_Variant platform)
                (rs_Platforms (rg_Spec registry))
         then ok images
         else do {
           r \<leftarrow> Client_GetImageDetailsFromIndex E desc (ie_Digest m) platform;
           (case r of
              Inl err \<Rightarrow>
                if ErrorIs err ErrNotContainerImage then ok images
                else fail (ErrorWrap (''cannot get image details for '' @ ce_quote E (rf_Name ref)
                             @ '' digest '' @ ie_Digest m @ '' platform '' @ vp_String platform) err)
            | Inr details \<Rightarrow>
                (case imageDetailsToImage E ref details registry indexDigest of
                   Inl err \<Rightarrow> fail (ErrorWrap (''cannot convert image details to image for ''
                                              @ ce_quote E (rf_Name ref)) err)
                 | Inr img \<Rightarrow> do {
                     a \<leftarrow> ack E;
                     (case a of
                        Inl err \<Rightarrow> fail (ErrorWrap ''failed to ack message as in progress'' err)
                      | Inr _ \<Rightarrow> ok (images @ [img]))
                   }))
         })"

definition multiArchRefToImages ::
  "'ast catalog_env \<Rightarrow> Reference \<Rightarrow> Registry \<Rightarrow> Descriptor
     \<Rightarrow> (catalog_call, Image list result) prog" where
  "multiArchRefToImages E ref registry desc =
    (case ce_ImageIndex E desc of
       Inl err \<Rightarrow> fail (ErrorWrap (''cannot parse image index for '' @ ce_quote E (rf_Name ref)) err)
     | Inr _ \<Rightarrow>
     (case ce_IndexManifest E desc of
       Inl err \<Rightarrow> fail (ErrorWrap (''cannot read index manifest of '' @ ce_quote E (rf_Name ref)) err)
     | Inr manifest \<Rightarrow>
     (case ce_IndexDigest E desc of
       Inl err \<Rightarrow> fail (ErrorWrap (''cannot get index digest for '' @ ce_quote E (rf_Name ref)) err)
     | Inr indexDigest \<Rightarrow>
         fold_prog (indexEntryToImages E ref registry desc indexDigest) (ix_Manifests manifest) [])))"

definition refToImages ::
  "'ast catalog_env \<Rightarrow> Reference \<Rightarrow> Registry \<Rightarrow> (catalog_call, Image list result) prog" where
  "refToImages E ref registry = do {
     r \<leftarrow> Client_GetDescriptor E ref;
     (case r of
        Inl err \<Rightarrow> fail (ErrorWrap (''cannot get descriptor for '' @ ce_quote E (rf_Name ref)) err)
      | Inr desc \<Rightarrow>
          (case IsContainerImage (ce_media E) desc of
             Inl err \<Rightarrow> fail (ErrorWrap (''cannot check if '' @ rf_Name ref
                                        @ '' is a container image'') err)
           | Inr isContainerImage \<Rightarrow>
               if \<not> isContainerImage then ok []
               else if ml_IsIndex (ce_media E) (de_MediaType desc)
               then multiArchRefToImages E ref registry desc
               else singleArchRefToImages E ref registry))
   }"

section \<open>The handler\<close>

definition transportFromRegistry ::
  "'ast catalog_env \<Rightarrow> Registry \<Rightarrow> (catalog_call, Transport result) prog" where
  "transportFromRegistry E registry =
    (if \<not> ce_DefaultTransportIsHTTP E
     then fail (ErrorNew ''remote.DefaultTransport is not an *http.Transport'')
     else do {
       r \<leftarrow> embed CCAccess as_access
              (Resolve (ce_access E) registry (ce_installationNamespace E));
       (case r of
          Inl err \<Rightarrow> fail (ErrorWrap ''cannot resolve CA bundle'' err)
        | Inr caBundle \<Rightarrow>
            ok \<lparr>tr_InsecureSkipVerify = rs_Insecure (rg_Spec registry),
                tr_RootCAs =
                  (case caBundle of
                     None \<Rightarrow> None
                   | Some bundle \<Rightarrow>
                       if bundle = [] then None
                       else Some ((case ce_SystemCertPool E of Inl _ \<Rightarrow> [] | Inr pool \<Rightarrow> pool)
                                  @ [bundle]))\<rparr>)
     })"

abbreviation message_key :: "CreateCatalogMessage \<Rightarrow> NamespacedName" where
  "message_key msg \<equiv> (ob_Namespace (bm_ScanJob msg), ob_Name (bm_ScanJob msg))"

abbreviation message_label :: "CreateCatalogMessage \<Rightarrow> string" where
  "message_label msg \<equiv> ob_Namespace (bm_ScanJob msg) @ ''/'' @ ob_Name (bm_ScanJob msg)"

text \<open>The function retried first; the flag is \<open>alreadyFinished\<close>.\<close>

definition startAttempt ::
  "'ast catalog_env \<Rightarrow> CreateCatalogMessage \<Rightarrow> (catalog_call, (ScanJob \<times> bool) result) prog" where
  "startAttempt E msg = do {
     got \<leftarrow> call (\<lambda>h. ce_GetScanJob E h (message_key msg)) (CCGetScanJob (message_key msg));
     (case got of
        Inl err \<Rightarrow> fail (ErrorWrap (''cannot get scanjob '' @ message_label msg) err)
      | Inr scanJob \<Rightarrow>
          if om_UID (sj_meta scanJob) \<noteq> ob_UID (bm_ScanJob msg)
          then fail (StatusError ReasonNotFound (message_label msg))
          else if JobFinished (ScanJob_view (ce_meta E) scanJob) then ok (scanJob, True)
          else do {
            now \<leftarrow> call (ce_Now E) CCNow;
            let scanJob' = ScanJob_MarkInProgress (ce_meta E) now
                             ReasonScanJobCatalogCreationInProgress ''Catalog creation in progress''
                             scanJob;
            updated \<leftarrow> call (\<lambda>h. ce_UpdateStatus E h scanJob') (CCUpdateStatus scanJob');
            (case updated of Inl err \<Rightarrow> fail err | Inr persisted \<Rightarrow> ok (persisted, False))
          })
   }"

text \<open>
  The loops that create images leave the handler early when the job is gone: \<open>Return\<close> is
  \<open>return nil\<close>, \<open>Next\<close> carries the job as last read and the images discovered so far.
\<close>

datatype 'a flow = Return | Next 'a

type_synonym catalog_state = "ScanJob \<times> Image list"

definition catalogImage ::
  "'ast catalog_env \<Rightarrow> CreateCatalogMessage \<Rightarrow> string list \<Rightarrow> Image \<Rightarrow> catalog_state
     \<Rightarrow> (catalog_call, catalog_state flow result) prog" where
  "catalogImage E msg existingImageNames img acc = do {
     got \<leftarrow> call (\<lambda>h. ce_GetScanJob E h (message_key msg)) (CCGetScanJob (message_key msg));
     (case got of
        Inl err \<Rightarrow>
          if IsNotFound err then ok Return
          else fail (ErrorWrap (''cannot get scanjob '' @ message_label msg) err)
      | Inr scanJob \<Rightarrow>
          if om_UID (sj_meta scanJob) \<noteq> ob_UID (bm_ScanJob msg) then ok Return
          else
            (let acc' = (scanJob, snd acc @ [img])
             in if om_Name (im_meta img) \<in> set existingImageNames then ok (Next acc')
                else do {
                  created \<leftarrow> call (\<lambda>h. ce_CreateImage E h img) (CCCreateImage img);
                  (case created of
                     Inl err \<Rightarrow>
                       if IsAlreadyExists err then ok (Next acc')
                       else fail (ErrorWrap (''cannot create image '' @ om_Name (im_meta img)) err)
                   | Inr _ \<Rightarrow> do {
                       a \<leftarrow> ack E;
                       (case a of
                          Inl err \<Rightarrow> fail (ErrorWrap ''failed to ack message as in progress'' err)
                        | Inr _ \<Rightarrow> ok (Next acc'))
                     })
                }))
   }"

text \<open>A loop whose body may leave the handler.\<close>

primrec loop ::
  "('a \<Rightarrow> 'b \<Rightarrow> ('c, 'b flow result) prog) \<Rightarrow> 'a list \<Rightarrow> 'b \<Rightarrow> ('c, 'b flow result) prog" where
  "loop body [] acc = ok (Next acc)"
| "loop body (x # xs) acc = do {
     r \<leftarrow> body x acc;
     (case r of
        Inl err \<Rightarrow> fail err
      | Inr fl \<Rightarrow> (case fl of Return \<Rightarrow> ok Return | Next acc' \<Rightarrow> loop body xs acc'))
   }"

definition catalogReference ::
  "'ast catalog_env \<Rightarrow> CreateCatalogMessage \<Rightarrow> 'ast cel_lib \<Rightarrow> Registry \<Rightarrow> string list \<Rightarrow> string
     \<Rightarrow> catalog_state \<Rightarrow> (catalog_call, catalog_state flow result) prog" where
  "catalogReference E msg tagEvaluator registry existingImageNames newImageName acc =
    (case ce_ParseReference E (nameOptions registry) newImageName of
       Inl err \<Rightarrow> fail (ErrorWrap (''cannot parse image reference '' @ ce_quote E newImageName) err)
     | Inr ref \<Rightarrow>
         (case FilterByTag tagEvaluator
                 (GetRepository (ce_DefaultRegistry E) registry (rf_RepositoryStr ref))
                 (rf_Identifier ref) of
            Inl err \<Rightarrow>
              fail (ErrorWrap (''cannot evaluate image tag for '' @ ce_quote E newImageName) err)
          | Inr tagIsAllowed \<Rightarrow>
              if \<not> tagIsAllowed then ok (Next acc)
              else do {
                r \<leftarrow> refToImages E ref registry;
                (case r of
                   Inl err \<Rightarrow>
                     fail (ErrorWrap (''cannot get images for '' @ ce_quote E (rf_String ref)) err)
                 | Inr images \<Rightarrow> loop (catalogImage E msg existingImageNames) images acc)
              }))"

definition deleteObsoleteImages ::
  "'ast catalog_env \<Rightarrow> string list \<Rightarrow> string list \<Rightarrow> string \<Rightarrow> (catalog_call, unit result) prog" where
  "deleteObsoleteImages E existingImageNames discoveredImageNames namespace =
    for_each (\<lambda>obsoleteImageName. do {
      d \<leftarrow> call (\<lambda>h. ce_DeleteImage E h (namespace, obsoleteImageName))
             (CCDeleteImage (namespace, obsoleteImageName));
      (case d of
         Inl err \<Rightarrow> fail (ErrorWrap (''cannot delete image '' @ obsoleteImageName @ ''/'' @ namespace) err)
       | Inr _ \<Rightarrow> do {
           a \<leftarrow> ack E;
           (case a of
              Inl err \<Rightarrow> fail (ErrorWrap ''cannot mark message as in progress'' err)
            | Inr _ \<Rightarrow> ok ())
         })
    }) (filter (\<lambda>n. n \<notin> set discoveredImageNames) existingImageNames)"

text \<open>
  The function retried second; the flag is \<open>wasFinished\<close>.  The API server answers with the object
  of the name it is asked for, so the key is the one of the job last read.
\<close>

definition finishAttempt ::
  "'ast catalog_env \<Rightarrow> CreateCatalogMessage \<Rightarrow> ScanJob \<Rightarrow> Image list
     \<Rightarrow> (catalog_call, (ScanJob \<times> bool) result) prog" where
  "finishAttempt E msg current discoveredImages = do {
     let key = (om_Namespace (sj_meta current), om_Name (sj_meta current));
     got \<leftarrow> call (\<lambda>h. ce_GetScanJob E h key) (CCGetScanJob key);
     (case got of
        Inl err \<Rightarrow> fail (ErrorWrap (''cannot get scan job '' @ fst key @ ''/'' @ snd key
                                   @ '' while updating status'') err)
      | Inr scanJob \<Rightarrow>
          if om_UID (sj_meta scanJob) \<noteq> ob_UID (bm_ScanJob msg)
          then fail (StatusError ReasonNotFound (message_label msg))
          else do {
            now \<leftarrow> call (ce_Now E) CCNow;
            let wasFinished = JobFinished (ScanJob_view (ce_meta E) scanJob);
            let scanJob' =
              (if discoveredImages = []
               then ScanJob_MarkComplete (ce_meta E) now ReasonScanJobNoImagesToScan
                      ''No images to process'' scanJob
               else (let marked = ScanJob_MarkInProgress (ce_meta E) now
                            ReasonScanJobSBOMGenerationInProgress ''SBOM generation in progress''
                            scanJob
                     in marked\<lparr>sj_Status := (sj_Status marked)
                          \<lparr>ss_ImagesCount := int (length discoveredImages),
                           ss_ScannedImagesCount := 0\<rparr>\<rparr>));
            updated \<leftarrow> call (\<lambda>h. ce_UpdateStatus E h scanJob') (CCUpdateStatus scanJob');
            (case updated of Inl err \<Rightarrow> fail err | Inr persisted \<Rightarrow> ok (persisted, wasFinished))
          })
   }"

definition sbomMessage :: "CreateCatalogMessage \<Rightarrow> Image \<Rightarrow> GenerateSBOMMessage" where
  "sbomMessage msg img =
    \<lparr>bm_ScanJob = bm_ScanJob msg,
     gm_Image = \<lparr>ob_Name = om_Name (im_meta img), ob_Namespace = om_Namespace (im_meta img),
                 ob_UID = []\<rparr>\<rparr>"

definition sbomMessageID :: "ScanJob \<Rightarrow> Image \<Rightarrow> string" where
  "sbomMessageID scanJob img =
    ''generateSBOM/'' @ om_UID (sj_meta scanJob) @ ''/'' @ om_Name (im_meta img)"

definition publishImage ::
  "'ast catalog_env \<Rightarrow> CreateCatalogMessage \<Rightarrow> ScanJob \<Rightarrow> Image \<Rightarrow> (catalog_call, unit result) prog" where
  "publishImage E msg scanJob img =
    (let here = om_Namespace (im_meta img) @ ''/'' @ om_Name (im_meta img)
     in case ce_marshalMessage E (sbomMessage msg img) of
          Inl err \<Rightarrow>
            fail (ErrorWrap (''cannot marshal generate sbom message for image '' @ here) err)
        | Inr payload \<Rightarrow> do {
            p \<leftarrow> call (\<lambda>h. ce_Publish E h GenerateSBOMSubject (sbomMessageID scanJob img) payload)
                   (CCPublish GenerateSBOMSubject (sbomMessageID scanJob img) payload);
            (case p of
               Inl err \<Rightarrow>
                 fail (ErrorWrap (''cannot publish generate sbom message for image '' @ here) err)
             | Inr _ \<Rightarrow> ok ())
          })"

definition countFinished :: "'ast catalog_env \<Rightarrow> bool \<Rightarrow> ScanJob \<Rightarrow> (catalog_call, unit) prog" where
  "countFinished E wasFinished scanJob =
    (case (if wasFinished then None else RecordScanJobFinished (ce_meta E) scanJob) of
       None \<Rightarrow> State_Monad.return ()
     | Some labels \<Rightarrow> call (\<lambda>h. ()) (CCMetric labels))"

definition finishCatalog ::
  "'ast catalog_env \<Rightarrow> CreateCatalogMessage \<Rightarrow> ScanJob \<Rightarrow> Image list
     \<Rightarrow> (catalog_call, unit result) prog" where
  "finishCatalog E msg current discoveredImages = do {
     r \<leftarrow> ce_RetryOnConflict E (finishAttempt E msg current discoveredImages);
     (case r of
        Inl err \<Rightarrow>
          if IsNotFound err then ok ()
          else fail (ErrorWrap (''cannot update scan job status '' @ message_label msg) err)
      | Inr (scanJob, wasFinished) \<Rightarrow> do {
          _ \<leftarrow> countFinished E wasFinished scanJob;
          for_each (publishImage E msg scanJob) discoveredImages
        })
   }"

text \<open>From the first access to the registry to the end of the handler.\<close>

definition catalogImages ::
  "'ast catalog_env \<Rightarrow> CreateCatalogMessage \<Rightarrow> Registry \<Rightarrow> ScanJob \<Rightarrow> string list \<Rightarrow> string list
     \<Rightarrow> (catalog_call, unit result) prog" where
  "catalogImages E msg registry scanJob references existingImageNames =
    (case ce_NewTagEvaluator E of
       Inl err \<Rightarrow> fail (ErrorWrap ''cannot instantiate new tag evaluator'' err)
     | Inr tagEvaluator \<Rightarrow> do {
         r \<leftarrow> loop (catalogReference E msg tagEvaluator registry existingImageNames) references
                (scanJob, []);
         (case r of
            Inl err \<Rightarrow> fail err
          | Inr fl \<Rightarrow>
              (case fl of
                 Return \<Rightarrow> ok ()
               | Next acc \<Rightarrow> do {
                   let discoveredImageNames =
                     fold List.insert (map (\<lambda>img. om_Name (im_meta img)) (snd acc)) [];
                   d \<leftarrow> (if sp_Repositories (sj_Spec (fst acc)) = []
                         then deleteObsoleteImages E existingImageNames discoveredImageNames
                                (om_Namespace (rg_meta registry))
                         else ok ());
                   (case d of
                      Inl err \<Rightarrow> fail (ErrorWrap (''cannot delete obsolete images in registry ''
                                                 @ om_Name (rg_meta registry)) err)
                    | Inr _ \<Rightarrow> finishCatalog E msg (fst acc) (snd acc))
                 }))
       })"

definition catalogRegistry ::
  "'ast catalog_env \<Rightarrow> CreateCatalogMessage \<Rightarrow> Registry \<Rightarrow> ScanJob \<Rightarrow> (catalog_call, unit result) prog" where
  "catalogRegistry E msg registry scanJob = do {
     repos \<leftarrow> discoverRepositories E registry;
     (case repos of
        Inl err \<Rightarrow> fail (ErrorWrap ''cannot discover repositories'' err)
      | Inr repositories \<Rightarrow> do {
          refs \<leftarrow> discoverReferences E registry repositories;
          (case refs of
             Inl err \<Rightarrow> fail err
           | Inr references \<Rightarrow> do {
               existing \<leftarrow> call (\<lambda>h. ce_ListImages E h (om_Namespace (rg_meta registry))
                                          (om_Name (rg_meta registry)))
                   (CCListImages (om_Namespace (rg_meta registry)) (om_Name (rg_meta registry)));
               (case existing of
                  Inl err \<Rightarrow> fail (ErrorWrap (''cannot list existing images in registry ''
                                             @ om_Name (rg_meta registry)) err)
                | Inr images \<Rightarrow> do {
                    a \<leftarrow> ack E;
                    (case a of
                       Inl err \<Rightarrow> fail (ErrorWrap ''failed to ack message as in progress'' err)
                     | Inr _ \<Rightarrow>
                         catalogImages E msg registry scanJob references
                           (fold List.insert (map (\<lambda>img. om_Name (im_meta img)) images) []))
                  })
             })
        })
   }"

text \<open>The deferred cleanup of the docker configuration runs after the body, whatever it returns.\<close>

definition catalogWithAuth ::
  "'ast catalog_env \<Rightarrow> CreateCatalogMessage \<Rightarrow> Registry \<Rightarrow> ScanJob \<Rightarrow> (catalog_call, unit result) prog" where
  "catalogWithAuth E msg registry scanJob =
    (if IsPrivate registry
     then do {
       r \<leftarrow> embed CCAccess as_access
              (BuildDockerConfigForRegistry (ce_access E) registry (ce_installationNamespace E));
       (case r of
          Inl err \<Rightarrow> fail (ErrorWrap ''cannot setup docker auth'' err)
        | Inr dockerConfig \<Rightarrow> do {
            result \<leftarrow> catalogRegistry E msg registry scanJob;
            _ \<leftarrow> call (\<lambda>h. ()) (CCDockerCleanup dockerConfig);
            State_Monad.return result
          })
     }
     else catalogRegistry E msg registry scanJob)"

definition catalogScanJob ::
  "'ast catalog_env \<Rightarrow> CreateCatalogMessage \<Rightarrow> ScanJob \<Rightarrow> (catalog_call, unit result) prog" where
  "catalogScanJob E msg scanJob =
    (case registryFromScanJob (ce_unmarshalRegistry E) scanJob of
       Inl err \<Rightarrow> fail err
     | Inr snapshot \<Rightarrow>
         (case applyTargetsToRegistry (ce_quote E) (ce_DefaultRegistry E) snapshot scanJob of
            Inl err \<Rightarrow> fail err
          | Inr registry \<Rightarrow> do {
              t \<leftarrow> transportFromRegistry E registry;
              (case t of
                 Inl err \<Rightarrow> fail (ErrorWrap (''cannot create transport for registry ''
                                            @ om_Name (rg_meta registry)) err)
               | Inr transport \<Rightarrow> do {
                   _ \<leftarrow> call (\<lambda>h. ()) (CCClient transport);
                   catalogWithAuth E msg registry scanJob
                 })
            }))"

definition CreateCatalogHandler_Handle ::
  "'ast catalog_env \<Rightarrow> string \<Rightarrow> (catalog_call, unit result) prog" where
  "CreateCatalogHandler_Handle E data =
    (case ce_unmarshalMessage E data of
       Inl err \<Rightarrow> fail (ErrorWrap ''cannot unmarshal message'' err)
     | Inr msg \<Rightarrow> do {
         r \<leftarrow> ce_RetryOnConflict E (startAttempt E msg);
         (case r of
            Inl err \<Rightarrow>
              if IsNotFound err then ok ()
              else fail (ErrorWrap (''cannot update scan job status '' @ message_label msg) err)
          | Inr (scanJob, alreadyFinished) \<Rightarrow>
              if alreadyFinished then ok () else catalogScanJob E msg scanJob)
       })"

end
