(* ===== verification/Catalog_Correct.thy ===== *)
theory Catalog_Correct
  imports Catalog
begin

text \<open>
  What cataloguing a registry guarantees: targets, layers and names of images, and the order and
  content of the calls of the handler of theory \<open>Catalog\<close>.
\<close>

section \<open>A sample environment\<close>

text \<open>A registry with one repository of one single-platform image, and one obsolete image.\<close>

definition sample_catalog_registry :: Registry where
  "sample_catalog_registry =
    \<lparr>rg_meta = empty_meta\<lparr>om_Name := ''reg'', om_Namespace := ''ns''\<rparr>,
     rg_Spec = \<lparr>rs_URI = ''host'', rs_CatalogType = [], rs_Repositories = [], rs_AuthSecret = [],
                rs_ScanInterval = None, rs_CABundle = [], rs_CABundleRef = None,
                rs_Insecure = False, rs_Platforms = []\<rparr>,
     rg_Conditions = []\<rparr>"

definition sample_catalog_job :: ScanJob where
  "sample_catalog_job = sample_scanjob\<lparr>sj_meta := (sj_meta sample_scanjob)
     \<lparr>om_Namespace := ''ns'', om_Annotations := [(AnnotationScanJobRegistryKey, ''r'')]\<rparr>\<rparr>"

definition sample_message :: CreateCatalogMessage where
  "sample_message = \<lparr>bm_ScanJob = \<lparr>ob_Name = ''job'', ob_Namespace = ''ns'', ob_UID = ''u1''\<rparr>\<rparr>"

definition sample_manifest :: Manifest where
  "sample_manifest = \<lparr>mf_ArtifactType = [], mf_ConfigMediaType = ''c'', mf_LayerMediaTypes = []\<rparr>"

definition sample_crane_image :: crane_image where
  "sample_crane_image = \<lparr>ci_MediaType = Inr ''image'', ci_Manifest = Inr (Some sample_manifest),
     ci_ConfigFile = Inr \<lparr>cf_History = [\<lparr>hi_CreatedBy = ''COPY'', hi_EmptyLayer = False\<rparr>],
       cf_Platform = Some \<lparr>vp_OS = ''linux'', vp_Architecture = ''amd64'', vp_Variant = [],
                           vp_String = ''linux/amd64''\<rparr>\<rparr>,
     ci_Digest = Inr ''d1'', ci_Layers = Inr [\<lparr>ly_Digest = Inr ''l1'', ly_DiffID = Inr ''x1''\<rparr>]\<rparr>"

definition sample_access :: access_env where
  "sample_access = \<lparr>ae_GetConfigMap = (\<lambda>h k. Inl (ErrorNew ''none'')),
     ae_GetSecret = (\<lambda>h k. Inl (ErrorNew ''none'')), ae_LoadConfig = (\<lambda>d. Inr ()),
     ae_GetCredentials = (\<lambda>d a. Inr ([], [])), ae_MkdirTemp = (\<lambda>h. Inr ''/tmp''),
     ae_StoreCredentials = (\<lambda>h a u p. Inr ()), ae_SaveConfig = (\<lambda>h p. Inr ()),
     ae_Setenv = (\<lambda>h k v. Inr ()), ae_validPEM = (\<lambda>b. True), ae_DefaultRegistry = ''docker'',
     ae_DefaultAuthKey = ''hub''\<rparr>"

definition sample_reference :: "string \<Rightarrow> Reference" where
  "sample_reference n = \<lparr>rf_Name = n, rf_String = n, rf_ContextName = ''host/app'',
     rf_RegistryStr = ''host'', rf_RepositoryStr = ''app'', rf_Identifier = ''v1''\<rparr>"

definition named_image :: "string \<Rightarrow> Image" where
  "named_image n = \<lparr>im_meta = empty_meta\<lparr>om_Name := n, om_Namespace := ''ns''\<rparr>,
     im_ImageMetadata = \<lparr>md_Registry = ''reg'', md_RegistryURI = ''host'', md_Repository = ''app'',
       md_Tag = ''v0'', md_Platform = ''linux/amd64'', md_Digest = ''d0'', md_IndexDigest = []\<rparr>,
     im_Layers = [], im_WorkloadScanReports = []\<rparr>"

definition sample_catalog_env :: "string catalog_env" where
  "sample_catalog_env =
    \<lparr>ce_GetScanJob = (\<lambda>h k. Inr sample_catalog_job), ce_UpdateStatus = (\<lambda>h s. Inr s),
     ce_Now = (\<lambda>h. 7), ce_CatalogPages = (\<lambda>h r. Inr [Inr [''app'']]),
     ce_TagPages = (\<lambda>h r. Inr [Inr [''v1'']]),
     ce_ListImages = (\<lambda>h ns r. Inr [named_image ''old'']), ce_Ack = (\<lambda>h. Inr ()),
     ce_RemoteGet = (\<lambda>h r. Inr \<lparr>de_MediaType = ''image'', de_Manifest = []\<rparr>),
     ce_RemoteImage = (\<lambda>h r. Inr sample_crane_image),
     ce_IndexImage = (\<lambda>h d g. Inr sample_crane_image), ce_CreateImage = (\<lambda>h i. Inr ()),
     ce_DeleteImage = (\<lambda>h k. Inr ()), ce_Publish = (\<lambda>h s i p. Inr ()),
     ce_access = sample_access, ce_installationNamespace = ''sys'', ce_meta = list_meta,
     ce_media = \<lparr>ml_IsImage = (\<lambda>t. True), ml_IsIndex = (\<lambda>t. False), ml_IsConfig = (\<lambda>t. True),
       ml_IsLayer = (\<lambda>t. True), ml_ParseManifest = (\<lambda>d. Inr (Some sample_manifest)),
       ml_ParseIndexManifest = (\<lambda>d. Inl (ErrorNew ''no index''))\<rparr>,
     ce_NewTagEvaluator = Inr sample_cel, ce_RetryOnConflict = retry_times 1,
     ce_DefaultTransportIsHTTP = True, ce_SystemCertPool = Inr [], ce_NewPuller = Inr (),
     ce_DefaultRegistry = ''docker'', ce_quote = (\<lambda>s. s), ce_pathJoin = (\<lambda>a b. a @ ''/'' @ b),
     ce_TagString = (\<lambda>r t. rn_Name r @ '':'' @ t), ce_ParseReference = (\<lambda>i n. Inr (sample_reference n)),
     ce_NewRegistry = (\<lambda>i u. Inr u),
     ce_NewRepository = (\<lambda>i n. Inr \<lparr>rn_Name = n, rn_RepositoryStr = ''app''\<rparr>),
     ce_NewDigest = (\<lambda>i n. Inr n), ce_NewTag = (\<lambda>i n. Inr n), ce_ImageIndex = (\<lambda>d. Inr ()),
     ce_IndexManifest = (\<lambda>d. Inl (ErrorNew ''no index'')), ce_IndexDigest = (\<lambda>d. Inr []),
     ce_base64 = (\<lambda>s. s), ce_sha256hex = (\<lambda>s. s), ce_SetImageOwner = (\<lambda>r i. Inr i),
     ce_unmarshalMessage = (\<lambda>d. Inr sample_message),
     ce_unmarshalRegistry = (\<lambda>d. Inr sample_catalog_registry),
     ce_marshalMessage = (\<lambda>m. Inr (ob_Name (gm_Image m)))\<rparr>"

lemma sample_catalog_retrier: "retrier_contract (ce_RetryOnConflict sample_catalog_env)"
  by (simp add: sample_catalog_env_def retry_times_contract)

text \<open>The calls of the sample run that change images.\<close>

lemma sample_catalog_calls:
  "filter (\<lambda>c. case c of CCCreateImage i \<Rightarrow> True | CCDeleteImage k \<Rightarrow> True | CCPublish a b p \<Rightarrow> True
       | _ \<Rightarrow> False) (calls (CreateCatalogHandler_Handle sample_catalog_env []))
   = [CCCreateImage ((named_image ''reg/host/app:v1@d1'')\<lparr>
        im_meta := (im_meta (named_image ''reg/host/app:v1@d1''))
          \<lparr>om_Labels := [(LabelManagedByKey, LabelManagedByValue), (LabelPartOfKey, LabelPartOfValue)]\<rparr>,
        im_ImageMetadata := (im_ImageMetadata (named_image []))\<lparr>md_Tag := ''v1'', md_Digest := ''d1''\<rparr>,
        im_Layers := [\<lparr>il_Command = ''COPY'', il_Digest = ''l1'', il_DiffID = ''x1''\<rparr>]\<rparr>),
      CCDeleteImage (''ns'', ''old''),
      CCPublish GenerateSBOMSubject ''generateSBOM/u1/reg/host/app:v1@d1'' ''reg/host/app:v1@d1'']"
  by code_simp

section \<open>Targets\<close>

lemma fold_insert_List [simp]:
  "set (fold List.insert xs acc) = set xs \<union> set acc"
  "distinct acc \<Longrightarrow> distinct (fold List.insert xs acc)"
  by (induction xs arbitrary: acc) auto

lemma length_filter_names:
  assumes "distinct (map f xs)"
  shows "length (filter (\<lambda>x. f x \<in> T) xs) = card (T \<inter> f ` set xs)"
proof -
  have "length (filter (\<lambda>x. f x \<in> T) xs) = card (set (map f (filter (\<lambda>x. f x \<in> T) xs)))"
    using distinct_card[OF distinct_map_filter[OF assms, of "\<lambda>x. f x \<in> T"]] by simp
  also have "set (map f (filter (\<lambda>x. f x \<in> T) xs)) = T \<inter> f ` set xs"
    by auto
  finally show ?thesis .
qed

definition unique_conditions :: "Registry \<Rightarrow> bool" where
  "unique_conditions registry \<longleftrightarrow>
    (\<forall>repository \<in> set (rs_Repositories (rg_Spec registry)).
       distinct (map mc_Name (rp_MatchConditions repository)))"

text \<open>The repository a target selects.\<close>

definition restricted :: "Repository \<Rightarrow> ScanJobRepository \<Rightarrow> Repository" where
  "restricted repository target =
    (if sr_MatchConditions target = [] then repository
     else repository\<lparr>rp_MatchConditions :=
            filter (\<lambda>mc. mc_Name mc \<in> set (sr_MatchConditions target))
              (rp_MatchConditions repository)\<rparr>)"

lemma applyTarget_iff:
  assumes "unique_conditions registry"
  shows "applyTarget q D registry target = Inr r \<longleftrightarrow>
    target_declared D registry target
    \<and> (\<exists>repository. GetRepository D registry (sr_Name target) = Some repository
         \<and> r = restricted repository target)"
proof (cases "GetRepository D registry (sr_Name target)")
  case (Some repository)
  let ?T = "set (sr_MatchConditions target)" and ?C = "rp_MatchConditions repository"
  have "repository \<in> set (rs_Repositories (rg_Spec registry))"
    using Some by (auto dest: GetRepository_Some)
  then have "distinct (map mc_Name ?C)"
    using assms by (simp add: unique_conditions_def)
  then have l: "length (filter (\<lambda>mc. mc_Name mc \<in> ?T) ?C) = card (?T \<inter> mc_Name ` set ?C)"
    by (rule length_filter_names)
  have t: "length (fold List.insert (sr_MatchConditions target) []) = card ?T"
    by (metis distinct.simps(1) distinct_card fold_insert_List sup_bot_right list.set(1))
  have sub: "card (?T \<inter> mc_Name ` set ?C) = card ?T \<longleftrightarrow> ?T \<subseteq> mc_Name ` set ?C"
    by (metis List.finite_set card_subset_eq inf.absorb_iff1 inf_le1)
  show ?thesis
    using Some l t sub
    by (auto simp: applyTarget_def target_declared_def restricted_def Let_def)
qed (simp add: applyTarget_def target_declared_def)

lemma applyTarget_cases:
  assumes "unique_conditions registry"
  obtains (declared) "target_declared D registry target"
      "applyTarget q D registry target
         = Inr (restricted (the (GetRepository D registry (sr_Name target))) target)"
    | (undeclared) e where "\<not> target_declared D registry target"
      "applyTarget q D registry target = Inl e"
proof (cases "applyTarget q D registry target")
  case (Inl e)
  have "\<not> target_declared D registry target"
  proof
    assume d: "target_declared D registry target"
    then obtain repository where "GetRepository D registry (sr_Name target) = Some repository"
      by (auto simp: target_declared_def)
    with d have "applyTarget q D registry target = Inr (restricted repository target)"
      by (simp add: applyTarget_iff[OF assms])
    with Inl show False by simp
  qed
  then show ?thesis using Inl by (rule undeclared)
next
  case (Inr r)
  with applyTarget_iff[OF assms, THEN iffD1, OF Inr] declared show ?thesis by auto
qed

lemma applyTargets_iff:
  assumes "unique_conditions registry"
  shows "applyTargets q D registry targets = Inr rs \<longleftrightarrow>
    list_all (target_declared D registry) targets
    \<and> rs = map (\<lambda>t. restricted (the (GetRepository D registry (sr_Name t))) t) targets"
proof (induction targets arbitrary: rs)
  case (Cons t ts)
  consider "target_declared D registry t"
      "applyTarget q D registry t
         = Inr (restricted (the (GetRepository D registry (sr_Name t))) t)"
    | e where "\<not> target_declared D registry t" "applyTarget q D registry t = Inl e"
    by (rule applyTarget_cases[OF assms])
  then show ?case
  proof cases
    case 1
    show ?thesis
    proof (cases "applyTargets q D registry ts")
      case (Inl e)
      then have "\<not> list_all (target_declared D registry) ts"
        using Cons.IH[THEN iffD2, OF conjI, OF _ refl] by auto
      then show ?thesis using 1 Inl by simp
    next
      case (Inr xs)
      from Cons.IH[THEN iffD1, OF Inr] show ?thesis
        using 1 Inr by auto
    qed
  qed simp
qed auto

text \<open>
  C13: the worker accepts exactly the targets the controller validated, provided the match
  conditions of a repository have distinct names: the registry is then restricted, target by
  target, to the declared repository with the selected conditions (all of them when the target
  selects none) and nothing else of it changes.
\<close>

theorem targets_restrict_registry:
  assumes "unique_conditions registry" "sp_Repositories (sj_Spec job) \<noteq> []"
  shows "applyTargetsToRegistry q D registry job = Inr registry' \<longleftrightarrow>
    list_all (target_declared D registry) (sp_Repositories (sj_Spec job))
    \<and> registry' = registry\<lparr>rg_Spec := (rg_Spec registry)\<lparr>rs_Repositories :=
        map (\<lambda>t. restricted (the (GetRepository D registry (sr_Name t))) t)
          (sp_Repositories (sj_Spec job))\<rparr>\<rparr>"
proof (cases "applyTargets q D registry (sp_Repositories (sj_Spec job))")
  case (Inl e)
  then have "\<not> list_all (target_declared D registry) (sp_Repositories (sj_Spec job))"
    using applyTargets_iff[OF assms(1), THEN iffD2, OF conjI, OF _ refl] by fastforce
  then show ?thesis
    using Inl assms(2) by (simp add: applyTargetsToRegistry_def)
next
  case (Inr rs)
  then show ?thesis
    using applyTargets_iff[OF assms(1), THEN iffD1, OF Inr] assms(2)
    by (simp add: applyTargetsToRegistry_def) blast
qed

theorem targets_restrict_registry_witness:
  "\<exists>registry'. applyTargetsToRegistry (\<lambda>s. s) ''docker'' sample_target_registry sample_pending_job
       = Inr registry'
     \<and> rs_Repositories (rg_Spec registry') = rs_Repositories (rg_Spec sample_target_registry)"
proof -
  have u: "unique_conditions sample_target_registry" "sp_Repositories (sj_Spec sample_pending_job) \<noteq> []"
    by code_simp+
  have "list_all (target_declared ''docker'' sample_target_registry)
      (sp_Repositories (sj_Spec sample_pending_job))"
    by (simp add: target_declared_def sample_pending_job_def sample_target_registry_def
        GetRepository_def Let_def)
  with targets_restrict_registry[OF u, of "\<lambda>s. s" "''docker''"]
  obtain registry' where "applyTargetsToRegistry (\<lambda>s. s) ''docker'' sample_target_registry
      sample_pending_job = Inr registry'" by blast
  moreover from this have "rs_Repositories (rg_Spec registry')
      = rs_Repositories (rg_Spec sample_target_registry)"
    unfolding targets_restrict_registry[OF u]
    by (simp add: restricted_def sample_pending_job_def sample_target_registry_def
        GetRepository_def Let_def)
  ultimately show ?thesis by blast
qed

section \<open>Layers\<close>

fun pairs_layer :: "(string \<Rightarrow> string) \<Rightarrow> History \<times> Layer \<Rightarrow> ImageLayer \<Rightarrow> bool" where
  "pairs_layer base64 (history, layer) il \<longleftrightarrow>
    il_Command il = base64 (hi_CreatedBy history) \<and> ly_Digest layer = Inr (il_Digest il)
    \<and> ly_DiffID layer = Inr (il_DiffID il)"

definition layered :: "History list \<Rightarrow> History list" where
  "layered hs = filter (\<lambda>h. \<not> hi_EmptyLayer h) hs"

lemma layered_simps [simp]:
  "layered [] = []"
  "layered (h # hs) = (if hi_EmptyLayer h then layered hs else h # layered hs)"
  by (simp_all add: layered_def)

lemma imageLayersFrom_iff:
  assumes "n \<le> length layers"
  shows "imageLayersFrom b layers n hs = Inr ils \<longleftrightarrow>
    length (layered hs) \<le> length layers - n
    \<and> list_all2 (pairs_layer b) (zip (layered hs) (drop n layers)) ils"
  using assms
proof (induction hs arbitrary: n ils)
  case (Cons h hs)
  consider "hi_EmptyLayer h" | "\<not> hi_EmptyLayer h" "n = length layers"
    | "\<not> hi_EmptyLayer h" "n < length layers"
    using Cons.prems by linarith
  then show ?case
  proof cases
    case 1
    then show ?thesis using Cons.IH[OF Cons.prems] by simp
  next
    case 3
    then have d: "drop n layers = layers ! n # drop (Suc n) layers"
      by (simp add: Cons_nth_drop_Suc)
    have s: "Suc (length (layered hs)) \<le> length layers - n
        \<longleftrightarrow> length (layered hs) \<le> length layers - Suc n"
      using 3 by linarith
    note IH = Cons.IH[OF Suc_leI, OF 3(2)]
    show ?thesis
    proof (cases "ly_Digest (layers ! n)")
      case (Inr digest)
      show ?thesis
      proof (cases "ly_DiffID (layers ! n)")
        case (Inr diffID)
        with \<open>ly_Digest (layers ! n) = Inr digest\<close> 3 show ?thesis
          by (auto simp: map_sum_Inr_iff IH d s list_all2_Cons1)
      qed (use Inr 3 in \<open>simp add: d list_all2_Cons1\<close>)
    qed (use 3 in \<open>simp add: d list_all2_Cons1\<close>)
  qed simp
qed auto

text \<open>
  The layers recorded for an image are the layers of its manifest, in order, each with the
  command of the history entry it belongs to; history entries without a layer are passed over.
  The conversion succeeds exactly when no layer is missing and every digest can be read.
\<close>

theorem image_layers_follow_history:
  "imageLayersFrom base64 layers 0 history = Inr ils \<longleftrightarrow>
    length (layered history) \<le> length layers
    \<and> list_all2 (pairs_layer base64) (zip (layered history) layers) ils"
  using imageLayersFrom_iff[of 0 layers] by simp

lemma imageLayersFrom_panic:
  assumes "n \<le> length layers" "length layers - n < length (layered hs)"
    "\<And>l. l \<in> set layers \<Longrightarrow> \<not> isl (ly_Digest l) \<and> \<not> isl (ly_DiffID l)"
  shows "imageLayersFrom b layers n hs = Inl (ErrorPanic ''index out of range'')"
  using assms(1,2)
proof (induction hs arbitrary: n)
  case (Cons h hs)
  show ?case
  proof (cases "hi_EmptyLayer h \<or> n = length layers")
    case True
    then show ?thesis using Cons by auto
  next
    case False
    then have n: "n < length layers" using Cons.prems by simp
    then have "\<not> isl (ly_Digest (layers ! n)) \<and> \<not> isl (ly_DiffID (layers ! n))"
      using assms(3) by simp
    moreover have "imageLayersFrom b layers (Suc n) hs = Inl (ErrorPanic ''index out of range'')"
      using Cons.IH[OF Suc_leI, OF n] Cons.prems False n by simp
    ultimately show ?thesis
      using False n by (auto split: sum.splits)
  qed
qed simp

text \<open>
  A manifest with fewer layers than its history announces is not reported as an error: the
  guard lets a counter equal to the number of layers through and the index expression panics.
\<close>

theorem missing_layer_panics:
  assumes "length layers < length (layered history)"
    "\<And>l. l \<in> set layers \<Longrightarrow> \<not> isl (ly_Digest l) \<and> \<not> isl (ly_DiffID l)"
  shows "imageLayersFrom base64 layers 0 history = Inl (ErrorPanic ''index out of range'')"
  using assms by (intro imageLayersFrom_panic) auto

theorem missing_layer_panics_witness:
  "imageLayersFrom (\<lambda>s. s) [\<lparr>ly_Digest = Inr ''l1'', ly_DiffID = Inr ''x1''\<rparr>] 0
     [\<lparr>hi_CreatedBy = ''COPY'', hi_EmptyLayer = False\<rparr>, \<lparr>hi_CreatedBy = ''RUN'', hi_EmptyLayer = False\<rparr>]
   = Inl (ErrorPanic ''index out of range'')"
  by (rule missing_layer_panics) auto

section \<open>Names of images\<close>

text \<open>The part of a repository name after its last slash has no colon.\<close>

lemma last_sep_inject:
  assumes "a @ sep # b = a' @ sep # b'" "sep \<notin> set b" "sep \<notin> set b'"
  shows "a = a' \<and> b = b'"
proof -
  have "rev b @ sep # rev a = rev b' @ sep # rev a'"
    using arg_cong[OF assms(1), of rev] by simp
  then show ?thesis
    using assms(2,3) by (simp add: sep_append_inject)
qed

text \<open>
  The name of an Image resource identifies the image: two images of the same or of different
  Registry resources get the same name only if they agree on the registry resource, the
  repository, the tag or digest they were found under and the digest of their manifest, or if
  SHA-256 collides.
\<close>

theorem image_name_identifies:
  assumes "computeImageUID sha reg (host @ ''/'' @ base) identifier digest
      = computeImageUID sha reg' (host' @ ''/'' @ base') identifier' digest'"
    "CHR ''/'' \<notin> set reg" "CHR ''/'' \<notin> set reg'"
    "CHR '':'' \<notin> set base" "CHR '':'' \<notin> set base'"
    "CHR ''/'' \<notin> set base" "CHR ''/'' \<notin> set base'"
    "CHR ''/'' \<notin> set identifier" "CHR ''/'' \<notin> set identifier'"
    "CHR ''@'' \<notin> set digest" "CHR ''@'' \<notin> set digest'"
  shows "(reg, host, base, identifier, digest) = (reg', host', base', identifier', digest')
    \<or> (\<exists>x y. x \<noteq> y \<and> sha x = sha y)"
proof (rule disjCI)
  assume "\<not> (\<exists>x y. x \<noteq> y \<and> sha x = sha y)"
  then have "reg @ CHR ''/'' # (host @ ''/'' @ base @ '':'' @ identifier @ ''@'' @ digest)
      = reg' @ CHR ''/'' # (host' @ ''/'' @ base' @ '':'' @ identifier' @ ''@'' @ digest')"
    using assms(1) unfolding computeImageUID_def by auto
  then have r: "reg = reg'" and
    "(host @ ''/'' @ base @ '':'' @ identifier) @ CHR ''@'' # digest
      = (host' @ ''/'' @ base' @ '':'' @ identifier') @ CHR ''@'' # digest'"
    using assms(2,3) by (auto simp: sep_append_inject)
  from last_sep_inject[OF this(2) assms(10,11)] have d: "digest = digest'" and
    "host @ CHR ''/'' # (base @ '':'' @ identifier)
      = host' @ CHR ''/'' # (base' @ '':'' @ identifier')"
    by auto
  from last_sep_inject[OF this(2)] assms(6-9) have h: "host = host'" and
    "base @ CHR '':'' # identifier = base' @ CHR '':'' # identifier'"
    by auto
  then show "(reg, host, base, identifier, digest) = (reg', host', base', identifier', digest')"
    using r d assms(4,5) by (auto simp: sep_append_inject)
qed

theorem image_name_identifies_witness:
  "\<exists>x y :: string. x \<noteq> y \<and> take 3 x = take 3 y"
  using image_name_identifies[of "take 3" "''reg''" "''host''" "''app''" "''v1''" "''d1''"
      "''reg''" "''host''" "''app''" "''v1''" "''d2''"]
  by (simp add: computeImageUID_def)

section \<open>What is created and published\<close>

text \<open>
  The images a job may catalogue: their tag passes the match conditions of their repository, their
  platform is among the platforms of the registry, and they are the conversion of what the
  registry returned for the reference.
\<close>

definition allowed_image :: "'ast catalog_env \<Rightarrow> Registry \<Rightarrow> Image \<Rightarrow> bool" where
  "allowed_image E registry img \<longleftrightarrow>
    (\<exists>tagEvaluator ref details indexDigest.
       ce_NewTagEvaluator E = Inr tagEvaluator
       \<and> FilterByTag tagEvaluator
           (GetRepository (ce_DefaultRegistry E) registry (rf_RepositoryStr ref))
           (rf_Identifier ref) = Inr True
       \<and> IsPlatformAllowed (vp_OS (id_Platform details)) (vp_Architecture (id_Platform details))
           (vp_Variant (id_Platform details)) (rs_Platforms (rg_Spec registry))
       \<and> imageDetailsToImage E ref details registry indexDigest = Inr img)"

definition convertible :: "'ast catalog_env \<Rightarrow> Reference \<Rightarrow> Registry \<Rightarrow> Image \<Rightarrow> bool" where
  "convertible E ref registry img \<longleftrightarrow>
    (\<exists>details indexDigest.
       IsPlatformAllowed (vp_OS (id_Platform details)) (vp_Architecture (id_Platform details))
         (vp_Variant (id_Platform details)) (rs_Platforms (rg_Spec registry))
       \<and> imageDetailsToImage E ref details registry indexDigest = Inr img)"

lemma imageDetails_platform:
  "imageDetails L img (Some p) label = Inr d \<Longrightarrow> id_Platform d = p"
  unfolding imageDetails_def by (auto split: sum.splits if_splits option.splits)

lemma pred_imageDetails:
  "pred_sum (\<lambda>e. True) (\<lambda>d. id_Platform d = p) (imageDetails L img (Some p) label)"
  by (cases "imageDetails L img (Some p) label") (auto dest: imageDetails_platform)

lemma convertibleI:
  "\<lbrakk>IsPlatformAllowed (vp_OS (id_Platform d)) (vp_Architecture (id_Platform d))
      (vp_Variant (id_Platform d)) (rs_Platforms (rg_Spec registry));
    imageDetailsToImage E ref d registry g = Inr img\<rbrakk> \<Longrightarrow> convertible E ref registry img"
  unfolding convertible_def by blast

lemma yields_index_details:
  "yields (pred_sum (\<lambda>e. True) (\<lambda>d. id_Platform d = p)) (Client_GetImageDetailsFromIndex E desc g p)"
  unfolding Client_GetImageDetailsFromIndex_def
  by (intro yields_intros) (simp_all add: pred_imageDetails)

lemma yields_indexEntry:
  assumes "list_all (convertible E ref registry) images"
  shows "yields (pred_sum (\<lambda>e. True) (list_all (convertible E ref registry)))
    (indexEntryToImages E ref registry desc g m images)"
  unfolding indexEntryToImages_def
  using assms
  by (intro yields_cases yields_bind[OF yields_index_details] yields_bind_any)
    (auto intro!: yields_return intro: convertibleI)

lemma yields_refToImages:
  "yields (pred_sum (\<lambda>e. True) (list_all (convertible E ref registry))) (refToImages E ref registry)"
  unfolding refToImages_def multiArchRefToImages_def singleArchRefToImages_def
  by (intro yields_intros yields_fold_prog yields_indexEntry) (auto intro: convertibleI)

text \<open>An invariant of the state of a loop that may leave the handler.\<close>

fun in_flow :: "('a \<Rightarrow> bool) \<Rightarrow> 'a flow \<Rightarrow> bool" where
  "in_flow I Return = True"
| "in_flow I (Next acc) = I acc"

lemma loop_rule:
  assumes "\<And>x acc. x \<in> set xs \<Longrightarrow> I acc \<Longrightarrow>
      emits P (body x acc) \<and> yields (pred_sum (\<lambda>e. True) (in_flow I)) (body x acc)" "I acc"
  shows "emits P (loop body xs acc) \<and> yields (pred_sum (\<lambda>e. True) (in_flow I)) (loop body xs acc)"
  using assms
proof (induction xs arbitrary: acc)
  case (Cons x xs)
  have b: "emits P (body x acc)" "yields (pred_sum (\<lambda>e. True) (in_flow I)) (body x acc)"
    using Cons.prems by auto
  have "emits P (case r of Inl err \<Rightarrow> fail err
          | Inr fl \<Rightarrow> (case fl of Return \<Rightarrow> ok Return | Next acc' \<Rightarrow> loop body xs acc'))
      \<and> yields (pred_sum (\<lambda>e. True) (in_flow I)) (case r of Inl err \<Rightarrow> fail err
          | Inr fl \<Rightarrow> (case fl of Return \<Rightarrow> ok Return | Next acc' \<Rightarrow> loop body xs acc'))"
    if "pred_sum (\<lambda>e. True) (in_flow I) r" for r
    using that Cons by (auto split: sum.splits flow.splits)
  then show ?case
    unfolding loop.simps
    by (intro conjI emits_bind_yields[OF b] yields_bind[OF b(2)]) auto
qed simp

fun allowed_call :: "'ast catalog_env \<Rightarrow> CreateCatalogMessage \<Rightarrow> Registry \<Rightarrow> catalog_call \<Rightarrow> bool" where
  "allowed_call E msg registry (CCCreateImage img) = allowed_image E registry img"
| "allowed_call E msg registry (CCPublish subject messageID payload) \<longleftrightarrow>
    (\<exists>img. allowed_image E registry img \<and> subject = GenerateSBOMSubject
       \<and> ce_marshalMessage E (sbomMessage msg img) = Inr payload)"
| "allowed_call E msg registry (CCDeleteImage key) \<longleftrightarrow> fst key = om_Namespace (rg_meta registry)"
| "allowed_call E msg registry _ = True"

text \<open>Discovery neither writes nor publishes.\<close>

fun reads_only :: "catalog_call \<Rightarrow> bool" where
  "reads_only (CCUpdateStatus s) = False"
| "reads_only (CCCreateImage img) = False"
| "reads_only (CCDeleteImage key) = False"
| "reads_only (CCPublish subject messageID payload) = False"
| "reads_only (CCMetric labels) = False"
| "reads_only _ = True"

lemma emits_refToImages: "emits reads_only (refToImages E ref registry)"
  unfolding refToImages_def multiArchRefToImages_def singleArchRefToImages_def
    indexEntryToImages_def Client_GetDescriptor_def Client_GetImageDetails_def
    Client_GetImageDetailsFromIndex_def ack_def
  by (intro emits_intros) simp_all

lemma emits_discover:
  "emits reads_only (discoverRepositories E registry)"
  "emits reads_only (discoverReferences E registry repositories)"
  unfolding discoverRepositories_def discoverReferences_def discoverImages_def Client_Catalog_def
    Client_ListRepositoryContents_def
  by (intro emits_intros; simp)+

lemma emits_transport: "emits reads_only (transportFromRegistry E registry)"
  unfolding transportFromRegistry_def
  by (intro emits_intros emits_embed[OF emits_Resolve]) simp_all

lemma reads_only_allowed: "reads_only c \<Longrightarrow> allowed_call E msg registry c"
  by (cases c) auto

lemma catalogImage_rule:
  assumes "allowed_image E registry img" "list_all (allowed_image E registry) (snd acc)"
  shows "emits (allowed_call E msg registry) (catalogImage E msg existing img acc)
    \<and> yields (pred_sum (\<lambda>e. True) (in_flow (\<lambda>acc. list_all (allowed_image E registry) (snd acc))))
        (catalogImage E msg existing img acc)"
  unfolding catalogImage_def ack_def Let_def
  by (intro conjI emits_intros yields_intros) (use assms in auto)

lemma catalogReference_rule:
  assumes "ce_NewTagEvaluator E = Inr ev" "list_all (allowed_image E registry) (snd acc)"
  shows "emits (allowed_call E msg registry) (catalogReference E msg ev registry existing n acc)
    \<and> yields (pred_sum (\<lambda>e. True) (in_flow (\<lambda>acc. list_all (allowed_image E registry) (snd acc))))
        (catalogReference E msg ev registry existing n acc)"
proof (cases "ce_ParseReference E (nameOptions registry) n")
  case (Inr ref)
  let ?tag = "FilterByTag ev (GetRepository (ce_DefaultRegistry E) registry (rf_RepositoryStr ref))
      (rf_Identifier ref)"
  show ?thesis
  proof (cases "?tag = Inr True")
    case True
    let ?k = "\<lambda>r. case r of
        Inl err \<Rightarrow> fail (ErrorWrap (''cannot get images for '' @ ce_quote E (rf_String ref)) err)
      | Inr images \<Rightarrow> loop (catalogImage E msg existing) images acc"
    have allowed: "allowed_image E registry img" if "convertible E ref registry img" for img
      using that True assms(1) unfolding allowed_image_def convertible_def by blast
    have k: "emits (allowed_call E msg registry) (?k r)
        \<and> yields (pred_sum (\<lambda>e. True)
             (in_flow (\<lambda>acc. list_all (allowed_image E registry) (snd acc)))) (?k r)"
      if r: "pred_sum (\<lambda>e. True) (list_all (convertible E ref registry)) r" for r
    proof (cases r)
      case (Inr images)
      with r have "allowed_image E registry img" if "img \<in> set images" for img
        using that allowed by (auto simp: list_all_iff)
      then show ?thesis
        unfolding Inr sum.case using assms(2) by (intro loop_rule catalogImage_rule) auto
    qed simp
    show ?thesis
      unfolding catalogReference_def Inr sum.case True not_True_eq_False if_False
      by (intro conjI emits_bind_yields[OF emits_mono[OF emits_refToImages reads_only_allowed]
            yields_refToImages] yields_bind[OF yields_refToImages]
          k[THEN conjunct1] k[THEN conjunct2])
  next
    case False
    then show ?thesis
      using Inr assms(2) by (auto simp: catalogReference_def split: sum.splits)
  qed
qed (simp add: catalogReference_def)

lemma emits_finishAttempt:
  "emits (\<lambda>c. \<exists>k s. c \<in> {CCGetScanJob k, CCNow, CCUpdateStatus s})
     (finishAttempt E msg current discovered)"
  unfolding finishAttempt_def Let_def by (intro emits_intros) auto

lemma emits_publishImage:
  assumes "allowed_image E registry img"
  shows "emits (allowed_call E msg registry) (publishImage E msg scanJob img)"
  unfolding publishImage_def Let_def using assms by (intro emits_intros) auto

lemma emits_finishCatalog:
  assumes "retrier_contract (ce_RetryOnConflict E)" "list_all (allowed_image E registry) discovered"
  shows "emits (allowed_call E msg registry) (finishCatalog E msg current discovered)"
  unfolding finishCatalog_def countFinished_def
  using assms(2)
  by (intro emits_intros emits_retrier[OF assms(1)] emits_mono[OF emits_finishAttempt]
      emits_publishImage) (auto simp: list_all_iff)

lemma emits_deleteObsolete:
  "emits (\<lambda>c. c = CCAck \<or> (\<exists>n \<in> set existing - set discovered. c = CCDeleteImage (namespace, n)))
     (deleteObsoleteImages E existing discovered namespace)"
  unfolding deleteObsoleteImages_def ack_def by (intro emits_intros) auto

lemma emits_catalogImages:
  assumes "retrier_contract (ce_RetryOnConflict E)"
  shows "emits (allowed_call E msg registry) (catalogImages E msg registry job refs existing)"
proof (cases "ce_NewTagEvaluator E")
  case (Inr ev)
  let ?I = "\<lambda>acc. list_all (allowed_image E registry) (snd acc)"
  have l: "emits (allowed_call E msg registry)
        (loop (catalogReference E msg ev registry existing) refs (job, []))"
      "yields (pred_sum (\<lambda>e. True) (in_flow ?I))
        (loop (catalogReference E msg ev registry existing) refs (job, []))"
    using loop_rule[of refs ?I, OF catalogReference_rule[OF Inr]] by auto
  have del: "emits (allowed_call E msg registry)
      (deleteObsoleteImages E existing names (om_Namespace (rg_meta registry)))" for names
    by (rule emits_mono[OF emits_deleteObsolete]) auto
  show ?thesis
    unfolding catalogImages_def Inr sum.case Let_def
    by (rule emits_bind_yields[OF l])
      (auto split: sum.splits flow.splits intro!: emits_intros del emits_finishCatalog[OF assms])
qed (simp add: catalogImages_def)

lemma emits_catalogWithAuth:
  assumes "retrier_contract (ce_RetryOnConflict E)"
  shows "emits (allowed_call E msg registry) (catalogWithAuth E msg registry job)"
  unfolding catalogWithAuth_def catalogRegistry_def ack_def
  by (intro emits_intros emits_catalogImages[OF assms] emits_embed[OF emits_BuildDockerConfig]
      emits_mono[OF emits_discover(1)] emits_mono[OF emits_discover(2)] reads_only_allowed) simp_all

lemma emits_startAttempt:
  "emits (\<lambda>c. \<exists>k s. c \<in> {CCGetScanJob k, CCNow, CCUpdateStatus s}) (startAttempt E msg)"
  unfolding startAttempt_def Let_def by (intro emits_intros) auto

lemma yields_startAttempt:
  "yields (pred_sum (\<lambda>e. True) (\<lambda>(job, finished). \<not> finished \<longrightarrow> (\<exists>h s. ce_UpdateStatus E h s = Inr job)))
     (startAttempt E msg)"
  unfolding startAttempt_def Let_def
  by (intro yields_cases yields_bind_any yields_bind[of "\<lambda>r. \<exists>h s. ce_UpdateStatus E h s = r"])
    (auto intro: yields_call)

fun changes_images :: "catalog_call \<Rightarrow> bool" where
  "changes_images (CCCreateImage img) = True"
| "changes_images (CCDeleteImage key) = True"
| "changes_images (CCPublish subject messageID payload) = True"
| "changes_images _ = False"

lemma reads_only_changes: "reads_only c \<Longrightarrow> \<not> changes_images c"
  by (cases c) auto



section \<open>Redelivered messages\<close>

text \<open>
  A message for a job that has finished, or whose name now belongs to another job, is
  acknowledged without any effect: one read and no write, no request to the registry, no message.
\<close>

theorem catalog_redelivery_ignored:
  assumes "retrier_contract (ce_RetryOnConflict E)" "ce_unmarshalMessage E data = Inr msg"
    "ce_GetScanJob E [] (ob_Namespace (bm_ScanJob msg), ob_Name (bm_ScanJob msg)) = Inr job"
    "om_UID (sj_meta job) \<noteq> ob_UID (bm_ScanJob msg) \<or> JobFinished (ScanJob_view (ce_meta E) job)"
  shows "calls (CreateCatalogHandler_Handle E data)
      = [CCGetScanJob (ob_Namespace (bm_ScanJob msg), ob_Name (bm_ScanJob msg))]
    \<and> answer_of (CreateCatalogHandler_Handle E data) = Inr ()"
proof -
  let ?h = "[CCGetScanJob (message_key msg)]"
  obtain r h' where R: "run_state (ce_RetryOnConflict E (startAttempt E msg)) [] = (r, h')"
    by fastforce
  then have "retried (startAttempt E msg) [] r h'"
    using assms(1) unfolding retrier_contract_def by (metis fst_conv snd_conv)
  moreover have run: "run_state (startAttempt E msg) [] =
      (if om_UID (sj_meta job) \<noteq> ob_UID (bm_ScanJob msg)
       then Inl (StatusError ReasonNotFound (message_label msg)) else Inr (job, True), ?h)"
    using assms(3,4) by (auto simp: startAttempt_def)
  ultimately have "(r, h') = run_state (startAttempt E msg) []"
    by (cases rule: retried.cases) (auto split: if_splits)
  then show ?thesis
    unfolding calls_def answer_of_def CreateCatalogHandler_Handle_def assms(2) sum.case
    using R run by (simp split: if_splits)
qed

theorem catalog_redelivery_ignored_witness:
  "calls (CreateCatalogHandler_Handle (sample_catalog_env\<lparr>ce_GetScanJob := (\<lambda>h k.
       Inr (ScanJob_MarkFailed list_meta 3 ''Failed'' ''gone'' sample_catalog_job))\<rparr>) [])
     = [CCGetScanJob (''ns'', ''job'')]"
proof -
  let ?E = "sample_catalog_env\<lparr>ce_GetScanJob := (\<lambda>h k.
       Inr (ScanJob_MarkFailed list_meta 3 ''Failed'' ''gone'' sample_catalog_job))\<rparr>"
  have "retrier_contract (ce_RetryOnConflict ?E)" "ce_unmarshalMessage ?E [] = Inr sample_message"
    by (simp_all add: sample_catalog_env_def retry_times_contract)
  moreover have "JobFinished (ScanJob_view list_meta
      (ScanJob_MarkFailed list_meta 3 ''Failed'' ''gone'' sample_catalog_job))"
    by code_simp
  ultimately show ?thesis
    using catalog_redelivery_ignored[of ?E "[]" sample_message]
    by (simp add: sample_message_def sample_catalog_env_def)
qed

section \<open>One message per image\<close>

fun is_publish :: "catalog_call \<Rightarrow> bool" where
  "is_publish (CCPublish subject messageID payload) = True"
| "is_publish _ = False"

fun is_metric :: "catalog_call \<Rightarrow> bool" where
  "is_metric (CCMetric labels) = True"
| "is_metric _ = False"

fun is_cleanup :: "catalog_call \<Rightarrow> bool" where
  "is_cleanup (CCDockerCleanup dir) = True"
| "is_cleanup _ = False"

definition publishes :: "'ast catalog_env \<Rightarrow> CreateCatalogMessage \<Rightarrow> ScanJob \<Rightarrow> Image \<Rightarrow> catalog_call \<Rightarrow> bool" where
  "publishes E msg persisted img c \<longleftrightarrow>
    (\<exists>payload. ce_marshalMessage E (sbomMessage msg img) = Inr payload
       \<and> c = CCPublish GenerateSBOMSubject (sbomMessageID persisted img) payload)"

text \<open>
  The outcome \<open>r\<close> of a run from \<open>h\<close> to \<open>h'\<close>: either nothing is published, or the messages follow the
  status update that announces their number.
\<close>

inductive fan_out ::
  "'ast catalog_env \<Rightarrow> CreateCatalogMessage \<Rightarrow> catalog_call list \<Rightarrow> unit result \<Rightarrow> catalog_call list \<Rightarrow> bool"
  for E msg where
  fan_quiet: "list_all (\<lambda>c. \<not> is_publish c) new \<Longrightarrow> fan_out E msg h r (h @ new)"
| fan_sent: "\<lbrakk>list_all (\<lambda>c. \<not> is_publish c) before;
      ce_UpdateStatus E (h @ before) s = Inr persisted;
      ss_ImagesCount (sj_Status s) = int (length images); ss_ScannedImagesCount (sj_Status s) = 0;
      om_UID (sj_meta s) = ob_UID (bm_ScanJob msg);
      list_all is_metric metrics; list_all is_cleanup cleanup;
      list_all2 (publishes E msg persisted) (take k images) sent;
      r = Inr () \<Longrightarrow> length images \<le> k\<rbrakk>
    \<Longrightarrow> fan_out E msg h r (h @ before @ CCUpdateStatus s # metrics @ sent @ cleanup)"

definition fans :: "'ast catalog_env \<Rightarrow> CreateCatalogMessage \<Rightarrow> (catalog_call, unit result) prog \<Rightarrow> bool" where
  "fans E msg m \<longleftrightarrow> (\<forall>h. fan_out E msg h (fst (run_state m h)) (snd (run_state m h)))"

lemma fan_out_prefix:
  assumes "fan_out E msg (h @ a) r h'" "list_all (\<lambda>c. \<not> is_publish c) a"
  shows "fan_out E msg h r h'"
  using assms
proof (cases rule: fan_out.cases)
  case (fan_quiet new)
  then show ?thesis using fan_out.fan_quiet[of "a @ new"] assms(2) by simp
next
  case (fan_sent before s persisted images metrics cleanup k sent)
  then show ?thesis
    using fan_out.fan_sent[of "a @ before" E h s persisted images msg metrics cleanup k sent r] assms(2)
    by simp
qed

lemma fans_quiet: "emits (\<lambda>c. \<not> is_publish c) m \<Longrightarrow> fans E msg m"
  unfolding fans_def emits_def by (metis fan_quiet)

lemma fans_bind:
  assumes "emits (\<lambda>c. \<not> is_publish c) m" "\<And>x. fans E msg (f x)"
  shows "fans E msg (State_Monad.bind m f)"
  unfolding fans_def
proof
  fix h
  obtain x h1 where m: "run_state m h = (x, h1)" by fastforce
  obtain a where "h1 = h @ a" "list_all (\<lambda>c. \<not> is_publish c) a"
    using emits_history[OF assms(1) m] .
  with assms(2)[of x] m show "fan_out E msg h (fst (run_state (State_Monad.bind m f) h))
      (snd (run_state (State_Monad.bind m f) h))"
    unfolding fans_def by (auto intro: fan_out_prefix)
qed

lemma fans_cases:
  "\<lbrakk>\<And>e. r = Inl e \<Longrightarrow> fans E msg (f e); \<And>x. r = Inr x \<Longrightarrow> fans E msg (g x)\<rbrakk>
    \<Longrightarrow> fans E msg (case r of Inl e \<Rightarrow> f e | Inr x \<Rightarrow> g x)"
  "\<lbrakk>b \<Longrightarrow> fans E msg p; \<not> b \<Longrightarrow> fans E msg q\<rbrakk> \<Longrightarrow> fans E msg (if b then p else q)"
  "\<lbrakk>fl = Return \<Longrightarrow> fans E msg p; \<And>x. fl = Next x \<Longrightarrow> fans E msg (k x)\<rbrakk>
    \<Longrightarrow> fans E msg (case fl of Return \<Rightarrow> p | Next x \<Rightarrow> k x)"
  "(\<And>a b. z = (a, b) \<Longrightarrow> fans E msg (u a b)) \<Longrightarrow> fans E msg (case z of (a, b) \<Rightarrow> u a b)"
  "fans E msg (State_Monad.return x)"
  by (auto split: sum.splits flow.splits prod.splits intro: fans_quiet)

text \<open>The deferred cleanup keeps the shape.\<close>

lemma fans_finally:
  assumes "fans E msg m"
  shows "fans E msg (do { r \<leftarrow> m; _ \<leftarrow> call (\<lambda>h. ()) (CCDockerCleanup d); State_Monad.return r })"
  unfolding fans_def
proof
  fix h
  obtain r h' where m: "run_state m h = (r, h')" by fastforce
  with assms have "fan_out E msg h r h'"
    unfolding fans_def by (metis fst_conv snd_conv)
  then have "fan_out E msg h r (h' @ [CCDockerCleanup d])"
  proof (cases rule: fan_out.cases)
    case (fan_quiet new)
    then show ?thesis using fan_out.fan_quiet[of "new @ [CCDockerCleanup d]"] by simp
  next
    case (fan_sent before s persisted images metrics cleanup k sent)
    then show ?thesis
      using fan_out.fan_sent[of before E h s persisted images msg metrics
          "cleanup @ [CCDockerCleanup d]" k sent r] by simp
  qed
  with m show "fan_out E msg h (fst (run_state (do { r \<leftarrow> m; _ \<leftarrow> call (\<lambda>h. ()) (CCDockerCleanup d);
      State_Monad.return r }) h)) (snd (run_state (do { r \<leftarrow> m; _ \<leftarrow> call (\<lambda>h. ()) (CCDockerCleanup d);
      State_Monad.return r }) h))"
    by simp
qed

lemma quiet_simps:
  "(\<exists>k s. c \<in> {CCGetScanJob k, CCNow, CCUpdateStatus s}) \<Longrightarrow> \<not> is_publish c"
  "reads_only c \<Longrightarrow> \<not> is_publish c"
  by (cases c; auto)+

lemma publishImages_run:
  "\<exists>k sent. snd (run_state (for_each (publishImage E msg persisted) images) h) = h @ sent
     \<and> list_all2 (publishes E msg persisted) (take k images) sent
     \<and> (fst (run_state (for_each (publishImage E msg persisted) images) h) = Inr ()
          \<longrightarrow> length images \<le> k)"
proof (induction images arbitrary: h)
  case (Cons img images)
  show ?case
  proof (cases "ce_marshalMessage E (sbomMessage msg img)")
    case (Inl e)
    then show ?thesis
      by (intro exI[of _ 0] exI[of _ "[]"]) (simp add: publishImage_def)
  next
    case (Inr payload)
    let ?c = "CCPublish GenerateSBOMSubject (sbomMessageID persisted img) payload"
    show ?thesis
    proof (cases "ce_Publish E h GenerateSBOMSubject (sbomMessageID persisted img) payload")
      case (Inl e)
      with Inr show ?thesis
        by (intro exI[of _ 1] exI[of _ "[?c]"]) (simp add: publishImage_def publishes_def)
    next
      case ok: (Inr u)
      obtain k sent where "snd (run_state (for_each (publishImage E msg persisted) images) (h @ [?c]))
            = (h @ [?c]) @ sent"
          "list_all2 (publishes E msg persisted) (take k images) sent"
          "fst (run_state (for_each (publishImage E msg persisted) images) (h @ [?c])) = Inr ()
             \<longrightarrow> length images \<le> k"
        using Cons.IH by blast
      moreover have "run_state (publishImage E msg persisted img) h = (Inr (), h @ [?c])"
          "publishes E msg persisted img ?c"
        using Inr ok by (simp_all add: publishImage_def publishes_def)
      ultimately show ?thesis
        by (intro exI[of _ "Suc k"] exI[of _ "?c # sent"]) simp
    qed
  qed
qed simp

lemma mark_keeps_meta [simp]:
  "sj_meta (ScanJob_MarkInProgress M now reason message s) = sj_meta s"
  "sj_meta (ScanJob_MarkComplete M now reason message s) = sj_meta s"
  by (simp_all add: ScanJob_MarkInProgress_def ScanJob_MarkComplete_def
      ScanJob_set_conditions_def Let_def)

lemma finishAttempt_success:
  assumes "run_state (finishAttempt E msg current images) h = (Inr (persisted, finished), h')"
  obtains k s where "h' = h @ [CCGetScanJob k, CCNow, CCUpdateStatus s]"
    "ce_UpdateStatus E (h @ [CCGetScanJob k, CCNow]) s = Inr persisted"
    "om_UID (sj_meta s) = ob_UID (bm_ScanJob msg)"
    "images \<noteq> [] \<longrightarrow> ss_ImagesCount (sj_Status s) = int (length images)
       \<and> ss_ScannedImagesCount (sj_Status s) = 0"
proof -
  let ?k = "(om_Namespace (sj_meta current), om_Name (sj_meta current))"
  obtain job where "ce_GetScanJob E h ?k = Inr job" "om_UID (sj_meta job) = ob_UID (bm_ScanJob msg)"
    using assms by (auto simp: finishAttempt_def Let_def split: sum.splits if_splits)
  with assms show thesis
    by (intro that[of ?k "case last h' of CCUpdateStatus s \<Rightarrow> s | _ \<Rightarrow> current"])
      (auto simp: finishAttempt_def Let_def split: sum.splits if_splits)
qed

lemma quiet_finishAttempt: "emits (\<lambda>c. \<not> is_publish c) (finishAttempt E msg current images)"
  by (rule emits_mono[OF emits_finishAttempt]) (rule quiet_simps(1))

text \<open>A successful retried run ends with a successful attempt after attempts that only conflicted.\<close>

lemma retried_finish:
  assumes "retried (finishAttempt E msg current images) h (Inr (persisted, finished)) h1"
  shows "\<exists>a k s. h1 = (h @ a) @ [CCGetScanJob k, CCNow, CCUpdateStatus s]
    \<and> list_all (\<lambda>c. \<not> is_publish c) a
    \<and> ce_UpdateStatus E ((h @ a) @ [CCGetScanJob k, CCNow]) s = Inr persisted
    \<and> om_UID (sj_meta s) = ob_UID (bm_ScanJob msg)
    \<and> (images \<noteq> [] \<longrightarrow> ss_ImagesCount (sj_Status s) = int (length images)
         \<and> ss_ScannedImagesCount (sj_Status s) = 0)"
  using assms
proof (induction h "Inr (persisted, finished) :: (ScanJob \<times> bool) result" h1 rule: retried.induct)
  case (retried_stop h h')
  obtain k s where "h' = h @ [CCGetScanJob k, CCNow, CCUpdateStatus s]"
    "ce_UpdateStatus E (h @ [CCGetScanJob k, CCNow]) s = Inr persisted"
    "om_UID (sj_meta s) = ob_UID (bm_ScanJob msg)"
    "images \<noteq> [] \<longrightarrow> ss_ImagesCount (sj_Status s) = int (length images)
       \<and> ss_ScannedImagesCount (sj_Status s) = 0"
    by (rule finishAttempt_success[OF retried_stop])
  then show ?case
    by (intro exI[of _ "[]"] exI[of _ k] exI[of _ s]) simp
next
  case (retried_again h e h' h'')
  obtain b where "h' = h @ b" "list_all (\<lambda>c. \<not> is_publish c) b"
    by (rule emits_history[OF quiet_finishAttempt retried_again(1)])
  note b = this
  obtain a k s where "h'' = (h' @ a) @ [CCGetScanJob k, CCNow, CCUpdateStatus s]"
    "list_all (\<lambda>c. \<not> is_publish c) a"
    "ce_UpdateStatus E ((h' @ a) @ [CCGetScanJob k, CCNow]) s = Inr persisted"
    "om_UID (sj_meta s) = ob_UID (bm_ScanJob msg)"
    "images \<noteq> [] \<longrightarrow> ss_ImagesCount (sj_Status s) = int (length images)
       \<and> ss_ScannedImagesCount (sj_Status s) = 0"
    using retried_again(4) by blast
  with b show ?case
    by (intro exI[of _ "b @ a"] exI[of _ k] exI[of _ s]) simp
qed

lemma fans_finishCatalog:
  assumes "retrier_contract (ce_RetryOnConflict E)"
  shows "fans E msg (finishCatalog E msg current images)"
  unfolding fans_def
proof
  fix h
  let ?attempt = "finishAttempt E msg current images" and ?m = "finishCatalog E msg current images"
  obtain r h1 where R: "run_state (ce_RetryOnConflict E ?attempt) h = (r, h1)" by fastforce
  then have retried: "retried ?attempt h r h1"
    using assms unfolding retrier_contract_def by (metis fst_conv snd_conv)
  show "fan_out E msg h (fst (run_state ?m h)) (snd (run_state ?m h))"
  proof (cases r)
    case (Inl e)
    obtain new where new: "h1 = h @ new" "list_all (\<lambda>c. \<not> is_publish c) new"
      using emits_retried[OF retried quiet_finishAttempt]
      by (elim exE conjE) (rule that)
    have "snd (run_state ?m h) = h1"
      using Inl R by (simp add: finishCatalog_def)
    with fan_quiet[OF new(2)] new(1) show ?thesis by simp
  next
    case (Inr x)
    obtain persisted finished where x: "x = (persisted, finished)" by fastforce
    obtain a k s where h1: "h1 = (h @ a) @ [CCGetScanJob k, CCNow, CCUpdateStatus s]"
        "list_all (\<lambda>c. \<not> is_publish c) a"
      and s: "ce_UpdateStatus E ((h @ a) @ [CCGetScanJob k, CCNow]) s = Inr persisted"
        "om_UID (sj_meta s) = ob_UID (bm_ScanJob msg)"
        "images \<noteq> [] \<longrightarrow> ss_ImagesCount (sj_Status s) = int (length images)
           \<and> ss_ScannedImagesCount (sj_Status s) = 0"
      using retried_finish[OF retried[unfolded Inr x]] by (elim exE conjE) (rule that)
    define metrics where "metrics = drop (length h1)
      (snd (run_state (countFinished E finished persisted) h1))"
    have c: "run_state (countFinished E finished persisted) h1 = ((), h1 @ metrics)"
        "list_all is_metric metrics"
      unfolding metrics_def by (auto simp: countFinished_def split: option.splits)
    obtain n sent where p:
      "snd (run_state (for_each (publishImage E msg persisted) images) (h1 @ metrics))
         = (h1 @ metrics) @ sent"
      "list_all2 (publishes E msg persisted) (take n images) sent"
      "fst (run_state (for_each (publishImage E msg persisted) images) (h1 @ metrics)) = Inr ()
         \<longrightarrow> length images \<le> n"
      using publishImages_run[of E msg persisted images "h1 @ metrics"]
      by (elim exE conjE) (rule that)
    have run: "run_state ?m h = run_state (for_each (publishImage E msg persisted) images) (h1 @ metrics)"
      using R Inr x c(1) by (simp add: finishCatalog_def)
    show ?thesis
    proof (cases "images = []")
      case True
      have "list_all (\<lambda>c. \<not> is_publish c)
          (a @ [CCGetScanJob k, CCNow, CCUpdateStatus s] @ metrics)"
        using h1(2) c(2) by (auto simp: list_all_iff elim!: is_metric.elims)
      from fan_quiet[OF this] show ?thesis
        unfolding run using True h1(1) by simp
    next
      case False
      have "fan_out E msg h (fst (run_state ?m h))
          (h @ (a @ [CCGetScanJob k, CCNow]) @ CCUpdateStatus s # metrics @ sent @ [])"
        by (rule fan_sent[where persisted = persisted and images = images and k = n])
          (use h1(2) s c(2) p(2) False in simp_all, use p(3) run in simp)
      then show ?thesis
        unfolding run using p(1) h1(1) by simp
    qed
  qed
qed

text \<open>What the loops over references and images may call.\<close>

definition loop_call :: "catalog_call \<Rightarrow> bool" where
  "loop_call c \<longleftrightarrow> reads_only c \<or> (\<exists>img. c = CCCreateImage img)"

lemma loop_call_quiet: "loop_call c \<Longrightarrow> \<not> is_publish c"
  by (cases c) (auto simp: loop_call_def)

text \<open>
  A part of the loops keeps every image it was given, and every image it creates is among the
  discovered ones; the job it carries is the one it was given or one it read.
\<close>

definition collects ::
  "'ast catalog_env \<Rightarrow> catalog_state \<Rightarrow> (catalog_call, catalog_state flow result) prog \<Rightarrow> bool" where
  "collects E acc m \<longleftrightarrow> (\<forall>h. \<exists>new. snd (run_state m h) = h @ new \<and> list_all loop_call new
     \<and> (\<forall>acc'. fst (run_state m h) = Inr (Next acc') \<longrightarrow>
          set (snd acc) \<subseteq> set (snd acc') \<and> (\<forall>img. CCCreateImage img \<in> set new \<longrightarrow> img \<in> set (snd acc'))
          \<and> (fst acc' = fst acc \<or> (\<exists>h k. ce_GetScanJob E h k = Inr (fst acc')))))"

lemma collects_return [simp]:
  "collects E acc (fail e)" "collects E acc (ok Return)" "collects E acc (ok (Next acc))"
  by (simp_all add: collects_def)

lemma collects_bind:
  assumes "emits reads_only m" "\<And>x. collects E acc (f x)"
  shows "collects E acc (State_Monad.bind m f)"
  unfolding collects_def
proof
  fix h
  obtain x h1 where m: "run_state m h = (x, h1)" by fastforce
  obtain a where a: "h1 = h @ a" "list_all reads_only a"
    using emits_history[OF assms(1) m] .
  then have "list_all loop_call a" "\<And>img. CCCreateImage img \<notin> set a"
    by (auto simp: list_all_iff loop_call_def)
  then show "\<exists>new. snd (run_state (State_Monad.bind m f) h) = h @ new \<and> list_all loop_call new
      \<and> (\<forall>acc'. fst (run_state (State_Monad.bind m f) h) = Inr (Next acc') \<longrightarrow>
          set (snd acc) \<subseteq> set (snd acc') \<and> (\<forall>img. CCCreateImage img \<in> set new \<longrightarrow> img \<in> set (snd acc'))
          \<and> (fst acc' = fst acc \<or> (\<exists>h k. ce_GetScanJob E h k = Inr (fst acc'))))"
    using assms(2)[of x, unfolded collects_def, rule_format, of h1] m a(1)
    by (elim exE conjE, intro exI[of _ "a @ _"]) auto
qed

lemma collects_catalogImage: "collects E acc (catalogImage E msg existing img acc)"
  unfolding collects_def
proof
  fix h
  show "\<exists>new. snd (run_state (catalogImage E msg existing img acc) h) = h @ new \<and> list_all loop_call new
      \<and> (\<forall>acc'. fst (run_state (catalogImage E msg existing img acc) h) = Inr (Next acc') \<longrightarrow>
          set (snd acc) \<subseteq> set (snd acc') \<and> (\<forall>img. CCCreateImage img \<in> set new \<longrightarrow> img \<in> set (snd acc'))
          \<and> (fst acc' = fst acc \<or> (\<exists>h k. ce_GetScanJob E h k = Inr (fst acc'))))"
    by (cases "ce_GetScanJob E h (message_key msg)")
      (auto simp: catalogImage_def ack_def Let_def loop_call_def split: sum.splits if_splits)
qed

lemma collects_loop:
  assumes "\<And>x acc. collects E acc (body x acc)"
  shows "collects E acc (loop body xs acc)"
proof (induction xs arbitrary: acc)
  case (Cons x xs)
  show ?case
    unfolding collects_def
  proof
    fix h
    let ?m = "loop body (x # xs) acc"
    obtain r h1 where b: "run_state (body x acc) h = (r, h1)" by fastforce
    obtain a where a: "h1 = h @ a" "list_all loop_call a"
      "\<And>acc'. r = Inr (Next acc') \<Longrightarrow> set (snd acc) \<subseteq> set (snd acc')
         \<and> (\<forall>img. CCCreateImage img \<in> set a \<longrightarrow> img \<in> set (snd acc'))
         \<and> (fst acc' = fst acc \<or> (\<exists>h k. ce_GetScanJob E h k = Inr (fst acc')))"
      using assms[of acc x, unfolded collects_def, rule_format, of h] b by auto
    show "\<exists>new. snd (run_state ?m h) = h @ new \<and> list_all loop_call new
        \<and> (\<forall>acc'. fst (run_state ?m h) = Inr (Next acc') \<longrightarrow>
          set (snd acc) \<subseteq> set (snd acc') \<and> (\<forall>img. CCCreateImage img \<in> set new \<longrightarrow> img \<in> set (snd acc'))
          \<and> (fst acc' = fst acc \<or> (\<exists>h k. ce_GetScanJob E h k = Inr (fst acc'))))"
    proof (cases "\<exists>acc1. r = Inr (Next acc1)")
      case True
      then obtain acc1 where r: "r = Inr (Next acc1)" by blast
      have run: "run_state ?m h = run_state (loop body xs acc1) h1"
        using b r by simp
      obtain b where "snd (run_state (loop body xs acc1) h1) = h1 @ b" "list_all loop_call b"
        "\<And>acc'. fst (run_state (loop body xs acc1) h1) = Inr (Next acc') \<Longrightarrow> set (snd acc1) \<subseteq> set (snd acc')
         \<and> (\<forall>img. CCCreateImage img \<in> set b \<longrightarrow> img \<in> set (snd acc'))
         \<and> (fst acc' = fst acc1 \<or> (\<exists>h k. ce_GetScanJob E h k = Inr (fst acc')))"
        using Cons.IH[of acc1, unfolded collects_def, rule_format, of h1] by blast
      with a(1,2) a(3)[OF r] show ?thesis
        unfolding run by (intro exI[of _ "a @ b"]) fastforce
    next
      case False
      then have "snd (run_state ?m h) = h1" "\<And>acc'. fst (run_state ?m h) \<noteq> Inr (Next acc')"
        using b by (auto split: sum.splits flow.splits)
      with a(1,2) show ?thesis by auto
    qed
  qed
qed simp

lemma collects_catalogReference: "collects E acc (catalogReference E msg ev registry existing n acc)"
  unfolding catalogReference_def
  by (auto split: sum.splits intro!: collects_bind[OF emits_refToImages]
      collects_loop collects_catalogImage)

lemma collects_references:
  "collects E acc (loop (catalogReference E msg ev registry existing) refs acc)"
  by (rule collects_loop) (rule collects_catalogReference)

lemma emits_collects: "collects E acc m \<Longrightarrow> emits loop_call m"
  unfolding collects_def emits_def by blast

lemma quiet_loop: "emits (\<lambda>c. \<not> is_publish c) (loop (catalogReference E msg ev registry existing) refs acc)"
  by (rule emits_mono[OF emits_collects[OF collects_references] loop_call_quiet])

lemma quiet_delete: "emits (\<lambda>c. \<not> is_publish c) (deleteObsoleteImages E existing names namespace)"
  by (rule emits_mono[OF emits_deleteObsolete]) auto

lemma quiet_reads: "emits reads_only m \<Longrightarrow> emits (\<lambda>c. \<not> is_publish c) m"
  by (erule emits_mono) (rule quiet_simps(2))

lemma fans_catalogImages:
  assumes "retrier_contract (ce_RetryOnConflict E)"
  shows "fans E msg (catalogImages E msg registry job refs existing)"
  unfolding catalogImages_def Let_def
  by (intro fans_cases fans_bind fans_finishCatalog[OF assms] quiet_loop emits_cases(2)
      quiet_delete emits_return)

lemma fans_catalogRegistry:
  assumes "retrier_contract (ce_RetryOnConflict E)"
  shows "fans E msg (catalogRegistry E msg registry job)"
  unfolding catalogRegistry_def ack_def
  by (intro fans_cases fans_bind fans_catalogImages[OF assms] quiet_reads emits_discover) simp_all

lemma fans_Handle:
  assumes "retrier_contract (ce_RetryOnConflict E)" "ce_unmarshalMessage E data = Inr msg"
  shows "fans E msg (CreateCatalogHandler_Handle E data)"
proof -
  have start: "emits (\<lambda>c. \<not> is_publish c) (startAttempt E msg)"
    by (rule emits_mono[OF emits_startAttempt]) (rule quiet_simps(1))
  have access: "emits (\<lambda>c. \<not> is_publish c)
      (embed CCAccess as_access (BuildDockerConfigForRegistry A registry ns))" for A registry ns
    by (rule emits_embed[OF emits_BuildDockerConfig]) simp
  show ?thesis
    unfolding CreateCatalogHandler_Handle_def assms(2) sum.case catalogScanJob_def catalogWithAuth_def
    by (intro fans_finally fans_cases fans_catalogRegistry[OF assms(1)] fans_bind
        emits_retrier[OF assms(1) start] access quiet_reads[OF emits_transport]) simp_all
qed



section \<open>Obsolete images\<close>

text \<open>
  What a trace says about the images it deletes: the job had no targets, the image was listed for
  the registry, and no image of that name is created or has its SBOM requested.
\<close>

definition obsolete_only ::
  "'ast catalog_env \<Rightarrow> CreateCatalogMessage \<Rightarrow> catalog_call list \<Rightarrow> bool" where
  "obsolete_only E msg tr \<longleftrightarrow> (\<forall>namespace n. CCDeleteImage (namespace, n) \<in> set tr \<longrightarrow>
     (\<exists>job. sp_Repositories (sj_Spec job) = []
        \<and> ((\<exists>h k. ce_GetScanJob E h k = Inr job) \<or> (\<exists>h s. ce_UpdateStatus E h s = Inr job)))
     \<and> (\<exists>h registryName listed. ce_ListImages E h namespace registryName = Inr listed
          \<and> n \<in> (\<lambda>img. om_Name (im_meta img)) ` set listed)
     \<and> (\<forall>img. CCCreateImage img \<in> set tr \<longrightarrow> om_Name (im_meta img) \<noteq> n)
     \<and> (\<forall>subject messageID payload. CCPublish subject messageID payload \<in> set tr \<longrightarrow>
          (\<exists>persisted img. publishes E msg persisted img (CCPublish subject messageID payload)
             \<and> om_Name (im_meta img) \<noteq> n)))"

fun tail_call ::
  "'ast catalog_env \<Rightarrow> CreateCatalogMessage \<Rightarrow> string \<Rightarrow> string list \<Rightarrow> catalog_state \<Rightarrow> catalog_call \<Rightarrow> bool" where
  "tail_call E msg namespace existing acc (CCCreateImage img) = False"
| "tail_call E msg namespace existing acc (CCDeleteImage key) \<longleftrightarrow>
    fst key = namespace \<and> snd key \<in> set existing
    \<and> snd key \<notin> (\<lambda>img. om_Name (im_meta img)) ` set (snd acc)
    \<and> sp_Repositories (sj_Spec (fst acc)) = []"
| "tail_call E msg namespace existing acc (CCPublish subject messageID payload) \<longleftrightarrow>
    (\<exists>persisted img. publishes E msg persisted img (CCPublish subject messageID payload)
       \<and> img \<in> set (snd acc))"
| "tail_call E msg namespace existing acc _ = True"

lemma tail_finishCatalog:
  assumes "retrier_contract (ce_RetryOnConflict E)"
  shows "emits (tail_call E msg namespace existing (job, images)) (finishCatalog E msg current images)"
proof -
  have pub: "emits (tail_call E msg namespace existing (job, images)) (publishImage E msg persisted img)"
    if "img \<in> set images" for persisted img
    unfolding publishImage_def Let_def using that
    by (intro emits_intros) (auto simp: publishes_def)
  show ?thesis
    unfolding finishCatalog_def countFinished_def
    by (intro emits_intros emits_retrier[OF assms] emits_mono[OF emits_finishAttempt] pub) auto
qed

lemma obsolete_tail:
  assumes "list_all loop_call a" "\<And>img. CCCreateImage img \<in> set a \<Longrightarrow> img \<in> set (snd acc)"
    "list_all (tail_call E msg namespace existing acc) b"
    "(\<exists>h k. ce_GetScanJob E h k = Inr (fst acc)) \<or> (\<exists>h s. ce_UpdateStatus E h s = Inr (fst acc))"
    "ce_ListImages E h0 namespace registryName = Inr listed"
    "set existing \<subseteq> (\<lambda>img. om_Name (im_meta img)) ` set listed"
  shows "obsolete_only E msg (a @ b)"
  unfolding obsolete_only_def
proof (intro allI impI)
  fix ns n
  assume del: "CCDeleteImage (ns, n) \<in> set (a @ b)"
  have "CCDeleteImage (ns, n) \<notin> set a" "\<And>x y z. CCPublish x y z \<notin> set a"
    using assms(1) by (auto simp: list_all_iff loop_call_def)
  then have d: "tail_call E msg namespace existing acc (CCDeleteImage (ns, n))"
    using del assms(3) by (auto simp: list_all_iff)
  have pub: "\<exists>persisted img. publishes E msg persisted img (CCPublish x y z) \<and> om_Name (im_meta img) \<noteq> n"
    if "CCPublish x y z \<in> set (a @ b)" for x y z
  proof -
    have "tail_call E msg namespace existing acc (CCPublish x y z)"
      using that assms(3) \<open>CCPublish x y z \<notin> set a\<close> by (auto simp: list_all_iff)
    with d show ?thesis by auto
  qed
  have create: "om_Name (im_meta img) \<noteq> n" if "CCCreateImage img \<in> set (a @ b)" for img
    using that assms(2,3) d by (auto simp: list_all_iff)
  show "(\<exists>job. sp_Repositories (sj_Spec job) = []
        \<and> ((\<exists>h k. ce_GetScanJob E h k = Inr job) \<or> (\<exists>h s. ce_UpdateStatus E h s = Inr job)))
     \<and> (\<exists>h registryName listed. ce_ListImages E h ns registryName = Inr listed
          \<and> n \<in> (\<lambda>img. om_Name (im_meta img)) ` set listed)
     \<and> (\<forall>img. CCCreateImage img \<in> set (a @ b) \<longrightarrow> om_Name (im_meta img) \<noteq> n)
     \<and> (\<forall>subject messageID payload. CCPublish subject messageID payload \<in> set (a @ b) \<longrightarrow>
          (\<exists>persisted img. publishes E msg persisted img (CCPublish subject messageID payload)
             \<and> om_Name (im_meta img) \<noteq> n))"
  proof (intro conjI)
    show "\<exists>job. sp_Repositories (sj_Spec job) = []
        \<and> ((\<exists>h k. ce_GetScanJob E h k = Inr job) \<or> (\<exists>h s. ce_UpdateStatus E h s = Inr job))"
      using d assms(4) by (intro exI[of _ "fst acc"]) simp
    show "\<exists>h registryName listed. ce_ListImages E h ns registryName = Inr listed
          \<and> n \<in> (\<lambda>img. om_Name (im_meta img)) ` set listed"
      using d assms(5,6) by (intro exI[of _ h0] exI[of _ registryName] exI[of _ listed]) auto
  qed (use pub create in blast)+
qed

lemma obsolete_none: "list_all loop_call a \<Longrightarrow> obsolete_only E msg a"
  by (auto simp: obsolete_only_def list_all_iff loop_call_def)

lemma obsolete_catalogImages:
  assumes "retrier_contract (ce_RetryOnConflict E)"
    "\<exists>h s. ce_UpdateStatus E h s = Inr job"
    "ce_ListImages E h0 (om_Namespace (rg_meta registry)) registryName = Inr listed"
    "set existing \<subseteq> (\<lambda>img. om_Name (im_meta img)) ` set listed"
  shows "traces (obsolete_only E msg) (catalogImages E msg registry job refs existing)"
proof (cases "ce_NewTagEvaluator E")
  case (Inl e)
  then show ?thesis
    by (simp add: catalogImages_def traces_def obsolete_only_def)
next
  case (Inr ev)
  let ?loop = "loop (catalogReference E msg ev registry existing) refs (job, [])"
  let ?ns = "om_Namespace (rg_meta registry)"
  define rest where "rest r = (case r of
      Inl err \<Rightarrow> fail err
    | Inr fl \<Rightarrow> (case fl of
        Return \<Rightarrow> ok ()
      | Next acc \<Rightarrow> do {
          d \<leftarrow> (if sp_Repositories (sj_Spec (fst acc)) = []
                then deleteObsoleteImages E existing
                       (fold List.insert (map (\<lambda>img. om_Name (im_meta img)) (snd acc)) []) ?ns
                else ok ());
          (case d of
             Inl err \<Rightarrow> fail (ErrorWrap (''cannot delete obsolete images in registry ''
                                         @ om_Name (rg_meta registry)) err)
           | Inr _ \<Rightarrow> finishCatalog E msg (fst acc) (snd acc))
        }))" for r :: "catalog_state flow result"
  have cat: "catalogImages E msg registry job refs existing = State_Monad.bind ?loop rest"
    unfolding catalogImages_def Inr sum.case rest_def Let_def ..
  have tail: "emits (tail_call E msg ?ns existing acc) (rest (Inr (Next acc)))" for acc
    unfolding rest_def sum.case flow.case
    by (intro emits_intros emits_mono[OF emits_deleteObsolete])
      (use tail_finishCatalog[OF assms(1), of msg ?ns existing "fst acc" "snd acc"] in auto)
  show ?thesis
    unfolding traces_def cat
  proof
    fix h
    obtain r h1 where l: "run_state ?loop h = (r, h1)" by fastforce
    obtain a where a: "h1 = h @ a" "list_all loop_call a"
      "\<And>acc. r = Inr (Next acc) \<Longrightarrow> (\<forall>img. CCCreateImage img \<in> set a \<longrightarrow> img \<in> set (snd acc))
         \<and> (fst acc = job \<or> (\<exists>h k. ce_GetScanJob E h k = Inr (fst acc)))"
      using collects_references[of E "(job, [])" msg ev registry existing refs,
        unfolded collects_def, rule_format, of h] l by auto
    show "\<exists>new. snd (run_state (State_Monad.bind ?loop rest) h) = h @ new \<and> obsolete_only E msg new"
    proof (cases "\<exists>acc. r = Inr (Next acc)")
      case True
      then obtain acc where r: "r = Inr (Next acc)" by blast
      obtain b where b: "snd (run_state (rest r) h1) = h1 @ b"
          "list_all (tail_call E msg ?ns existing acc) b"
        using tail[of acc] unfolding emits_def r by blast
      have "obsolete_only E msg (a @ b)"
        by (rule obsolete_tail[OF a(2) _ b(2) _ assms(3,4)])
          (use a(3)[OF r] assms(2) in auto)
      with b(1) a(1) l show ?thesis by auto
    next
      case False
      then have "snd (run_state (rest r) h1) = h1"
        by (auto simp: rest_def split: sum.splits flow.splits)
      with a(1,2) l show ?thesis by (auto intro: obsolete_none)
    qed
  qed
qed

lemma obsolete_neutral:
  assumes "list_all (\<lambda>c. \<not> changes_images c) a" "obsolete_only E msg b"
  shows "obsolete_only E msg (a @ b)" "obsolete_only E msg (b @ a)"
proof -
  have "c \<notin> set a" if "changes_images c" for c
    using assms(1) that by (auto simp: list_all_iff)
  then have "CCDeleteImage k \<notin> set a" "CCCreateImage img \<notin> set a" "CCPublish x y z \<notin> set a"
    for k img x y z by simp_all
  then show "obsolete_only E msg (a @ b)" "obsolete_only E msg (b @ a)"
    using assms(2) unfolding obsolete_only_def by (simp_all cong: conj_cong)
qed

lemma obsolete_Nil [simp]: "obsolete_only E msg []"
  by (simp add: obsolete_only_def)

lemma neutral_reads: "emits reads_only m \<Longrightarrow> emits (\<lambda>c. \<not> changes_images c) m"
  by (erule emits_mono) (rule reads_only_changes)

lemma obsolete_catalogRegistry:
  assumes "retrier_contract (ce_RetryOnConflict E)" "\<exists>h s. ce_UpdateStatus E h s = Inr job"
  shows "traces (obsolete_only E msg) (catalogRegistry E msg registry job)"
proof -
  let ?ns = "om_Namespace (rg_meta registry)" and ?n = "om_Name (rg_meta registry)"
  have list: "yields (\<lambda>r. \<exists>h. ce_ListImages E h ?ns ?n = r)
      (call (\<lambda>h. ce_ListImages E h ?ns ?n) (CCListImages ?ns ?n))"
    by (rule yields_call) blast
  show ?thesis
    unfolding catalogRegistry_def ack_def
    by (intro traces_cases traces_return obsolete_Nil obsolete_neutral(1)
        traces_bind_any[OF neutral_reads[OF emits_discover(1)]]
        traces_bind_any[OF neutral_reads[OF emits_discover(2)]]
        traces_bind[OF emits_call list] traces_bind_any[OF emits_call])
      (auto intro!: obsolete_catalogImages[OF assms])
qed

lemma obsolete_Handle:
  assumes "retrier_contract (ce_RetryOnConflict E)" "ce_unmarshalMessage E data = Inr msg"
  shows "traces (obsolete_only E msg) (CreateCatalogHandler_Handle E data)"
proof -
  have start: "emits (\<lambda>c. \<not> changes_images c) (ce_RetryOnConflict E (startAttempt E msg))"
    by (rule emits_retrier[OF assms(1) emits_mono[OF emits_startAttempt]]) auto
  have access: "emits (\<lambda>c. \<not> changes_images c)
      (embed CCAccess as_access (BuildDockerConfigForRegistry A registry ns))" for A registry ns
    by (rule emits_embed[OF emits_BuildDockerConfig]) simp
  have scan: "traces (obsolete_only E msg) (catalogScanJob E msg job)"
    if "\<exists>h s. ce_UpdateStatus E h s = Inr job" for job
    unfolding catalogScanJob_def catalogWithAuth_def
    by (intro traces_cases traces_return obsolete_Nil
        traces_bind_any[OF neutral_reads[OF emits_transport]] traces_bind_any[OF access]
        traces_bind_any[OF emits_call] obsolete_catalogRegistry[OF assms(1) that]
        traces_bind_last[OF obsolete_catalogRegistry[OF assms(1) that]
          emits_bind[OF emits_call emits_return]] obsolete_neutral) simp_all
  show ?thesis
    unfolding CreateCatalogHandler_Handle_def assms(2) sum.case
    by (rule traces_bind[OF start yields_retrier[OF assms(1) yields_startAttempt]])
      (auto intro!: traces_return traces_cases scan obsolete_neutral(1) split: sum.splits prod.splits)
qed

text \<open>
  C12: images are deleted only when they are obsolete.  A deleted image was listed for the registry,
  the job that deletes it has no targets, so that it looked at the whole registry, and the same
  run neither creates an image of that name nor requests an SBOM for one.
\<close>

theorem catalog_deletes_only_obsolete:
  assumes "retrier_contract (ce_RetryOnConflict E)" "ce_unmarshalMessage E data = Inr msg"
    "CCDeleteImage (namespace, n) \<in> set (calls (CreateCatalogHandler_Handle E data))"
  shows "(\<exists>job. sp_Repositories (sj_Spec job) = []
        \<and> ((\<exists>h k. ce_GetScanJob E h k = Inr job) \<or> (\<exists>h s. ce_UpdateStatus E h s = Inr job)))
    \<and> (\<exists>h registryName listed. ce_ListImages E h namespace registryName = Inr listed
         \<and> n \<in> (\<lambda>img. om_Name (im_meta img)) ` set listed)
    \<and> (\<forall>img. CCCreateImage img \<in> set (calls (CreateCatalogHandler_Handle E data)) \<longrightarrow>
         om_Name (im_meta img) \<noteq> n)
    \<and> (\<forall>subject messageID payload.
         CCPublish subject messageID payload \<in> set (calls (CreateCatalogHandler_Handle E data)) \<longrightarrow>
         (\<exists>persisted img. publishes E msg persisted img (CCPublish subject messageID payload)
            \<and> om_Name (im_meta img) \<noteq> n))"
  using traces_calls[OF obsolete_Handle[OF assms(1,2)]] assms(3)
  unfolding obsolete_only_def by blast

theorem catalog_deletes_only_obsolete_witness:
  "CCDeleteImage (''ns'', ''old'') \<in> set (calls (CreateCatalogHandler_Handle sample_catalog_env []))
   \<and> (\<exists>job. sp_Repositories (sj_Spec job) = []
        \<and> ((\<exists>h k. ce_GetScanJob sample_catalog_env h k = Inr job)
           \<or> (\<exists>h s. ce_UpdateStatus sample_catalog_env h s = Inr job)))"
proof -
  have "CCDeleteImage (''ns'', ''old'') \<in> set (calls (CreateCatalogHandler_Handle sample_catalog_env []))"
    using arg_cong[OF sample_catalog_calls, of set] by auto
  moreover have "ce_unmarshalMessage sample_catalog_env [] = Inr sample_message"
    by (simp add: sample_catalog_env_def)
  ultimately show ?thesis
    using catalog_deletes_only_obsolete[OF sample_catalog_retrier] by blast
qed

end
