(* ===== verification/Strconv.thy ===== *)
theory Strconv
  imports Prelude
begin

text \<open>
  The decimal conversions of Go's \<open>strconv\<close> that the storage server uses for resource versions and
  continue tokens: \<open>FormatInt\<close>, \<open>FormatUint\<close>, \<open>ParseInt\<close> and \<open>ParseUint\<close> in base 10 with 64 bits.
\<close>

definition digit :: "nat \<Rightarrow> char" where
  "digit n = char_of (48 + n)"

definition digit_value :: "char \<Rightarrow> nat option" where
  "digit_value c = (let n = of_char c in if 48 \<le> n \<and> n \<le> 57 then Some (n - 48) else None)"

fun FormatUint :: "nat \<Rightarrow> string" where
  "FormatUint n = (if n < 10 then [digit n] else FormatUint (n div 10) @ [digit (n mod 10)])"

declare FormatUint.simps [simp del]

definition FormatInt :: "int \<Rightarrow> string" where
  "FormatInt i = (if i < 0 then CHR ''-'' # FormatUint (nat (- i)) else FormatUint (nat i))"

text \<open>The digits of a number from the left, \<open>None\<close> at the first character that is not a digit.\<close>

primrec parse_digits :: "nat \<Rightarrow> string \<Rightarrow> nat option" where
  "parse_digits acc [] = Some acc"
| "parse_digits acc (c # cs) =
    (case digit_value c of None \<Rightarrow> None | Some d \<Rightarrow> parse_digits (10 * acc + d) cs)"

definition ParseUint :: "string \<Rightarrow> nat result" where
  "ParseUint s =
    (if s = [] then Inl (ErrorNew ''invalid syntax'')
     else case parse_digits 0 s of
       None \<Rightarrow> Inl (ErrorNew ''invalid syntax'')
     | Some n \<Rightarrow> if n < 2 ^ 64 then Inr n else Inl (ErrorNew ''value out of range''))"

definition ParseInt :: "string \<Rightarrow> int result" where
  "ParseInt s =
    (let neg = (s \<noteq> [] \<and> hd s = CHR ''-'');
         digits = (if s \<noteq> [] \<and> (hd s = CHR ''-'' \<or> hd s = CHR ''+'') then tl s else s)
     in case ParseUint digits of
          Inl err \<Rightarrow> Inl err
        | Inr n \<Rightarrow>
            if neg then (if n \<le> 2 ^ 63 then Inr (- int n) else Inl (ErrorNew ''value out of range''))
            else (if n < 2 ^ 63 then Inr (int n) else Inl (ErrorNew ''value out of range'')))"

lemma digit_value_digit [simp]: "d < 10 \<Longrightarrow> digit_value (digit d) = Some d"
  by (simp add: digit_def digit_value_def Let_def of_char_of take_bit_nat_eq_self)

lemma digit_not_sign [simp]:
  "d < 10 \<Longrightarrow> digit d \<noteq> CHR ''-''" "d < 10 \<Longrightarrow> digit d \<noteq> CHR ''+''" "d < 10 \<Longrightarrow> digit d \<noteq> CHR ''/''"
  using digit_value_digit[of d] by (auto simp: digit_value_def)

lemma parse_digits_append:
  "parse_digits acc (xs @ ys) = Option.bind (parse_digits acc xs) (\<lambda>n. parse_digits n ys)"
  by (induction xs arbitrary: acc) (auto split: option.splits)

lemma FormatUint_nonempty [simp]: "FormatUint n \<noteq> []"
  by (subst FormatUint.simps) simp

lemma FormatUint_digits: "c \<in> set (FormatUint n) \<Longrightarrow> \<exists>d < 10. c = digit d"
proof (induction n rule: FormatUint.induct)
  case (1 n)
  show ?case
  proof (cases "n < 10")
    case True
    with 1(2) show ?thesis by (subst (asm) FormatUint.simps) auto
  next
    case False
    with 1(2) have "c \<in> set (FormatUint (n div 10)) \<or> c = digit (n mod 10)"
      by (subst (asm) FormatUint.simps) auto
    with False 1(1) show ?thesis by (auto intro: exI[of _ "n mod 10"])
  qed
qed

lemma parse_FormatUint: "parse_digits 0 (FormatUint n) = Some n"
proof (induction n rule: FormatUint.induct)
  case (1 n)
  then show ?case
    by (subst FormatUint.simps) (auto simp: parse_digits_append)
qed

text \<open>Parsing what was printed gives the number back, for every value of the width.\<close>

lemma ParseUint_FormatUint: "n < 2 ^ 64 \<Longrightarrow> ParseUint (FormatUint n) = Inr n"
  by (simp add: ParseUint_def parse_FormatUint)

lemma FormatUint_hd: "hd (FormatUint n) \<noteq> CHR ''-''" "hd (FormatUint n) \<noteq> CHR ''+''"
  using FormatUint_digits[of "hd (FormatUint n)" n] digit_not_sign by (metis FormatUint_nonempty hd_in_set)+

lemma FormatInt_nonempty [simp]: "FormatInt i \<noteq> []"
  by (simp add: FormatInt_def)

lemma ParseInt_FormatInt:
  assumes "- (2 ^ 63) \<le> i" "i < 2 ^ 63"
  shows "ParseInt (FormatInt i) = Inr i"
proof (cases "i < 0")
  case True
  then have "nat (- i) < 2 ^ 64" "nat (- i) \<le> 2 ^ 63"
    using assms by (simp_all add: nat_le_iff nat_less_iff)
  with True show ?thesis
    by (simp add: ParseInt_def FormatInt_def ParseUint_FormatUint Let_def)
next
  case False
  then have "nat i < 2 ^ 63" using assms by (simp add: nat_less_iff)
  moreover from this have "nat i < 2 ^ 64" by simp
  ultimately show ?thesis
    using False by (simp add: ParseInt_def FormatInt_def ParseUint_FormatUint Let_def FormatUint_hd)
qed

end
