(* ===== verification/Storage.thy ===== *)
theory Storage
  imports Api_Types Strconv
begin

text \<open>
  The storage server: \<open>src/internal/storage/store.go\<close>, the repository of
  \<open>src/internal/storage/repository/generic_object_repository.go\<close> and \<open>list.go\<close>, and the
  watch events of \<open>src/internal/storage/watcher.go\<close>.

  PostgreSQL is a parameter: \<open>sql_lib\<close> has one function per statement that the repository builds,
  over a database state of any type.  What the server relies on is the locale \<open>postgres\<close>.  The type
  of the stored objects is a type variable; \<open>object_lib\<close> has the functions on it (metadata, JSON
  codec, versioner, publish-side transformation).
\<close>

section \<open>The database\<close>

record Row =
  rw_id :: int
  rw_name :: string
  rw_namespace :: string
  rw_object :: string

datatype label_expression =
    LabelEQ string string
  | LabelNE string string
  | LabelAny string "string list"
  | LabelNotAll string "string list"
  | LabelExists string
  | LabelNotExists string

datatype field_expression =
    FieldEQ string string
  | FieldNE string string

text \<open>The conditions of the list query.\<close>

record list_query =
  lq_namespace :: "string option"
  lq_after :: "int option"
  lq_minVersion :: "nat option"
  lq_labels :: "label_expression list"
  lq_fields :: "field_expression list"
  lq_limit :: "int option"

record 's sql_lib =
  sq_nextval :: "'s \<Rightarrow> nat result \<times> 's"
  sq_sequence :: "'s \<Rightarrow> (nat \<times> bool) result \<times> 's"
  sq_Begin :: "'s \<Rightarrow> unit result \<times> 's"
  sq_Commit :: "'s \<Rightarrow> unit result \<times> 's"
  sq_Rollback :: "'s \<Rightarrow> 's"
  sq_insert :: "string \<Rightarrow> string \<Rightarrow> string \<Rightarrow> 's \<Rightarrow> nat result \<times> 's"
  sq_delete :: "string \<Rightarrow> string \<Rightarrow> 's \<Rightarrow> string result \<times> 's"
  sq_select :: "string \<Rightarrow> string \<Rightarrow> 's \<Rightarrow> string result \<times> 's"
  sq_update :: "string \<Rightarrow> string \<Rightarrow> string \<Rightarrow> 's \<Rightarrow> nat result \<times> 's"
  sq_count :: "string option \<Rightarrow> 's \<Rightarrow> int result \<times> 's"
  sq_list :: "list_query \<Rightarrow> 's \<Rightarrow> (int \<times> string) list result \<times> 's"

record 'o object_lib =
  ol_meta :: "'o \<Rightarrow> ObjectMeta"
  ol_zero :: 'o
  ol_marshal :: "'o \<Rightarrow> string result"
  ol_unmarshal :: "string \<Rightarrow> 'o result"
  ol_UpdateObject :: "'o \<Rightarrow> nat \<Rightarrow> 'o result"
  ol_SetAnnotations :: "'o \<Rightarrow> string_map \<Rightarrow> 'o"
  ol_transform :: "'o \<Rightarrow> 'o result"

datatype EventType = Added | Modified | Deleted | Bookmark

text \<open>The database and the messages published for the watchers.\<close>

record 's store_world =
  sw_db :: 's
  sw_messages :: "(EventType \<times> string) list"

type_synonym ('s, 'a) storing = "('s store_world, 'a) state"

definition db :: "('s \<Rightarrow> 'a \<times> 's) \<Rightarrow> ('s, 'a) storing" where
  "db f = State (\<lambda>w. case f (sw_db w) of (x, d) \<Rightarrow> (x, w\<lparr>sw_db := d\<rparr>))"

record ('s, 'o) store =
  st_sql :: "'s sql_lib"
  st_lib :: "'o object_lib"
  st_PublishMsg :: "(EventType \<times> string) list \<Rightarrow> EventType \<times> string \<Rightarrow> unit result"
  st_clusterScoped :: bool
  st_OptimisticLockErrorMsg :: string

section \<open>The repository\<close>

abbreviation ErrAlreadyExists :: string where "ErrAlreadyExists \<equiv> ''object already exists''"
abbreviation ErrNotFound :: string where "ErrNotFound \<equiv> ''object not found''"
abbreviation ErrNoRows :: string where "ErrNoRows \<equiv> ''no rows in result set''"

definition repo_Create :: "('s, 'o) store \<Rightarrow> 'o \<Rightarrow> ('s, unit result) storing" where
  "repo_Create S obj =
    (case ol_marshal (st_lib S) obj of
       Inl err \<Rightarrow> State_Monad.return (Inl (ErrorWrap ''failed to marshal object'' err))
     | Inr bytes \<Rightarrow> do {
         r \<leftarrow> db (sq_insert (st_sql S) (om_Name (ol_meta (st_lib S) obj))
                   (om_Namespace (ol_meta (st_lib S) obj)) bytes);
         State_Monad.return
           (case r of
              Inl err \<Rightarrow> Inl (ErrorWrap ''failed to execute insert'' err)
            | Inr rowsAffected \<Rightarrow>
                if rowsAffected = 0 then Inl (ErrorSentinel ErrAlreadyExists) else Inr ())
       })"

definition decodeRow :: "('s, 'o) store \<Rightarrow> string \<Rightarrow> string result \<Rightarrow> 'o result" where
  "decodeRow S failure r =
    (case r of
       Inl err \<Rightarrow>
         if ErrorIs err ErrNoRows then Inl (ErrorSentinel ErrNotFound) else Inl (ErrorWrap failure err)
     | Inr bytes \<Rightarrow>
         (case ol_unmarshal (st_lib S) bytes of
            Inl err \<Rightarrow> Inl (ErrorWrap ''failed to unmarshal object'' err)
          | Inr obj \<Rightarrow> Inr obj))"

definition repo_Delete :: "('s, 'o) store \<Rightarrow> string \<Rightarrow> string \<Rightarrow> ('s, 'o result) storing" where
  "repo_Delete S name namespace = do {
     r \<leftarrow> db (sq_delete (st_sql S) name namespace);
     State_Monad.return (decodeRow S ''failed to execute delete'' r)
   }"

definition repo_Get :: "('s, 'o) store \<Rightarrow> string \<Rightarrow> string \<Rightarrow> ('s, 'o result) storing" where
  "repo_Get S name namespace = do {
     r \<leftarrow> db (sq_select (st_sql S) name namespace);
     State_Monad.return (decodeRow S ''failed to execute select'' r)
   }"

definition repo_Update :: "('s, 'o) store \<Rightarrow> string \<Rightarrow> string \<Rightarrow> 'o \<Rightarrow> ('s, unit result) storing" where
  "repo_Update S name namespace obj =
    (case ol_marshal (st_lib S) obj of
       Inl err \<Rightarrow> State_Monad.return (Inl (ErrorWrap ''failed to marshal object'' err))
     | Inr bytes \<Rightarrow> do {
         r \<leftarrow> db (sq_update (st_sql S) name namespace bytes);
         State_Monad.return
           (case r of
              Inl err \<Rightarrow> Inl (ErrorWrap ''failed to execute update'' err)
            | Inr rowsAffected \<Rightarrow>
                if rowsAffected = 0 then Inl (ErrorSentinel ErrNotFound) else Inr ())
       })"

definition repo_Count :: "('s, 'o) store \<Rightarrow> string \<Rightarrow> ('s, int result) storing" where
  "repo_Count S namespace = do {
     r \<leftarrow> db (sq_count (st_sql S) (if namespace \<noteq> [] then Some namespace else None));
     State_Monad.return (case r of
         Inl err \<Rightarrow> Inl (ErrorWrap ''failed to execute count query'' err)
       | Inr n \<Rightarrow> Inr n)
   }"

section \<open>Listing\<close>

datatype selection_operator =
    Equals | DoubleEquals | NotEquals | In | NotIn | Exists | DoesNotExist | GreaterThan | LessThan

text \<open>\<open>rq_Values\<close> is the sorted list of the values of a label requirement.\<close>

record Requirement =
  rq_Key :: string
  rq_Operator :: selection_operator
  rq_Values :: "string list"

record FieldRequirement =
  fq_Field :: string
  fq_Operator :: selection_operator
  fq_Value :: string

text \<open>
  \<open>lo_Label\<close> is the answer of \<open>Requirements()\<close> of the label selector, \<open>None\<close> for a \<open>nil\<close> selector;
  its flag says whether the selector is selectable.
\<close>

record ListOptions =
  lo_ResourceVersion :: string
  lo_SendInitialEvents :: "bool option"
  lo_AllowWatchBookmarks :: bool
  lo_Label :: "(Requirement list \<times> bool) option"
  lo_Field :: "FieldRequirement list option"
  lo_Limit :: int
  lo_Continue :: string

text \<open>\<open>Values().List()[0]\<close> panics on an empty list.\<close>

definition firstValue :: "string list \<Rightarrow> string result" where
  "firstValue vs = (case vs of [] \<Rightarrow> Inl (ErrorPanic ''index out of range'') | v # _ \<Rightarrow> Inr v)"

definition labelExpression :: "Requirement \<Rightarrow> label_expression result" where
  "labelExpression req =
    (let key = rq_Key req; values = rq_Values req
     in case rq_Operator req of
          Equals \<Rightarrow> map_sum id (LabelEQ key) (firstValue values)
        | DoubleEquals \<Rightarrow> map_sum id (LabelEQ key) (firstValue values)
        | NotEquals \<Rightarrow> map_sum id (LabelNE key) (firstValue values)
        | In \<Rightarrow> Inr (LabelAny key values)
        | NotIn \<Rightarrow> Inr (LabelNotAll key values)
        | Exists \<Rightarrow> Inr (LabelExists key)
        | DoesNotExist \<Rightarrow> Inr (LabelNotExists key)
        | GreaterThan \<Rightarrow> Inl (ErrorNew ''unsupported label selector operator: gt'')
        | LessThan \<Rightarrow> Inl (ErrorNew ''unsupported label selector operator: lt''))"

text \<open>A loop that appends one result per element and stops at the first error.\<close>

primrec collect :: "('a \<Rightarrow> 'b result) \<Rightarrow> 'a list \<Rightarrow> 'b list result" where
  "collect f [] = Inr []"
| "collect f (x # xs) =
    (case f x of Inl err \<Rightarrow> Inl err | Inr y \<Rightarrow> map_sum id (Cons y) (collect f xs))"

definition buildLabelSelectorExpressions ::
  "Requirement list \<times> bool \<Rightarrow> label_expression list result" where
  "buildLabelSelectorExpressions selector =
    (if \<not> snd selector then Inr [] else collect labelExpression (fst selector))"

definition fieldExpression :: "FieldRequirement \<Rightarrow> field_expression result" where
  "fieldExpression req =
    (let jsonPath = ''{'' @ Join (Split CHR ''.'' (fq_Field req)) '','' @ ''}''
     in case fq_Operator req of
          Equals \<Rightarrow> Inr (FieldEQ jsonPath (fq_Value req))
        | DoubleEquals \<Rightarrow> Inr (FieldEQ jsonPath (fq_Value req))
        | NotEquals \<Rightarrow> Inr (FieldNE jsonPath (fq_Value req))
        | _ \<Rightarrow> Inl (ErrorNew ''unsupported field selector operator''))"

definition buildFieldSelectorExpressions :: "FieldRequirement list \<Rightarrow> field_expression list result" where
  "buildFieldSelectorExpressions = collect fieldExpression"

text \<open>The query that \<open>list\<close> builds from the options.\<close>

definition listQuery :: "string \<Rightarrow> ListOptions \<Rightarrow> list_query result" where
  "listQuery namespace opts =
    (case (if lo_Continue opts = [] then Inr None
           else map_sum (ErrorWrap ''invalid continue token'') Some (ParseInt (lo_Continue opts))) of
       Inl err \<Rightarrow> Inl err
     | Inr after \<Rightarrow>
    (case (if lo_ResourceVersion opts = [] \<or> lo_ResourceVersion opts = ''0'' then Inr None
           else map_sum (ErrorWrap ''invalid resource version'')
                  (\<lambda>rv. if lo_SendInitialEvents opts = Some True then None else Some rv)
                  (ParseUint (lo_ResourceVersion opts))) of
       Inl err \<Rightarrow> Inl err
     | Inr minVersion \<Rightarrow>
    (case (case lo_Label opts of None \<Rightarrow> Inr [] | Some sel \<Rightarrow> buildLabelSelectorExpressions sel) of
       Inl err \<Rightarrow> Inl err
     | Inr labels \<Rightarrow>
    (case (case lo_Field opts of None \<Rightarrow> Inr [] | Some reqs \<Rightarrow> buildFieldSelectorExpressions reqs) of
       Inl err \<Rightarrow> Inl err
     | Inr fieldExprs \<Rightarrow>
         Inr \<lparr>lq_namespace = (if namespace \<noteq> [] then Some namespace else None), lq_after = after,
              lq_minVersion = minVersion, lq_labels = labels, lq_fields = fieldExprs,
              lq_limit = (if lo_Limit opts > 0 then Some (lo_Limit opts + 1) else None)\<rparr>))))"

text \<open>
  The loop over the rows, with the items so far, the identifier of the last row and the number of
  rows read; the last component says that one more row was there.
\<close>

fun scanRows ::
  "('s, 'o) store \<Rightarrow> int \<Rightarrow> (int \<times> string) list \<Rightarrow> 'o list \<Rightarrow> int \<Rightarrow> int
     \<Rightarrow> ('o list \<times> int \<times> bool) result" where
  "scanRows S limit [] items lastID cnt = Inr (items, lastID, False)"
| "scanRows S limit ((rowID, bytes) # rows) items lastID cnt =
    (if limit > 0 \<and> cnt = limit then Inr (items, lastID, True)
     else case ol_unmarshal (st_lib S) bytes of
       Inl err \<Rightarrow> Inl (ErrorWrap ''failed to unmarshal object'' err)
     | Inr obj \<Rightarrow> scanRows S limit rows (items @ [obj]) rowID (cnt + 1))"

definition repo_List ::
  "('s, 'o) store \<Rightarrow> string \<Rightarrow> ListOptions \<Rightarrow> ('s, ('o list \<times> string) result) storing" where
  "repo_List S namespace opts =
    (case listQuery namespace opts of
       Inl err \<Rightarrow> State_Monad.return (Inl err)
     | Inr query \<Rightarrow> do {
         r \<leftarrow> db (sq_list (st_sql S) query);
         State_Monad.return
           (case r of
              Inl err \<Rightarrow> Inl (ErrorWrap ''failed to execute list query'' err)
            | Inr rows \<Rightarrow>
                (case scanRows S (lo_Limit opts) rows [] 0 0 of
                   Inl err \<Rightarrow> Inl err
                 | Inr (items, lastID, hasMore) \<Rightarrow>
                     Inr (items, if hasMore then FormatInt lastID else [])))
       })"

section \<open>The store\<close>

text \<open>
  The errors of \<open>k8s.io/apiserver/pkg/storage\<close>; \<open>Refused\<close> is an error of the caller's functions
  that the store returns as it is.
\<close>

datatype store_error =
    KeyExists string
  | KeyNotFound string
  | Internal error
  | BadRequest string
  | Refused error

type_synonym 'a stored = "store_error + 'a"

definition nextResourceVersion :: "('s, 'o) store \<Rightarrow> ('s, nat result) storing" where
  "nextResourceVersion S = do {
     r \<leftarrow> db (sq_nextval (st_sql S));
     State_Monad.return (case r of
         Inl err \<Rightarrow> Inl (ErrorWrap ''failed to get next resource version'' err)
       | Inr rv \<Rightarrow> Inr rv)
   }"

definition GetCurrentResourceVersion :: "('s, 'o) store \<Rightarrow> ('s, nat result) storing" where
  "GetCurrentResourceVersion S = do {
     r \<leftarrow> db (sq_sequence (st_sql S));
     (case r of
        Inl err \<Rightarrow>
          State_Monad.return (Inl (ErrorWrap ''failed to get current resource version'' err))
      | Inr (rv, isCalled) \<Rightarrow>
          if \<not> isCalled then nextResourceVersion S else State_Monad.return (Inr rv))
   }"

definition extractKeyNameAndNamespace :: "bool \<Rightarrow> string \<Rightarrow> string \<times> string" where
  "extractKeyNameAndNamespace clusterScoped key =
    (let parts = Split CHR ''/'' (TrimPrefix key ''/'')
     in if clusterScoped then (if length parts = 3 then (parts ! 2, []) else ([], []))
        else if length parts = 4 then (parts ! 3, parts ! 2) else ([], []))"

definition extractKeyNamespace :: "bool \<Rightarrow> string \<Rightarrow> string" where
  "extractKeyNamespace clusterScoped key =
    (if clusterScoped then []
     else (let parts = Split CHR ''/'' (TrimPrefix key ''/'')
           in if length parts = 3 then parts ! 2 else []))"

text \<open>\<open>natsBroadcaster.publish\<close>; the payload is the event type with the encoded object.\<close>

definition broadcaster_publish ::
  "('s, 'o) store \<Rightarrow> EventType \<Rightarrow> 'o \<Rightarrow> ('s, unit result) storing" where
  "broadcaster_publish S eventType obj =
    (case ol_transform (st_lib S) obj of
       Inl err \<Rightarrow> State_Monad.return (Inl (ErrorWrap ''failed to transform object'' err))
     | Inr transformed \<Rightarrow>
         (case ol_marshal (st_lib S) transformed of
            Inl err \<Rightarrow> State_Monad.return (Inl (ErrorWrap ''failed to marshal object'' err))
          | Inr bytes \<Rightarrow>
              State (\<lambda>w. case st_PublishMsg S (sw_messages w) (eventType, bytes) of
                  Inl err \<Rightarrow> (Inl (ErrorWrap ''publish to NATS'' err), w)
                | Inr _ \<Rightarrow> (Inr (), w\<lparr>sw_messages := sw_messages w @ [(eventType, bytes)]\<rparr>))))"

text \<open>The deferred rollback runs whatever the body returns; after a commit it finds a closed transaction.\<close>

definition in_transaction ::
  "('s, 'o) store \<Rightarrow> (error \<Rightarrow> error) \<Rightarrow> ('s, 'a stored) storing \<Rightarrow> ('s, 'a stored) storing" where
  "in_transaction S wrap body = do {
     tx \<leftarrow> db (sq_Begin (st_sql S));
     (case tx of
        Inl err \<Rightarrow> State_Monad.return (Inl (Internal (wrap err)))
      | Inr _ \<Rightarrow> do {
          r \<leftarrow> body;
          _ \<leftarrow> db (\<lambda>d. ((), sq_Rollback (st_sql S) d));
          State_Monad.return r
        })
   }"

text \<open>The commit and the event that follow a successful write.\<close>

definition commitAndBroadcast ::
  "('s, 'o) store \<Rightarrow> EventType \<Rightarrow> 'o \<Rightarrow> ('s, 'o stored) storing" where
  "commitAndBroadcast S eventType obj = do {
     c \<leftarrow> db (sq_Commit (st_sql S));
     (case c of
        Inl err \<Rightarrow> State_Monad.return (Inl (Internal err))
      | Inr _ \<Rightarrow> do {
          _ \<leftarrow> broadcaster_publish S eventType obj;
          State_Monad.return (Inr obj)
        })
   }"

definition store_Create :: "('s, 'o) store \<Rightarrow> string \<Rightarrow> 'o \<Rightarrow> ('s, 'o stored) storing" where
  "store_Create S key obj = do {
     v \<leftarrow> nextResourceVersion S;
     (case v of
        Inl err \<Rightarrow> State_Monad.return (Inl (Internal err))
      | Inr rv \<Rightarrow>
          (case ol_UpdateObject (st_lib S) obj rv of
             Inl err \<Rightarrow> State_Monad.return (Inl (Internal err))
           | Inr versioned \<Rightarrow>
               in_transaction S (ErrorWrap ''failed to begin transaction'') (do {
                 r \<leftarrow> repo_Create S versioned;
                 (case r of
                    Inl err \<Rightarrow>
                      State_Monad.return (Inl (if ErrorIs err ErrAlreadyExists then KeyExists key
                                               else Internal err))
                  | Inr _ \<Rightarrow> commitAndBroadcast S Added versioned)
               })))
   }"

text \<open>\<open>check\<close> and \<open>validateDeletion\<close> are the caller's preconditions.\<close>

definition store_Delete ::
  "('s, 'o) store \<Rightarrow> string \<Rightarrow> ('o \<Rightarrow> unit result) \<Rightarrow> ('o \<Rightarrow> unit result) \<Rightarrow> ('s, 'o stored) storing" where
  "store_Delete S key check validateDeletion =
    (case extractKeyNameAndNamespace (st_clusterScoped S) key of
       (name, namespace) \<Rightarrow>
         if name = [] then State_Monad.return (Inl (Internal (ErrorNew (''invalid key: '' @ key))))
         else in_transaction S (\<lambda>err. err) (do {
           r \<leftarrow> repo_Delete S name namespace;
           (case r of
              Inl err \<Rightarrow>
                State_Monad.return (Inl (if ErrorIs err ErrNotFound then KeyNotFound key
                                         else Internal err))
            | Inr obj \<Rightarrow>
                (case check obj of
                   Inl err \<Rightarrow> State_Monad.return (Inl (Refused err))
                 | Inr _ \<Rightarrow>
                     (case validateDeletion obj of
                        Inl err \<Rightarrow> State_Monad.return (Inl (Refused err))
                      | Inr _ \<Rightarrow> commitAndBroadcast S Deleted obj)))
         }))"

definition store_Get :: "('s, 'o) store \<Rightarrow> string \<Rightarrow> bool \<Rightarrow> ('s, 'o stored) storing" where
  "store_Get S key ignoreNotFound =
    (case extractKeyNameAndNamespace (st_clusterScoped S) key of
       (name, namespace) \<Rightarrow>
         if name = [] then State_Monad.return (Inl (Internal (ErrorNew (''invalid key: '' @ key))))
         else do {
           r \<leftarrow> repo_Get S name namespace;
           State_Monad.return
             (case r of
                Inl err \<Rightarrow>
                  if ErrorIs err ErrNotFound
                  then (if ignoreNotFound then Inr (ol_zero (st_lib S)) else Inl (KeyNotFound key))
                  else Inl (Internal err)
              | Inr obj \<Rightarrow> Inr obj)
         })"

text \<open>A list object: its items, its resource version and its continue token.\<close>

record 'o object_list =
  ls_Items :: "'o list"
  ls_ResourceVersion :: nat
  ls_Continue :: string

text \<open>
  \<open>ParseResourceVersion\<close> of the versioner accepts the empty string and unsigned decimals.
\<close>

definition ParseResourceVersion :: "string \<Rightarrow> nat result" where
  "ParseResourceVersion s = (if s = [] then Inr 0 else ParseUint s)"

definition store_GetList ::
  "('s, 'o) store \<Rightarrow> string \<Rightarrow> ListOptions \<Rightarrow> ('s, 'o object_list stored) storing" where
  "store_GetList S key opts =
    (case ParseResourceVersion (lo_ResourceVersion opts) of
       Inl err \<Rightarrow> State_Monad.return (Inl (BadRequest ''invalid resource version''))
     | Inr _ \<Rightarrow> do {
         r \<leftarrow> repo_List S (extractKeyNamespace (st_clusterScoped S) key) opts;
         (case r of
            Inl err \<Rightarrow> State_Monad.return (Inl (Internal err))
          | Inr (items, continueToken) \<Rightarrow> do {
              v \<leftarrow> (if lo_ResourceVersion opts = [] \<or> lo_ResourceVersion opts = ''0''
                    then nextResourceVersion S
                    else State_Monad.return
                      (case ParseUint (lo_ResourceVersion opts) of
                         Inl _ \<Rightarrow> Inr 0 | Inr rv \<Rightarrow> Inr rv));
              State_Monad.return
                (case v of
                   Inl err \<Rightarrow> Inl (Internal err)
                 | Inr listRV \<Rightarrow> Inr \<lparr>ls_Items = items, ls_ResourceVersion = listRV,
                                     ls_Continue = continueToken\<rparr>)
            })
       })"

text \<open>\<open>err.Error()\<close>\<close>

primrec error_text :: "error \<Rightarrow> string" where
  "error_text (StatusError r m) = m"
| "error_text (ErrorNew m) = m"
| "error_text (ErrorSentinel m) = m"
| "error_text (ErrorPanic m) = m"
| "error_text (ErrorWrap m e) = m @ '': '' @ error_text e"

definition optimistic_conflict :: "('s, 'o) store \<Rightarrow> error \<Rightarrow> bool" where
  "optimistic_conflict S err \<longleftrightarrow>
    IsConflict err \<and> Contains (error_text err) (st_OptimisticLockErrorMsg S)"

text \<open>What an iteration of the update loop decides: to end with a result, or to continue.\<close>

datatype 'a iteration = Continue | Break 'a

definition updateIteration ::
  "('s, 'o) store \<Rightarrow> string \<Rightarrow> string \<Rightarrow> string \<Rightarrow> bool \<Rightarrow> ('o \<Rightarrow> unit result) \<Rightarrow> ('o \<Rightarrow> 'o result)
     \<Rightarrow> ('s, 'o stored iteration) storing" where
  "updateIteration S key name namespace ignoreNotFound check tryUpdate = do {
     r \<leftarrow> repo_Get S name namespace;
     (case r of
        Inl err \<Rightarrow>
          State_Monad.return (Break
            (if ErrorIs err ErrNotFound
             then (if \<not> ignoreNotFound then Inl (KeyNotFound key) else Inr (ol_zero (st_lib S)))
             else Inl (Internal err)))
      | Inr obj \<Rightarrow>
          (case check obj of
             Inl err \<Rightarrow> State_Monad.return (Break (Inl (Refused err)))
           | Inr _ \<Rightarrow>
               (case tryUpdate obj of
                  Inl err \<Rightarrow>
                    State_Monad.return
                      (if optimistic_conflict S err then Continue else Break (Inl (Refused err)))
                | Inr updated \<Rightarrow> do {
                    v \<leftarrow> nextResourceVersion S;
                    (case v of
                       Inl err \<Rightarrow> State_Monad.return (Break (Inl (Internal err)))
                     | Inr rv \<Rightarrow>
                         (case ol_UpdateObject (st_lib S) updated rv of
                            Inl err \<Rightarrow> State_Monad.return (Break (Inl (Internal err)))
                          | Inr versioned \<Rightarrow> do {
                              u \<leftarrow> repo_Update S name namespace versioned;
                              (case u of
                                 Inl err \<Rightarrow>
                                   State_Monad.return (Break
                                     (Inl (if ErrorIs err ErrNotFound then KeyNotFound key
                                           else Internal err)))
                               | Inr _ \<Rightarrow> do {
                                   c \<leftarrow> commitAndBroadcast S Modified versioned;
                                   State_Monad.return (Break c)
                                 })
                            }))
                  })))
   }"

text \<open>The loop; it need not end, and then its value is \<open>None\<close>.\<close>

partial_function (option) updateLoop ::
  "('s, 'a iteration) storing \<Rightarrow> 's store_world \<Rightarrow> ('a \<times> 's store_world) option" where
  "updateLoop body w =
    (case run_state body w of
       (it, w') \<Rightarrow> (case it of Break r \<Rightarrow> Some (r, w') | Continue \<Rightarrow> updateLoop body w'))"

definition store_GuaranteedUpdate ::
  "('s, 'o) store \<Rightarrow> string \<Rightarrow> bool \<Rightarrow> ('o \<Rightarrow> unit result) \<Rightarrow> ('o \<Rightarrow> 'o result)
     \<Rightarrow> 's store_world \<Rightarrow> ('o stored \<times> 's store_world) option" where
  "store_GuaranteedUpdate S key ignoreNotFound check tryUpdate w =
    (case extractKeyNameAndNamespace (st_clusterScoped S) key of
       (name, namespace) \<Rightarrow>
         if name = [] then Some (Inl (Internal (ErrorNew (''invalid key: '' @ key))), w)
         else case run_state (db (sq_Begin (st_sql S))) w of
           (Inl err, w1) \<Rightarrow> Some (Inl (Internal err), w1)
         | (Inr _, w1) \<Rightarrow>
             map_option (\<lambda>(r, w2). (r, w2\<lparr>sw_db := sq_Rollback (st_sql S) (sw_db w2)\<rparr>))
               (updateLoop (updateIteration S key name namespace ignoreNotFound check tryUpdate) w1))"

definition store_Count :: "('s, 'o) store \<Rightarrow> string \<Rightarrow> ('s, int stored) storing" where
  "store_Count S key = do {
     r \<leftarrow> repo_Count S (extractKeyNamespace (st_clusterScoped S) key);
     State_Monad.return (case r of Inl err \<Rightarrow> Inl (Internal err) | Inr n \<Rightarrow> Inr n)
   }"

section \<open>Watching\<close>

text \<open>The events a new watcher receives before those of the broadcaster.\<close>

definition watchList ::
  "('s, 'o) store \<Rightarrow> string \<Rightarrow> ListOptions \<Rightarrow> ('s, (EventType \<times> 'o) list stored) storing" where
  "watchList S key opts = do {
     l \<leftarrow> store_GetList S key opts;
     State_Monad.return
       (case l of
          Inl err \<Rightarrow> Inl err
        | Inr listObj \<Rightarrow>
            (case ol_UpdateObject (st_lib S) (ol_zero (st_lib S)) (ls_ResourceVersion listObj) of
               Inl err \<Rightarrow>
                 Inl (Refused (ErrorWrap ''failed to set resource version on bookmark'' err))
             | Inr bookmark \<Rightarrow>
                 Inr (map (Pair Added) (ls_Items listObj)
                      @ [(Bookmark, ol_SetAnnotations (st_lib S) bookmark
                            (AList.update ''k8s.io/initial-events-end'' ''true''
                               (om_Annotations (ol_meta (st_lib S) bookmark))))])))
   }"

definition store_Watch ::
  "('s, 'o) store \<Rightarrow> string \<Rightarrow> ListOptions \<Rightarrow> ('s, (EventType \<times> 'o) list stored) storing" where
  "store_Watch S key opts =
    (if lo_SendInitialEvents opts = Some True \<and> lo_AllowWatchBookmarks opts
     then watchList S key opts
     else if lo_ResourceVersion opts = [] then State_Monad.return (Inr [])
     else if lo_ResourceVersion opts = ''0''
     then do {
       r \<leftarrow> store_Get S key False;
       State_Monad.return (case r of Inl err \<Rightarrow> Inl err | Inr obj \<Rightarrow> Inr [(Added, obj)])
     }
     else do {
       l \<leftarrow> store_GetList S key opts;
       State_Monad.return
         (case l of Inl err \<Rightarrow> Inl err | Inr listObj \<Rightarrow> Inr (map (Pair Added) (ls_Items listObj)))
     })"

definition rehydrateKey :: "('s, 'o) store \<Rightarrow> string \<Rightarrow> string \<Rightarrow> 'o \<Rightarrow> string" where
  "rehydrateKey S groupName resource obj =
    (let m = ol_meta (st_lib S) obj
     in if st_clusterScoped S
        then groupName @ ''/'' @ resource @ ''/'' @ om_Name m
        else groupName @ ''/'' @ resource @ ''/'' @ om_Namespace m @ ''/'' @ om_Name m)"

definition rehydrate ::
  "('s, 'o) store \<Rightarrow> string \<Rightarrow> string \<Rightarrow> 'o \<Rightarrow> ('s, 'o stored) storing" where
  "rehydrate S groupName resource payloadObj = do {
     r \<leftarrow> store_Get S (rehydrateKey S groupName resource payloadObj) False;
     State_Monad.return
       (case r of
          Inl err \<Rightarrow> (case err of KeyNotFound _ \<Rightarrow> Inr payloadObj | _ \<Rightarrow> Inl err)
        | Inr fetched \<Rightarrow>
            if om_UID (ol_meta (st_lib S) fetched) \<noteq> om_UID (ol_meta (st_lib S) payloadObj)
            then Inr payloadObj else Inr fetched)
   }"

text \<open>\<open>natsWatcher.processMessage\<close>: the event that is broadcast locally for a message.\<close>

definition processMessage ::
  "('s, 'o) store \<Rightarrow> string \<Rightarrow> string \<Rightarrow> EventType \<times> string \<Rightarrow> ('s, (EventType \<times> 'o) stored) storing" where
  "processMessage S groupName resource payload =
    (case ol_unmarshal (st_lib S) (snd payload) of
       Inl err \<Rightarrow> State_Monad.return (Inl (Refused (ErrorWrap ''failed to decode object'' err)))
     | Inr obj \<Rightarrow>
         if fst payload \<noteq> Deleted
         then do {
           r \<leftarrow> rehydrate S groupName resource obj;
           State_Monad.return (map_sum id (Pair (fst payload)) r)
         }
         else State_Monad.return (Inr (fst payload, obj)))"

end
