(* ===== verification/Storage_Correct.thy ===== *)
theory Storage_Correct
  imports Storage
begin

text \<open>
  The store of theory \<open>Storage\<close> implements a map with versions.  The locale \<open>postgres\<close> has what the
  server relies on in PostgreSQL, over the committed rows, the rows the open transaction sees, and
  the last value the version sequence issued.  Commands of other sessions between the statements of
  one operation are not in the model.
\<close>

section \<open>What the database promises\<close>

type_synonym row_key = "string \<times> string"

definition row_key :: "Row \<Rightarrow> row_key" where
  "row_key r = (rw_namespace r, rw_name r)"

definition bytes_at :: "Row list \<Rightarrow> row_key \<Rightarrow> string option" where
  "bytes_at rows = map_of (map (\<lambda>r. (row_key r, rw_object r)) rows)"

text \<open>The JSON operators of the queries, over the bytes of a row.\<close>

record json_lib =
  js_labels :: "string \<Rightarrow> string_map option"
  js_field :: "string \<Rightarrow> string \<Rightarrow> string option"
  js_version :: "string \<Rightarrow> nat option"

text \<open>Three-valued logic: \<open>None\<close> is the SQL null, and only \<open>Some True\<close> selects a row.\<close>

definition json_label :: "json_lib \<Rightarrow> string \<Rightarrow> string \<Rightarrow> string option" where
  "json_label J bytes k = Option.bind (js_labels J bytes) (\<lambda>m. map_of m k)"

fun label_holds :: "json_lib \<Rightarrow> string \<Rightarrow> label_expression \<Rightarrow> bool option" where
  "label_holds J b (LabelEQ k v) = map_option (\<lambda>x. x = v) (json_label J b k)"
| "label_holds J b (LabelNE k v) = map_option (\<lambda>x. x \<noteq> v) (json_label J b k)"
| "label_holds J b (LabelAny k vs) =
    (if vs = [] then Some False else map_option (\<lambda>x. x \<in> set vs) (json_label J b k))"
| "label_holds J b (LabelNotAll k vs) =
    (if vs = [] then Some True else map_option (\<lambda>x. x \<notin> set vs) (json_label J b k))"
| "label_holds J b (LabelExists k) = map_option (\<lambda>m. k \<in> fst ` set m) (js_labels J b)"
| "label_holds J b (LabelNotExists k) = map_option (\<lambda>m. k \<notin> fst ` set m) (js_labels J b)"

fun field_holds :: "json_lib \<Rightarrow> string \<Rightarrow> field_expression \<Rightarrow> bool option" where
  "field_holds J b (FieldEQ p v) = map_option (\<lambda>x. x = v) (js_field J b p)"
| "field_holds J b (FieldNE p v) = map_option (\<lambda>x. x \<noteq> v) (js_field J b p)"

definition row_selected :: "json_lib \<Rightarrow> list_query \<Rightarrow> Row \<Rightarrow> bool" where
  "row_selected J q r \<longleftrightarrow>
    (case lq_namespace q of None \<Rightarrow> True | Some ns \<Rightarrow> rw_namespace r = ns)
    \<and> (case lq_after q of None \<Rightarrow> True | Some i \<Rightarrow> i < rw_id r)
    \<and> (case lq_minVersion q of None \<Rightarrow> True
       | Some v \<Rightarrow> (case js_version J (rw_object r) of None \<Rightarrow> False | Some u \<Rightarrow> v \<le> u))
    \<and> list_all (\<lambda>e. label_holds J (rw_object r) e = Some True) (lq_labels q)
    \<and> list_all (\<lambda>e. field_holds J (rw_object r) e = Some True) (lq_fields q)"

definition query_rows :: "json_lib \<Rightarrow> list_query \<Rightarrow> Row list \<Rightarrow> (int \<times> string) list" where
  "query_rows J q rows =
    map (\<lambda>r. (rw_id r, rw_object r))
      (case lq_limit q of
         None \<Rightarrow> filter (row_selected J q) (sort_key rw_id rows)
       | Some n \<Rightarrow> take (nat n) (filter (row_selected J q) (sort_key rw_id rows)))"

locale postgres =
  fixes P :: "'s sql_lib" and J :: json_lib
    and committed view :: "'s \<Rightarrow> Row list" and issued :: "'s \<Rightarrow> nat"
  assumes begin_tx: "sq_Begin P s = (r, s') \<Longrightarrow>
      committed s' = committed s \<and> view s' = committed s \<and> issued s' = issued s"
    and commit_tx: "sq_Commit P s = (c, s') \<Longrightarrow>
      committed s' = (case c of Inl _ \<Rightarrow> committed s | Inr _ \<Rightarrow> view s) \<and> issued s' = issued s"
    and rollback_tx: "committed (sq_Rollback P s) = committed s"
      "view (sq_Rollback P s) = committed s" "issued (sq_Rollback P s) = issued s"
    and nextval: "sq_nextval P s = (v, s') \<Longrightarrow>
      committed s' = committed s \<and> view s' = view s
      \<and> (case v of Inl _ \<Rightarrow> issued s \<le> issued s' | Inr n \<Rightarrow> issued s < n \<and> issued s' = n)"
    and insert_row: "sq_insert P name ns b s = (n, s') \<Longrightarrow>
      committed s' = committed s \<and> issued s' = issued s
      \<and> (case n of
           Inl e \<Rightarrow> \<not> ErrorIs e ErrAlreadyExists
         | Inr i \<Rightarrow>
             (if i = 0 then bytes_at (view s) (ns, name) \<noteq> None
              else bytes_at (view s) (ns, name) = None
                   \<and> bytes_at (view s') = (bytes_at (view s))((ns, name) \<mapsto> b)))"
    and delete_row: "sq_delete P name ns s = (x, s') \<Longrightarrow>
      committed s' = committed s \<and> issued s' = issued s
      \<and> (case x of
           Inl e \<Rightarrow> \<not> ErrorIs e ErrNotFound
             \<and> (ErrorIs e ErrNoRows \<longrightarrow> bytes_at (view s) (ns, name) = None)
         | Inr b \<Rightarrow> bytes_at (view s) (ns, name) = Some b
             \<and> bytes_at (view s') = (bytes_at (view s))((ns, name) := None))"
    and select_row: "sq_select P name ns s = (x, s') \<Longrightarrow>
      committed s' = committed s \<and> view s' = view s \<and> issued s' = issued s
      \<and> (case x of
           Inl e \<Rightarrow> \<not> ErrorIs e ErrNotFound
             \<and> (ErrorIs e ErrNoRows \<longrightarrow> bytes_at (view s) (ns, name) = None)
         | Inr b \<Rightarrow> bytes_at (view s) (ns, name) = Some b)"
    and update_row: "sq_update P name ns b s = (n, s') \<Longrightarrow>
      committed s' = committed s \<and> issued s' = issued s
      \<and> (case n of
           Inl e \<Rightarrow> \<not> ErrorIs e ErrNotFound
         | Inr i \<Rightarrow>
             (if i = 0 then bytes_at (view s) (ns, name) = None
              else bytes_at (view s) (ns, name) \<noteq> None
                   \<and> bytes_at (view s') = (bytes_at (view s))((ns, name) \<mapsto> b)))"
    and list_rows: "sq_list P q s = (lr, s') \<Longrightarrow>
      committed s' = committed s \<and> view s' = view s \<and> issued s' = issued s
      \<and> (case lr of Inl _ \<Rightarrow> True | Inr rows \<Rightarrow> rows = query_rows J q (view s))"
    and count_rows: "sq_count P nso s = (cr, s') \<Longrightarrow>
      committed s' = committed s \<and> view s' = view s \<and> issued s' = issued s
      \<and> (case cr of
           Inl _ \<Rightarrow> True
         | Inr n \<Rightarrow> n = int (length (filter
             (\<lambda>r. case nso of None \<Rightarrow> True | Some x \<Rightarrow> rw_namespace r = x) (view s))))"

section \<open>A database of lists\<close>

record list_db =
  ld_committed :: "Row list"
  ld_view :: "Row list"
  ld_issued :: nat
  ld_serial :: int

definition ld_write :: "(Row list \<Rightarrow> Row list) \<Rightarrow> list_db \<Rightarrow> list_db" where
  "ld_write f s = s\<lparr>ld_view := f (ld_view s), ld_serial := ld_serial s + 1\<rparr>"

definition ld_find :: "list_db \<Rightarrow> string \<Rightarrow> string \<Rightarrow> string result" where
  "ld_find s name ns =
    (case bytes_at (ld_view s) (ns, name) of None \<Rightarrow> Inl (ErrorSentinel ErrNoRows) | Some b \<Rightarrow> Inr b)"

definition list_postgres :: "json_lib \<Rightarrow> list_db sql_lib" where
  "list_postgres J =
    \<lparr>sq_nextval = (\<lambda>s. (Inr (Suc (ld_issued s)), s\<lparr>ld_issued := Suc (ld_issued s)\<rparr>)),
     sq_sequence = (\<lambda>s. (Inr (ld_issued s, 0 < ld_issued s), s)),
     sq_Begin = (\<lambda>s. (Inr (), s\<lparr>ld_view := ld_committed s\<rparr>)),
     sq_Commit = (\<lambda>s. (Inr (), s\<lparr>ld_committed := ld_view s\<rparr>)),
     sq_Rollback = (\<lambda>s. s\<lparr>ld_view := ld_committed s\<rparr>),
     sq_insert = (\<lambda>name ns b s.
       if bytes_at (ld_view s) (ns, name) \<noteq> None then (Inr 0, s)
       else (Inr 1, ld_write (\<lambda>rows. rows @ [\<lparr>rw_id = ld_serial s, rw_name = name,
               rw_namespace = ns, rw_object = b\<rparr>]) s)),
     sq_delete = (\<lambda>name ns s. (ld_find s name ns, ld_write (filter (\<lambda>r. row_key r \<noteq> (ns, name))) s)),
     sq_select = (\<lambda>name ns s. (ld_find s name ns, s)),
     sq_update = (\<lambda>name ns b s.
       if bytes_at (ld_view s) (ns, name) = None then (Inr 0, s)
       else (Inr 1, ld_write (map (\<lambda>r. if row_key r = (ns, name) then r\<lparr>rw_object := b\<rparr> else r)) s)),
     sq_count = (\<lambda>ns s. (Inr (int (length (filter
       (\<lambda>r. case ns of None \<Rightarrow> True | Some x \<Rightarrow> rw_namespace r = x) (ld_view s)))), s)),
     sq_list = (\<lambda>q s. (Inr (query_rows J q (ld_view s)), s))\<rparr>"

lemma bytes_at_append:
  "bytes_at (rows @ [r]) k = (case bytes_at rows k of Some b \<Rightarrow> Some b
     | None \<Rightarrow> if row_key r = k then Some (rw_object r) else None)"
  by (auto simp: bytes_at_def map_add_def split: option.splits)

lemma bytes_at_filter:
  "bytes_at (filter (\<lambda>r. row_key r \<noteq> k) rows) = (bytes_at rows)(k := None)"
  by (induction rows) (auto simp: bytes_at_def fun_eq_iff)

lemma bytes_at_map:
  "bytes_at (map (\<lambda>r. if row_key r = k then r\<lparr>rw_object := b\<rparr> else r) rows) k'
    = (if k' = k then map_option (\<lambda>_. b) (bytes_at rows k) else bytes_at rows k')"
  by (induction rows) (auto simp: bytes_at_def row_key_def)

interpretation lp: postgres "list_postgres J" J ld_committed ld_view ld_issued for J
proof (unfold_locales, goal_cases)
  case (7 name ns b s n s')
  then show ?case
    by (auto simp: list_postgres_def ld_write_def bytes_at_append fun_eq_iff row_key_def
        split: if_splits option.splits)
next
  case (8 name ns s x s')
  then show ?case
    by (auto simp: list_postgres_def ld_write_def ld_find_def bytes_at_filter split: option.splits)
next
  case (10 name ns b s n s')
  then show ?case
    by (auto simp: list_postgres_def ld_write_def bytes_at_map fun_eq_iff split: if_splits)
qed (auto simp: list_postgres_def ld_find_def split: option.splits)

section \<open>A map with versions\<close>

text \<open>
  The specification: the state is a map from namespace and name to objects together with the last
  version that was issued.  A successful write stores the object under a version larger than every
  earlier one; everything else leaves the map alone, and versions are never reused.
\<close>

definition obj_key :: "('s, 'o) store \<Rightarrow> 'o \<Rightarrow> row_key" where
  "obj_key S obj = (om_Namespace (ol_meta (st_lib S) obj), om_Name (ol_meta (st_lib S) obj))"

definition key_of :: "('s, 'o) store \<Rightarrow> string \<Rightarrow> row_key" where
  "key_of S key = prod.swap (extractKeyNameAndNamespace (st_clusterScoped S) key)"

datatype 'o request =
    RCreate string 'o
  | RDelete string "'o \<Rightarrow> unit result" "'o \<Rightarrow> unit result"
  | RGet string bool
  | RUpdate string bool "'o \<Rightarrow> unit result" "'o \<Rightarrow> 'o result"

fun store_exec ::
  "('s, 'o) store \<Rightarrow> 'o request \<Rightarrow> 's store_world \<Rightarrow> ('o stored \<times> 's store_world) option" where
  "store_exec S (RCreate key obj) w = Some (run_state (store_Create S key obj) w)"
| "store_exec S (RDelete key check validate) w = Some (run_state (store_Delete S key check validate) w)"
| "store_exec S (RGet key ignoreNotFound) w = Some (run_state (store_Get S key ignoreNotFound) w)"
| "store_exec S (RUpdate key ignoreNotFound check tryUpdate) w =
    store_GuaranteedUpdate S key ignoreNotFound check tryUpdate w"

type_synonym 'o versioned_map = "(row_key \<Rightarrow> 'o option) \<times> nat"

inductive spec_step ::
  "('s, 'o) store \<Rightarrow> 'o request \<Rightarrow> 'o versioned_map \<Rightarrow> 'o stored \<Rightarrow> 'o versioned_map \<Rightarrow> bool"
  for S where
  spec_failed: "n \<le> n' \<Longrightarrow> spec_step S rq (m, n) (Inl (Internal e)) (m, n')"
| create_ok: "\<lbrakk>n < v; ol_UpdateObject (st_lib S) obj v = Inr obj'; m (obj_key S obj') = None\<rbrakk>
    \<Longrightarrow> spec_step S (RCreate key obj) (m, n) (Inr obj') (m(obj_key S obj' \<mapsto> obj'), v)"
| create_exists: "\<lbrakk>n \<le> n'; ol_UpdateObject (st_lib S) obj v = Inr obj'; m (obj_key S obj') \<noteq> None\<rbrakk>
    \<Longrightarrow> spec_step S (RCreate key obj) (m, n) (Inl (KeyExists key)) (m, n')"
| delete_ok: "\<lbrakk>m (key_of S key) = Some obj; check obj = Inr (); validate obj = Inr ()\<rbrakk>
    \<Longrightarrow> spec_step S (RDelete key check validate) (m, n) (Inr obj) (m(key_of S key := None), n)"
| delete_missing: "m (key_of S key) = None
    \<Longrightarrow> spec_step S (RDelete key check validate) (m, n) (Inl (KeyNotFound key)) (m, n)"
| delete_refused: "\<lbrakk>m (key_of S key) = Some obj;
      check obj = Inl e \<or> check obj = Inr () \<and> validate obj = Inl e\<rbrakk>
    \<Longrightarrow> spec_step S (RDelete key check validate) (m, n) (Inl (Refused e)) (m, n)"
| get_ok: "m (key_of S key) = Some obj \<Longrightarrow> spec_step S (RGet key ig) (m, n) (Inr obj) (m, n)"
| get_missing: "m (key_of S key) = None
    \<Longrightarrow> spec_step S (RGet key False) (m, n) (Inl (KeyNotFound key)) (m, n)"
| get_ignored: "m (key_of S key) = None
    \<Longrightarrow> spec_step S (RGet key True) (m, n) (Inr (ol_zero (st_lib S))) (m, n)"
| update_ok: "\<lbrakk>n < v; m (key_of S key) = Some obj; check obj = Inr (); tryUpdate obj = Inr obj1;
      ol_UpdateObject (st_lib S) obj1 v = Inr obj2\<rbrakk>
    \<Longrightarrow> spec_step S (RUpdate key ig check tryUpdate) (m, n) (Inr obj2) (m(key_of S key \<mapsto> obj2), v)"
| update_missing: "m (key_of S key) = None
    \<Longrightarrow> spec_step S (RUpdate key False check tryUpdate) (m, n) (Inl (KeyNotFound key)) (m, n)"
| update_ignored: "m (key_of S key) = None
    \<Longrightarrow> spec_step S (RUpdate key True check tryUpdate) (m, n) (Inr (ol_zero (st_lib S))) (m, n)"
| update_refused: "\<lbrakk>m (key_of S key) = Some obj;
      check obj = Inl e
      \<or> check obj = Inr () \<and> tryUpdate obj = Inl e \<and> \<not> optimistic_conflict S e\<rbrakk>
    \<Longrightarrow> spec_step S (RUpdate key ig check tryUpdate) (m, n) (Inl (Refused e)) (m, n)"

definition decode :: "('s, 'o) store \<Rightarrow> string \<Rightarrow> 'o option" where
  "decode S b = (case ol_unmarshal (st_lib S) b of Inl _ \<Rightarrow> None | Inr obj \<Rightarrow> Some obj)"

definition contents :: "('s, 'o) store \<Rightarrow> Row list \<Rightarrow> row_key \<Rightarrow> 'o option" where
  "contents S rows k = Option.bind (bytes_at rows k) (decode S)"

definition abs_store ::
  "('s, 'o) store \<Rightarrow> ('s \<Rightarrow> Row list) \<Rightarrow> ('s \<Rightarrow> nat) \<Rightarrow> 's store_world \<Rightarrow> 'o versioned_map" where
  "abs_store S committed issued w = (contents S (committed (sw_db w)), issued (sw_db w))"

text \<open>Between operations no transaction is open, and every stored row decodes.\<close>

definition decodes :: "('s, 'o) store \<Rightarrow> Row list \<Rightarrow> bool" where
  "decodes S rows \<longleftrightarrow> (\<forall>k b. bytes_at rows k = Some b \<longrightarrow> decode S b \<noteq> None)"

definition settled ::
  "('s, 'o) store \<Rightarrow> ('s \<Rightarrow> Row list) \<Rightarrow> ('s \<Rightarrow> Row list) \<Rightarrow> 's store_world \<Rightarrow> bool" where
  "settled S committed view w \<longleftrightarrow>
    bytes_at (view (sw_db w)) = bytes_at (committed (sw_db w))
    \<and> decodes S (committed (sw_db w))"

locale object_store = postgres "st_sql S" J committed view issued
  for S :: "('s, 'o) store" and J and committed view :: "'s \<Rightarrow> Row list" and issued :: "'s \<Rightarrow> nat" +
  fixes version :: "'o \<Rightarrow> nat"
  assumes codec: "ol_marshal (st_lib S) obj = Inr b \<Longrightarrow> ol_unmarshal (st_lib S) b = Inr obj"
    and marshal_errors: "ol_marshal (st_lib S) obj = Inl e \<Longrightarrow>
      \<not> ErrorIs e ErrAlreadyExists \<and> \<not> ErrorIs e ErrNotFound"
    and unmarshal_errors: "ol_unmarshal (st_lib S) b = Inl e \<Longrightarrow> \<not> ErrorIs e ErrNotFound"
    and versioner: "ol_UpdateObject (st_lib S) obj v = Inr obj' \<Longrightarrow> version obj' = v"

lemma run_db [simp]:
  "run_state (db f) w = (fst (f (sw_db w)), w\<lparr>sw_db := snd (f (sw_db w))\<rparr>)"
  by (simp add: db_def split: prod.splits)

lemma decode_iff: "decode S b = Some obj \<longleftrightarrow> ol_unmarshal (st_lib S) b = Inr obj"
  by (simp add: decode_def split: sum.splits)

lemma contents_write:
  assumes "bytes_at rows' = (bytes_at rows)(k \<mapsto> b)" "decode S b = Some obj"
  shows "contents S rows' = (contents S rows)(k \<mapsto> obj)" "decodes S rows \<Longrightarrow> decodes S rows'"
  using assms by (auto simp: contents_def decodes_def fun_eq_iff)

lemma contents_delete:
  assumes "bytes_at rows' = (bytes_at rows)(k := None)"
  shows "contents S rows' = (contents S rows)(k := None)" "decodes S rows \<Longrightarrow> decodes S rows'"
  using assms by (auto simp: contents_def decodes_def fun_eq_iff)

lemma contents_None: "decodes S rows \<Longrightarrow> contents S rows k = None \<longleftrightarrow> bytes_at rows k = None"
  by (cases "bytes_at rows k") (auto simp: contents_def decodes_def simp del: split_paired_All)

lemma contents_Some: "\<lbrakk>bytes_at rows k = Some b; decode S b = Some obj\<rbrakk> \<Longrightarrow> contents S rows k = Some obj"
  by (simp add: contents_def)

text \<open>A loop that ends has a last iteration, and invariants of the others hold before it.\<close>

lemma updateLoop_last:
  assumes "updateLoop body w = Some (r, w')" "I w"
    "\<And>w w'. I w \<Longrightarrow> run_state body w = (Continue, w') \<Longrightarrow> I w'"
  shows "\<exists>w1. I w1 \<and> run_state body w1 = (Break r, w')"
proof -
  have "I w \<longrightarrow> (\<exists>w1. I w1 \<and> run_state body w1 = (Break (fst y), snd y))"
    if "updateLoop body w = Some y" for w y
  proof (rule updateLoop.raw_induct[of "\<lambda>b w y. b = body \<longrightarrow> I w \<longrightarrow>
        (\<exists>w1. I w1 \<and> run_state body w1 = (Break (fst y), snd y))", THEN mp, OF _ that refl])
    fix loop' b v y
    assume IH: "\<And>b v y. loop' b v = Some y \<Longrightarrow> b = body \<longrightarrow> I v \<longrightarrow>
          (\<exists>w1. I w1 \<and> run_state body w1 = (Break (fst y), snd y))"
      and step: "(case run_state b v of (it, w') \<Rightarrow>
          case it of Continue \<Rightarrow> loop' b w' | Break r \<Rightarrow> Some (r, w')) = Some y"
    show "b = body \<longrightarrow> I v \<longrightarrow> (\<exists>w1. I w1 \<and> run_state body w1 = (Break (fst y), snd y))"
    proof (intro impI)
      assume b: "b = body" and v: "I v"
      obtain it v' where run: "run_state body v = (it, v')" by fastforce
      show "\<exists>w1. I w1 \<and> run_state body w1 = (Break (fst y), snd y)"
      proof (cases it)
        case Continue
        with run step b have "loop' body v' = Some y" by simp
        moreover have "I v'" using assms(3) v run Continue by blast
        ultimately show ?thesis using IH by blast
      next
        case (Break r)
        with run step b v show ?thesis by (intro exI[of _ v]) auto
      qed
    qed
  qed
  from this[OF assms(1)] assms(2) show ?thesis by simp
qed

lemma broadcaster_publish_db [simp]:
  "sw_db (snd (run_state (broadcaster_publish S ev obj) w)) = sw_db w"
  by (auto simp: broadcaster_publish_def split: sum.splits)

context object_store
begin

lemma decode_marshal: "ol_marshal (st_lib S) obj = Inr b \<Longrightarrow> decode S b = Some obj"
  by (simp add: decode_def codec)

lemma repo_Get_effect:
  assumes "run_state (repo_Get S name ns) w = (r, w')"
  shows "committed (sw_db w') = committed (sw_db w) \<and> view (sw_db w') = view (sw_db w)
    \<and> issued (sw_db w') = issued (sw_db w)
    \<and> (case r of Inl e \<Rightarrow> ErrorIs e ErrNotFound \<longrightarrow> bytes_at (view (sw_db w)) (ns, name) = None
       | Inr obj \<Rightarrow> \<exists>b. bytes_at (view (sw_db w)) (ns, name) = Some b \<and> decode S b = Some obj)"
proof -
  obtain x s' where q: "sq_select (st_sql S) name ns (sw_db w) = (x, s')" by fastforce
  with assms show ?thesis
    using select_row[OF q] unmarshal_errors
    by (auto simp: repo_Get_def decodeRow_def decode_iff split: sum.splits if_splits)
qed

lemma repo_Delete_effect:
  assumes "run_state (repo_Delete S name ns) w = (r, w')"
  shows "committed (sw_db w') = committed (sw_db w) \<and> issued (sw_db w') = issued (sw_db w)
    \<and> (case r of Inl e \<Rightarrow> ErrorIs e ErrNotFound \<longrightarrow> bytes_at (view (sw_db w)) (ns, name) = None
       | Inr obj \<Rightarrow> (\<exists>b. bytes_at (view (sw_db w)) (ns, name) = Some b \<and> decode S b = Some obj)
           \<and> bytes_at (view (sw_db w')) = (bytes_at (view (sw_db w)))((ns, name) := None))"
proof -
  obtain x s' where q: "sq_delete (st_sql S) name ns (sw_db w) = (x, s')" by fastforce
  with assms show ?thesis
    using delete_row[OF q] unmarshal_errors
    by (auto simp: repo_Delete_def decodeRow_def decode_iff split: sum.splits if_splits)
qed

lemma repo_Create_effect:
  assumes "run_state (repo_Create S obj) w = (r, w')"
  shows "committed (sw_db w') = committed (sw_db w) \<and> issued (sw_db w') = issued (sw_db w)
    \<and> (case r of Inl e \<Rightarrow> ErrorIs e ErrAlreadyExists \<longrightarrow> bytes_at (view (sw_db w)) (obj_key S obj) \<noteq> None
       | Inr _ \<Rightarrow> bytes_at (view (sw_db w)) (obj_key S obj) = None
           \<and> (\<exists>b. decode S b = Some obj
                \<and> bytes_at (view (sw_db w')) = (bytes_at (view (sw_db w)))(obj_key S obj \<mapsto> b)))"
proof (cases "ol_marshal (st_lib S) obj")
  case (Inl e)
  with assms marshal_errors[OF Inl] show ?thesis
    by (auto simp: repo_Create_def)
next
  case (Inr b)
  obtain x s' where q: "sq_insert (st_sql S) (om_Name (ol_meta (st_lib S) obj))
      (om_Namespace (ol_meta (st_lib S) obj)) b (sw_db w) = (x, s')" by fastforce
  with assms Inr show ?thesis
    using insert_row[OF q] decode_marshal[OF Inr]
    by (auto simp: repo_Create_def obj_key_def split: sum.splits if_splits)
qed

lemma repo_Update_effect:
  assumes "run_state (repo_Update S name ns obj) w = (r, w')"
  shows "committed (sw_db w') = committed (sw_db w) \<and> issued (sw_db w') = issued (sw_db w)
    \<and> (case r of Inl e \<Rightarrow> ErrorIs e ErrNotFound \<longrightarrow> bytes_at (view (sw_db w)) (ns, name) = None
       | Inr _ \<Rightarrow> (\<exists>b. decode S b = Some obj
                \<and> bytes_at (view (sw_db w')) = (bytes_at (view (sw_db w)))((ns, name) \<mapsto> b)))"
proof (cases "ol_marshal (st_lib S) obj")
  case (Inl e)
  with assms marshal_errors[OF Inl] show ?thesis
    by (auto simp: repo_Update_def)
next
  case (Inr b)
  obtain x s' where q: "sq_update (st_sql S) name ns b (sw_db w) = (x, s')" by fastforce
  with assms Inr show ?thesis
    using update_row[OF q] decode_marshal[OF Inr]
    by (auto simp: repo_Update_def split: sum.splits if_splits)
qed

lemma nextResourceVersion_effect:
  assumes "run_state (nextResourceVersion S) w = (r, w')"
  shows "committed (sw_db w') = committed (sw_db w) \<and> view (sw_db w') = view (sw_db w)
    \<and> (case r of Inl e \<Rightarrow> issued (sw_db w) \<le> issued (sw_db w')
       | Inr v \<Rightarrow> issued (sw_db w) < v \<and> issued (sw_db w') = v)"
proof -
  obtain x s' where q: "sq_nextval (st_sql S) (sw_db w) = (x, s')" by fastforce
  with assms show ?thesis
    using nextval[OF q] by (auto simp: nextResourceVersion_def split: sum.splits)
qed

lemma commit_effect:
  assumes "run_state (commitAndBroadcast S ev obj) w = (r, w')"
  shows "issued (sw_db w') = issued (sw_db w)
    \<and> (r = Inr obj \<and> committed (sw_db w') = view (sw_db w)
       \<or> (\<exists>e. r = Inl (Internal e)) \<and> committed (sw_db w') = committed (sw_db w))"
proof -
  obtain c s' where q: "sq_Commit (st_sql S) (sw_db w) = (c, s')" by fastforce
  let ?w = "w\<lparr>sw_db := s'\<rparr>"
  obtain x w2 where p: "run_state (broadcaster_publish S ev obj) ?w = (x, w2)" by fastforce
  then have "sw_db w2 = s'"
    using broadcaster_publish_db[of S ev obj ?w] by simp
  with assms q p show ?thesis
    using commit_tx[OF q] by (auto simp: commitAndBroadcast_def split: sum.splits)
qed

lemma in_transaction_effect:
  assumes "run_state (in_transaction S wrap body) w = (r, w')"
  obtains (failed) e where "r = Inl (Internal e)" "committed (sw_db w') = committed (sw_db w)"
      "view (sw_db w') = committed (sw_db w)" "issued (sw_db w') = issued (sw_db w)"
    | (ran) w1 w2 where "committed (sw_db w1) = committed (sw_db w)"
      "view (sw_db w1) = committed (sw_db w)" "issued (sw_db w1) = issued (sw_db w)"
      "run_state body w1 = (r, w2)" "committed (sw_db w') = committed (sw_db w2)"
      "view (sw_db w') = committed (sw_db w2)" "issued (sw_db w') = issued (sw_db w2)"
proof -
  obtain t s1 where q: "sq_Begin (st_sql S) (sw_db w) = (t, s1)" by fastforce
  obtain x w2 where b: "run_state body (w\<lparr>sw_db := s1\<rparr>) = (x, w2)" by fastforce
  show thesis
  proof (cases t)
    case (Inl e)
    with assms q begin_tx[OF q] show ?thesis
      by (intro failed) (auto simp: in_transaction_def)
  next
    case (Inr u)
    with assms q b begin_tx[OF q] show ?thesis
      by (intro ran[of "w\<lparr>sw_db := s1\<rparr>" w2]) (auto simp: in_transaction_def rollback_tx)
  qed
qed

lemma store_Get_refines:
  assumes "settled S committed view w" "run_state (store_Get S key ig) w = (r, w')"
  shows "spec_step S (RGet key ig) (abs_store S committed issued w) r (abs_store S committed issued w')
    \<and> settled S committed view w'"
proof -
  obtain name ns where k: "extractKeyNameAndNamespace (st_clusterScoped S) key = (name, ns)"
    by fastforce
  then have key: "key_of S key = (ns, name)" by (simp add: key_of_def)
  show ?thesis
  proof (cases "name = []")
    case True
    with assms k show ?thesis by (auto simp: store_Get_def abs_store_def intro: spec_failed)
  next
    case False
    obtain x w1 where g: "run_state (repo_Get S name ns) w = (x, w1)" by fastforce
    have w': "w' = w1" using assms(2) g k False by (simp add: store_Get_def)
    note eff = repo_Get_effect[OF g]
    have v: "bytes_at (view (sw_db w)) = bytes_at (committed (sw_db w))"
        "decodes S (committed (sw_db w))"
      using assms(1) by (simp_all add: settled_def)
    have settled: "settled S committed view w'"
      using eff v w' by (simp add: settled_def)
    have abs: "abs_store S committed issued w' = abs_store S committed issued w"
      using eff w' by (simp add: abs_store_def)
    show ?thesis
    proof (cases x)
      case (Inr obj)
      with eff v key have "contents S (committed (sw_db w)) (key_of S key) = Some obj"
        by (auto intro: contents_Some)
      moreover have "r = Inr obj" using assms(2) g k False Inr by (simp add: store_Get_def)
      ultimately show ?thesis
        using settled abs by (auto simp: abs_store_def intro: get_ok)
    next
      case (Inl e)
      then have r: "r = (if ErrorIs e ErrNotFound
          then (if ig then Inr (ol_zero (st_lib S)) else Inl (KeyNotFound key)) else Inl (Internal e))"
        using assms(2) g k False by (simp add: store_Get_def)
      have "ErrorIs e ErrNotFound \<Longrightarrow> contents S (committed (sw_db w)) (key_of S key) = None"
        using eff v key Inl by (simp add: contents_None)
      with r settled abs show ?thesis
        by (cases ig) (auto simp: abs_store_def intro: get_missing get_ignored spec_failed)
    qed
  qed
qed

text \<open>
  An operation in a transaction: \<open>G rows n r\<close> is what has to hold of the committed rows, the last
  version and the result.
\<close>

lemma transaction_rule:
  assumes "run_state (in_transaction S wrap body) w = (r, w')"
    "\<And>e. G (committed (sw_db w)) (issued (sw_db w)) (Inl (Internal e))"
    "\<And>w1 w2. \<lbrakk>committed (sw_db w1) = committed (sw_db w); view (sw_db w1) = committed (sw_db w);
        issued (sw_db w1) = issued (sw_db w); run_state body w1 = (r, w2)\<rbrakk>
      \<Longrightarrow> G (committed (sw_db w2)) (issued (sw_db w2)) r"
  shows "G (committed (sw_db w')) (issued (sw_db w')) r \<and> view (sw_db w') = committed (sw_db w')"
  using assms(1)
proof (cases rule: in_transaction_effect)
  case (failed e)
  with assms(2)[of e] show ?thesis by simp
next
  case (ran w1 w2)
  with assms(3)[of w1 w2] show ?thesis by simp
qed

definition reaches :: "'o request \<Rightarrow> 's store_world \<Rightarrow> Row list \<Rightarrow> nat \<Rightarrow> 'o stored \<Rightarrow> bool" where
  "reaches rq w rows n r \<longleftrightarrow>
    spec_step S rq (abs_store S committed issued w) r (contents S rows, n) \<and> decodes S rows"

lemma settledD:
  "settled S committed view w \<Longrightarrow> bytes_at (view (sw_db w)) = bytes_at (committed (sw_db w))"
  "settled S committed view w \<Longrightarrow> decodes S (committed (sw_db w))"
  by (simp_all add: settled_def)

lemma reaches_internal:
  "\<lbrakk>decodes S (committed (sw_db w)); issued (sw_db w) \<le> n\<rbrakk>
    \<Longrightarrow> reaches rq w (committed (sw_db w)) n (Inl (Internal e))"
  by (simp add: reaches_def abs_store_def spec_failed)

lemma reaches_refines:
  "\<lbrakk>reaches rq w (committed (sw_db w')) (issued (sw_db w')) r;
    bytes_at (view (sw_db w')) = bytes_at (committed (sw_db w'))\<rbrakk>
   \<Longrightarrow> spec_step S rq (abs_store S committed issued w) r (abs_store S committed issued w')
     \<and> settled S committed view w'"
  by (simp add: reaches_def abs_store_def settled_def)

lemma create_body:
  assumes "decodes S (committed (sw_db w))" "ol_UpdateObject (st_lib S) obj rv = Inr versioned"
    "issued (sw_db w) < rv"
    "committed (sw_db w1) = committed (sw_db w)" "view (sw_db w1) = committed (sw_db w)"
    "issued (sw_db w1) = rv"
    "run_state (do {
        c \<leftarrow> repo_Create S versioned;
        (case c of
           Inl err \<Rightarrow> State_Monad.return (Inl (if ErrorIs err ErrAlreadyExists then KeyExists key
                                              else Internal err))
         | Inr _ \<Rightarrow> commitAndBroadcast S Added versioned)
      }) w1 = (r, w2)"
  shows "reaches (RCreate key obj) w (committed (sw_db w2)) (issued (sw_db w2)) r"
proof -
  obtain c w3 where c: "run_state (repo_Create S versioned) w1 = (c, w3)" by fastforce
  note eff = repo_Create_effect[OF c]
  show ?thesis
  proof (cases c)
    case (Inl e)
    then have r: "r = Inl (if ErrorIs e ErrAlreadyExists then KeyExists key else Internal e)" "w2 = w3"
      using assms(7) c by simp_all
    have "ErrorIs e ErrAlreadyExists \<Longrightarrow> contents S (committed (sw_db w)) (obj_key S versioned) \<noteq> None"
      using eff Inl assms(1,5) by (simp add: contents_None)
    with r eff assms show ?thesis
      by (auto simp: reaches_def abs_store_def intro: create_exists spec_failed less_imp_le)
  next
    case (Inr u)
    have run: "run_state (commitAndBroadcast S Added versioned) w3 = (r, w2)"
      using assms(7) c Inr by simp
    obtain b where b: "decode S b = Some versioned"
        "bytes_at (view (sw_db w3)) = (bytes_at (committed (sw_db w)))(obj_key S versioned \<mapsto> b)"
        "bytes_at (committed (sw_db w)) (obj_key S versioned) = None"
      using eff Inr assms(5) by auto
    have new: "contents S (view (sw_db w3)) = (contents S (committed (sw_db w)))(obj_key S versioned \<mapsto> versioned)"
        "decodes S (view (sw_db w3))"
      using contents_write[OF b(2,1)] assms(1) by auto
    have none: "contents S (committed (sw_db w)) (obj_key S versioned) = None"
      using b(3) by (simp add: contents_def)
    note ce = commit_effect[OF run]
    have n: "issued (sw_db w2) = rv" "committed (sw_db w3) = committed (sw_db w)"
      using ce eff assms(4,6) by auto
    show ?thesis
    proof (cases "r = Inr versioned")
      case True
      then have "committed (sw_db w2) = view (sw_db w3)" using ce by auto
      with True show ?thesis
        unfolding reaches_def abs_store_def n using new create_ok[where m = "contents S (committed (sw_db w))", OF assms(3,2) none] by simp
    next
      case False
      then show ?thesis
        using ce n assms(1,3) reaches_internal[OF assms(1), of rv] by auto
    qed
  qed
qed

lemma store_Create_refines:
  assumes "settled S committed view w" "run_state (store_Create S key obj) w = (r, w')"
  shows "spec_step S (RCreate key obj) (abs_store S committed issued w) r (abs_store S committed issued w')
    \<and> settled S committed view w'"
proof -
  note v = settledD[OF assms(1)]
  obtain x w0 where n: "run_state (nextResourceVersion S) w = (x, w0)" by fastforce
  note next_eff = nextResourceVersion_effect[OF n]
  show ?thesis
  proof (cases "\<exists>rv versioned. x = Inr rv \<and> ol_UpdateObject (st_lib S) obj rv = Inr versioned")
    case False
    then have "w' = w0" "\<exists>e. r = Inl (Internal e)"
      using assms(2) n by (auto simp: store_Create_def split: sum.splits)
    then show ?thesis
      using next_eff v reaches_internal[OF v(2)]
      by (intro reaches_refines) (auto split: sum.splits)
  next
    case True
    then obtain rv versioned where
      x: "x = Inr rv" "ol_UpdateObject (st_lib S) obj rv = Inr versioned" by blast
    have "reaches (RCreate key obj) w (committed (sw_db w')) (issued (sw_db w')) r
        \<and> view (sw_db w') = committed (sw_db w')"
    proof (rule transaction_rule[where G = "reaches (RCreate key obj) w" and w = w0])
      show "run_state (in_transaction S (ErrorWrap ''failed to begin transaction'') (do {
          c \<leftarrow> repo_Create S versioned;
          (case c of
             Inl err \<Rightarrow> State_Monad.return (Inl (if ErrorIs err ErrAlreadyExists then KeyExists key
                                                else Internal err))
           | Inr _ \<Rightarrow> commitAndBroadcast S Added versioned)
        })) w0 = (r, w')"
        using assms(2) n x by (simp add: store_Create_def)
    next
      fix e
      show "reaches (RCreate key obj) w (committed (sw_db w0)) (issued (sw_db w0)) (Inl (Internal e))"
        using reaches_internal[OF v(2)] next_eff x(1) by simp
    next
      fix w1 w2
      assume "committed (sw_db w1) = committed (sw_db w0)" "view (sw_db w1) = committed (sw_db w0)"
        "issued (sw_db w1) = issued (sw_db w0)" and
        run: "run_state (do {
          c \<leftarrow> repo_Create S versioned;
          (case c of
             Inl err \<Rightarrow> State_Monad.return (Inl (if ErrorIs err ErrAlreadyExists then KeyExists key
                                                else Internal err))
           | Inr _ \<Rightarrow> commitAndBroadcast S Added versioned)
        }) w1 = (r, w2)"
      then show "reaches (RCreate key obj) w (committed (sw_db w2)) (issued (sw_db w2)) r"
        using next_eff x(1) by (intro create_body[OF v(2) x(2) _ _ _ _ run]) auto
    qed
    then show ?thesis by (intro reaches_refines) auto
  qed
qed

lemma delete_body:
  assumes "decodes S (committed (sw_db w))" "key_of S key = (ns, name)"
    "committed (sw_db w1) = committed (sw_db w)" "view (sw_db w1) = committed (sw_db w)"
    "issued (sw_db w1) = issued (sw_db w)"
    "run_state (do {
        d \<leftarrow> repo_Delete S name ns;
        (case d of
           Inl err \<Rightarrow> State_Monad.return (Inl (if ErrorIs err ErrNotFound then KeyNotFound key
                                              else Internal err))
         | Inr obj \<Rightarrow>
             (case check obj of
                Inl err \<Rightarrow> State_Monad.return (Inl (Refused err))
              | Inr _ \<Rightarrow>
                  (case validate obj of
                     Inl err \<Rightarrow> State_Monad.return (Inl (Refused err))
                   | Inr _ \<Rightarrow> commitAndBroadcast S Deleted obj)))
      }) w1 = (r, w2)"
  shows "reaches (RDelete key check validate) w (committed (sw_db w2)) (issued (sw_db w2)) r"
proof -
  let ?rq = "RDelete key check validate" and ?m = "contents S (committed (sw_db w))"
  obtain d w3 where d: "run_state (repo_Delete S name ns) w1 = (d, w3)" by fastforce
  note eff = repo_Delete_effect[OF d]
  have same: "committed (sw_db w3) = committed (sw_db w)" "issued (sw_db w3) = issued (sw_db w)"
    using eff assms(3,5) by simp_all
  show ?thesis
  proof (cases d)
    case (Inl e)
    then have r: "r = Inl (if ErrorIs e ErrNotFound then KeyNotFound key else Internal e)" "w2 = w3"
      using assms(6) d by simp_all
    have "ErrorIs e ErrNotFound \<Longrightarrow> ?m (key_of S key) = None"
      using eff Inl assms(2,4) by (simp add: contents_def)
    with r same assms(1) show ?thesis
      by (auto simp: reaches_def abs_store_def intro: delete_missing spec_failed)
  next
    case (Inr obj)
    obtain b where b: "bytes_at (committed (sw_db w)) (ns, name) = Some b" "decode S b = Some obj"
        "bytes_at (view (sw_db w3)) = (bytes_at (committed (sw_db w)))((ns, name) := None)"
      using eff Inr assms(4) by auto
    have m: "?m (key_of S key) = Some obj"
      using b(1,2) assms(2) by (simp add: contents_def)
    note new = contents_delete[OF b(3), of S]
    show ?thesis
    proof (cases "check obj = Inr () \<and> validate obj = Inr ()")
      case True
      then have run: "run_state (commitAndBroadcast S Deleted obj) w3 = (r, w2)"
        using assms(6) d Inr by simp
      note ce = commit_effect[OF run]
      show ?thesis
      proof (cases "r = Inr obj")
        case ok: True
        then have "committed (sw_db w2) = view (sw_db w3)" "issued (sw_db w2) = issued (sw_db w)"
          using ce same by auto
        with ok True new assms(1,2) show ?thesis
          unfolding reaches_def abs_store_def
          using delete_ok[where m = ?m, OF m, of check validate "issued (sw_db w)"] by simp
      next
        case False
        then show ?thesis using ce same reaches_internal[OF assms(1)] by auto
      qed
    next
      case False
      then obtain e where e: "r = Inl (Refused e)" "w2 = w3"
          "check obj = Inl e \<or> check obj = Inr () \<and> validate obj = Inl e"
        using assms(6) d Inr by (auto split: sum.splits)
      show ?thesis
        unfolding reaches_def abs_store_def e(1,2) same
        using delete_refused[where m = ?m and check = check and validate = validate and e = e, OF m e(3)]
          assms(1) by simp
    qed
  qed
qed

lemma store_Delete_refines:
  assumes "settled S committed view w" "run_state (store_Delete S key check validate) w = (r, w')"
  shows "spec_step S (RDelete key check validate) (abs_store S committed issued w) r
      (abs_store S committed issued w') \<and> settled S committed view w'"
proof -
  note v = settledD[OF assms(1)]
  obtain name ns where k: "extractKeyNameAndNamespace (st_clusterScoped S) key = (name, ns)"
    by fastforce
  then have key: "key_of S key = (ns, name)" by (simp add: key_of_def)
  show ?thesis
  proof (cases "name = []")
    case True
    with assms k show ?thesis by (auto simp: store_Delete_def abs_store_def intro: spec_failed)
  next
    case False
    let ?body = "do {
        d \<leftarrow> repo_Delete S name ns;
        (case d of
           Inl err \<Rightarrow> State_Monad.return (Inl (if ErrorIs err ErrNotFound then KeyNotFound key
                                              else Internal err))
         | Inr obj \<Rightarrow>
             (case check obj of
                Inl err \<Rightarrow> State_Monad.return (Inl (Refused err))
              | Inr _ \<Rightarrow>
                  (case validate obj of
                     Inl err \<Rightarrow> State_Monad.return (Inl (Refused err))
                   | Inr _ \<Rightarrow> commitAndBroadcast S Deleted obj)))
      }"
    have tx: "run_state (in_transaction S (\<lambda>err. err) ?body) w = (r, w')"
      using assms(2) k False by (simp add: store_Delete_def)
    have "reaches (RDelete key check validate) w (committed (sw_db w')) (issued (sw_db w')) r
        \<and> view (sw_db w') = committed (sw_db w')"
      by (rule transaction_rule[where G = "reaches (RDelete key check validate) w", OF tx
            reaches_internal[OF v(2) order_refl]]) (rule delete_body[OF v(2) key])
    then show ?thesis by (intro reaches_refines) auto
  qed
qed

text \<open>The last iteration of an update, from a world in which the transaction has written nothing.\<close>

lemma update_body:
  assumes "decodes S (committed (sw_db w))" "key_of S key = (ns, name)"
    "committed (sw_db w1) = committed (sw_db w)"
    "bytes_at (view (sw_db w1)) = bytes_at (committed (sw_db w))"
    "issued (sw_db w1) = issued (sw_db w)"
    "run_state (updateIteration S key name ns ig check tryUpdate) w1 = (Break r, w2)"
  shows "reaches (RUpdate key ig check tryUpdate) w (committed (sw_db w2)) (issued (sw_db w2)) r"
proof -
  let ?rq = "RUpdate key ig check tryUpdate" and ?m = "contents S (committed (sw_db w))"
  obtain g w3 where g: "run_state (repo_Get S name ns) w1 = (g, w3)" by fastforce
  note geff = repo_Get_effect[OF g]
  have same: "committed (sw_db w3) = committed (sw_db w)" "issued (sw_db w3) = issued (sw_db w)"
      "bytes_at (view (sw_db w3)) = bytes_at (committed (sw_db w))"
    using geff assms(3-5) by simp_all
  note internal = reaches_internal[OF assms(1), where rq = ?rq]
  show ?thesis
  proof (cases g)
    case (Inl e)
    then have r: "r = (if ErrorIs e ErrNotFound
        then (if \<not> ig then Inl (KeyNotFound key) else Inr (ol_zero (st_lib S))) else Inl (Internal e))"
        "w2 = w3"
      using assms(6) g by (simp_all add: updateIteration_def)
    have "ErrorIs e ErrNotFound \<Longrightarrow> ?m (key_of S key) = None"
      using geff Inl assms(2,4) by (simp add: contents_def)
    with r same assms(1) show ?thesis
      by (cases ig) (auto simp: reaches_def abs_store_def intro: update_missing update_ignored spec_failed)
  next
    case (Inr obj)
    have m: "?m (key_of S key) = Some obj"
      using geff Inr assms(2,4) by (auto simp: contents_def)
    show ?thesis
    proof (cases "\<exists>updated. check obj = Inr () \<and> tryUpdate obj = Inr updated")
      case False
      then obtain e where e: "r = Inl (Refused e)" "w2 = w3"
          "check obj = Inl e \<or> check obj = Inr () \<and> tryUpdate obj = Inl e \<and> \<not> optimistic_conflict S e"
        using assms(6) g Inr by (auto simp: updateIteration_def split: sum.splits if_splits)
      show ?thesis
        unfolding reaches_def abs_store_def e(1,2) same
        using update_refused[where m = ?m and check = check and tryUpdate = tryUpdate and e = e, OF m e(3)]
          assms(1) by simp
    next
      case True
      then obtain updated where u: "check obj = Inr ()" "tryUpdate obj = Inr updated" by blast
      obtain x w4 where n: "run_state (nextResourceVersion S) w3 = (x, w4)" by fastforce
      note neff = nextResourceVersion_effect[OF n]
      have same4: "committed (sw_db w4) = committed (sw_db w)"
          "bytes_at (view (sw_db w4)) = bytes_at (committed (sw_db w))"
          "issued (sw_db w) \<le> issued (sw_db w4)"
        using neff same by (auto split: sum.splits)
      show ?thesis
      proof (cases "\<exists>rv versioned. x = Inr rv \<and> ol_UpdateObject (st_lib S) updated rv = Inr versioned")
        case False
        then have "w2 = w4 \<and> (\<exists>e. r = Inl (Internal e))"
          using assms(6) g Inr u n by (auto simp: updateIteration_def split: sum.splits)
        with same4 internal show ?thesis by auto
      next
        case True
        then obtain rv versioned where
          x: "x = Inr rv" "ol_UpdateObject (st_lib S) updated rv = Inr versioned" by blast
        have rv: "issued (sw_db w) < rv" "issued (sw_db w4) = rv"
          using neff same x by auto
        obtain y w5 where p: "run_state (repo_Update S name ns versioned) w4 = (y, w5)" by fastforce
        note peff = repo_Update_effect[OF p]
        show ?thesis
        proof (cases y)
          case (Inl e)
          then have "w2 = w5" "r = Inl (if ErrorIs e ErrNotFound then KeyNotFound key else Internal e)"
            using assms(6) g Inr u n x p by (simp_all add: updateIteration_def)
          moreover have "\<not> ErrorIs e ErrNotFound"
            using peff Inl same4(2) m assms(2) by (auto simp: contents_def)
          ultimately show ?thesis
            using peff same4 internal by auto
        next
          case upd: (Inr z)
          then obtain c where c: "run_state (commitAndBroadcast S Modified versioned) w5 = (c, w2)" "r = c"
            using assms(6) g Inr u n x p
            by (auto simp: updateIteration_def split: prod.splits)
          note ce = commit_effect[OF c(1)]
          obtain b where b: "decode S b = Some versioned"
              "bytes_at (view (sw_db w5)) = (bytes_at (committed (sw_db w)))((ns, name) \<mapsto> b)"
            using peff upd same4(2) by auto
          note new = contents_write[OF b(2,1)]
          have n2: "issued (sw_db w2) = rv"
            using ce peff rv by auto
          show ?thesis
          proof (cases "c = Inr versioned")
            case ok: True
            then have "committed (sw_db w2) = view (sw_db w5)" using ce by auto
            with ok c(2) new assms(1,2) show ?thesis
              unfolding reaches_def abs_store_def n2
              using update_ok[where m = ?m and check = check and tryUpdate = tryUpdate and ig = ig, OF rv(1) m u x(2)] by simp
          next
            case False
            then show ?thesis
              using ce c(2) peff same4 n2 rv internal[of rv] by auto
          qed
        qed
      qed
    qed
  qed
qed

lemma updateIteration_continue:
  assumes "run_state (updateIteration S key name ns ig check tryUpdate) u = (Continue, u')"
  shows "committed (sw_db u') = committed (sw_db u) \<and> view (sw_db u') = view (sw_db u)
    \<and> issued (sw_db u') = issued (sw_db u)"
proof -
  obtain g u3 where g: "run_state (repo_Get S name ns) u = (g, u3)" by fastforce
  have "u' = u3"
    using assms g by (auto simp: updateIteration_def split: sum.splits if_splits prod.splits)
  with repo_Get_effect[OF g] show ?thesis by simp
qed

lemma store_Update_refines:
  assumes "settled S committed view w"
    "store_GuaranteedUpdate S key ig check tryUpdate w = Some (r, w')"
  shows "spec_step S (RUpdate key ig check tryUpdate) (abs_store S committed issued w) r
      (abs_store S committed issued w') \<and> settled S committed view w'"
proof -
  note v = settledD[OF assms(1)]
  obtain name ns where k: "extractKeyNameAndNamespace (st_clusterScoped S) key = (name, ns)"
    by fastforce
  then have key: "key_of S key = (ns, name)" by (simp add: key_of_def)
  show ?thesis
  proof (cases "name = []")
    case True
    then have "r = Inl (Internal (ErrorNew (''invalid key: '' @ key)))" "w' = w"
      using assms(2) k by (simp_all add: store_GuaranteedUpdate_def)
    with assms(1) show ?thesis by (simp add: abs_store_def spec_failed)
  next
    case False
    let ?body = "updateIteration S key name ns ig check tryUpdate"
    define I where "I u \<longleftrightarrow> committed (sw_db u) = committed (sw_db w)
      \<and> bytes_at (view (sw_db u)) = bytes_at (committed (sw_db w)) \<and> issued (sw_db u) = issued (sw_db w)"
      for u :: "'s store_world"
    have step: "I v'" if "I v" "run_state ?body v = (Continue, v')" for v v'
      using that(1) updateIteration_continue[OF that(2)] by (simp add: I_def)
    obtain t s1 where q: "sq_Begin (st_sql S) (sw_db w) = (t, s1)" by fastforce
    note beff = begin_tx[OF q]
    show ?thesis
    proof (cases t)
      case (Inl e)
      with assms(2) k False q have "r = Inl (Internal e)" "w' = w\<lparr>sw_db := s1\<rparr>"
        by (simp_all add: store_GuaranteedUpdate_def)
      with beff reaches_internal[OF v(2) order_refl, of "RUpdate key ig check tryUpdate" e]
      show ?thesis by (intro reaches_refines) simp_all
    next
      case (Inr u)
      have "map_option (\<lambda>(r, w2). (r, w2\<lparr>sw_db := sq_Rollback (st_sql S) (sw_db w2)\<rparr>))
          (updateLoop ?body (w\<lparr>sw_db := s1\<rparr>)) = Some (r, w')"
        using assms(2) k False q Inr by (simp add: store_GuaranteedUpdate_def)
      then obtain w2 where l: "updateLoop ?body (w\<lparr>sw_db := s1\<rparr>) = Some (r, w2)"
          "w' = w2\<lparr>sw_db := sq_Rollback (st_sql S) (sw_db w2)\<rparr>"
        by (cases "updateLoop ?body (w\<lparr>sw_db := s1\<rparr>)") auto
      have "I (w\<lparr>sw_db := s1\<rparr>)" using beff by (simp add: I_def)
      have "\<exists>w1. I w1 \<and> run_state ?body w1 = (Break r, w2)"
        by (rule updateLoop_last[where I = I, OF l(1) \<open>I (w\<lparr>sw_db := s1\<rparr>)\<close>]) (erule (1) step)
      then obtain w1 where "I w1" "run_state ?body w1 = (Break r, w2)" by (elim exE conjE) (rule that)
      then have "reaches (RUpdate key ig check tryUpdate) w (committed (sw_db w2)) (issued (sw_db w2)) r"
        by (intro update_body[OF v(2) key]) (auto simp: I_def)
      then show ?thesis
        by (intro reaches_refines) (simp_all add: l(2) rollback_tx)
    qed
  qed
qed

lemma store_refines:
  assumes "settled S committed view w" "store_exec S rq w = Some (r, w')"
  shows "spec_step S rq (abs_store S committed issued w) r (abs_store S committed issued w')
    \<and> settled S committed view w'"
proof (cases rq)
  case (RCreate key obj)
  with assms(2) have "run_state (store_Create S key obj) w = (r, w')" by simp
  from store_Create_refines[OF assms(1) this] show ?thesis unfolding RCreate .
next
  case (RDelete key check validate)
  with assms(2) have "run_state (store_Delete S key check validate) w = (r, w')" by simp
  from store_Delete_refines[OF assms(1) this] show ?thesis unfolding RDelete .
next
  case (RGet key ig)
  with assms(2) have "run_state (store_Get S key ig) w = (r, w')" by simp
  from store_Get_refines[OF assms(1) this] show ?thesis unfolding RGet .
next
  case (RUpdate key ig check tryUpdate)
  with assms(2) have "store_GuaranteedUpdate S key ig check tryUpdate w = Some (r, w')" by simp
  from store_Update_refines[OF assms(1) this] show ?thesis unfolding RUpdate .
qed

end

section \<open>Refinement and versions\<close>

text \<open>A sequence of requests, each of which returns.\<close>

inductive store_run ::
  "('s, 'o) store \<Rightarrow> 's store_world \<Rightarrow> ('o request \<times> 'o stored) list \<Rightarrow> 's store_world \<Rightarrow> bool"
  for S where
  run_none: "store_run S w [] w"
| run_more: "\<lbrakk>store_run S w done_so_far w1; store_exec S rq w1 = Some (r, w2)\<rbrakk>
    \<Longrightarrow> store_run S w (done_so_far @ [(rq, r)]) w2"

inductive spec_run ::
  "('s, 'o) store \<Rightarrow> 'o versioned_map \<Rightarrow> ('o request \<times> 'o stored) list \<Rightarrow> 'o versioned_map \<Rightarrow> bool"
  for S where
  spec_none: "spec_run S a [] a"
| spec_more: "\<lbrakk>spec_run S a done_so_far a1; spec_step S rq a1 r a2\<rbrakk>
    \<Longrightarrow> spec_run S a (done_so_far @ [(rq, r)]) a2"

context object_store
begin

lemma run_refines:
  assumes "store_run S w tr w'" "settled S committed view w"
  shows "spec_run S (abs_store S committed issued w) tr (abs_store S committed issued w')
    \<and> settled S committed view w'"
  using assms
proof (induction rule: store_run.induct)
  case (run_none w)
  then show ?case by (simp add: spec_none)
next
  case (run_more w tr w1 rq r w2)
  then have "settled S committed view w1" by simp
  from store_refines[OF this run_more(2)] run_more show ?case
    by (auto intro: spec_more)
qed

end

text \<open>
  The versions of a map: each stored object has a version that was issued, and no two objects
  share one.
\<close>

definition versions_ok :: "('o \<Rightarrow> nat) \<Rightarrow> 'o versioned_map \<Rightarrow> bool" where
  "versions_ok version a \<longleftrightarrow>
    (\<forall>k obj. fst a k = Some obj \<longrightarrow> version obj \<le> snd a)
    \<and> (\<forall>k k' obj obj'. fst a k = Some obj \<longrightarrow> fst a k' = Some obj' \<longrightarrow>
         version obj = version obj' \<longrightarrow> k = k')"

lemma versions_ok_write:
  assumes "versions_ok version (m, n)" "n < version obj"
  shows "versions_ok version (m(k \<mapsto> obj), version obj)"
proof -
  have le: "version x \<le> n" if "m k' = Some x" for k' x
    using assms(1) that unfolding versions_ok_def by fastforce
  have inj: "k1 = k2" if "m k1 = Some x" "m k2 = Some y" "version x = version y" for k1 k2 x y
    using assms(1) that unfolding versions_ok_def by fastforce
  show ?thesis
    unfolding versions_ok_def using le inj assms(2)
    by (auto simp del: split_paired_All dest: le split: if_splits)
qed

lemma versions_ok_shrink:
  "\<lbrakk>versions_ok version (m, n); n \<le> n'; \<And>k x. m' k = Some x \<Longrightarrow> m k = Some x\<rbrakk>
    \<Longrightarrow> versions_ok version (m', n')"
  unfolding versions_ok_def by (auto simp del: split_paired_All intro: order_trans) fastforce+

lemma spec_step_versions:
  assumes "spec_step S rq a r a'" "versions_ok version a"
    "\<And>obj v obj'. ol_UpdateObject (st_lib S) obj v = Inr obj' \<Longrightarrow> version obj' = v"
  shows "versions_ok version a' \<and> snd a \<le> snd a'"
  using assms(1,2)
proof (cases rule: spec_step.cases)
  case (create_ok n v obj obj' m key)
  then show ?thesis
    using versions_ok_write[of version m n obj' "obj_key S obj'"] assms(2,3) by auto
next
  case (update_ok n v m key obj check tryUpdate obj1 obj2 ig)
  then show ?thesis
    using versions_ok_write[of version m n obj2 "key_of S key"] assms(2,3) by auto
qed (use assms(2) in \<open>auto intro: versions_ok_shrink split: if_splits\<close>)

lemma spec_run_versions:
  assumes "spec_run S a tr a'" "versions_ok version a"
    "\<And>obj v obj'. ol_UpdateObject (st_lib S) obj v = Inr obj' \<Longrightarrow> version obj' = v"
  shows "versions_ok version a' \<and> snd a \<le> snd a'"
  using assms(1,2)
proof (induction rule: spec_run.induct)
  case (spec_more a tr a1 rq r a2)
  then show ?case
    using spec_step_versions[OF spec_more(2) _ assms(3)] by (meson order_trans)
qed simp

end
