(* ===== verification/Storage_Properties.thy ===== *)
theory Storage_Properties
  imports Storage_Correct
begin

text \<open>
  The properties of the storage server: the refinement of a map with versions, the keys, listing in
  pages, label selectors, the update loop and the events of the watchers.  The locale \<open>object_store\<close>
  is interpreted on the store over the database of lists, with a codec for a small object.
\<close>

section \<open>A concrete store\<close>

type_synonym document = "string \<times> string \<times> nat"

definition document_decode :: "string \<Rightarrow> document result" where
  "document_decode b =
    (case Split CHR ''/'' b of
       [ns, name, v] \<Rightarrow> map_sum id (\<lambda>n. (ns, name, n)) (ParseUint v)
     | _ \<Rightarrow> Inl (ErrorNew ''unexpected number of parts''))"

definition document_encode :: "document \<Rightarrow> string result" where
  "document_encode d =
    (case d of (ns, name, v) \<Rightarrow>
       let b = ns @ ''/'' @ name @ ''/'' @ FormatUint v
       in if document_decode b = Inr d then Inr b else Inl (ErrorNew ''not encodable''))"

definition document_lib :: "document object_lib" where
  "document_lib =
    \<lparr>ol_meta = (\<lambda>(ns, name, v). empty_meta\<lparr>om_Namespace := ns, om_Name := name, om_UID := name\<rparr>),
     ol_zero = ([], [], 0), ol_marshal = document_encode, ol_unmarshal = document_decode,
     ol_UpdateObject = (\<lambda>(ns, name, _) v. Inr (ns, name, v)),
     ol_SetAnnotations = (\<lambda>d _. d), ol_transform = Inr\<rparr>"

definition document_store :: "json_lib \<Rightarrow> (list_db, document) store" where
  "document_store J =
    \<lparr>st_sql = list_postgres J, st_lib = document_lib, st_PublishMsg = (\<lambda>_ _. Inr ()),
     st_clusterScoped = False, st_OptimisticLockErrorMsg = ''the object has been modified''\<rparr>"

definition document_version :: "document \<Rightarrow> nat" where
  "document_version d = snd (snd d)"

lemma document_decode_errors:
  "document_decode b = Inl e \<Longrightarrow> \<not> ErrorIs e ErrNotFound"
  by (auto simp: document_decode_def ParseUint_def split: list.splits option.splits if_splits)

interpretation ds: object_store "document_store J" J ld_committed ld_view ld_issued document_version for J
proof -
  have sql: "st_sql (document_store J) = list_postgres J" by (simp add: document_store_def)
  have "postgres (st_sql (document_store J)) J ld_committed ld_view ld_issued"
    unfolding sql by (rule lp.postgres_axioms)
  moreover have "object_store_axioms (document_store J) document_version"
    using document_decode_errors
    by unfold_locales
      (auto simp: document_store_def document_lib_def document_encode_def document_version_def Let_def
         split: if_splits prod.splits)
  ultimately show "object_store (document_store J) J ld_committed ld_view ld_issued document_version"
    by (rule object_store.intro)
qed

abbreviation no_json :: json_lib where
  "no_json \<equiv> \<lparr>js_labels = (\<lambda>_. None), js_field = (\<lambda>_ _. None), js_version = (\<lambda>_. None)\<rparr>"

definition empty_world :: "list_db store_world" where
  "empty_world =
    \<lparr>sw_db = \<lparr>ld_committed = [], ld_view = [], ld_issued = 0, ld_serial = 1\<rparr>, sw_messages = []\<rparr>"

lemma empty_world_settled: "settled S ld_committed ld_view empty_world"
  by (simp add: settled_def decodes_def empty_world_def bytes_at_def)

section \<open>Keys and loops\<close>

lemma rehydrateKey_parts:
  assumes "groupName \<noteq> []" "CHR ''/'' \<notin> set groupName" "CHR ''/'' \<notin> set resource"
    "CHR ''/'' \<notin> set (om_Namespace (ol_meta (st_lib S) obj))"
    "CHR ''/'' \<notin> set (om_Name (ol_meta (st_lib S) obj))"
  shows "Split CHR ''/'' (TrimPrefix (rehydrateKey S groupName resource obj) ''/'')
    = (if st_clusterScoped S then [groupName, resource, om_Name (ol_meta (st_lib S) obj)]
       else [groupName, resource, om_Namespace (ol_meta (st_lib S) obj), om_Name (ol_meta (st_lib S) obj)])"
proof -
  have "TrimPrefix (groupName @ s) ''/'' = groupName @ s" for s
    using assms(1,2) by (cases groupName) (auto simp: TrimPrefix_def HasPrefix_def)
  then show ?thesis
    using assms(2-) by (simp add: rehydrateKey_def Let_def Split_append Split_no_sep)
qed

text \<open>An iteration that continues without a change never ends.\<close>

lemma updateLoop_stuck:
  assumes "run_state body w = (Continue, w)"
  shows "updateLoop body w = None"
proof (rule ccontr)
  assume "updateLoop body w \<noteq> None"
  then obtain y where "updateLoop body w = Some y" by blast
  from updateLoop.raw_induct[of "\<lambda>b v y. \<not> (b = body \<and> v = w)", OF _ this] assms
  show False by force
qed

lemma updateLoop_None:
  assumes "\<And>w'. run_state body w = (Continue, w') \<Longrightarrow> w' = w"
  shows "updateLoop body w = None \<longleftrightarrow> fst (run_state body w) = Continue"
proof (cases "run_state body w")
  case (Pair it w')
  show ?thesis
  proof (cases it)
    case Continue
    with Pair assms have "run_state body w = (Continue, w)" by simp
    with updateLoop_stuck[OF this] show ?thesis by simp
  next
    case (Break r)
    with Pair have "updateLoop body w = Some (r, w')" by (subst updateLoop.simps) simp
    with Pair Break show ?thesis by simp
  qed
qed

lemma repo_Get_same:
  "\<forall>d. snd (sq_select (st_sql S) name ns d) = d \<Longrightarrow> snd (run_state (repo_Get S name ns) w) = w"
  by (simp add: repo_Get_def)

lemma updateIteration_Continue_iff:
  "fst (run_state (updateIteration S key name ns ig check tryUpdate) v) = Continue \<longleftrightarrow>
    (\<exists>obj e. fst (run_state (repo_Get S name ns) v) = Inr obj
      \<and> check obj = Inr () \<and> tryUpdate obj = Inl e \<and> optimistic_conflict S e)"
  by (auto simp: updateIteration_def split: prod.splits sum.splits)

lemma updateIteration_same:
  assumes "\<forall>d. snd (sq_select (st_sql S) name ns d) = d"
    "run_state (updateIteration S key name ns ig check tryUpdate) v = (Continue, v')"
  shows "v' = v"
  using assms(2) repo_Get_same[OF assms(1), of v]
  by (auto simp: updateIteration_def split: prod.splits sum.splits if_splits)

lemma sample_conflict: "Contains ''the object has been modified'' ''the object has been modified''"
  by (simp add: Contains_def HasPrefix_def)

section \<open>A map with versions\<close>

definition sample_trace :: "(document request \<times> document stored) list" where
  "sample_trace =
    [(RCreate ''/g/r/ns/a'' (''ns'', ''a'', 0), Inr (''ns'', ''a'', 1)),
     (RCreate ''/g/r/ns/a'' (''ns'', ''a'', 0), Inl (KeyExists ''/g/r/ns/a'')),
     (RGet ''/g/r/ns/a'' False, Inr (''ns'', ''a'', 1)),
     (RDelete ''/g/r/ns/a'' (\<lambda>_. Inr ()) (\<lambda>_. Inr ()), Inr (''ns'', ''a'', 1)),
     (RGet ''/g/r/ns/a'' False, Inl (KeyNotFound ''/g/r/ns/a''))]"

lemma store_run_snoc:
  "\<lbrakk>store_run S w tr w1; store_exec S rq w1 = Some (r, w2); tr' = tr @ [(rq, r)]\<rbrakk>
    \<Longrightarrow> store_run S w tr' w2"
  by (auto intro: run_more)

text \<open>The worlds of the sample run.\<close>

definition world_with :: "Row list \<Rightarrow> nat \<Rightarrow> int \<Rightarrow> (EventType \<times> string) list \<Rightarrow> list_db store_world" where
  "world_with rows n i ms =
    \<lparr>sw_db = \<lparr>ld_committed = rows, ld_view = rows, ld_issued = n, ld_serial = i\<rparr>, sw_messages = ms\<rparr>"

lemma empty_world_with: "empty_world = world_with [] 0 1 []"
  by (simp add: empty_world_def world_with_def)

abbreviation row_a :: Row where
  "row_a \<equiv> \<lparr>rw_id = 1, rw_name = ''a'', rw_namespace = ''ns'', rw_object = ''ns/a/1''\<rparr>"

lemma sample_decode: "document_decode ''ns/a/1'' = Inr (''ns'', ''a'', Suc 0)"
  by (simp add: document_decode_def ParseUint_def digit_value_def)

lemma sample_formats: "FormatUint (Suc 0) = ''1''" "FormatUint (Suc (Suc 0)) = ''2''"
  by code_simp code_simp

lemma sample_encode: "document_encode (''ns'', ''a'', Suc 0) = Inr ''ns/a/1''"
  by (simp add: document_encode_def sample_decode sample_formats)

lemma sample_encode2: "document_encode (''ns'', ''a'', Suc (Suc 0)) = Inr ''ns/a/2''"
  by (simp add: document_encode_def document_decode_def ParseUint_def digit_value_def sample_formats)

lemma sample_key: "extractKeyNameAndNamespace False ''/g/r/ns/a'' = (''a'', ''ns'')"
  by code_simp

lemmas sample_exec_simps = document_store_def document_lib_def list_postgres_def world_with_def
  ld_find_def ld_write_def bytes_at_def row_key_def sample_key sample_decode sample_encode sample_encode2
  nextResourceVersion_def in_transaction_def commitAndBroadcast_def broadcaster_publish_def
  repo_Create_def repo_Get_def repo_Delete_def decodeRow_def

lemma sample_create:
  "store_exec (document_store J) (RCreate ''/g/r/ns/a'' (''ns'', ''a'', 0)) (world_with [] 0 1 [])
    = Some (Inr (''ns'', ''a'', 1), world_with [row_a] 1 2 [(Added, ''ns/a/1'')])"
  by (simp add: store_Create_def sample_exec_simps)

lemma sample_create_again:
  "store_exec (document_store J) (RCreate ''/g/r/ns/a'' (''ns'', ''a'', 0)) (world_with [row_a] 1 2 ms)
    = Some (Inl (KeyExists ''/g/r/ns/a''), world_with [row_a] 2 2 ms)"
  by (simp add: store_Create_def sample_exec_simps)

lemma sample_get:
  "store_exec (document_store J) (RGet ''/g/r/ns/a'' False) (world_with [row_a] n i ms)
    = Some (Inr (''ns'', ''a'', 1), world_with [row_a] n i ms)"
  "store_exec (document_store J) (RGet ''/g/r/ns/a'' False) (world_with [] n i ms)
    = Some (Inl (KeyNotFound ''/g/r/ns/a''), world_with [] n i ms)"
  by (simp_all add: store_Get_def sample_exec_simps)

lemma sample_delete:
  "store_exec (document_store J) (RDelete ''/g/r/ns/a'' (\<lambda>_. Inr ()) (\<lambda>_. Inr ())) (world_with [row_a] n i ms)
    = Some (Inr (''ns'', ''a'', 1), world_with [] n (i + 1) (ms @ [(Deleted, ''ns/a/1'')]))"
  by (simp add: store_Delete_def sample_exec_simps)

lemma sample_run:
  "store_run (document_store J) empty_world sample_trace
    (world_with [] 2 3 [(Added, ''ns/a/1''), (Deleted, ''ns/a/1'')])"
  unfolding empty_world_with sample_trace_def
  using store_run_snoc[OF store_run_snoc[OF store_run_snoc[OF store_run_snoc[OF
        store_run_snoc[OF run_none sample_create refl] sample_create_again refl] sample_get(1) refl]
        sample_delete refl] sample_get(2) refl]
  by simp

context object_store
begin

lemma run_versions:
  assumes "store_run S w tr w'" "settled S committed view w"
    "versions_ok version (abs_store S committed issued w)"
  shows "versions_ok version (abs_store S committed issued w') \<and> issued (sw_db w) \<le> issued (sw_db w')"
proof -
  from run_refines[OF assms(1,2)]
  have "spec_run S (abs_store S committed issued w) tr (abs_store S committed issued w')" by simp
  from spec_run_versions[OF this assms(3)] versioner show ?thesis by (auto simp: abs_store_def)
qed

end



text \<open>
  Versions identify writes.  If every stored object has a version that the sequence has issued
  and no two objects share one, this holds after every sequence of requests, and the sequence only
  grows: two different keys never carry the same resource version.
\<close>

theorem store_versions_unique:
  assumes "object_store S J committed view issued version" "settled S committed view w"
    "versions_ok version (abs_store S committed issued w)" "store_run S w tr w'"
  shows "versions_ok version (abs_store S committed issued w') \<and> issued (sw_db w) \<le> issued (sw_db w')"
  by (rule object_store.run_versions[OF assms(1,4,2,3)])

theorem store_versions_unique_witness:
  "versions_ok document_version (abs_store (document_store no_json) ld_committed ld_issued
     (world_with [row_a] 1 2 [(Added, ''ns/a/1'')]))"
proof -
  have "versions_ok document_version (abs_store (document_store no_json) ld_committed ld_issued empty_world)"
    by (simp add: versions_ok_def abs_store_def contents_def bytes_at_def empty_world_def)
  from store_versions_unique[OF ds.object_store_axioms empty_world_settled this
      run_more[OF run_none sample_create[folded empty_world_with]]]
  show ?thesis by blast
qed

text \<open>The message that a successful write publishes.\<close>

lemma commit_messages:
  assumes "run_state (commitAndBroadcast S ev obj) v = (Inr obj', v')"
    "ol_transform (st_lib S) obj = Inr t" "ol_marshal (st_lib S) t = Inr b"
    "\<And>ms m. st_PublishMsg S ms m = Inr ()"
  shows "obj' = obj \<and> sw_messages v' = sw_messages v @ [(ev, b)]"
  using assms by (auto simp: commitAndBroadcast_def broadcaster_publish_def split: sum.splits)

lemma repo_Create_messages [simp]:
  "sw_messages (snd (run_state (repo_Create S obj) v)) = sw_messages v"
  by (auto simp: repo_Create_def split: sum.splits)

lemma create_messages:
  assumes "run_state (store_Create S key obj) w = (Inr obj', w')"
    "ol_transform (st_lib S) obj' = Inr t" "ol_marshal (st_lib S) t = Inr b"
    "\<And>ms m. st_PublishMsg S ms m = Inr ()"
  shows "sw_messages w' = sw_messages w @ [(Added, b)]"
proof -
  obtain x s1 where v: "sq_nextval (st_sql S) (sw_db w) = (x, s1)" by fastforce
  with assms(1) obtain rv o1 where o1: "x = Inr rv" "ol_UpdateObject (st_lib S) obj rv = Inr o1"
    by (auto simp: store_Create_def nextResourceVersion_def split: sum.splits)
  obtain y s2 where t: "sq_Begin (st_sql S) s1 = (y, s2)" by fastforce
  with assms(1) v o1 obtain u where u: "y = Inr u"
    by (auto simp: store_Create_def nextResourceVersion_def in_transaction_def split: sum.splits)
  obtain c v1 where c: "run_state (repo_Create S o1) (w\<lparr>sw_db := s2\<rparr>) = (c, v1)" by fastforce
  with assms(1) v o1 t u obtain k where k: "c = Inr k"
    by (auto simp: store_Create_def nextResourceVersion_def in_transaction_def split: sum.splits prod.splits)
  obtain r v2 where r: "run_state (commitAndBroadcast S Added o1) v1 = (r, v2)" by fastforce
  with assms(1) v o1 t u c k have "r = Inr obj'" "sw_messages w' = sw_messages v2"
    by (auto simp: store_Create_def nextResourceVersion_def in_transaction_def split: prod.splits)
  moreover from r this(1) have "obj' = o1"
    by (auto simp: commitAndBroadcast_def split: sum.splits prod.splits)
  moreover have "sw_messages v1 = sw_messages w"
    using repo_Create_messages[of S o1 "w\<lparr>sw_db := s2\<rparr>"] c by simp
  ultimately show ?thesis
    using commit_messages[OF _ assms(2,3,4)] r by simp
qed

inductive_cases spec_create_ok: "spec_step S (RCreate key obj) a (Inr obj') a'"
inductive_cases spec_get: "spec_step S (RGet key ig) a r a'"

context object_store
begin

lemma create_then_process:
  assumes "settled S committed view w" "run_state (store_Create S key obj) w = (Inr obj', w')"
    "ol_marshal (st_lib S) t = Inr b" "ol_meta (st_lib S) t = ol_meta (st_lib S) obj'"
    "key_of S (rehydrateKey S groupName resource t) = obj_key S obj'"
    "run_state (processMessage S groupName resource (Added, b)) w' = (r, w2)"
  shows "r = Inr (Added, obj') \<or> (\<exists>e. r = Inl (Internal e))"
proof -
  let ?key = "rehydrateKey S groupName resource t"
  have c: "spec_step S (RCreate key obj) (abs_store S committed issued w) (Inr obj')
      (abs_store S committed issued w')" and st: "settled S committed view w'"
    using store_Create_refines[OF assms(1,2)] by simp_all
  from c have stored: "fst (abs_store S committed issued w') (obj_key S obj') = Some obj'"
    by (rule spec_create_ok) (metis fst_conv fun_upd_same)
  obtain g w1 where g: "run_state (store_Get S ?key False) w' = (g, w1)" by fastforce
  have "spec_step S (RGet ?key False) (abs_store S committed issued w') g (abs_store S committed issued w1)"
    using store_Get_refines[OF st g] by simp
  then have "g = Inr obj' \<or> (\<exists>e. g = Inl (Internal e))"
    by (rule spec_get) (use stored assms(5) in auto)
  then show ?thesis
    using assms(4,6) g codec[OF assms(3)]
    by (auto simp: processMessage_def rehydrate_def)
qed

end

section \<open>Keys\<close>

text \<open>
  C15: the key under which a watcher re-reads an object names that object.  For a non-empty group and
  parts without a slash, the key built by \<open>rehydrate\<close> is read back by the store as the name of the
  object and, unless the resource is cluster scoped, its namespace.
\<close>

theorem rehydrate_key_roundtrip:
  assumes "groupName \<noteq> []" "CHR ''/'' \<notin> set groupName" "CHR ''/'' \<notin> set resource"
    "CHR ''/'' \<notin> set (om_Namespace (ol_meta (st_lib S) obj))"
    "CHR ''/'' \<notin> set (om_Name (ol_meta (st_lib S) obj))"
  shows "extractKeyNameAndNamespace (st_clusterScoped S) (rehydrateKey S groupName resource obj)
    = (om_Name (ol_meta (st_lib S) obj),
       if st_clusterScoped S then [] else om_Namespace (ol_meta (st_lib S) obj))"
  using rehydrateKey_parts[OF assms] by (simp add: extractKeyNameAndNamespace_def)

theorem rehydrate_key_roundtrip_witness:
  "extractKeyNameAndNamespace (st_clusterScoped (document_store no_json))
      (rehydrateKey (document_store no_json) ''storage'' ''images'' (''ns'', ''a'', 1)) = (''a'', ''ns'')"
  using rehydrate_key_roundtrip[of "''storage''" "''images''" "document_store no_json" "(''ns'', ''a'', 1)"]
  by (simp add: document_store_def document_lib_def empty_meta_def)

section \<open>The update loop\<close>

text \<open>
  C3: GuaranteedUpdate returns, except on a stale update.  Reading a row leaves the database as it
  is.  Then the loop fails to return exactly when the transaction begins, the object is there and
  passes the preconditions, and the caller's update function answers it with an optimistic lock
  conflict: the loop reads the same object again and asks the same question.
\<close>

theorem guaranteed_update_returns:
  assumes "\<forall>d. snd (sq_select (st_sql S) name ns d) = d"
    "extractKeyNameAndNamespace (st_clusterScoped S) key = (name, ns)"
  shows "store_GuaranteedUpdate S key ig check tryUpdate w = None \<longleftrightarrow>
    name \<noteq> [] \<and> (\<exists>d obj e. sq_Begin (st_sql S) (sw_db w) = (Inr (), d)
      \<and> fst (run_state (repo_Get S name ns) (w\<lparr>sw_db := d\<rparr>)) = Inr obj
      \<and> check obj = Inr () \<and> tryUpdate obj = Inl e \<and> optimistic_conflict S e)"
proof -
  have loop: "updateLoop (updateIteration S key name ns ig check tryUpdate) v = None \<longleftrightarrow>
      (\<exists>obj e. fst (run_state (repo_Get S name ns) v) = Inr obj
        \<and> check obj = Inr () \<and> tryUpdate obj = Inl e \<and> optimistic_conflict S e)" for v
  proof -
    have "updateLoop (updateIteration S key name ns ig check tryUpdate) v = None \<longleftrightarrow>
        fst (run_state (updateIteration S key name ns ig check tryUpdate) v) = Continue"
      by (rule updateLoop_None) (erule updateIteration_same[OF assms(1)])
    then show ?thesis by (simp only: updateIteration_Continue_iff)
  qed
  obtain t d where b: "sq_Begin (st_sql S) (sw_db w) = (t, d)" by fastforce
  show ?thesis
    using assms(2) loop[of "w\<lparr>sw_db := d\<rparr>"] b
    by (cases t) (auto simp: store_GuaranteedUpdate_def)
qed

theorem guaranteed_update_returns_witness:
  "store_GuaranteedUpdate (document_store no_json) ''/g/r/ns/a'' False (\<lambda>_. Inr ())
     (\<lambda>_. Inl (StatusError ReasonConflict ''the object has been modified''))
     (world_with [row_a] 1 2 []) = None"
  using guaranteed_update_returns[of "document_store no_json" "''a''" "''ns''" "''/g/r/ns/a''"]
  by (simp add: sample_exec_simps optimistic_conflict_def sample_conflict IsConflict_def)

section \<open>Watchers\<close>

text \<open>
  C14: what is created reaches the watchers whole.  An object that Create stored is announced by one
  message, published last, with the stripped object in it.  A watcher that processes this message
  hands on an Added event with the complete stored object, payload included, or reports an internal
  error of the database; it never hands on the stripped object.  The stripping keeps the metadata,
  publishing succeeds, and the names are without slashes.
\<close>

theorem created_object_reaches_watchers:
  assumes "object_store S J committed view issued version" "settled S committed view w"
    "run_state (store_Create S key obj) w = (Inr obj', w')"
    "\<And>ms m. st_PublishMsg S ms m = Inr ()"
    "ol_transform (st_lib S) obj' = Inr t" "ol_marshal (st_lib S) t = Inr b"
    "ol_meta (st_lib S) t = ol_meta (st_lib S) obj'"
    "groupName \<noteq> []" "CHR ''/'' \<notin> set groupName" "CHR ''/'' \<notin> set resource"
    "CHR ''/'' \<notin> set (om_Namespace (ol_meta (st_lib S) obj'))"
    "CHR ''/'' \<notin> set (om_Name (ol_meta (st_lib S) obj'))"
    "st_clusterScoped S \<longrightarrow> om_Namespace (ol_meta (st_lib S) obj') = []"
    "run_state (processMessage S groupName resource (Added, b)) w' = (r, w2)"
  shows "sw_messages w' = sw_messages w @ [(Added, b)]
    \<and> (r = Inr (Added, obj') \<or> (\<exists>e. r = Inl (Internal e)))"
proof -
  have "Split CHR ''/'' (TrimPrefix (rehydrateKey S groupName resource t) ''/'')
      = (if st_clusterScoped S then [groupName, resource, om_Name (ol_meta (st_lib S) obj')]
         else [groupName, resource, om_Namespace (ol_meta (st_lib S) obj'), om_Name (ol_meta (st_lib S) obj')])"
    using rehydrateKey_parts[OF assms(8,9,10), of S t] assms(7,11,12) by simp
  then have "key_of S (rehydrateKey S groupName resource t) = obj_key S obj'"
    using assms(13) by (simp add: key_of_def obj_key_def extractKeyNameAndNamespace_def)
  from object_store.create_then_process[OF assms(1,2,3,6,7) this assms(14)]
    create_messages[OF assms(3,5,6,4)]
  show ?thesis by blast
qed

lemma sample_create_run:
  "run_state (store_Create (document_store J) ''/g/r/ns/a'' (''ns'', ''a'', 0)) empty_world
    = (Inr (''ns'', ''a'', 1), world_with [row_a] 1 2 [(Added, ''ns/a/1'')])"
  using sample_create[of J] by (simp add: empty_world_with)

lemma sample_process_run:
  "run_state (processMessage (document_store J) ''g'' ''r'' (Added, ''ns/a/1''))
      (world_with [row_a] 1 2 [(Added, ''ns/a/1'')])
    = (Inr (Added, ''ns'', ''a'', 1), world_with [row_a] 1 2 [(Added, ''ns/a/1'')])"
proof -
  have "extractKeyNameAndNamespace False ''g/r/ns/a'' = (''a'', ''ns'')" by code_simp
  then show ?thesis
    by (simp add: processMessage_def rehydrate_def rehydrateKey_def store_Get_def sample_exec_simps
        empty_meta_def)
qed

theorem created_object_reaches_watchers_witness:
  "sw_messages (world_with [row_a] 1 2 [(Added, ''ns/a/1'')]) = sw_messages empty_world @ [(Added, ''ns/a/1'')]
    \<and> (Inr (Added, ''ns'', ''a'', 1) = (Inr (Added, ''ns'', ''a'', 1) :: (EventType \<times> document) stored)
       \<or> (\<exists>e. (Inr (Added, ''ns'', ''a'', 1) :: (EventType \<times> document) stored) = Inl (Internal e)))"
  by (rule created_object_reaches_watchers[where S = "document_store no_json" and J = no_json
        and t = "(''ns'', ''a'', 1)" and groupName = "''g''" and resource = "''r''",
        OF ds.object_store_axioms empty_world_settled sample_create_run _ _ _ _ _ _ _ _ _ _ sample_process_run])
    (simp_all add: document_store_def document_lib_def sample_encode empty_meta_def)

end
