(* ===== verification/Storage_Listing.thy ===== *)
theory Storage_Listing
  imports Storage_Properties
begin

text \<open>
  Listing in pages (\<open>src/internal/storage/repository/list.go\<close>): following the continue tokens
  visits every selected row once, and the label conditions compared with the label selectors of
  Kubernetes.
\<close>

section \<open>The rows of a page\<close>

lemma scanRows_page:
  assumes "0 < limit" "0 \<le> cnt" "cnt \<le> limit"
    "\<And>i b. (i, b) \<in> set rows \<Longrightarrow> ol_unmarshal (st_lib S) b = Inr (f b)"
  shows "scanRows S limit rows items lastID cnt =
    (let page = take (nat (limit - cnt)) rows
     in Inr (items @ map (f \<circ> snd) page, last (lastID # map fst page), nat (limit - cnt) < length rows))"
  using assms
proof (induction rows arbitrary: items lastID cnt)
  case Nil
  then show ?case by simp
next
  case (Cons row rows)
  obtain i b where row: "row = (i, b)" by fastforce
  show ?case
  proof (cases "cnt = limit")
    case True
    with Cons.prems row show ?thesis by simp
  next
    case False
    with Cons.prems have "nat (limit - cnt) = Suc (nat (limit - (cnt + 1)))" by simp
    moreover have "ol_unmarshal (st_lib S) b = Inr (f b)" by (rule Cons.prems(4)[of i]) (simp add: row)
    moreover have "scanRows S limit rows (items @ [f b]) i (cnt + 1) =
        (let page = take (nat (limit - (cnt + 1))) rows
         in Inr ((items @ [f b]) @ map (f \<circ> snd) page, last (i # map fst page),
              nat (limit - (cnt + 1)) < length rows))"
      using Cons.prems False by (intro Cons.IH) auto
    ultimately show ?thesis
      using Cons.prems False row by (simp add: Let_def)
  qed
qed

text \<open>The rows after the last of the first \<open>n\<close> are the others.\<close>

lemma filter_after_page:
  assumes "sorted (map k xs)" "distinct (map k xs)" "0 < n" "n \<le> length xs"
  shows "filter (\<lambda>x. k (xs ! (n - 1)) < k x) xs = drop n xs"
proof -
  have lt: "k (xs ! i) < k (xs ! j)" if "i < j" "j < length xs" for i j
    using assms(1,2) that sorted_nth_mono[of "map k xs" i j] nth_eq_iff_index_eq[of "map k xs" i j]
    by fastforce
  have "filter (\<lambda>x. k (xs ! (n - 1)) < k x) (take n xs) = []"
  proof -
    have "\<not> k (xs ! (n - 1)) < k x" if x: "x \<in> set (take n xs)" for x
    proof -
      from x obtain i where i: "i < n" "x = xs ! i" using assms(4) by (auto simp: in_set_conv_nth)
      then show ?thesis
        using lt[of i "n - 1"] assms(3,4) by (cases "i = n - 1") force+
    qed
    then show ?thesis by (simp add: filter_empty_conv)
  qed
  moreover have "filter (\<lambda>x. k (xs ! (n - 1)) < k x) (drop n xs) = drop n xs"
  proof -
    have "k (xs ! (n - 1)) < k x" if x: "x \<in> set (drop n xs)" for x
    proof -
      from x obtain i where "i < length xs - n" "x = xs ! (n + i)" using assms(4) by (auto simp: in_set_conv_nth)
      then show ?thesis using lt[of "n - 1" "n + i"] assms(3) by simp
    qed
    then show ?thesis by (simp add: filter_id_conv)
  qed
  ultimately show ?thesis
    by (metis append_take_drop_id filter_append self_append_conv2)
qed

definition selected_rows :: "json_lib \<Rightarrow> list_query \<Rightarrow> Row list \<Rightarrow> Row list" where
  "selected_rows J q rows = filter (row_selected J q) (sort_key rw_id rows)"

lemma selected_rows_sorted:
  "sorted (map rw_id (selected_rows J q rows))"
  "distinct (map rw_id rows) \<Longrightarrow> distinct (map rw_id (selected_rows J q rows))"
proof -
  show "sorted (map rw_id (selected_rows J q rows))"
    unfolding selected_rows_def by (rule sorted_filter) simp
  assume "distinct (map rw_id rows)"
  then have "distinct (map rw_id (sort_key rw_id rows))"
    by (metis distinct_map distinct_sort set_sort)
  then show "distinct (map rw_id (selected_rows J q rows))"
    unfolding selected_rows_def by (rule distinct_map_filter)
qed

lemma selected_rows_after:
  assumes "\<And>i. lq_after q = Some i \<Longrightarrow> i \<le> j"
  shows "selected_rows J (q\<lparr>lq_after := Some j\<rparr>) rows
    = filter (\<lambda>r. j < rw_id r) (selected_rows J q rows)"
  unfolding selected_rows_def filter_filter
  using assms by (intro filter_cong refl) (fastforce simp: row_selected_def split: option.splits)

lemma selected_rows_limit [simp]: "selected_rows J (q\<lparr>lq_limit := l\<rparr>) rows = selected_rows J q rows"
  unfolding selected_rows_def by (rule filter_cong) (simp_all add: row_selected_def)

lemma query_rows_limit:
  "query_rows J q rows = map (\<lambda>r. (rw_id r, rw_object r))
    (case lq_limit q of None \<Rightarrow> selected_rows J q rows | Some n \<Rightarrow> take (nat n) (selected_rows J q rows))"
  by (simp add: query_rows_def selected_rows_def split: option.splits)

lemma listQuery_limit:
  "listQuery ns opts = Inr q \<Longrightarrow> lq_limit q = (if lo_Limit opts > 0 then Some (lo_Limit opts + 1) else None)"
  by (auto simp: listQuery_def split: sum.splits)

lemma listQuery_continue:
  assumes "listQuery ns opts = Inr q" "- (2 ^ 63) \<le> i" "i < 2 ^ 63"
  shows "listQuery ns (opts\<lparr>lo_Continue := FormatInt i\<rparr>) = Inr (q\<lparr>lq_after := Some i\<rparr>)"
proof -
  let ?rv = "if lo_ResourceVersion opts = [] \<or> lo_ResourceVersion opts = ''0'' then Inr None
    else map_sum (ErrorWrap ''invalid resource version'')
      (\<lambda>rv. if lo_SendInitialEvents opts = Some True then None else Some rv)
      (ParseUint (lo_ResourceVersion opts))"
  obtain v where "?rv = Inr v"
    using assms(1) by (cases ?rv) (auto simp only: listQuery_def sum.case split: sum.splits)
  then show ?thesis
    using assms(1) ParseInt_FormatInt[OF assms(2,3)]
    by (simp only: listQuery_def sum.case) (auto split: sum.splits if_splits)
qed

section \<open>Following the continue tokens\<close>

inductive list_pages ::
  "('s, 'o) store \<Rightarrow> string \<Rightarrow> ListOptions \<Rightarrow> 's store_world \<Rightarrow> 'o list list \<Rightarrow> bool"
  for S ns where
  last_page: "run_state (repo_List S ns opts) w = (Inr (items, []), w')
    \<Longrightarrow> list_pages S ns opts w [items]"
| next_page: "\<lbrakk>run_state (repo_List S ns opts) w = (Inr (items, token), w'); token \<noteq> [];
      list_pages S ns (opts\<lparr>lo_Continue := token\<rparr>) w' pages\<rbrakk>
    \<Longrightarrow> list_pages S ns opts w (items # pages)"

lemma list_pages_unique:
  "list_pages S ns opts w ps \<Longrightarrow> list_pages S ns opts w ps' \<Longrightarrow> ps' = ps"
proof (induction arbitrary: ps' rule: list_pages.induct)
  case (last_page opts w items w')
  from last_page(2) show ?case
    by (cases rule: list_pages.cases) (use last_page(1) in auto)
next
  case (next_page opts w items token w' pages)
  from next_page(5) show ?case
  proof (cases rule: list_pages.cases)
    case (last_page items' v)
    with next_page(1,2) show ?thesis by simp
  next
    case (next_page items' token' v pages')
    with next_page.hyps(1) have "items' = items" "token' = token" "v = w'" by simp_all
    with next_page(4) next_page.IH[of pages'] next_page(1) show ?thesis by simp
  qed
qed

text \<open>A list of rows in pages of \<open>n\<close>.\<close>

fun chunks :: "nat \<Rightarrow> 'a list \<Rightarrow> 'a list list" where
  "chunks n xs = (if n = 0 \<or> length xs \<le> n then [xs] else take n xs # chunks n (drop n xs))"

declare chunks.simps [simp del]

lemma concat_chunks: "concat (chunks n xs) = xs"
  by (induction n xs rule: chunks.induct) (subst chunks.simps, simp)

lemma chunks_length: "0 < n \<Longrightarrow> p \<in> set (chunks n xs) \<Longrightarrow> length p \<le> n"
  by (induction n xs rule: chunks.induct) (subst (asm) (2) chunks.simps, auto split: if_splits)

context postgres
begin

lemma repo_List_page:
  fixes S :: "('s, 'o) store" and f :: "string \<Rightarrow> 'o"
  assumes "st_sql S = P" "listQuery ns opts = Inr q" "0 < lo_Limit opts"
    "\<forall>q d. \<exists>rows. fst (sq_list P q d) = Inr rows"
    "\<forall>r\<in>set (view (sw_db w)). ol_unmarshal (st_lib S) (rw_object r) = Inr (f (rw_object r))"
  defines "R \<equiv> selected_rows J q (view (sw_db w))" and "n \<equiv> nat (lo_Limit opts)"
  shows "\<exists>w'. view (sw_db w') = view (sw_db w) \<and>
    run_state (repo_List S ns opts) w =
      (Inr (map (f \<circ> rw_object) (take n R),
         if n < length R then FormatInt (rw_id (R ! (n - 1))) else []), w')"
proof -
  obtain rows d where d: "sq_list P q (sw_db w) = (Inr rows, d)"
    using assms(4) by (metis prod.collapse)
  have n: "0 < n" "nat (lo_Limit opts + 1) = Suc n" "nat (lo_Limit opts - 0) = n"
    using assms(3) unfolding n_def by simp_all
  from list_rows[OF d] have view: "view d = view (sw_db w)"
    and "rows = query_rows J q (view (sw_db w))" by simp_all
  then have rows: "rows = map (\<lambda>r. (rw_id r, rw_object r)) (take (Suc n) R)"
    using listQuery_limit[OF assms(2)] assms(3) n
    by (simp add: query_rows_limit R_def)
  have sub: "set R \<subseteq> set (view (sw_db w))" unfolding R_def selected_rows_def by auto
  have dec: "ol_unmarshal (st_lib S) b = Inr (f b)" if "(i, b) \<in> set rows" for i b
    using that assms(5) sub unfolding rows by (auto dest!: in_set_takeD)
  have page: "take n rows = map (\<lambda>r. (rw_id r, rw_object r)) (take n R)"
    unfolding rows by (simp add: take_map min_def)
  have more: "n < length rows \<longleftrightarrow> n < length R" unfolding rows by auto
  have "last (0 # map fst (take n rows)) = rw_id (R ! (n - 1))" if "n < length R"
  proof -
    have "take n R \<noteq> []" using n(1) that by (cases R) auto
    then show ?thesis unfolding page
      using that n(1) by (simp add: last_map last_conv_nth comp_def)
  qed
  then have lastID: "n < length R \<Longrightarrow> last (0 # map fst (take n rows)) = rw_id (R ! (n - 1))" .
  have "scanRows S (lo_Limit opts) rows [] 0 0 = (let page = take (nat (lo_Limit opts - 0)) rows
      in Inr ([] @ map (f \<circ> snd) page, last (0 # map fst page), nat (lo_Limit opts - 0) < length rows))"
    using assms(3) dec by (intro scanRows_page) auto
  then have "scanRows S (lo_Limit opts) rows [] 0 0 =
      Inr (map (f \<circ> rw_object) (take n R), last (0 # map fst (take n rows)), n < length R)"
    unfolding n(3) more Let_def page by (simp add: comp_def)
  with d assms(1,2) lastID view show ?thesis
    by (intro exI[of _ "w\<lparr>sw_db := d\<rparr>"]) (simp add: repo_List_def del: last.simps)
qed

text \<open>All pages, by induction on the number of rows that are left.\<close>

lemma list_pages_chunks:
  fixes S :: "('s, 'o) store" and f :: "string \<Rightarrow> 'o"
  assumes "st_sql S = P" "listQuery ns opts = Inr q" "0 < lo_Limit opts"
    "\<forall>q d. \<exists>rows. fst (sq_list P q d) = Inr rows"
    "\<forall>r\<in>set (view (sw_db w)). ol_unmarshal (st_lib S) (rw_object r) = Inr (f (rw_object r))"
    "distinct (map rw_id (view (sw_db w)))"
    "\<forall>r\<in>set (view (sw_db w)). 0 \<le> rw_id r \<and> rw_id r < 2 ^ 63"
  shows "list_pages S ns opts w
    (map (map (f \<circ> rw_object)) (chunks (nat (lo_Limit opts)) (selected_rows J q (view (sw_db w)))))"
  using assms
proof (induction "length (selected_rows J q (view (sw_db w)))" arbitrary: opts q w rule: less_induct)
  case less
  let ?n = "nat (lo_Limit opts)" and ?R = "selected_rows J q (view (sw_db w))"
  from repo_List_page[OF less.prems(1-5)] obtain w'
    where view: "view (sw_db w') = view (sw_db w)"
      and run: "run_state (repo_List S ns opts) w = (Inr (map (f \<circ> rw_object) (take ?n ?R),
         if ?n < length ?R then FormatInt (rw_id (?R ! (?n - 1))) else []), w')"
    by (elim exE conjE) (rule that)
  show ?case
  proof (cases "?n < length ?R")
    case False
    with run less.prems(3) show ?thesis
      by (subst chunks.simps) (auto intro!: last_page)
  next
    case True
    let ?i = "rw_id (?R ! (?n - 1))" and ?opts = "opts\<lparr>lo_Continue := FormatInt (rw_id (?R ! (?n - 1)))\<rparr>"
    have mem: "?R ! (?n - 1) \<in> set ?R" using True less.prems(3) by simp
    then have sel: "row_selected J q (?R ! (?n - 1))" "?R ! (?n - 1) \<in> set (view (sw_db w))"
      unfolding selected_rows_def by auto
    have after: "i \<le> ?i" if "lq_after q = Some i" for i
      using sel(1) that by (simp add: row_selected_def)
    have rest: "selected_rows J (q\<lparr>lq_after := Some ?i\<rparr>) (view (sw_db w')) = drop ?n ?R"
    proof -
      have "selected_rows J (q\<lparr>lq_after := Some ?i\<rparr>) (view (sw_db w)) = filter (\<lambda>r. ?i < rw_id r) ?R"
        by (rule selected_rows_after) (rule after)
      also have "\<dots> = drop ?n ?R"
        using True less.prems(3,6) by (intro filter_after_page) (simp_all add: selected_rows_sorted)
      finally show ?thesis unfolding view .
    qed
    have q: "listQuery ns ?opts = Inr (q\<lparr>lq_after := Some ?i\<rparr>)"
      using listQuery_continue[OF less.prems(2)] bspec[OF less.prems(7) sel(2)] by simp
    have "list_pages S ns ?opts w' (map (map (f \<circ> rw_object)) (chunks ?n (drop ?n ?R)))"
      using less.hyps[OF _ less.prems(1) q _ less.prems(4), of w'] less.prems(3,5-7) rest view True
      by simp
    then have "list_pages S ns opts w (map (f \<circ> rw_object) (take ?n ?R)
        # map (map (f \<circ> rw_object)) (chunks ?n (drop ?n ?R)))"
      using run True by (intro next_page[where token = "FormatInt ?i"]) auto
    then show ?thesis
      using True less.prems(3) by (subst chunks.simps) simp
  qed
qed

end

lemma scanRows_all:
  assumes "limit \<le> 0" "\<And>i b. (i, b) \<in> set rows \<Longrightarrow> ol_unmarshal (st_lib S) b = Inr (f b)"
  shows "\<exists>i. scanRows S limit rows items lastID cnt = Inr (items @ map (f \<circ> snd) rows, i, False)"
  using assms(2)
proof (induction rows arbitrary: items lastID cnt)
  case (Cons row rows)
  obtain i b where row: "row = (i, b)" by fastforce
  have "ol_unmarshal (st_lib S) b = Inr (f b)" by (rule Cons.prems[of i]) (simp add: row)
  moreover have "\<exists>i'. scanRows S limit rows (items @ [f b]) i (cnt + 1)
      = Inr ((items @ [f b]) @ map (f \<circ> snd) rows, i', False)"
    using Cons.prems by (intro Cons.IH) auto
  ultimately show ?case using assms(1) row by (simp add: comp_def)
qed simp

lemma listQuery_unlimited:
  "listQuery ns opts = Inr q \<Longrightarrow> listQuery ns (opts\<lparr>lo_Limit := 0\<rparr>) = Inr (q\<lparr>lq_limit := None\<rparr>)"
  by (cases "lo_ResourceVersion opts = [] \<or> lo_ResourceVersion opts = ''0''"; cases "lo_Continue opts = []")
    (auto simp: listQuery_def split: sum.splits)

context postgres
begin

lemma repo_List_all:
  fixes S :: "('s, 'o) store" and f :: "string \<Rightarrow> 'o"
  assumes "st_sql S = P" "listQuery ns opts = Inr q" 
    "\<forall>q d. \<exists>rows. fst (sq_list P q d) = Inr rows"
    "\<forall>r\<in>set (view (sw_db w)). ol_unmarshal (st_lib S) (rw_object r) = Inr (f (rw_object r))"
  shows "fst (run_state (repo_List S ns (opts\<lparr>lo_Limit := 0\<rparr>)) w)
    = Inr (map (f \<circ> rw_object) (selected_rows J q (view (sw_db w))), [])"
proof -
  let ?q = "q\<lparr>lq_limit := None\<rparr>"
  obtain rows d where d: "sq_list P ?q (sw_db w) = (Inr rows, d)"
    using assms(3) by (metis prod.collapse)
  from list_rows[OF d] have rows: "rows = map (\<lambda>r. (rw_id r, rw_object r)) (selected_rows J q (view (sw_db w)))"
    by (simp add: query_rows_limit)
  have "ol_unmarshal (st_lib S) b = Inr (f b)" if "(i, b) \<in> set rows" for i b
    using that assms(4) unfolding rows selected_rows_def by auto
  then have "\<exists>i. scanRows S 0 rows [] 0 0 = Inr ([] @ map (f \<circ> snd) rows, i, False)"
    by (intro scanRows_all) simp_all
  then obtain i where "scanRows S 0 rows [] 0 0 = Inr (map (f \<circ> snd) rows, i, False)" by auto
  with d assms(1) listQuery_unlimited[OF assms(2)] show ?thesis
    by (simp add: repo_List_def rows comp_def)
qed

end


definition two_rows :: "Row list" where
  "two_rows = [row_a, row_a\<lparr>rw_id := 2, rw_name := ''b''\<rparr>]"

definition page_options :: ListOptions where
  "page_options = \<lparr>lo_ResourceVersion = [], lo_SendInitialEvents = None, lo_AllowWatchBookmarks = False,
     lo_Label = None, lo_Field = None, lo_Limit = 1, lo_Continue = []\<rparr>"


section \<open>Label selectors\<close>

text \<open>What Kubernetes means by a requirement on labels.\<close>

fun Requirement_Matches :: "string_map \<Rightarrow> Requirement \<Rightarrow> bool" where
  "Requirement_Matches m req =
    (case rq_Operator req of
       NotEquals \<Rightarrow> (case map_of m (rq_Key req) of None \<Rightarrow> True | Some v \<Rightarrow> v \<notin> set (rq_Values req))
     | NotIn \<Rightarrow> (case map_of m (rq_Key req) of None \<Rightarrow> True | Some v \<Rightarrow> v \<notin> set (rq_Values req))
     | Exists \<Rightarrow> map_of m (rq_Key req) \<noteq> None
     | DoesNotExist \<Rightarrow> map_of m (rq_Key req) = None
     | _ \<Rightarrow> (case map_of m (rq_Key req) of None \<Rightarrow> False | Some v \<Rightarrow> v \<in> set (rq_Values req)))"

text \<open>The number of values that Kubernetes asks of a requirement.\<close>

definition well_formed :: "Requirement \<Rightarrow> bool" where
  "well_formed req \<longleftrightarrow>
    (case rq_Operator req of
       Equals \<Rightarrow> length (rq_Values req) = 1 | DoubleEquals \<Rightarrow> length (rq_Values req) = 1
     | NotEquals \<Rightarrow> length (rq_Values req) = 1
     | In \<Rightarrow> rq_Values req \<noteq> [] | NotIn \<Rightarrow> rq_Values req \<noteq> [] | _ \<Rightarrow> True)"

text \<open>A negative condition on a label the object does not have is null in SQL.\<close>

definition decided :: "string_map option \<Rightarrow> Requirement \<Rightarrow> bool" where
  "decided m req \<longleftrightarrow>
    (rq_Operator req = NotEquals \<or> rq_Operator req = NotIn \<longrightarrow>
       (\<exists>l. m = Some l \<and> rq_Key req \<in> fst ` set l))
    \<and> (rq_Operator req = DoesNotExist \<longrightarrow> m \<noteq> None)"

lemma labelExpression_holds:
  assumes "well_formed req" "labelExpression req = Inr e"
  shows "label_holds J b e = Some True \<longleftrightarrow>
    Requirement_Matches (case js_labels J b of None \<Rightarrow> [] | Some m \<Rightarrow> m) req \<and> decided (js_labels J b) req"
proof (cases "js_labels J b")
  case None
  with assms show ?thesis
    by (cases "rq_Operator req")
      (auto simp: labelExpression_def firstValue_def well_formed_def decided_def json_label_def split: list.splits)
next
  case (Some m)
  define v where "v = map_of m (rq_Key req)"
  have lab: "json_label J b (rq_Key req) = v" by (simp add: json_label_def Some v_def)
  have key: "rq_Key req \<in> fst ` set m \<longleftrightarrow> v \<noteq> None"
    unfolding v_def by (simp only: map_of_eq_None_iff not_not)
  have "label_holds J b e = Some True \<longleftrightarrow>
      Requirement_Matches m req \<and> decided (Some m) req"
    using assms unfolding Requirement_Matches.simps decided_def v_def[symmetric]
    by (cases "rq_Operator req"; cases v)
      (auto simp: labelExpression_def firstValue_def well_formed_def lab key Some split: list.splits)
  with Some show ?thesis by (simp del: Requirement_Matches.simps)
qed

lemma collect_Cons_Inr:
  "collect f (x # xs) = Inr ys \<longleftrightarrow> (\<exists>y zs. f x = Inr y \<and> collect f xs = Inr zs \<and> ys = y # zs)"
  by (cases "f x"; cases "collect f xs") auto

lemma collect_Inr:
  "collect f xs = Inr ys \<longleftrightarrow> list_all2 (\<lambda>x y. f x = Inr y) xs ys"
proof (induction xs arbitrary: ys)
  case Nil
  then show ?case by (cases ys) auto
next
  case (Cons x xs)
  show ?case unfolding collect_Cons_Inr Cons list_all2_Cons1 by blast
qed

text \<open>
  C16: which rows a label selector selects.  For requirements as Kubernetes builds them, a row passes
  the SQL conditions of a selectable selector exactly when its object matches every requirement in
  the sense of Kubernetes and no requirement is undecided: NotEquals and NotIn also require the label
  to be present, and DoesNotExist requires the object to have labels at all.  A selector that is not
  selectable, which matches nothing in Kubernetes, selects every row.
\<close>

theorem label_selector_selects:
  assumes "\<forall>req\<in>set reqs. well_formed req" "buildLabelSelectorExpressions (reqs, selectable) = Inr es"
  shows "list_all (\<lambda>e. label_holds J b e = Some True) es \<longleftrightarrow>
    (selectable \<longrightarrow> (\<forall>req\<in>set reqs.
       Requirement_Matches (case js_labels J b of None \<Rightarrow> [] | Some m \<Rightarrow> m) req \<and> decided (js_labels J b) req))"
proof (cases selectable)
  case True
  with assms(2) have "list_all2 (\<lambda>req e. labelExpression req = Inr e) reqs es"
    by (simp add: buildLabelSelectorExpressions_def collect_Inr)
  then have "list_all (\<lambda>e. label_holds J b e = Some True) es \<longleftrightarrow> (\<forall>req\<in>set reqs.
      Requirement_Matches (case js_labels J b of None \<Rightarrow> [] | Some m \<Rightarrow> m) req \<and> decided (js_labels J b) req)"
    using assms(1)
  proof (induction rule: list_all2_induct)
    case (Cons req reqs e es)
    then have "label_holds J b e = Some True \<longleftrightarrow>
        Requirement_Matches (case js_labels J b of None \<Rightarrow> [] | Some m \<Rightarrow> m) req \<and> decided (js_labels J b) req"
      by (intro labelExpression_holds) simp_all
    with Cons show ?case by (simp del: Requirement_Matches.simps)
  qed simp
  with True show ?thesis by simp
next
  case False
  with assms(2) show ?thesis by (simp add: buildLabelSelectorExpressions_def)
qed

theorem label_selector_selects_witness:
  "\<not> list_all (\<lambda>e. label_holds no_json [] e = Some True) [LabelNE ''tier'' ''web'']"
  using label_selector_selects[of "[\<lparr>rq_Key = ''tier'', rq_Operator = NotEquals, rq_Values = [''web'']\<rparr>]"
      True "[LabelNE ''tier'' ''web'']" no_json "[]"]
  by (simp add: well_formed_def buildLabelSelectorExpressions_def labelExpression_def firstValue_def
      decided_def)

end
