(* ===== verification/Reports.thy ===== *)
theory Reports
  imports Catalog Storage
begin

text \<open>
  Vulnerability reports and workload scan reports in the storage server:
  \<open>src/api/storage/v1alpha1/summary.go\<close>, the types of \<open>vulnerabilityreport_types.go\<close> and
  \<open>workloadscanreport_types.go\<close>, \<open>src/internal/storage/repository/workloadscanreport_repository.go\<close>,
  \<open>workloadscanreport_watcher.go\<close>, \<open>workloadscanreport_strategy.go\<close>,
  \<open>image_metadata_validation.go\<close>, \<open>matcher.go\<close> and \<open>transform.go\<close>.

  The tables of images and vulnerability reports are a parameter: \<open>report_tables\<close> has one function per
  query, and the locale \<open>report_queries\<close> of \<open>Reports_Correct\<close> says what the queries return.
\<close>

section \<open>Vulnerabilities and summaries\<close>

record CVSS =
  cv_V3Vector :: string
  cv_V3Score :: string

record VEXStatus =
  vx_Repository :: string
  vx_Status :: string
  vx_Statement :: string

record Vulnerability =
  vu_CVE :: string
  vu_Title :: string
  vu_PackageName :: string
  vu_PackagePath :: string
  vu_PURL :: string
  vu_InstalledVersion :: string
  vu_FixedVersions :: "string list"
  vu_DiffID :: string
  vu_Description :: string
  vu_Severity :: string
  vu_SeveritySource :: string
  vu_References :: "string list"
  vu_CVSS :: "(string \<times> CVSS) list"
  vu_CWEs :: "string list"
  vu_Suppressed :: bool
  vu_VEXStatus :: "VEXStatus option"

record Result =
  re_Target :: string
  re_Class :: string
  re_Type :: string
  re_Vulnerabilities :: "Vulnerability list"

record Summary =
  su_Critical :: int
  su_High :: int
  su_Medium :: int
  su_Low :: int
  su_Unknown :: int
  su_Suppressed :: int

record Report =
  rp_Summary :: Summary
  rp_Results :: "Result list"

record VulnerabilityReport =
  vr_meta :: ObjectMeta
  vr_ImageMetadata :: ImageMetadata
  vr_Report :: Report

abbreviation SeverityCritical :: string where "SeverityCritical \<equiv> ''CRITICAL''"
abbreviation SeverityHigh :: string where "SeverityHigh \<equiv> ''HIGH''"
abbreviation SeverityMedium :: string where "SeverityMedium \<equiv> ''MEDIUM''"
abbreviation SeverityLow :: string where "SeverityLow \<equiv> ''LOW''"
abbreviation SeverityUnknown :: string where "SeverityUnknown \<equiv> ''UNKNOWN''"

definition empty_summary :: Summary where
  "empty_summary = \<lparr>su_Critical = 0, su_High = 0, su_Medium = 0, su_Low = 0, su_Unknown = 0, su_Suppressed = 0\<rparr>"

definition Summary_Add :: "Summary \<Rightarrow> Vulnerability \<Rightarrow> Summary" where
  "Summary_Add s v =
    (if vu_Suppressed v then s\<lparr>su_Suppressed := su_Suppressed s + 1\<rparr>
     else if vu_Severity v = SeverityCritical then s\<lparr>su_Critical := su_Critical s + 1\<rparr>
     else if vu_Severity v = SeverityHigh then s\<lparr>su_High := su_High s + 1\<rparr>
     else if vu_Severity v = SeverityMedium then s\<lparr>su_Medium := su_Medium s + 1\<rparr>
     else if vu_Severity v = SeverityLow then s\<lparr>su_Low := su_Low s + 1\<rparr>
     else s\<lparr>su_Unknown := su_Unknown s + 1\<rparr>)"

definition NewSummaryFromResults :: "Result list \<Rightarrow> Summary" where
  "NewSummaryFromResults results =
    foldl (\<lambda>s r. foldl Summary_Add s (re_Vulnerabilities r)) empty_summary results"

section \<open>Workload scan reports\<close>

record ImageRef =
  ir_Registry :: string
  ir_Namespace :: string
  ir_Repository :: string
  ir_Tag :: string

record ContainerRef =
  cr_Name :: string
  cr_ImageRef :: ImageRef

datatype ScanStatus = WaitingForScan | ScanInProgress | ScanComplete

record ContainerStatus =
  ct_Name :: string
  ct_ScanStatus :: ScanStatus

record WorkloadScanVulnerabilityReport =
  wv_Name :: string
  wv_Namespace :: string
  wv_ImageMetadata :: ImageMetadata
  wv_Report :: Report

record ContainerResult =
  cn_Name :: string
  cn_VulnerabilityReports :: "WorkloadScanVulnerabilityReport list"

record WorkloadScanReport =
  ws_meta :: ObjectMeta
  ws_SpecContainers :: "ContainerRef list"
  ws_ContainerStatuses :: "ContainerStatus list"
  ws_Summary :: Summary
  ws_Containers :: "ContainerResult list"

text \<open>The queries on the tables of images, vulnerability reports and workload scan reports.\<close>

record 's report_tables =
  rt_imageCounts :: "ImageRef list \<Rightarrow> 's \<Rightarrow> (ImageRef \<times> int) list result \<times> 's"
  rt_reports :: "ImageRef list \<Rightarrow> 's \<Rightarrow> string list result \<times> 's"
  rt_workloads :: "ImageRef \<Rightarrow> 's \<Rightarrow> string list result \<times> 's"
  rt_unmarshalReport :: "string \<Rightarrow> VulnerabilityReport result"
  rt_unmarshalWorkload :: "string \<Rightarrow> WorkloadScanReport result"

definition report_ref :: "VulnerabilityReport \<Rightarrow> ImageRef" where
  "report_ref v =
    \<lparr>ir_Registry = md_Registry (vr_ImageMetadata v), ir_Namespace = om_Namespace (vr_meta v),
     ir_Repository = md_Repository (vr_ImageMetadata v), ir_Tag = md_Tag (vr_ImageMetadata v)\<rparr>"

text \<open>A Go map with the zero value for an absent key.\<close>

definition index_or :: "'v \<Rightarrow> ('k \<rightharpoonup> 'v) \<Rightarrow> 'k \<Rightarrow> 'v" where
  "index_or zero m k = (case m k of None \<Rightarrow> zero | Some v \<Rightarrow> v)"

definition fetchImageCounts ::
  "'s report_tables \<Rightarrow> ContainerRef list \<Rightarrow> ('s, (ImageRef \<rightharpoonup> int) result) state" where
  "fetchImageCounts T containers =
    (if containers = [] then State_Monad.return (Inr Map.empty)
     else do {
       r \<leftarrow> State (rt_imageCounts T (map cr_ImageRef containers));
       State_Monad.return
         (case r of
            Inl err \<Rightarrow> Inl (ErrorWrap ''failed to query images'' err)
          | Inr rows \<Rightarrow> Inr (foldl (\<lambda>m (key, n). m(key \<mapsto> n)) Map.empty rows))
     })"

definition fetchVulnerabilityReports ::
  "'s report_tables \<Rightarrow> ContainerRef list
     \<Rightarrow> ('s, (ImageRef \<rightharpoonup> VulnerabilityReport list) result) state" where
  "fetchVulnerabilityReports T containers =
    (if containers = [] then State_Monad.return (Inr Map.empty)
     else do {
       r \<leftarrow> State (rt_reports T (map cr_ImageRef containers));
       State_Monad.return
         (case r of
            Inl err \<Rightarrow> Inl (ErrorWrap ''failed to query vulnerability reports'' err)
          | Inr rows \<Rightarrow>
              (case collect (rt_unmarshalReport T) rows of
                 Inl err \<Rightarrow> Inl (ErrorWrap ''failed to unmarshal vulnerability report'' err)
               | Inr reports \<Rightarrow>
                   Inr (foldl (\<lambda>m v. m(report_ref v \<mapsto> index_or [] m (report_ref v) @ [v]))
                          Map.empty reports)))
     })"

definition buildContainerResult :: "ContainerRef \<Rightarrow> VulnerabilityReport list \<Rightarrow> ContainerResult" where
  "buildContainerResult c vulnerabilityReports =
    \<lparr>cn_Name = cr_Name c,
     cn_VulnerabilityReports = map (\<lambda>v. \<lparr>wv_Name = om_Name (vr_meta v), wv_Namespace = om_Namespace (vr_meta v),
        wv_ImageMetadata = vr_ImageMetadata v, wv_Report = vr_Report v\<rparr>) vulnerabilityReports\<rparr>"

definition computeScanStatus :: "int \<Rightarrow> int \<Rightarrow> ScanStatus" where
  "computeScanStatus imageCount vulnReportCount =
    (if imageCount = 0 then WaitingForScan
     else if vulnReportCount < imageCount then ScanInProgress else ScanComplete)"

record vulnerabilityKey =
  vk_cve :: string
  vk_suppressed :: bool
  vk_pkgName :: string
  vk_installedVersion :: string

definition vulnerability_key :: "Vulnerability \<Rightarrow> vulnerabilityKey" where
  "vulnerability_key v = \<lparr>vk_cve = vu_CVE v, vk_suppressed = vu_Suppressed v,
     vk_pkgName = vu_PackageName v, vk_installedVersion = vu_InstalledVersion v\<rparr>"

text \<open>The innermost body of \<open>calculateSummary\<close>: the keys seen in the container and the summary so far.\<close>

definition countOnce ::
  "vulnerabilityKey list \<times> Summary \<Rightarrow> Vulnerability \<Rightarrow> vulnerabilityKey list \<times> Summary" where
  "countOnce st v =
    (case st of (seen, s) \<Rightarrow>
       if vulnerability_key v \<in> set seen then (seen, s)
       else (vulnerability_key v # seen, Summary_Add s v))"

definition summarizeContainer :: "Summary \<Rightarrow> ContainerResult \<Rightarrow> Summary" where
  "summarizeContainer s c =
    snd (foldl (\<lambda>st wv. foldl (\<lambda>st r. foldl countOnce st (re_Vulnerabilities r)) st
                  (rp_Results (wv_Report wv)))
           ([], s) (cn_VulnerabilityReports c))"

definition calculateSummary :: "WorkloadScanReport \<Rightarrow> WorkloadScanReport" where
  "calculateSummary report =
    report\<lparr>ws_Summary := foldl summarizeContainer empty_summary (ws_Containers report)\<rparr>"

text \<open>The first loop of \<open>populateContainerResults\<close>: one container per image reference.\<close>

fun distinctContainers :: "ImageRef list \<Rightarrow> ContainerRef list \<Rightarrow> ContainerRef list" where
  "distinctContainers seen [] = []"
| "distinctContainers seen (c # cs) =
    (if cr_ImageRef c \<in> set seen then distinctContainers seen cs
     else c # distinctContainers (cr_ImageRef c # seen) cs)"

definition populateReport ::
  "(ImageRef \<rightharpoonup> int) \<Rightarrow> (ImageRef \<rightharpoonup> VulnerabilityReport list) \<Rightarrow> WorkloadScanReport \<Rightarrow> WorkloadScanReport" where
  "populateReport imageCounts vulnReports report =
    (if ws_SpecContainers report = [] then report
     else calculateSummary (report
       \<lparr>ws_ContainerStatuses := map (\<lambda>c. \<lparr>ct_Name = cr_Name c,
            ct_ScanStatus = computeScanStatus (index_or 0 imageCounts (cr_ImageRef c))
              (int (length (index_or [] vulnReports (cr_ImageRef c))))\<rparr>) (ws_SpecContainers report),
        ws_Containers := map (\<lambda>c. buildContainerResult c (index_or [] vulnReports (cr_ImageRef c)))
          (ws_SpecContainers report)\<rparr>))"

definition populateContainerResults ::
  "'s report_tables \<Rightarrow> WorkloadScanReport list \<Rightarrow> ('s, WorkloadScanReport list result) state" where
  "populateContainerResults T reports =
    (let containers = distinctContainers [] (concat (map ws_SpecContainers reports))
     in if containers = [] then State_Monad.return (Inr reports)
        else do {
          c \<leftarrow> fetchImageCounts T containers;
          (case c of
             Inl err \<Rightarrow> State_Monad.return (Inl (ErrorWrap ''failed to fetch image counts'' err))
           | Inr imageCounts \<Rightarrow> do {
               v \<leftarrow> fetchVulnerabilityReports T containers;
               State_Monad.return
                 (case v of
                    Inl err \<Rightarrow> Inl (ErrorWrap ''failed to fetch vulnerability reports'' err)
                  | Inr vulnReports \<Rightarrow> Inr (map (populateReport imageCounts vulnReports) reports))
             })
        })"

text \<open>The repository of workload scan reports, over the generic one.\<close>

definition workload_Get ::
  "('s, WorkloadScanReport) store \<Rightarrow> 's report_tables \<Rightarrow> string \<Rightarrow> string
     \<Rightarrow> ('s, WorkloadScanReport result) storing" where
  "workload_Get S T name namespace = do {
     r \<leftarrow> repo_Get S name namespace;
     (case r of
        Inl err \<Rightarrow> State_Monad.return (Inl err)
      | Inr report \<Rightarrow> do {
          p \<leftarrow> db (run_state (populateContainerResults T [report]));
          State_Monad.return (map_sum id hd p)
        })
   }"

definition workload_List ::
  "('s, WorkloadScanReport) store \<Rightarrow> 's report_tables \<Rightarrow> string \<Rightarrow> ListOptions
     \<Rightarrow> ('s, (WorkloadScanReport list \<times> string) result) storing" where
  "workload_List S T namespace opts = do {
     r \<leftarrow> repo_List S namespace opts;
     (case r of
        Inl err \<Rightarrow> State_Monad.return (Inl err)
      | Inr (reports, continueToken) \<Rightarrow> do {
          p \<leftarrow> db (run_state (populateContainerResults T reports));
          State_Monad.return (map_sum id (\<lambda>rs. (rs, continueToken)) p)
        })
   }"

definition FindByImageRef ::
  "'s report_tables \<Rightarrow> ImageRef \<Rightarrow> ('s, WorkloadScanReport list result) state" where
  "FindByImageRef T ref = do {
     r \<leftarrow> State (rt_workloads T ref);
     State_Monad.return
       (case r of
          Inl err \<Rightarrow> Inl (ErrorWrap ''failed to execute query'' err)
        | Inr rows \<Rightarrow>
            map_sum (ErrorWrap ''failed to unmarshal WorkloadScanReport'') id
              (collect (rt_unmarshalWorkload T) rows))
   }"

text \<open>The loop of \<open>processVulnerabilityReportEvent\<close>; a broadcast that fails is logged.\<close>

primrec broadcastModified ::
  "('s, WorkloadScanReport) store \<Rightarrow> WorkloadScanReport list \<Rightarrow> ('s, unit) storing" where
  "broadcastModified S [] = State_Monad.return ()"
| "broadcastModified S (report # reports) = do {
     _ \<leftarrow> broadcaster_publish S Modified report;
     broadcastModified S reports
   }"

definition processVulnerabilityReportEvent ::
  "('s, WorkloadScanReport) store \<Rightarrow> 's report_tables \<Rightarrow> EventType \<times> string
     \<Rightarrow> ('s, unit result) storing" where
  "processVulnerabilityReportEvent S T payload =
    (case rt_unmarshalReport T (snd payload) of
       Inl err \<Rightarrow> State_Monad.return (Inl (ErrorWrap ''failed to decode VulnerabilityReport'' err))
     | Inr vulnReport \<Rightarrow> do {
         r \<leftarrow> db (run_state (FindByImageRef T (report_ref vulnReport)));
         (case r of
            Inl err \<Rightarrow>
              State_Monad.return (Inl (ErrorWrap ''failed to find related WorkloadScanReports'' err))
          | Inr workloadReports \<Rightarrow>
              if workloadReports = [] then State_Monad.return (Inr ())
              else do {
                _ \<leftarrow> broadcastModified S workloadReports;
                State_Monad.return (Inr ())
              })
       })"

section \<open>Validation\<close>

datatype field_error = TooLong string nat | Forbidden string

abbreviation DNS1123SubdomainMaxLength :: nat where "DNS1123SubdomainMaxLength \<equiv> 253"

definition repositoryMaxLength :: nat where "repositoryMaxLength = 255 + length ''library/''"
definition tagMaxLength :: nat where "tagMaxLength = 128"
definition digestMaxLength :: nat where "digestMaxLength = length ''sha512:'' + 128"

definition validateImageRegistry :: "string \<Rightarrow> field_error list" where
  "validateImageRegistry r =
    (if length r > DNS1123SubdomainMaxLength
     then [TooLong ''imageMetadata.registry'' DNS1123SubdomainMaxLength] else [])"

definition validateImageRepository :: "string \<Rightarrow> field_error list" where
  "validateImageRepository r =
    (if length r > repositoryMaxLength then [TooLong ''imageMetadata.repository'' repositoryMaxLength] else [])"

text \<open>\<open>newDigest\<close> is \<open>name.NewDigest\<close>, with the digest string of the reference.\<close>

definition validateImageTag :: "(string \<Rightarrow> string result) \<Rightarrow> string \<Rightarrow> field_error list" where
  "validateImageTag newDigest tag =
    (if length tag > tagMaxLength
     then (if length tag \<le> digestMaxLength \<and> newDigest (''example.invalid/image@'' @ tag) = Inr tag then []
           else [TooLong ''imageMetadata.tag'' tagMaxLength])
     else [])"

definition validateImageMetadata :: "(string \<Rightarrow> string result) \<Rightarrow> ImageMetadata \<Rightarrow> field_error list" where
  "validateImageMetadata newDigest md =
    validateImageRegistry (md_Registry md) @ validateImageRepository (md_Repository md)
      @ validateImageTag newDigest (md_Tag md)"

definition imageStrategy_Validate :: "(string \<Rightarrow> string result) \<Rightarrow> Image \<Rightarrow> field_error list" where
  "imageStrategy_Validate newDigest img = validateImageMetadata newDigest (im_ImageMetadata img)"

definition vulnerabilityReportStrategy_Validate ::
  "(string \<Rightarrow> string result) \<Rightarrow> VulnerabilityReport \<Rightarrow> field_error list" where
  "vulnerabilityReportStrategy_Validate newDigest v = validateImageMetadata newDigest (vr_ImageMetadata v)"

definition validateReadOnlyFieldsEmpty :: "WorkloadScanReport \<Rightarrow> field_error list" where
  "validateReadOnlyFieldsEmpty report =
    (if ws_ContainerStatuses report \<noteq> [] then [Forbidden ''status''] else [])
    @ (if ws_Summary report \<noteq> empty_summary then [Forbidden ''summary''] else [])
    @ (if ws_Containers report \<noteq> [] then [Forbidden ''containers''] else [])"

definition validateReadOnlyFieldsUnchanged :: "WorkloadScanReport \<Rightarrow> WorkloadScanReport \<Rightarrow> field_error list" where
  "validateReadOnlyFieldsUnchanged newReport oldReport =
    (if ws_ContainerStatuses newReport \<noteq> ws_ContainerStatuses oldReport then [Forbidden ''status''] else [])
    @ (if ws_Summary newReport \<noteq> ws_Summary oldReport then [Forbidden ''summary''] else [])
    @ (if ws_Containers newReport \<noteq> ws_Containers oldReport then [Forbidden ''containers''] else [])"

section \<open>Selectable fields and stripping\<close>

definition getAttrs :: "ObjectMeta \<Rightarrow> ImageMetadata \<Rightarrow> string_map \<times> string_map" where
  "getAttrs objMeta md =
    (om_Labels objMeta,
     [(''metadata.name'', om_Name objMeta), (''metadata.namespace'', om_Namespace objMeta),
      (''imageMetadata.registry'', md_Registry md), (''imageMetadata.registryURI'', md_RegistryURI md),
      (''imageMetadata.repository'', md_Repository md), (''imageMetadata.tag'', md_Tag md),
      (''imageMetadata.platform'', md_Platform md), (''imageMetadata.digest'', md_Digest md)])"

text \<open>Managed fields are not in the model, so stripping them is the identity.\<close>

definition TransformStripImage :: "Image \<Rightarrow> Image result" where
  "TransformStripImage img = Inr (img\<lparr>im_Layers := []\<rparr>)"

definition TransformStripVulnerabilityReport :: "VulnerabilityReport \<Rightarrow> VulnerabilityReport result" where
  "TransformStripVulnerabilityReport v = Inr (v\<lparr>vr_Report := (vr_Report v)\<lparr>rp_Results := []\<rparr>\<rparr>)"

definition TransformStripWorkloadScanReport :: "WorkloadScanReport \<Rightarrow> WorkloadScanReport result" where
  "TransformStripWorkloadScanReport r = Inr (r\<lparr>ws_Containers := [], ws_ContainerStatuses := []\<rparr>)"

end
