(* ===== verification/Reports_Correct.thy ===== *)
theory Reports_Correct
  imports Reports Storage_Properties
begin

text \<open>
  Reading workload scan reports: the answers that are fetched once for all containers are those of
  each container alone, the summary counts every finding of a container once, and a changed
  vulnerability report is announced to the workloads that use it.
\<close>

section \<open>What the queries return\<close>

text \<open>
  \<open>images\<close> has the image reference of every row of the image table, \<open>rows\<close> the reference columns
  and the bytes of every row of the report table, and \<open>workloads\<close> the bytes of the workload scan
  reports.
\<close>

locale report_queries =
  fixes T :: "'s report_tables" and images :: "'s \<Rightarrow> ImageRef list"
    and rows :: "'s \<Rightarrow> (ImageRef \<times> VulnerabilityReport) list"
    and workloads :: "'s \<Rightarrow> WorkloadScanReport list"
  assumes image_counts: "rt_imageCounts T refs s = (ic, s') \<Longrightarrow>
      images s' = images s \<and> rows s' = rows s \<and> workloads s' = workloads s
      \<and> (case ic of Inl _ \<Rightarrow> True
         | Inr cs \<Rightarrow> distinct (map fst cs)
             \<and> (\<forall>k n. (k, n) \<in> set cs \<longleftrightarrow>
                  k \<in> set refs \<and> k \<in> set (images s) \<and> n = int (count_list (images s) k)))"
    and report_rows: "rt_reports T refs s = (rr, s') \<Longrightarrow>
      images s' = images s \<and> rows s' = rows s \<and> workloads s' = workloads s
      \<and> (case rr of Inl _ \<Rightarrow> True
         | Inr bs \<Rightarrow> map (rt_unmarshalReport T) bs
             = map (Inr \<circ> snd) (filter (\<lambda>(k, v). k \<in> set refs) (rows s)))"
    and workload_rows: "rt_workloads T ref s = (wr, s') \<Longrightarrow>
      images s' = images s \<and> rows s' = rows s \<and> workloads s' = workloads s
      \<and> (case wr of Inl _ \<Rightarrow> True
         | Inr bs \<Rightarrow> map (rt_unmarshalWorkload T) bs
             = map Inr (filter (\<lambda>w. ref \<in> cr_ImageRef ` set (ws_SpecContainers w)) (workloads s)))"
    and reference_columns: "(k, v) \<in> set (rows s) \<Longrightarrow> report_ref v = k"

section \<open>Lookup tables\<close>

lemma foldl_counts:
  "distinct (map fst cs) \<Longrightarrow>
    foldl (\<lambda>m (key, n). m(key \<mapsto> n)) m0 cs = m0 ++ map_of cs"
proof (induction cs arbitrary: m0)
  case (Cons c cs)
  obtain k n where c: "c = (k, n)" by fastforce
  with Cons have "map_of cs k = None" by (simp add: map_of_eq_None_iff)
  with Cons c show ?case by (simp add: map_add_upd_left fun_eq_iff map_add_def split: option.splits)
qed simp

lemma foldl_groups:
  "index_or [] (foldl (\<lambda>m v. m(g v \<mapsto> index_or [] m (g v) @ [v])) m0 vs) k
    = index_or [] m0 k @ filter (\<lambda>v. g v = k) vs"
proof (induction vs arbitrary: m0)
  case (Cons v vs)
  show ?case unfolding foldl_Cons Cons by (simp add: index_or_def)
qed simp

lemma collect_map_Inr: "map f bs = map Inr ys \<Longrightarrow> collect f bs = Inr ys"
  by (induction bs arbitrary: ys) auto

lemma distinctContainers_refs:
  "cr_ImageRef ` set (distinctContainers seen cs) = cr_ImageRef ` set cs - set seen"
  by (induction seen cs rule: distinctContainers.induct) auto

lemma distinctContainers_distinct:
  "distinct (map cr_ImageRef (distinctContainers seen cs))"
proof (induction seen cs rule: distinctContainers.induct)
  case (2 seen c cs)
  then show ?case
    using distinctContainers_refs[of "cr_ImageRef c # seen" cs] by auto
qed simp

section \<open>Reading one report\<close>

text \<open>The reference: every container is looked up alone in the tables.\<close>

definition reports_of :: "(ImageRef \<times> VulnerabilityReport) list \<Rightarrow> ImageRef \<Rightarrow> VulnerabilityReport list" where
  "reports_of rs ref = map snd (filter (\<lambda>(k, v). k = ref) rs)"

definition read_report ::
  "ImageRef list \<Rightarrow> (ImageRef \<times> VulnerabilityReport) list \<Rightarrow> WorkloadScanReport \<Rightarrow> WorkloadScanReport" where
  "read_report imgs rs report =
    (if ws_SpecContainers report = [] then report
     else calculateSummary (report
       \<lparr>ws_ContainerStatuses := map (\<lambda>c. \<lparr>ct_Name = cr_Name c,
            ct_ScanStatus = computeScanStatus (int (count_list imgs (cr_ImageRef c)))
              (int (length (reports_of rs (cr_ImageRef c))))\<rparr>) (ws_SpecContainers report),
        ws_Containers := map (\<lambda>c. buildContainerResult c (reports_of rs (cr_ImageRef c)))
          (ws_SpecContainers report)\<rparr>))"

lemma populateReport_read:
  assumes "\<And>c. c \<in> set (ws_SpecContainers report) \<Longrightarrow>
      index_or 0 ic (cr_ImageRef c) = int (count_list imgs (cr_ImageRef c))
      \<and> index_or [] vr (cr_ImageRef c) = reports_of rs (cr_ImageRef c)"
  shows "populateReport ic vr report = read_report imgs rs report"
proof -
  have "map (\<lambda>c. \<lparr>ct_Name = cr_Name c, ct_ScanStatus = computeScanStatus (index_or 0 ic (cr_ImageRef c))
            (int (length (index_or [] vr (cr_ImageRef c))))\<rparr>) (ws_SpecContainers report)
      = map (\<lambda>c. \<lparr>ct_Name = cr_Name c, ct_ScanStatus = computeScanStatus (int (count_list imgs (cr_ImageRef c)))
            (int (length (reports_of rs (cr_ImageRef c))))\<rparr>) (ws_SpecContainers report)"
    using assms by (intro map_cong) simp_all
  moreover have "map (\<lambda>c. buildContainerResult c (index_or [] vr (cr_ImageRef c))) (ws_SpecContainers report)
      = map (\<lambda>c. buildContainerResult c (reports_of rs (cr_ImageRef c))) (ws_SpecContainers report)"
    using assms by (intro map_cong) simp_all
  ultimately show ?thesis
    unfolding populateReport_def read_report_def by (simp only:)
qed

context report_queries
begin

lemma fetchImageCounts_lookup:
  assumes "run_state (fetchImageCounts T cs) s = (Inr m, s')" "ref \<in> cr_ImageRef ` set cs"
  shows "index_or 0 m ref = int (count_list (images s) ref)"
    "images s' = images s \<and> rows s' = rows s \<and> workloads s' = workloads s"
proof -
  have "cs \<noteq> []" using assms(2) by auto
  note run = assms(1)[unfolded fetchImageCounts_def if_not_P[OF this]]
  obtain r where q: "rt_imageCounts T (map cr_ImageRef cs) s = (r, s')"
    using run by (cases "rt_imageCounts T (map cr_ImageRef cs) s") auto
  with run obtain counts where r: "r = Inr counts" "m = foldl (\<lambda>m (key, n). m(key \<mapsto> n)) Map.empty counts"
    by (auto split: sum.splits)
  have spec: "distinct (map fst counts)"
    "\<And>k n. (k, n) \<in> set counts \<longleftrightarrow> k \<in> cr_ImageRef ` set cs \<and> k \<in> set (images s)
       \<and> n = int (count_list (images s) k)"
    "images s' = images s \<and> rows s' = rows s \<and> workloads s' = workloads s"
    using image_counts[OF q] r(1) by simp_all
  have m: "m = map_of counts" using foldl_counts[OF spec(1), of Map.empty] r(2) by simp
  show "index_or 0 m ref = int (count_list (images s) ref)"
  proof (cases "ref \<in> set (images s)")
    case True
    then have "map_of counts ref = Some (int (count_list (images s) ref))"
      using spec(1,2) assms(2) by (intro map_of_is_SomeI) simp_all
    then show ?thesis by (simp add: m index_or_def)
  next
    case False
    then have "map_of counts ref = None" using spec(2) by (auto simp: map_of_eq_None_iff)
    with False show ?thesis by (simp add: m index_or_def)
  qed
  show "images s' = images s \<and> rows s' = rows s \<and> workloads s' = workloads s" by (rule spec(3))
qed

lemma fetchVulnerabilityReports_lookup:
  assumes "run_state (fetchVulnerabilityReports T cs) s = (Inr m, s')" "ref \<in> cr_ImageRef ` set cs"
  shows "index_or [] m ref = reports_of (rows s) ref"
    "images s' = images s \<and> rows s' = rows s \<and> workloads s' = workloads s"
proof -
  have "cs \<noteq> []" using assms(2) by auto
  note run = assms(1)[unfolded fetchVulnerabilityReports_def if_not_P[OF this]]
  obtain r where q: "rt_reports T (map cr_ImageRef cs) s = (r, s')"
    using run by (cases "rt_reports T (map cr_ImageRef cs) s") auto
  with run obtain bs where r: "r = Inr bs" by (auto split: sum.splits)
  let ?sel = "filter (\<lambda>(k, v). k \<in> cr_ImageRef ` set cs) (rows s)"
  have "map (rt_unmarshalReport T) bs = map Inr (map snd ?sel)"
    using report_rows[OF q] r by simp
  from collect_map_Inr[OF this] run q r
  have m: "m = foldl (\<lambda>m v. m(report_ref v \<mapsto> index_or [] m (report_ref v) @ [v])) Map.empty (map snd ?sel)"
    by auto
  have "filter (\<lambda>v. report_ref v = ref) (map snd ?sel) = map snd (filter (\<lambda>(k, v). k = ref) (rows s))"
    unfolding filter_map comp_def filter_filter
    using reference_columns assms(2) by (intro arg_cong[of _ _ "map snd"] filter_cong) auto
  then show "index_or [] m ref = reports_of (rows s) ref"
    unfolding m foldl_groups reports_of_def by (simp add: index_or_def)
  show "images s' = images s \<and> rows s' = rows s \<and> workloads s' = workloads s"
    using report_rows[OF q] by simp
qed

lemma populate_reads:
  assumes "run_state (populateContainerResults T reports) s = (Inr reports', s')"
  shows "reports' = map (read_report (images s) (rows s)) reports"
proof -
  let ?cs = "distinctContainers [] (concat (map ws_SpecContainers reports))"
  have refs: "cr_ImageRef c \<in> cr_ImageRef ` set ?cs"
    if "c \<in> set (ws_SpecContainers r)" "r \<in> set reports" for c r
    using distinctContainers_refs[of "[]" "concat (map ws_SpecContainers reports)"] that by auto
  show ?thesis
  proof (cases "?cs = []")
    case True
    then have "ws_SpecContainers r = []" if "r \<in> set reports" for r
      using refs[OF _ that] by (cases "ws_SpecContainers r") auto
    then have "map (read_report (images s) (rows s)) reports = reports"
      by (intro map_idI) (simp add: read_report_def)
    with True assms show ?thesis by (simp add: populateContainerResults_def Let_def)
  next
    case False
    obtain c s1 where c: "run_state (fetchImageCounts T ?cs) s = (c, s1)" by fastforce
    with assms False obtain ic where ic: "c = Inr ic"
      by (cases c) (auto simp: populateContainerResults_def Let_def)
    obtain v s2 where v: "run_state (fetchVulnerabilityReports T ?cs) s1 = (v, s2)" by fastforce
    with assms False c ic obtain vr where vr: "v = Inr vr" "reports' = map (populateReport ic vr) reports"
      by (cases v) (auto simp: populateContainerResults_def Let_def)
    have "populateReport ic vr r = read_report (images s) (rows s) r" if r: "r \<in> set reports" for r
    proof (rule populateReport_read)
      fix c assume "c \<in> set (ws_SpecContainers r)"
      note ref = refs[OF this r]
      show "index_or 0 ic (cr_ImageRef c) = int (count_list (images s) (cr_ImageRef c))
          \<and> index_or [] vr (cr_ImageRef c) = reports_of (rows s) (cr_ImageRef c)"
        using fetchImageCounts_lookup[OF c[unfolded ic] ref]
          fetchVulnerabilityReports_lookup[OF v[unfolded vr(1)] ref] by simp
    qed
    with vr(2) show ?thesis by simp
  qed
qed

end

section \<open>Concrete tables\<close>

text \<open>Fixed tables; the bytes of an object are its position in unary.\<close>

definition position :: "nat \<Rightarrow> string" where
  "position i = replicate i CHR ''i''"

definition at_position :: "'a list \<Rightarrow> string \<Rightarrow> 'a result" where
  "at_position xs b = (if length b < length xs then Inr (xs ! length b) else Inl (ErrorNew ''no such row''))"

definition positions :: "('a \<Rightarrow> bool) \<Rightarrow> 'a list \<Rightarrow> string list" where
  "positions P xs = map position (filter (\<lambda>i. P (xs ! i)) [0..<length xs])"

definition list_tables ::
  "ImageRef list \<Rightarrow> VulnerabilityReport list \<Rightarrow> WorkloadScanReport list \<Rightarrow> 's report_tables" where
  "list_tables imgs vs ws =
    \<lparr>rt_imageCounts = (\<lambda>refs s. (Inr (map (\<lambda>k. (k, int (count_list imgs k)))
        (filter (\<lambda>k. k \<in> set refs) (remdups imgs))), s)),
     rt_reports = (\<lambda>refs s. (Inr (positions (\<lambda>v. report_ref v \<in> set refs) vs), s)),
     rt_workloads = (\<lambda>ref s. (Inr (positions (\<lambda>w. ref \<in> cr_ImageRef ` set (ws_SpecContainers w)) ws), s)),
     rt_unmarshalReport = at_position vs, rt_unmarshalWorkload = at_position ws\<rparr>"

lemma map_at_positions: "map (at_position xs) (positions P xs) = map Inr (filter P xs)"
proof -
  have "map (at_position xs) (positions P xs) = map (\<lambda>i. Inr (xs ! i)) (filter (\<lambda>i. P (xs ! i)) [0..<length xs])"
    unfolding positions_def by (auto simp: at_position_def position_def)
  also have "\<dots> = map Inr (filter P (map ((!) xs) [0..<length xs]))"
    by (simp add: filter_map comp_def)
  finally show ?thesis by (simp add: map_nth)
qed

interpretation lt: report_queries "list_tables imgs vs ws" "\<lambda>_. imgs" "\<lambda>_. map (\<lambda>v. (report_ref v, v)) vs" "\<lambda>_. ws"
  for imgs vs ws
proof (unfold_locales, goal_cases)
  case (1 refs s ic s')
  then show ?case by (auto simp: list_tables_def distinct_map comp_def inj_on_def)
next
  case (2 refs s rr s')
  then show ?case by (auto simp: list_tables_def map_at_positions filter_map comp_def)
next
  case (3 ref s wr s')
  then show ?case by (auto simp: list_tables_def map_at_positions)
next
  case (4 k v s)
  then show ?case by auto
qed

section \<open>Summaries\<close>

abbreviation unsuppressed_total :: "Summary \<Rightarrow> int" where
  "unsuppressed_total s \<equiv> su_Critical s + su_High s + su_Medium s + su_Low s + su_Unknown s"

lemma Summary_Add_totals:
  "su_Suppressed (Summary_Add s v) = su_Suppressed s + of_bool (vu_Suppressed v)"
  "unsuppressed_total (Summary_Add s v) = unsuppressed_total s + of_bool (\<not> vu_Suppressed v)"
  by (simp_all add: Summary_Add_def)

definition keys_where :: "bool \<Rightarrow> vulnerabilityKey list \<Rightarrow> int" where
  "keys_where b seen = int (length (filter (\<lambda>k. vk_suppressed k = b) seen))"

lemma countOnce_fold:
  assumes "foldl countOnce (seen, s) vs = (seen', s')" "distinct seen"
  shows "distinct seen' \<and> set seen' = set seen \<union> vulnerability_key ` set vs
    \<and> su_Suppressed s' - keys_where True seen' = su_Suppressed s - keys_where True seen
    \<and> unsuppressed_total s' - keys_where False seen' = unsuppressed_total s - keys_where False seen"
  using assms
proof (induction vs arbitrary: seen s)
  case (Cons v vs)
  obtain seen1 s1 where step: "countOnce (seen, s) v = (seen1, s1)" by fastforce
  then have one: "distinct seen1 \<and> set seen1 = insert (vulnerability_key v) (set seen)
    \<and> su_Suppressed s1 - keys_where True seen1 = su_Suppressed s - keys_where True seen
    \<and> unsuppressed_total s1 - keys_where False seen1 = unsuppressed_total s - keys_where False seen"
    using Cons.prems(2) Summary_Add_totals[of s v]
    by (auto simp: countOnce_def keys_where_def vulnerability_key_def split: if_splits)
  from Cons.IH[of seen1 s1] Cons.prems(1) step one show ?case by simp
qed simp

definition container_findings :: "ContainerResult \<Rightarrow> Vulnerability list" where
  "container_findings c =
    concat (map (\<lambda>wv. concat (map re_Vulnerabilities (rp_Results (wv_Report wv)))) (cn_VulnerabilityReports c))"

lemma foldl_concat_map: "foldl (\<lambda>st x. foldl f st (g x)) st xs = foldl f st (concat (map g xs))"
  by (induction xs arbitrary: st) simp_all

lemma summarizeContainer_flat:
  "summarizeContainer s c = snd (foldl countOnce ([], s) (container_findings c))"
  unfolding summarizeContainer_def container_findings_def foldl_concat_map by simp

definition distinct_findings :: "bool \<Rightarrow> ContainerResult \<Rightarrow> int" where
  "distinct_findings b c =
    int (card {k \<in> vulnerability_key ` set (container_findings c). vk_suppressed k = b})"

lemma keys_where_card: "distinct seen \<Longrightarrow> keys_where b seen = int (card {k \<in> set seen. vk_suppressed k = b})"
  unfolding keys_where_def by (simp flip: distinct_card)

lemma summarizeContainer_totals:
  "su_Suppressed (summarizeContainer s c) = su_Suppressed s + distinct_findings True c"
  "unsuppressed_total (summarizeContainer s c) = unsuppressed_total s + distinct_findings False c"
proof -
  obtain seen' s' where f: "foldl countOnce ([], s) (container_findings c) = (seen', s')" by fastforce
  note r = countOnce_fold[OF f distinct.simps(1)[THEN iffD2, OF TrueI]]
  show "su_Suppressed (summarizeContainer s c) = su_Suppressed s + distinct_findings True c"
    "unsuppressed_total (summarizeContainer s c) = unsuppressed_total s + distinct_findings False c"
    using r keys_where_card[of seen' True] keys_where_card[of seen' False] f
    by (auto simp: summarizeContainer_flat distinct_findings_def keys_where_def)
qed

lemma summarize_all:
  "su_Suppressed (foldl summarizeContainer s cs) = su_Suppressed s + sum_list (map (distinct_findings True) cs)"
  "unsuppressed_total (foldl summarizeContainer s cs) = unsuppressed_total s + sum_list (map (distinct_findings False) cs)"
  by (induction cs arbitrary: s) (simp_all add: summarizeContainer_totals)

text \<open>
  C17: reading many workload scan reports is reading each of them.  The server collects the distinct
  image references of all containers, fetches the image counts and the vulnerability reports with
  two queries and distributes the answers.  When it succeeds, every report is what reading it alone
  gives: each container, in its order, has the status of its own number of images and reports, and
  the vulnerability reports of its own image, in the order of the table.
\<close>

theorem batch_read_equals_single_reads:
  assumes "report_queries T images rows workloads"
    "run_state (populateContainerResults T reports) s = (Inr reports', s')"
  shows "reports' = map (read_report (images s) (rows s)) reports"
  by (rule report_queries.populate_reads[OF assms])

definition sample_report :: VulnerabilityReport where
  "sample_report =
    \<lparr>vr_meta = empty_meta\<lparr>om_Namespace := ''ns'', om_Name := ''v''\<rparr>,
     vr_ImageMetadata = \<lparr>md_Registry = ''reg'', md_RegistryURI = ''reg.io'', md_Repository = ''app'',
       md_Tag = ''1'', md_Platform = ''linux/amd64'', md_Digest = ''sha256:0'', md_IndexDigest = []\<rparr>,
     vr_Report = \<lparr>rp_Summary = empty_summary, rp_Results = []\<rparr>\<rparr>"

definition sample_workload :: WorkloadScanReport where
  "sample_workload =
    \<lparr>ws_meta = empty_meta\<lparr>om_Namespace := ''ns'', om_Name := ''w''\<rparr>,
     ws_SpecContainers = [\<lparr>cr_Name = ''c1'', cr_ImageRef = report_ref sample_report\<rparr>,
       \<lparr>cr_Name = ''c2'', cr_ImageRef = report_ref sample_report\<rparr>],
     ws_ContainerStatuses = [], ws_Summary = empty_summary, ws_Containers = []\<rparr>"

abbreviation sample_tables :: "list_db report_tables" where
  "sample_tables \<equiv> list_tables [report_ref sample_report] [sample_report] [sample_workload]"

lemma sample_populate:
  "\<exists>reports'. run_state (populateContainerResults sample_tables [sample_workload]) s = (Inr reports', s)"
  by (simp add: populateContainerResults_def fetchImageCounts_def fetchVulnerabilityReports_def
      list_tables_def sample_workload_def positions_def position_def at_position_def)

theorem batch_read_equals_single_reads_witness:
  "\<exists>reports' s'. run_state (populateContainerResults sample_tables [sample_workload]) (sw_db empty_world)
      = (Inr reports', s')
    \<and> reports' = map (read_report [report_ref sample_report] [(report_ref sample_report, sample_report)])
        [sample_workload]"
proof -
  obtain reports' where r: "run_state (populateContainerResults sample_tables [sample_workload]) (sw_db empty_world)
      = (Inr reports', sw_db empty_world)"
    using sample_populate by blast
  from batch_read_equals_single_reads[OF lt.report_queries_axioms r] r show ?thesis by auto
qed


section \<open>Changed vulnerability reports\<close>

lemma broadcastModified_messages:
  assumes "\<And>r. ol_transform (st_lib S) r = TransformStripWorkloadScanReport r"
    "\<And>r. ol_marshal (st_lib S) r = Inr (enc r)" "\<And>ms m. st_PublishMsg S ms m = Inr ()"
  shows "run_state (broadcastModified S reports) w =
    ((), w\<lparr>sw_messages := sw_messages w
       @ map (\<lambda>r. (Modified, enc (r\<lparr>ws_Containers := [], ws_ContainerStatuses := []\<rparr>))) reports\<rparr>)"
  by (induction reports arbitrary: w)
    (simp_all add: broadcaster_publish_def assms TransformStripWorkloadScanReport_def)

context report_queries
begin

lemma FindByImageRef_finds:
  assumes "run_state (FindByImageRef T ref) s = (Inr found, s')"
  shows "found = filter (\<lambda>r. ref \<in> cr_ImageRef ` set (ws_SpecContainers r)) (workloads s)"
proof -
  obtain wr where q: "rt_workloads T ref s = (wr, s')"
    using assms by (cases "rt_workloads T ref s") (auto simp: FindByImageRef_def)
  with assms obtain bs where wr: "wr = Inr bs"
    by (cases wr) (auto simp: FindByImageRef_def)
  from workload_rows[OF q] wr
  have "collect (rt_unmarshalWorkload T) bs
      = Inr (filter (\<lambda>r. ref \<in> cr_ImageRef ` set (ws_SpecContainers r)) (workloads s))"
    by (intro collect_map_Inr) simp
  with assms q wr show ?thesis by (simp add: FindByImageRef_def)
qed

lemma process_announces:
  assumes "\<And>r. ol_transform (st_lib S) r = TransformStripWorkloadScanReport r"
    "\<And>r. ol_marshal (st_lib S) r = Inr (enc r)" "\<And>ms m. st_PublishMsg S ms m = Inr ()"
    "rt_unmarshalReport T b = Inr vulnReport"
    "run_state (processVulnerabilityReportEvent S T (ev, b)) w = (Inr (), w')"
  shows "sw_messages w' = sw_messages w
    @ map (\<lambda>r. (Modified, enc (r\<lparr>ws_Containers := [], ws_ContainerStatuses := []\<rparr>)))
        (filter (\<lambda>r. report_ref vulnReport \<in> cr_ImageRef ` set (ws_SpecContainers r)) (workloads (sw_db w)))"
proof -
  obtain f s1 where f: "run_state (FindByImageRef T (report_ref vulnReport)) (sw_db w) = (f, s1)" by fastforce
  with assms(4,5) obtain found where found: "f = Inr found"
    by (cases f) (auto simp: processVulnerabilityReportEvent_def)
  from assms(4,5) f found have "sw_messages w' = sw_messages w
      @ map (\<lambda>r. (Modified, enc (r\<lparr>ws_Containers := [], ws_ContainerStatuses := []\<rparr>))) found"
    by (auto simp: processVulnerabilityReportEvent_def broadcastModified_messages[OF assms(1-3)]
        split: if_splits)
  with FindByImageRef_finds[OF f[unfolded found]] show ?thesis by simp
qed

end


definition workload_store :: "(list_db, WorkloadScanReport) store" where
  "workload_store =
    \<lparr>st_sql = list_postgres no_json,
     st_lib = \<lparr>ol_meta = ws_meta, ol_zero = sample_workload, ol_marshal = (\<lambda>r. Inr (om_Name (ws_meta r))),
       ol_unmarshal = (\<lambda>_. Inr sample_workload), ol_UpdateObject = (\<lambda>r _. Inr r),
       ol_SetAnnotations = (\<lambda>r _. r), ol_transform = TransformStripWorkloadScanReport\<rparr>,
     st_PublishMsg = (\<lambda>_ _. Inr ()), st_clusterScoped = False,
     st_OptimisticLockErrorMsg = ''the object has been modified''\<rparr>"

lemma sample_event:
  "run_state (processVulnerabilityReportEvent workload_store sample_tables (Added, [])) empty_world
    = (Inr (), empty_world\<lparr>sw_messages := [(Modified, ''w'')]\<rparr>)"
  by (simp add: processVulnerabilityReportEvent_def FindByImageRef_def workload_store_def list_tables_def
      positions_def position_def at_position_def sample_workload_def broadcaster_publish_def
      TransformStripWorkloadScanReport_def empty_world_def empty_meta_def)


end
