(* ===== verification/Trivy_Report.thy ===== *)
theory Trivy_Report
  imports Complex_Main Reports
begin

text \<open>
  The conversion of a Trivy report: \<open>src/internal/handlers/trivyreport/trivy.go\<close>.  The types of Trivy
  are records with the fields the conversion reads; \<open>PURL.String()\<close> is the string it returns, and
  the gob codec and \<open>strconv.FormatFloat\<close> are parameters.
\<close>

section \<open>Strings\<close>

text \<open>\<open>strings.Split(input, ", ")\<close> with the characters of the current part in reverse.\<close>

fun splitCommaSpace :: "string \<Rightarrow> string \<Rightarrow> string list" where
  "splitCommaSpace acc [] = [rev acc]"
| "splitCommaSpace acc [c] = [rev (c # acc)]"
| "splitCommaSpace acc (c # d # s) =
    (if c = CHR '','' \<and> d = CHR '' '' then rev acc # splitCommaSpace [] s
     else splitCommaSpace (c # acc) (d # s))"

definition getFixedVersions :: "string \<Rightarrow> string list" where
  "getFixedVersions input = (if input = [] then [] else splitCommaSpace [] input)"

text \<open>\<open>path.Join("/", p)\<close>: the rooted path without empty, dot and dot-dot elements.\<close>

definition clean_element :: "string list \<Rightarrow> string \<Rightarrow> string list" where
  "clean_element acc e =
    (if e = [] \<or> e = ''.'' then acc else if e = ''..'' then butlast acc else acc @ [e])"

definition rooted_path :: "string \<Rightarrow> string" where
  "rooted_path p = ''/'' @ Join (foldl clean_element [] (Split CHR ''/'' p)) ''/''"

definition fixPath :: "string \<Rightarrow> string" where
  "fixPath inputPath = (if inputPath = [] then [] else rooted_path inputPath)"

text \<open>The leftmost match of \<open>https?://[^\s)]+\<close>, or the empty string.\<close>

definition url_char :: "char \<Rightarrow> bool" where
  "url_char c \<longleftrightarrow> c \<notin> set [CHR '' '', CHR 0x09, CHR 0x0A, CHR 0x0C, CHR 0x0D, CHR '')'']"

definition url_here :: "string \<Rightarrow> string \<Rightarrow> string option" where
  "url_here scheme s =
    (let rest = takeWhile url_char (drop (length scheme) s)
     in if HasPrefix s scheme \<and> rest \<noteq> [] then Some (scheme @ rest) else None)"

primrec extractURLRegex :: "string \<Rightarrow> string" where
  "extractURLRegex [] = []"
| "extractURLRegex (c # s) =
    (case url_here ''https://'' (c # s) of
       Some u \<Rightarrow> u
     | None \<Rightarrow> (case url_here ''http://'' (c # s) of Some u \<Rightarrow> u | None \<Rightarrow> extractURLRegex s))"

section \<open>The types of Trivy\<close>

record DetectedVulnerability =
  dv_VulnerabilityID :: string
  dv_Title :: string
  dv_PkgName :: string
  dv_PkgPath :: string
  dv_PURL :: string
  dv_InstalledVersion :: string
  dv_FixedVersion :: string
  dv_DiffID :: string
  dv_Description :: string
  dv_Severity :: string
  dv_SeveritySource :: string
  dv_References :: "string list"
  dv_CVSS :: "(string \<times> rat \<times> string) list"
  dv_CweIDs :: "string list"

record ModifiedFinding =
  mo_Type :: string
  mo_Status :: string
  mo_Statement :: string
  mo_Source :: string
  mo_Finding :: string

record TrivyResult =
  ty_Target :: string
  ty_Class :: string
  ty_Type :: string
  ty_Vulnerabilities :: "DetectedVulnerability list"
  ty_ModifiedFindings :: "ModifiedFinding list"

record trivy_lib =
  tl_FormatFloat :: "rat \<Rightarrow> string"
  tl_gobEncode :: "string \<Rightarrow> string result"
  tl_gobDecode :: "string \<Rightarrow> DetectedVulnerability result"

abbreviation FindingTypeVulnerability :: string where "FindingTypeVulnerability \<equiv> ''vulnerability''"
abbreviation GoBinary :: string where "GoBinary \<equiv> ''gobinary''"
abbreviation RustBinary :: string where "RustBinary \<equiv> ''rustbinary''"
abbreviation ClassBinary :: string where "ClassBinary \<equiv> ''binary''"

section \<open>The conversion\<close>

definition newCVSS :: "trivy_lib \<Rightarrow> (string \<times> rat \<times> string) list \<Rightarrow> (string \<times> CVSS) list" where
  "newCVSS L trivyCVSS =
    map (\<lambda>(sid, score, vector). (sid, \<lparr>cv_V3Vector = vector, cv_V3Score = tl_FormatFloat L score\<rparr>)) trivyCVSS"

definition newVEXStatus :: "ModifiedFinding \<Rightarrow> VEXStatus" where
  "newVEXStatus f =
    \<lparr>vx_Repository = extractURLRegex (mo_Source f), vx_Status = mo_Status f, vx_Statement = mo_Statement f\<rparr>"

definition newVulnerability :: "trivy_lib \<Rightarrow> DetectedVulnerability \<Rightarrow> Vulnerability" where
  "newVulnerability L v =
    \<lparr>vu_CVE = dv_VulnerabilityID v, vu_Title = dv_Title v, vu_PackageName = dv_PkgName v,
     vu_PackagePath = fixPath (dv_PkgPath v), vu_PURL = dv_PURL v,
     vu_InstalledVersion = dv_InstalledVersion v, vu_FixedVersions = getFixedVersions (dv_FixedVersion v),
     vu_DiffID = dv_DiffID v, vu_Description = dv_Description v, vu_Severity = dv_Severity v,
     vu_SeveritySource = dv_SeveritySource v, vu_References = dv_References v,
     vu_CVSS = newCVSS L (dv_CVSS v), vu_CWEs = dv_CweIDs v, vu_Suppressed = False, vu_VEXStatus = None\<rparr>"

definition decodeTrivyFinding :: "trivy_lib \<Rightarrow> ModifiedFinding \<Rightarrow> DetectedVulnerability result" where
  "decodeTrivyFinding L f =
    (case tl_gobEncode L (mo_Finding f) of
       Inl err \<Rightarrow> Inl (ErrorWrap ''unable to encode finding'' err)
     | Inr bytes \<Rightarrow> map_sum (ErrorWrap ''unable to decode finding'') id (tl_gobDecode L bytes))"

definition newResult :: "TrivyResult \<Rightarrow> Result" where
  "newResult t =
    \<lparr>re_Target = ty_Target t,
     re_Class = (if ty_Type t = GoBinary \<or> ty_Type t = RustBinary then ClassBinary else ty_Class t),
     re_Type = ty_Type t, re_Vulnerabilities = []\<rparr>"

text \<open>The loop over the modified findings, which are suppressed by VEX documents.\<close>

primrec suppressedVulnerabilities :: "trivy_lib \<Rightarrow> ModifiedFinding list \<Rightarrow> Vulnerability list result" where
  "suppressedVulnerabilities L [] = Inr []"
| "suppressedVulnerabilities L (f # fs) =
    (if mo_Type f \<noteq> FindingTypeVulnerability then suppressedVulnerabilities L fs
     else case decodeTrivyFinding L f of
       Inl err \<Rightarrow> Inl (ErrorWrap ''error reding trivy findings'' err)
     | Inr v \<Rightarrow> map_sum id
         (Cons ((newVulnerability L v)\<lparr>vu_Suppressed := True, vu_VEXStatus := Some (newVEXStatus f)\<rparr>))
         (suppressedVulnerabilities L fs))"

definition convertResult :: "trivy_lib \<Rightarrow> TrivyResult \<Rightarrow> Result result" where
  "convertResult L t =
    map_sum id (\<lambda>suppressed. (newResult t)\<lparr>re_Vulnerabilities :=
        map (\<lambda>v. (newVulnerability L v)\<lparr>vu_Suppressed := False\<rparr>) (ty_Vulnerabilities t) @ suppressed\<rparr>)
      (suppressedVulnerabilities L (ty_ModifiedFindings t))"

definition NewResultsFromTrivyReport :: "trivy_lib \<Rightarrow> TrivyResult list \<Rightarrow> Result list result" where
  "NewResultsFromTrivyReport L = collect (convertResult L)"

section \<open>Lemmas\<close>

lemma splitCommaSpace_nonempty [simp]: "splitCommaSpace acc s \<noteq> []"
  by (induction acc s rule: splitCommaSpace.induct) auto

lemma Join_Cons: "ws \<noteq> [] \<Longrightarrow> Join (w # ws) sep = w @ sep @ Join ws sep"
  by (cases ws) auto

lemma Join_splitCommaSpace: "Join (splitCommaSpace acc s) '', '' = rev acc @ s"
  by (induction acc s rule: splitCommaSpace.induct) (auto simp: Join_Cons)

end
