(* ===== verification/Sbom_Handlers.thy ===== *)
theory Sbom_Handlers
  imports Trivy_Report
begin

text \<open>
  The worker's handlers after the catalog: \<open>src/internal/handlers/generate_sbom.go\<close>,
  \<open>scan_sbom.go\<close>, \<open>scan_sbom_helpers.go\<close> and \<open>scanjob_failure.go\<close>.

  A handler is a program that records its calls: reads and writes of the API server, the publisher,
  the message, files, the environment of the process and the Trivy command.  Deferred functions are
  the calls after the body, in reverse order of their registration; their errors are only logged.
\<close>

section \<open>The environment\<close>

record SBOM =
  sb_meta :: ObjectMeta
  sb_ImageMetadata :: ImageMetadata
  sb_SPDX :: string

record VEXHub =
  vh_Name :: string
  vh_URL :: string
  vh_Enabled :: bool

datatype sbom_call =
    SCGetScanJob NamespacedName
  | SCUpdateStatus ScanJob
  | SCNow
  | SCMetric "string list"
  | SCGetImage NamespacedName
  | SCListSBOMs string string
  | SCGetSBOM NamespacedName
  | SCCreateSBOM SBOM
  | SCListVEXHubs
  | SCGetReport NamespacedName
  | SCCreateReport VulnerabilityReport
  | SCUpdateReport VulnerabilityReport
  | SCInProgress
  | SCPublish string string string
  | SCAccess access_call
  | SCCreateTemp string
  | SCWrite string string
  | SCClose string
  | SCRemove string
  | SCRemoveAll string
  | SCMkdirTemp
  | SCMkdirAll string
  | SCWriteFile string string
  | SCSetenv string string
  | SCUnsetenv string
  | SCTrivy "string list"
  | SCReadAll string

fun as_sbom_access :: "sbom_call \<Rightarrow> access_call option" where
  "as_sbom_access (SCAccess c) = Some c"
| "as_sbom_access _ = None"

text \<open>
  \<open>se_CreateOrUpdate\<close> is \<open>controllerutil.CreateOrUpdate\<close> on a vulnerability report, given the object
  and the function that mutates it.
\<close>

record sbom_env =
  se_GetScanJob :: "sbom_call list \<Rightarrow> NamespacedName \<Rightarrow> ScanJob result"
  se_UpdateStatus :: "sbom_call list \<Rightarrow> ScanJob \<Rightarrow> ScanJob result"
  se_Now :: "sbom_call list \<Rightarrow> time"
  se_GetImage :: "sbom_call list \<Rightarrow> NamespacedName \<Rightarrow> Image result"
  se_ListSBOMs :: "sbom_call list \<Rightarrow> string \<Rightarrow> string \<Rightarrow> SBOM list result"
  se_GetSBOM :: "sbom_call list \<Rightarrow> NamespacedName \<Rightarrow> SBOM result"
  se_CreateSBOM :: "sbom_call list \<Rightarrow> SBOM \<Rightarrow> unit result"
  se_ListVEXHubs :: "sbom_call list \<Rightarrow> VEXHub list result"
  se_CreateOrUpdate :: "VulnerabilityReport \<Rightarrow> (VulnerabilityReport \<Rightarrow> VulnerabilityReport)
     \<Rightarrow> (sbom_call, unit result) prog"
  se_InProgress :: "sbom_call list \<Rightarrow> unit result"
  se_Publish :: "sbom_call list \<Rightarrow> string \<Rightarrow> string \<Rightarrow> string \<Rightarrow> unit result"
  se_access :: access_env
  se_CreateTemp :: "sbom_call list \<Rightarrow> string \<Rightarrow> string result"
  se_Write :: "sbom_call list \<Rightarrow> string \<Rightarrow> string \<Rightarrow> unit result"
  se_Close :: "sbom_call list \<Rightarrow> string \<Rightarrow> unit result"
  se_MkdirTemp :: "sbom_call list \<Rightarrow> string result"
  se_MkdirAll :: "sbom_call list \<Rightarrow> string \<Rightarrow> unit result"
  se_WriteFile :: "sbom_call list \<Rightarrow> string \<Rightarrow> string \<Rightarrow> unit result"
  se_Setenv :: "sbom_call list \<Rightarrow> string \<Rightarrow> string \<Rightarrow> unit result"
  se_Trivy :: "sbom_call list \<Rightarrow> string list \<Rightarrow> unit result"
  se_ReadAll :: "sbom_call list \<Rightarrow> string \<Rightarrow> string result"
  se_RetryOnConflict :: "(sbom_call, ScanJob \<times> bool) retrier"
  se_meta :: meta_lib
  se_trivy :: trivy_lib
  se_workDir :: string
  se_trivyDBRepository :: string
  se_trivyJavaDBRepository :: string
  se_installationNamespace :: string
  se_pathJoin :: "string \<Rightarrow> string \<Rightarrow> string"
  se_SetSBOMOwner :: "Image \<Rightarrow> SBOM \<Rightarrow> SBOM result"
  se_SetReportOwner :: "SBOM \<Rightarrow> VulnerabilityReport \<Rightarrow> VulnerabilityReport result"
  se_unmarshalGenerate :: "string \<Rightarrow> GenerateSBOMMessage result"
  se_unmarshalScan :: "string \<Rightarrow> ScanSBOMMessage result"
  se_unmarshalBase :: "string \<Rightarrow> BaseMessage result"
  se_marshalScan :: "ScanSBOMMessage \<Rightarrow> string result"
  se_unmarshalRegistry :: "string \<Rightarrow> Registry result"
  se_unmarshalTrivy :: "string \<Rightarrow> TrivyResult list result"
  se_marshalVEX :: "VEXHub list \<Rightarrow> string result"

abbreviation object_key :: "ObjectRef \<Rightarrow> NamespacedName" where
  "object_key r \<equiv> (ob_Namespace r, ob_Name r)"

text \<open>A call whose error is only logged.\<close>

abbreviation ignoring :: "sbom_call \<Rightarrow> (sbom_call, unit) prog" where
  "ignoring c \<equiv> call (\<lambda>_. ()) c"

section \<open>Generating an SBOM\<close>

definition imageArgs :: "sbom_env \<Rightarrow> Registry \<Rightarrow> string \<Rightarrow> string list" where
  "imageArgs E registry sbomFile =
    [''image'', ''--skip-version-check'', ''--disable-telemetry'', ''--cache-dir'', se_workDir E,
     ''--format'', ''spdx-json'', ''--skip-db-update'', ''--java-db-repository'', se_trivyJavaDBRepository E,
     ''--output'', sbomFile]
    @ (if rs_Insecure (rg_Spec registry) then [''--insecure''] else [])"

definition imageReference :: "Image \<Rightarrow> string" where
  "imageReference img =
    md_RegistryURI (im_ImageMetadata img) @ ''/'' @ md_Repository (im_ImageMetadata img) @ ''@''
      @ md_Digest (im_ImageMetadata img)"

definition executeImage ::
  "sbom_env \<Rightarrow> Image \<Rightarrow> string \<Rightarrow> string list \<Rightarrow> (sbom_call, string result) prog" where
  "executeImage E img sbomFile args = do {
     let allArgs = args @ [imageReference img];
     t \<leftarrow> call (\<lambda>h. se_Trivy E h allArgs) (SCTrivy allArgs);
     (case t of
        Inl err \<Rightarrow> fail (ErrorWrap ''failed to execute trivy'' err)
      | Inr _ \<Rightarrow> do {
          b \<leftarrow> call (\<lambda>h. se_ReadAll E h sbomFile) (SCReadAll sbomFile);
          State_Monad.return (map_sum (ErrorWrap ''failed to read SBOM output'') id b)
        })
   }"

text \<open>With the CA bundle in a temporary file, which is removed at the end.\<close>

definition executeWithBundle ::
  "sbom_env \<Rightarrow> Image \<Rightarrow> string \<Rightarrow> string list \<Rightarrow> string \<Rightarrow> (sbom_call, string result) prog" where
  "executeWithBundle E img sbomFile args caBundle = do {
     c \<leftarrow> call (\<lambda>h. se_CreateTemp E h ''trivy.cabundle.*.crt'') (SCCreateTemp ''trivy.cabundle.*.crt'');
     (case c of
        Inl err \<Rightarrow> fail (ErrorWrap ''failed to create CA bundle file'' err)
      | Inr caBundleFile \<Rightarrow> do {
          r \<leftarrow> (do {
            w \<leftarrow> call (\<lambda>h. se_Write E h caBundleFile caBundle) (SCWrite caBundleFile caBundle);
            (case w of
               Inl err \<Rightarrow> fail (ErrorWrap ''failed to write CA bundle content'' err)
             | Inr _ \<Rightarrow> do {
                 cl \<leftarrow> call (\<lambda>h. se_Close E h caBundleFile) (SCClose caBundleFile);
                 (case cl of
                    Inl err \<Rightarrow> fail (ErrorWrap ''failed to close CA bundle file'' err)
                  | Inr _ \<Rightarrow> executeImage E img sbomFile (args @ [''--cacert'', caBundleFile]))
               })
          });
          _ \<leftarrow> ignoring (SCRemove caBundleFile);
          State_Monad.return r
        })
   }"

definition spdxWithAccess ::
  "sbom_env \<Rightarrow> Image \<Rightarrow> Registry \<Rightarrow> string \<Rightarrow> (sbom_call, string result) prog" where
  "spdxWithAccess E img registry sbomFile = do {
     let args = imageArgs E registry sbomFile;
     c \<leftarrow> embed SCAccess as_sbom_access (Resolve (se_access E) registry (se_installationNamespace E));
     (case c of
        Inl err \<Rightarrow> fail (ErrorWrap (''cannot resolve CA bundle for registry '' @ om_Name (rg_meta registry)) err)
      | Inr caBundle \<Rightarrow>
          (case caBundle of
             None \<Rightarrow> executeImage E img sbomFile args
           | Some b \<Rightarrow>
               if b \<noteq> [] then executeWithBundle E img sbomFile args b
               else executeImage E img sbomFile args))
   }"

text \<open>With the docker credentials of a private registry, which are removed at the end.\<close>

definition spdxWithAuth ::
  "sbom_env \<Rightarrow> Image \<Rightarrow> Registry \<Rightarrow> string \<Rightarrow> (sbom_call, string result) prog" where
  "spdxWithAuth E img registry sbomFile =
    (if IsPrivate registry
     then do {
       d \<leftarrow> embed SCAccess as_sbom_access
              (BuildDockerConfigForRegistry (se_access E) registry (se_installationNamespace E));
       (case d of
          Inl err \<Rightarrow>
            fail (ErrorWrap (''cannot setup docker auth for registry '' @ om_Name (rg_meta registry)) err)
        | Inr dockerConfig \<Rightarrow> do {
            r \<leftarrow> spdxWithAccess E img registry sbomFile;
            _ \<leftarrow> ignoring (SCRemoveAll dockerConfig);
            _ \<leftarrow> ignoring (SCUnsetenv ''DOCKER_CONFIG'');
            State_Monad.return r
          })
     }
     else spdxWithAccess E img registry sbomFile)"

definition generateSPDX ::
  "sbom_env \<Rightarrow> Image \<Rightarrow> Registry \<Rightarrow> (sbom_call, string result) prog" where
  "generateSPDX E img registry = do {
     f \<leftarrow> call (\<lambda>h. se_CreateTemp E h ''trivy.sbom.*.json'') (SCCreateTemp ''trivy.sbom.*.json'');
     (case f of
        Inl err \<Rightarrow> fail (ErrorWrap ''failed to create temporary SBOM file'' err)
      | Inr sbomFile \<Rightarrow> do {
          r \<leftarrow> spdxWithAuth E img registry sbomFile;
          _ \<leftarrow> ignoring (SCClose sbomFile);
          _ \<leftarrow> ignoring (SCRemove sbomFile);
          State_Monad.return r
        })
   }"

definition findSBOMByDigest ::
  "sbom_env \<Rightarrow> string \<Rightarrow> string \<Rightarrow> (sbom_call, SBOM result) prog" where
  "findSBOMByDigest E digest namespace = do {
     l \<leftarrow> call (\<lambda>h. se_ListSBOMs E h namespace digest) (SCListSBOMs namespace digest);
     State_Monad.return
       (case l of
          Inl err \<Rightarrow> Inl (ErrorWrap ''failed to find SBOM by digest'' err)
        | Inr items \<Rightarrow> (case items of [] \<Rightarrow> Inl (StatusError ReasonNotFound digest) | sbom # _ \<Rightarrow> Inr sbom))
   }"

definition workloadLabels :: "Registry \<Rightarrow> string_map \<Rightarrow> string_map" where
  "workloadLabels registry labels =
    (if map_index (om_Labels (rg_meta registry)) LabelWorkloadScanKey = LabelWorkloadScanValue
     then AList.update LabelWorkloadScanKey LabelWorkloadScanValue labels else labels)"

definition newSBOM :: "GenerateSBOMMessage \<Rightarrow> Image \<Rightarrow> Registry \<Rightarrow> string \<Rightarrow> SBOM" where
  "newSBOM msg img registry spdxBytes =
    \<lparr>sb_meta = empty_meta\<lparr>om_Name := ob_Name (gm_Image msg), om_Namespace := ob_Namespace (gm_Image msg),
       om_Labels := workloadLabels registry
         [(LabelManagedByKey, LabelManagedByValue), (LabelPartOfKey, LabelPartOfValue)]\<rparr>,
     sb_ImageMetadata = im_ImageMetadata img, sb_SPDX = spdxBytes\<rparr>"

definition getOrGenerateSBOM ::
  "sbom_env \<Rightarrow> Image \<Rightarrow> Registry \<Rightarrow> GenerateSBOMMessage \<Rightarrow> (sbom_call, SBOM result) prog" where
  "getOrGenerateSBOM E img registry msg = do {
     existing \<leftarrow> findSBOMByDigest E (md_Digest (im_ImageMetadata img)) (om_Namespace (im_meta img));
     spdx \<leftarrow> (case existing of
         Inl err \<Rightarrow>
           if \<not> IsNotFound err then fail (ErrorWrap ''failed to check for existing SBOM'' err)
           else generateSPDX E img registry
       | Inr existingSBOM \<Rightarrow> ok (sb_SPDX existingSBOM));
     State_Monad.return
       (case spdx of
          Inl err \<Rightarrow> Inl err
        | Inr spdxBytes \<Rightarrow>
            map_sum (ErrorWrap ''failed to set owner reference'') id
              (se_SetSBOMOwner E img (newSBOM msg img registry spdxBytes)))
   }"

definition scanMessage :: "GenerateSBOMMessage \<Rightarrow> ScanSBOMMessage" where
  "scanMessage msg =
    \<lparr>bm_ScanJob = bm_ScanJob msg,
     sm_SBOM = \<lparr>ob_Name = ob_Name (gm_Image msg), ob_Namespace = ob_Namespace (gm_Image msg), ob_UID = []\<rparr>\<rparr>"

definition scanMessageID :: "ScanJob \<Rightarrow> GenerateSBOMMessage \<Rightarrow> string" where
  "scanMessageID scanJob msg = ''scanSBOM/'' @ om_UID (sj_meta scanJob) @ ''/'' @ ob_Name (gm_Image msg)"

text \<open>From the generated SBOM to the end of the handler.\<close>

definition storeSBOM ::
  "sbom_env \<Rightarrow> GenerateSBOMMessage \<Rightarrow> ScanJob \<Rightarrow> SBOM \<Rightarrow> (sbom_call, unit result) prog" where
  "storeSBOM E msg scanJob sbom = do {
     a \<leftarrow> call (se_InProgress E) SCInProgress;
     (case a of
        Inl err \<Rightarrow> fail (ErrorWrap ''failed to ack message as in progress'' err)
      | Inr _ \<Rightarrow> do {
          c \<leftarrow> call (\<lambda>h. se_CreateSBOM E h sbom) (SCCreateSBOM sbom);
          (case (case c of Inl err \<Rightarrow> if IsAlreadyExists err then Inr () else Inl err | Inr _ \<Rightarrow> Inr ()) of
             Inl err \<Rightarrow> fail (ErrorWrap ''failed to create SBOM'' err)
           | Inr _ \<Rightarrow>
               (case se_marshalScan E (scanMessage msg) of
                  Inl err \<Rightarrow> fail (ErrorWrap ''cannot marshal scan SBOM message'' err)
                | Inr payload \<Rightarrow> do {
                    p \<leftarrow> call (\<lambda>h. se_Publish E h ScanSBOMSubject (scanMessageID scanJob msg) payload)
                           (SCPublish ScanSBOMSubject (scanMessageID scanJob msg) payload);
                    State_Monad.return (map_sum (ErrorWrap ''failed to publish scan SBOM message'') id p)
                  }))
        })
   }"

text \<open>The image of the message, its registry snapshot and its SBOM.\<close>

definition generateForJob ::
  "sbom_env \<Rightarrow> GenerateSBOMMessage \<Rightarrow> ScanJob \<Rightarrow> (sbom_call, unit result) prog" where
  "generateForJob E msg scanJob = do {
     i \<leftarrow> call (\<lambda>h. se_GetImage E h (object_key (gm_Image msg))) (SCGetImage (object_key (gm_Image msg)));
     (case i of
        Inl err \<Rightarrow>
          if IsNotFound err then ok ()
          else fail (ErrorWrap (''cannot get image '' @ ob_Namespace (gm_Image msg) @ ''/''
                                @ ob_Name (gm_Image msg)) err)
      | Inr img \<Rightarrow>
          (case registryFromScanJob (se_unmarshalRegistry E) scanJob of
             Inl err \<Rightarrow> fail err
           | Inr registry \<Rightarrow> do {
               s \<leftarrow> getOrGenerateSBOM E img registry msg;
               (case s of
                  Inl err \<Rightarrow> fail (ErrorWrap ''failed to get or generate SBOM'' err)
                | Inr sbom \<Rightarrow> storeSBOM E msg scanJob sbom)
             }))
   }"

definition GenerateSBOMHandler_Handle :: "sbom_env \<Rightarrow> string \<Rightarrow> (sbom_call, unit result) prog" where
  "GenerateSBOMHandler_Handle E data =
    (case se_unmarshalGenerate E data of
       Inl err \<Rightarrow> fail (ErrorWrap ''failed to unmarshal GenerateSBOM message'' err)
     | Inr msg \<Rightarrow> do {
         j \<leftarrow> call (\<lambda>h. se_GetScanJob E h (object_key (bm_ScanJob msg)))
                (SCGetScanJob (object_key (bm_ScanJob msg)));
         (case j of
            Inl err \<Rightarrow>
              if IsNotFound err then ok ()
              else fail (ErrorWrap (''cannot get ScanJob '' @ ob_Name (bm_ScanJob msg) @ ''/''
                                    @ ob_Namespace (bm_ScanJob msg)) err)
          | Inr scanJob \<Rightarrow>
              if om_UID (sj_meta scanJob) \<noteq> ob_UID (bm_ScanJob msg) then ok ()
              else if ScanJob_IsFailed (se_meta E) scanJob then ok ()
              else generateForJob E msg scanJob)
       })"

section \<open>Scanning an SBOM\<close>

definition sbomArgs :: "sbom_env \<Rightarrow> string \<Rightarrow> string list" where
  "sbomArgs E reportFile =
    [''sbom'', ''--skip-version-check'', ''--disable-telemetry'', ''--cache-dir'', se_workDir E,
     ''--format'', ''json'', ''--db-repository'', se_trivyDBRepository E,
     ''--java-db-repository'', se_trivyJavaDBRepository E, ''--output'', reportFile]"

definition setupVEXHubRepositories ::
  "sbom_env \<Rightarrow> VEXHub list \<Rightarrow> string \<Rightarrow> string \<Rightarrow> (sbom_call, unit result) prog" where
  "setupVEXHubRepositories E hubs trivyVEXPath vexRepoPath =
    (case se_marshalVEX E hubs of
       Inl err \<Rightarrow> fail (ErrorWrap ''failed to marshal struct'' err)
     | Inr repositories \<Rightarrow> do {
         d \<leftarrow> call (\<lambda>h. se_MkdirAll E h trivyVEXPath) (SCMkdirAll trivyVEXPath);
         (case d of
            Inl err \<Rightarrow> fail (ErrorWrap ''failed to create VEX configuration directory'' err)
          | Inr _ \<Rightarrow> do {
              w \<leftarrow> call (\<lambda>h. se_WriteFile E h vexRepoPath repositories) (SCWriteFile vexRepoPath repositories);
              State_Monad.return (map_sum (ErrorWrap ''failed to create VEX repository file'') id w)
            })
       })"

text \<open>The Trivy command, the extension of the deadline of the message, and the conversion of the report.\<close>

definition executeScan ::
  "sbom_env \<Rightarrow> string \<Rightarrow> string list \<Rightarrow> (sbom_call, (Result list \<times> Summary) result) prog" where
  "executeScan E reportFile args = do {
     t \<leftarrow> call (\<lambda>h. se_Trivy E h args) (SCTrivy args);
     (case t of
        Inl err \<Rightarrow> fail (ErrorWrap ''failed to execute trivy'' err)
      | Inr _ \<Rightarrow> do {
          a \<leftarrow> call (se_InProgress E) SCInProgress;
          (case a of
             Inl err \<Rightarrow> fail (ErrorWrap ''failed to ack message as in progress'' err)
           | Inr _ \<Rightarrow> do {
               b \<leftarrow> call (\<lambda>h. se_ReadAll E h reportFile) (SCReadAll reportFile);
               State_Monad.return
                 (case b of
                    Inl err \<Rightarrow> Inl (ErrorWrap ''failed to read SBOM output'' err)
                  | Inr reportBytes \<Rightarrow>
                      (case se_unmarshalTrivy E reportBytes of
                         Inl err \<Rightarrow> Inl (ErrorWrap ''failed to unmarshal report'' err)
                       | Inr reportOrig \<Rightarrow>
                           (case NewResultsFromTrivyReport (se_trivy E) reportOrig of
                              Inl err \<Rightarrow> Inl (ErrorWrap ''failed to convert from trivy results'' err)
                            | Inr results \<Rightarrow> Inr (results, NewSummaryFromResults results))))
             })
        })
   }"

text \<open>The home of Trivy is removed only when VEX hubs were set up.\<close>

definition scanWithHubs ::
  "sbom_env \<Rightarrow> VEXHub list \<Rightarrow> string \<Rightarrow> string \<Rightarrow> (sbom_call, (Result list \<times> Summary) result) prog" where
  "scanWithHubs E hubs sbomFile reportFile = do {
     d \<leftarrow> call (se_MkdirTemp E) SCMkdirTemp;
     (case d of
        Inl err \<Rightarrow> fail (ErrorWrap ''failed to create temporary trivy home'' err)
      | Inr trivyHome \<Rightarrow> do {
          e \<leftarrow> call (\<lambda>h. se_Setenv E h ''XDG_DATA_HOME'' trivyHome) (SCSetenv ''XDG_DATA_HOME'' trivyHome);
          (case e of
             Inl err \<Rightarrow> fail (ErrorWrap (''failed to set XDG_DATA_HOME to '' @ trivyHome) err)
           | Inr _ \<Rightarrow>
               if hubs = [] then executeScan E reportFile (sbomArgs E reportFile @ [sbomFile])
               else do {
                 let trivyVEXPath = se_pathJoin E trivyHome ''.trivy/vex'';
                 v \<leftarrow> setupVEXHubRepositories E hubs trivyVEXPath (se_pathJoin E trivyVEXPath ''repository.yaml'');
                 (case v of
                    Inl err \<Rightarrow> fail (ErrorWrap ''failed to setup VEX Hub repositories'' err)
                  | Inr _ \<Rightarrow> do {
                      r \<leftarrow> executeScan E reportFile
                             (sbomArgs E reportFile @ [''--vex'', ''repo'', ''--show-suppressed''] @ [sbomFile]);
                      _ \<leftarrow> ignoring (SCRemoveAll trivyHome);
                      State_Monad.return r
                    })
               })
        })
   }"

definition scanWithReport ::
  "sbom_env \<Rightarrow> VEXHub list \<Rightarrow> string \<Rightarrow> (sbom_call, (Result list \<times> Summary) result) prog" where
  "scanWithReport E hubs sbomFile = do {
     f \<leftarrow> call (\<lambda>h. se_CreateTemp E h ''trivy.report.*.json'') (SCCreateTemp ''trivy.report.*.json'');
     (case f of
        Inl err \<Rightarrow> fail (ErrorWrap ''failed to create temporary report file'' err)
      | Inr reportFile \<Rightarrow> do {
          r \<leftarrow> scanWithHubs E hubs sbomFile reportFile;
          _ \<leftarrow> ignoring (SCClose reportFile);
          _ \<leftarrow> ignoring (SCRemove reportFile);
          State_Monad.return r
        })
   }"

definition runTrivyScan ::
  "sbom_env \<Rightarrow> string \<Rightarrow> (sbom_call, (Result list \<times> Summary) result) prog" where
  "runTrivyScan E rawSPDX = do {
     l \<leftarrow> call (se_ListVEXHubs E) SCListVEXHubs;
     (case l of
        Inl err \<Rightarrow> fail (ErrorWrap ''failed to list VEXHub'' err)
      | Inr hubs \<Rightarrow> do {
          f \<leftarrow> call (\<lambda>h. se_CreateTemp E h ''trivy.sbom.*.json'') (SCCreateTemp ''trivy.sbom.*.json'');
          (case f of
             Inl err \<Rightarrow> fail (ErrorWrap ''failed to create temporary SBOM file'' err)
           | Inr sbomFile \<Rightarrow> do {
               w \<leftarrow> call (\<lambda>h. se_Write E h sbomFile rawSPDX) (SCWrite sbomFile rawSPDX);
               r \<leftarrow> (case w of
                   Inl err \<Rightarrow> fail (ErrorWrap ''failed to write SBOM file'' err)
                 | Inr _ \<Rightarrow> scanWithReport E hubs sbomFile);
               _ \<leftarrow> ignoring (SCClose sbomFile);
               _ \<leftarrow> ignoring (SCRemove sbomFile);
               State_Monad.return r
             })
        })
   }"

text \<open>The function that \<open>CreateOrUpdate\<close> applies to the report.\<close>

definition fillReport ::
  "string \<Rightarrow> Registry \<Rightarrow> SBOM \<Rightarrow> Result list \<times> Summary \<Rightarrow> VulnerabilityReport \<Rightarrow> VulnerabilityReport" where
  "fillReport scanJobUID registry sbom scanned v =
    v\<lparr>vr_meta := (vr_meta v)\<lparr>om_Labels := workloadLabels registry
        [(LabelScanJobUIDKey, scanJobUID), (LabelManagedByKey, LabelManagedByValue),
         (LabelPartOfKey, LabelPartOfValue)]\<rparr>,
      vr_ImageMetadata := sb_ImageMetadata sbom,
      vr_Report := \<lparr>rp_Summary = snd scanned, rp_Results = fst scanned\<rparr>\<rparr>"

definition newReport :: "ScanSBOMMessage \<Rightarrow> VulnerabilityReport" where
  "newReport msg =
    \<lparr>vr_meta = empty_meta\<lparr>om_Name := ob_Name (sm_SBOM msg), om_Namespace := ob_Namespace (sm_SBOM msg)\<rparr>,
     vr_ImageMetadata = \<lparr>md_Registry = [], md_RegistryURI = [], md_Repository = [], md_Tag = [],
       md_Platform = [], md_Digest = [], md_IndexDigest = []\<rparr>,
     vr_Report = \<lparr>rp_Summary = empty_summary, rp_Results = []\<rparr>\<rparr>"

definition storeReport ::
  "sbom_env \<Rightarrow> ScanSBOMMessage \<Rightarrow> Registry \<Rightarrow> SBOM \<Rightarrow> Result list \<times> Summary
     \<Rightarrow> (sbom_call, unit result) prog" where
  "storeReport E msg registry sbom scanned =
    (case se_SetReportOwner E sbom (newReport msg) of
       Inl err \<Rightarrow> fail (ErrorWrap ''failed to set owner reference'' err)
     | Inr owned \<Rightarrow> do {
         r \<leftarrow> se_CreateOrUpdate E owned (fillReport (ob_UID (bm_ScanJob msg)) registry sbom scanned);
         State_Monad.return
           (map_sum (ErrorWrap ''failed to create or update vulnerability report'') id r)
       })"

definition imageScanned :: "SBOM \<Rightarrow> 'a result \<Rightarrow> sbom_call" where
  "imageScanned sbom r =
    SCMetric [md_RegistryURI (sb_ImageMetadata sbom), case r of Inl _ \<Rightarrow> ''error'' | Inr _ \<Rightarrow> ''success'']"

definition scanForJob ::
  "sbom_env \<Rightarrow> ScanSBOMMessage \<Rightarrow> ScanJob \<Rightarrow> (sbom_call, unit result) prog" where
  "scanForJob E msg scanJob =
    (case registryFromScanJob (se_unmarshalRegistry E) scanJob of
       Inl err \<Rightarrow> fail err
     | Inr registry \<Rightarrow> do {
         s \<leftarrow> call (\<lambda>h. se_GetSBOM E h (object_key (sm_SBOM msg))) (SCGetSBOM (object_key (sm_SBOM msg)));
         (case s of
            Inl err \<Rightarrow> if IsNotFound err then ok () else fail (ErrorWrap ''failed to get SBOM'' err)
          | Inr sbom \<Rightarrow> do {
              r \<leftarrow> runTrivyScan E (sb_SPDX sbom);
              _ \<leftarrow> ignoring (imageScanned sbom r);
              (case r of
                 Inl err \<Rightarrow> fail err
               | Inr scanned \<Rightarrow> storeReport E msg registry sbom scanned)
            })
       })"

definition ScanSBOMHandler_Handle :: "sbom_env \<Rightarrow> string \<Rightarrow> (sbom_call, unit result) prog" where
  "ScanSBOMHandler_Handle E data =
    (case se_unmarshalScan E data of
       Inl err \<Rightarrow> fail (ErrorWrap ''failed to unmarshal scan job message'' err)
     | Inr msg \<Rightarrow> do {
         j \<leftarrow> call (\<lambda>h. se_GetScanJob E h (object_key (bm_ScanJob msg)))
                (SCGetScanJob (object_key (bm_ScanJob msg)));
         (case j of
            Inl err \<Rightarrow> if IsNotFound err then ok () else fail (ErrorWrap ''failed to get ScanJob'' err)
          | Inr scanJob \<Rightarrow>
              if om_UID (sj_meta scanJob) \<noteq> ob_UID (bm_ScanJob msg) then ok ()
              else if ScanJob_IsFailed (se_meta E) scanJob then ok ()
              else scanForJob E msg scanJob)
       })"

section \<open>Failures\<close>

text \<open>The function retried on conflicts; the flag is \<open>wasFinished\<close>.\<close>

definition failAttempt ::
  "sbom_env \<Rightarrow> BaseMessage \<Rightarrow> string \<Rightarrow> (sbom_call, (ScanJob \<times> bool) result) prog" where
  "failAttempt E msg errorMessage = do {
     j \<leftarrow> call (\<lambda>h. se_GetScanJob E h (object_key (bm_ScanJob msg)))
            (SCGetScanJob (object_key (bm_ScanJob msg)));
     (case j of
        Inl err \<Rightarrow> fail (ErrorWrap (''cannot get scanjob '' @ ob_Namespace (bm_ScanJob msg) @ ''/''
                                   @ ob_Name (bm_ScanJob msg)) err)
      | Inr scanJob \<Rightarrow> do {
          now \<leftarrow> call (se_Now E) SCNow;
          let wasFinished = JobFinished (ScanJob_view (se_meta E) scanJob);
          let failed = ScanJob_MarkFailed (se_meta E) now ReasonScanJobInternalError errorMessage scanJob;
          u \<leftarrow> call (\<lambda>h. se_UpdateStatus E h failed) (SCUpdateStatus failed);
          State_Monad.return (map_sum id (\<lambda>persisted. (persisted, wasFinished)) u)
        })
   }"

definition ScanJobFailureHandler_HandleFailure ::
  "sbom_env \<Rightarrow> string \<Rightarrow> string \<Rightarrow> (sbom_call, unit result) prog" where
  "ScanJobFailureHandler_HandleFailure E data errorMessage =
    (case se_unmarshalBase E data of
       Inl err \<Rightarrow> fail (ErrorWrap ''failed to unmarshal base message'' err)
     | Inr msg \<Rightarrow> do {
         r \<leftarrow> se_RetryOnConflict E (failAttempt E msg errorMessage);
         (case r of
            Inl err \<Rightarrow>
              if IsNotFound err then ok ()
              else fail (ErrorWrap (''failed to update ScanJob '' @ ob_Namespace (bm_ScanJob msg) @ ''/''
                     @ ob_Name (bm_ScanJob msg) @ '' status to failed'') err)
          | Inr (scanJob, wasFinished) \<Rightarrow>
              (case (if wasFinished then None else RecordScanJobFinished (se_meta E) scanJob) of
                 None \<Rightarrow> ok ()
               | Some labels \<Rightarrow> do {
                   _ \<leftarrow> ignoring (SCMetric [fst labels, snd labels]);
                   ok ()
                 }))
       })"

end
