(* ===== verification/Sbom_Correct.thy ===== *)
theory Sbom_Correct
  imports Sbom_Handlers Reports_Correct Catalog_Correct
begin

text \<open>
  The SBOM handlers: what is created, scanned and published belongs to the job of the message, and
  what is stored in a vulnerability report is consistent.
\<close>

section \<open>Generating\<close>

text \<open>The job of a message as the handler read it: present, the same instance, and not failed.\<close>

definition current_job :: "sbom_env \<Rightarrow> ObjectRef \<Rightarrow> ScanJob \<Rightarrow> Registry \<Rightarrow> bool" where
  "current_job E ref job registry \<longleftrightarrow>
    (\<exists>h. se_GetScanJob E h (object_key ref) = Inr job)
    \<and> om_UID (sj_meta job) = ob_UID ref \<and> \<not> ScanJob_IsFailed (se_meta E) job
    \<and> registryFromScanJob (se_unmarshalRegistry E) job = Inr registry"

text \<open>Where the SPDX document of an image comes from.\<close>

definition spdx_of :: "sbom_env \<Rightarrow> Image \<Rightarrow> string \<Rightarrow> bool" where
  "spdx_of E img spdx \<longleftrightarrow>
    (\<exists>h e es. se_ListSBOMs E h (om_Namespace (im_meta img)) (md_Digest (im_ImageMetadata img)) = Inr (e # es)
       \<and> spdx = sb_SPDX e)
    \<or> (\<exists>h f. se_ReadAll E h f = Inr spdx)"

fun generate_ok :: "sbom_env \<Rightarrow> GenerateSBOMMessage \<Rightarrow> ScanJob \<Rightarrow> Registry \<Rightarrow> Image \<Rightarrow> sbom_call \<Rightarrow> bool" where
  "generate_ok E msg job registry img (SCCreateSBOM sbom) \<longleftrightarrow>
    sb_ImageMetadata sbom = im_ImageMetadata img
    \<and> om_Name (sb_meta sbom) = ob_Name (gm_Image msg) \<and> om_Namespace (sb_meta sbom) = ob_Namespace (gm_Image msg)
    \<and> spdx_of E img (sb_SPDX sbom)"
| "generate_ok E msg job registry img (SCPublish subject ident payload) \<longleftrightarrow>
    subject = ScanSBOMSubject \<and> ident = scanMessageID job msg \<and> se_marshalScan E (scanMessage msg) = Inr payload"
| "generate_ok E msg job registry img (SCTrivy args) \<longleftrightarrow> last args = imageReference img"
| "generate_ok E msg job registry img (SCAccess c) \<longleftrightarrow>
    reads_in (lookup_namespace registry (se_installationNamespace E)) c"
| "generate_ok E msg job registry img (SCUpdateStatus _) \<longleftrightarrow> False"
| "generate_ok E msg job registry img (SCCreateReport _) \<longleftrightarrow> False"
| "generate_ok E msg job registry img (SCUpdateReport _) \<longleftrightarrow> False"
| "generate_ok E msg job registry img _ \<longleftrightarrow> True"

lemma executeImage_emits: "emits (generate_ok E msg job registry img) (executeImage E img f args)"
  unfolding executeImage_def Let_def by (intro emits_intros) simp_all

lemma executeWithBundle_emits:
  "emits (generate_ok E msg job registry img) (executeWithBundle E img f args b)"
  unfolding executeWithBundle_def by (intro emits_intros executeImage_emits) simp_all

lemma spdxWithAccess_emits:
  "emits (generate_ok E msg job registry img) (spdxWithAccess E img registry f)"
  unfolding spdxWithAccess_def Let_def
  by (intro emits_intros executeImage_emits executeWithBundle_emits emits_embed[OF emits_Resolve]) simp_all

lemma generateSPDX_emits: "emits (generate_ok E msg job registry img) (generateSPDX E img registry)"
  unfolding generateSPDX_def spdxWithAuth_def
  by (intro emits_intros spdxWithAccess_emits emits_embed[OF emits_BuildDockerConfig]) simp_all

abbreviation read_by_trivy :: "sbom_env \<Rightarrow> string result \<Rightarrow> bool" where
  "read_by_trivy E \<equiv> pred_sum (\<lambda>_. True) (\<lambda>spdx. \<exists>h f. se_ReadAll E h f = Inr spdx)"

text \<open>Deferred calls do not change the result.\<close>

lemma yields_deferred:
  assumes "yields Q m"
  shows "yields Q (do { r \<leftarrow> m; _ \<leftarrow> d; State_Monad.return r })"
    "yields Q (do { r \<leftarrow> m; _ \<leftarrow> d; _ \<leftarrow> d'; State_Monad.return r })"
  by (rule yields_bind[OF assms], intro yields_intros, assumption)+

lemma executeImage_yields: "yields (read_by_trivy E) (executeImage E img f args)"
proof -
  have "yields (read_by_trivy E) (call (\<lambda>h. se_ReadAll E h f) (SCReadAll f))"
    by (rule yields_call, rule pred_sum_InrI) blast
  then show ?thesis
    unfolding executeImage_def Let_def
    by (intro yields_intros yields_bind[OF \<open>yields _ (call _ (SCReadAll f))\<close>])
      (simp_all add: sum.pred_map comp_def)
qed

lemma executeWithBundle_yields: "yields (read_by_trivy E) (executeWithBundle E img f args b)"
  unfolding executeWithBundle_def
  by (intro yields_deferred yields_intros executeImage_yields) simp_all

lemma generateSPDX_yields: "yields (read_by_trivy E) (generateSPDX E img registry)"
  unfolding generateSPDX_def spdxWithAuth_def spdxWithAccess_def Let_def
  by (intro yields_deferred yields_intros executeImage_yields executeWithBundle_yields) simp_all

text \<open>Setting the owner of an SBOM changes its owner references only.\<close>

definition owner_contract :: "sbom_env \<Rightarrow> bool" where
  "owner_contract E \<longleftrightarrow>
    (\<forall>img sbom sbom'. se_SetSBOMOwner E img sbom = Inr sbom' \<longrightarrow>
       (\<exists>refs. sbom' = sbom\<lparr>sb_meta := (sb_meta sbom)\<lparr>om_OwnerReferences := refs\<rparr>\<rparr>))"

abbreviation sbom_for :: "sbom_env \<Rightarrow> GenerateSBOMMessage \<Rightarrow> ScanJob \<Rightarrow> Registry \<Rightarrow> Image \<Rightarrow> SBOM result \<Rightarrow> bool" where
  "sbom_for E msg job registry img \<equiv>
    pred_sum (\<lambda>_. True) (\<lambda>sbom. generate_ok E msg job registry img (SCCreateSBOM sbom))"

lemma owned_sbom_ok:
  assumes "owner_contract E" "spdx_of E img spdx"
  shows "sbom_for E msg job registry img (map_sum w id (se_SetSBOMOwner E img (newSBOM msg img registry spdx)))"
proof (cases "se_SetSBOMOwner E img (newSBOM msg img registry spdx)")
  case (Inr sbom')
  with assms(1) obtain refs where "sbom' = (newSBOM msg img registry spdx)
      \<lparr>sb_meta := (sb_meta (newSBOM msg img registry spdx))\<lparr>om_OwnerReferences := refs\<rparr>\<rparr>"
    unfolding owner_contract_def by blast
  with assms(2) Inr show ?thesis by (simp add: newSBOM_def)
qed simp

lemma getOrGenerateSBOM_yields:
  assumes "owner_contract E"
  shows "yields (sbom_for E msg job registry img) (getOrGenerateSBOM E img registry msg)"
proof -
  let ?ns = "om_Namespace (im_meta img)" and ?d = "md_Digest (im_ImageMetadata img)"
  have found: "yields (pred_sum (\<lambda>_. True) (\<lambda>e. spdx_of E img (sb_SPDX e))) (findSBOMByDigest E ?d ?ns)"
    unfolding findSBOMByDigest_def
  proof (rule yields_bind)
    show "yields (pred_sum (\<lambda>_. True) (\<lambda>es. \<forall>e es'. es = e # es' \<longrightarrow> spdx_of E img (sb_SPDX e)))
        (call (\<lambda>h. se_ListSBOMs E h ?ns ?d) (SCListSBOMs ?ns ?d))"
      by (rule yields_call, rule pred_sum_InrI) (auto simp: spdx_of_def)
  qed (auto split: sum.splits list.splits)
  have "yields (pred_sum (\<lambda>_. True) (spdx_of E img)) (generateSPDX E img registry)"
    by (rule yields_mono[OF generateSPDX_yields]) (auto simp: spdx_of_def elim!: sum.pred_mono_strong)
  then show ?thesis
    unfolding getOrGenerateSBOM_def
    by (intro yields_bind[OF found] yields_bind[of "pred_sum (\<lambda>_. True) (spdx_of E img)"])
      (auto intro!: yields_intros owned_sbom_ok[OF assms] simp del: generate_ok.simps split: sum.splits)
qed

lemma getOrGenerateSBOM_emits:
  "emits (generate_ok E msg job registry img) (getOrGenerateSBOM E img registry msg)"
  unfolding getOrGenerateSBOM_def findSBOMByDigest_def
  by (intro emits_intros generateSPDX_emits) simp_all

lemma storeSBOM_emits:
  assumes "generate_ok E msg job registry img (SCCreateSBOM sbom)"
  shows "emits (generate_ok E msg job registry img) (storeSBOM E msg job sbom)"
  unfolding storeSBOM_def by (intro emits_intros) (use assms in simp_all)

text \<open>Only reads precede the decision to generate.\<close>

fun read_call :: "sbom_call \<Rightarrow> bool" where
  "read_call (SCGetScanJob _) = True"
| "read_call (SCGetImage _) = True"
| "read_call _ = False"

definition generates :: "sbom_env \<Rightarrow> GenerateSBOMMessage \<Rightarrow> sbom_call \<Rightarrow> bool" where
  "generates E msg c \<longleftrightarrow> read_call c \<or>
    (\<exists>job registry img h. current_job E (bm_ScanJob msg) job registry
       \<and> se_GetImage E h (object_key (gm_Image msg)) = Inr img
       \<and> generate_ok E msg job registry img c)"

lemma generateForJob_emits:
  assumes "owner_contract E" "\<exists>h. se_GetScanJob E h (object_key (bm_ScanJob msg)) = Inr job"
    "om_UID (sj_meta job) = ob_UID (bm_ScanJob msg)" "\<not> ScanJob_IsFailed (se_meta E) job"
  shows "emits (generates E msg) (generateForJob E msg job)"
proof -
  have image: "yields (pred_sum (\<lambda>_. True) (\<lambda>img. \<exists>h. se_GetImage E h (object_key (gm_Image msg)) = Inr img))
      (call (\<lambda>h. se_GetImage E h (object_key (gm_Image msg))) (SCGetImage (object_key (gm_Image msg))))"
    by (rule yields_call, rule pred_sum_InrI) blast
  have run: "emits (generates E msg) (do {
        s \<leftarrow> getOrGenerateSBOM E img registry msg;
        (case s of Inl err \<Rightarrow> fail (ErrorWrap ''failed to get or generate SBOM'' err)
         | Inr sbom \<Rightarrow> storeSBOM E msg job sbom) })"
    if img: "\<exists>h. se_GetImage E h (object_key (gm_Image msg)) = Inr img"
      and reg: "registryFromScanJob (se_unmarshalRegistry E) job = Inr registry" for img registry
  proof -
    have "current_job E (bm_ScanJob msg) job registry"
      using assms(2-4) reg by (auto simp: current_job_def)
    with img have ok: "generate_ok E msg job registry img c \<Longrightarrow> generates E msg c" for c
      by (auto simp: generates_def)
    show ?thesis
      by (rule emits_bind_yields[OF emits_mono[OF getOrGenerateSBOM_emits ok]
            getOrGenerateSBOM_yields[OF assms(1), of msg job registry img]])
        (auto intro!: emits_intros emits_mono[OF storeSBOM_emits ok] split: sum.splits
          simp del: generate_ok.simps)
  qed
  show ?thesis
    unfolding generateForJob_def
    by (rule emits_bind_yields[OF _ image])
      (auto intro!: emits_intros run simp: generates_def split: sum.splits)
qed

lemma GenerateSBOMHandler_emits:
  assumes "owner_contract E" "se_unmarshalGenerate E data = Inr msg"
  shows "emits (generates E msg) (GenerateSBOMHandler_Handle E data)"
proof -
  have job: "yields (pred_sum (\<lambda>_. True) (\<lambda>job. \<exists>h. se_GetScanJob E h (object_key (bm_ScanJob msg)) = Inr job))
      (call (\<lambda>h. se_GetScanJob E h (object_key (bm_ScanJob msg))) (SCGetScanJob (object_key (bm_ScanJob msg))))"
    by (rule yields_call, rule pred_sum_InrI) blast
  show ?thesis
    unfolding GenerateSBOMHandler_Handle_def assms(2) sum.case
    by (rule emits_bind_yields[OF _ job])
      (auto intro!: emits_intros generateForJob_emits[OF assms(1)] simp: generates_def split: sum.splits)
qed

text \<open>
  C20: SBOMs are made for the job and the image of the message.  Besides reading the job and the image,
  the handler does something only after it read the job of the message, with the UID of the message
  and not failed, whose registry snapshot is the one it names, and the image.  Then an SBOM it
  creates has the name of the image, the image's metadata and the document of an SBOM with the same
  digest or the output of Trivy; Trivy runs on the image by its digest; credentials and CA bundles
  are read in the namespace of the registry; the message it publishes asks to scan that SBOM.
\<close>

theorem generate_sbom_belongs_to_job:
  assumes "owner_contract E" "se_unmarshalGenerate E data = Inr msg"
    "c \<in> set (calls (GenerateSBOMHandler_Handle E data))"
  shows "generates E msg c"
  using emits_calls[OF GenerateSBOMHandler_emits[OF assms(1,2)] assms(3)] .

section \<open>Scanning\<close>

abbreviation report_key :: "VulnerabilityReport \<Rightarrow> NamespacedName" where
  "report_key v \<equiv> (om_Namespace (vr_meta v), om_Name (vr_meta v))"

text \<open>
  What is relied on in \<open>CreateOrUpdate\<close> and \<open>SetControllerReference\<close>: the first reads the object of
  the given name and writes the result of the function on an object of that name; the second changes
  owner references only.
\<close>

definition report_contract :: "sbom_env \<Rightarrow> bool" where
  "report_contract E \<longleftrightarrow>
    (\<forall>base f. emits (\<lambda>c. c = SCGetReport (report_key base)
        \<or> (\<exists>x. report_key x = report_key base \<and> (c = SCCreateReport (f x) \<or> c = SCUpdateReport (f x))))
      (se_CreateOrUpdate E base f))
    \<and> (\<forall>sbom v v'. se_SetReportOwner E sbom v = Inr v' \<longrightarrow> report_key v' = report_key v)"

definition all_findings :: "Result list \<Rightarrow> Vulnerability list" where
  "all_findings results = concat (map re_Vulnerabilities results)"

definition report_ok :: "sbom_env \<Rightarrow> ScanSBOMMessage \<Rightarrow> VulnerabilityReport \<Rightarrow> bool" where
  "report_ok E msg v \<longleftrightarrow>
    (\<exists>job registry sbom trivy h. current_job E (bm_ScanJob msg) job registry
      \<and> se_GetSBOM E h (object_key (sm_SBOM msg)) = Inr sbom
      \<and> NewResultsFromTrivyReport (se_trivy E) trivy = Inr (rp_Results (vr_Report v))
      \<and> vr_ImageMetadata v = sb_ImageMetadata sbom)
    \<and> report_key v = object_key (sm_SBOM msg)
    \<and> map_of (om_Labels (vr_meta v)) LabelScanJobUIDKey = Some (ob_UID (bm_ScanJob msg))
    \<and> su_Suppressed (rp_Summary (vr_Report v))
        = int (length (filter vu_Suppressed (all_findings (rp_Results (vr_Report v)))))
    \<and> unsuppressed_total (rp_Summary (vr_Report v))
        = int (length (filter (\<lambda>u. \<not> vu_Suppressed u) (all_findings (rp_Results (vr_Report v)))))"

lemma foldl_Summary_Add:
  "su_Suppressed (foldl Summary_Add s vs) = su_Suppressed s + int (length (filter vu_Suppressed vs))"
  "unsuppressed_total (foldl Summary_Add s vs) = unsuppressed_total s + int (length (filter (\<lambda>u. \<not> vu_Suppressed u) vs))"
  by (induction vs arbitrary: s) (simp_all add: Summary_Add_totals)

lemma NewSummaryFromResults_totals:
  "su_Suppressed (NewSummaryFromResults results) = int (length (filter vu_Suppressed (all_findings results)))"
  "unsuppressed_total (NewSummaryFromResults results)
    = int (length (filter (\<lambda>u. \<not> vu_Suppressed u) (all_findings results)))"
  unfolding NewSummaryFromResults_def foldl_concat_map all_findings_def[symmetric] foldl_Summary_Add
  by (simp_all add: empty_summary_def)

text \<open>No report is written before the scan has ended.\<close>

fun no_report :: "sbom_call \<Rightarrow> bool" where
  "no_report (SCCreateReport _) = False"
| "no_report (SCUpdateReport _) = False"
| "no_report _ = True"

lemma runTrivyScan_emits: "emits no_report (runTrivyScan E spdx)"
  unfolding runTrivyScan_def scanWithReport_def scanWithHubs_def executeScan_def
    setupVEXHubRepositories_def Let_def
  by (intro emits_intros) simp_all

abbreviation scanned_ok :: "sbom_env \<Rightarrow> (Result list \<times> Summary) result \<Rightarrow> bool" where
  "scanned_ok E \<equiv> pred_sum (\<lambda>_. True) (\<lambda>(results, summary).
    (\<exists>trivy. NewResultsFromTrivyReport (se_trivy E) trivy = Inr results)
    \<and> summary = NewSummaryFromResults results)"

lemma runTrivyScan_yields: "yields (scanned_ok E) (runTrivyScan E spdx)"
proof -
  have "yields (scanned_ok E) (executeScan E f args)" for f args
    unfolding executeScan_def by (intro yields_intros) (auto split: sum.splits)
  then show ?thesis
    unfolding runTrivyScan_def scanWithReport_def scanWithHubs_def Let_def
    by (intro yields_deferred yields_intros yields_bind_any) simp_all
qed

lemma fillReport_ok:
  assumes "current_job E (bm_ScanJob msg) job registry" "se_GetSBOM E h (object_key (sm_SBOM msg)) = Inr sbom"
    "NewResultsFromTrivyReport (se_trivy E) trivy = Inr results"
    "report_key x = object_key (sm_SBOM msg)"
  shows "report_ok E msg (fillReport (ob_UID (bm_ScanJob msg)) registry sbom (results, NewSummaryFromResults results) x)"
  using assms unfolding report_ok_def
  by (auto simp: fillReport_def workloadLabels_def NewSummaryFromResults_totals update_conv)

definition writes_ok :: "sbom_env \<Rightarrow> ScanSBOMMessage \<Rightarrow> sbom_call \<Rightarrow> bool" where
  "writes_ok E msg c \<longleftrightarrow> (\<forall>v. c = SCCreateReport v \<or> c = SCUpdateReport v \<longrightarrow> report_ok E msg v)"

lemma no_report_writes: "no_report c \<Longrightarrow> writes_ok E msg c"
  by (cases c) (simp_all add: writes_ok_def)

lemma storeReport_emits:
  assumes "report_contract E" "current_job E (bm_ScanJob msg) job registry"
    "se_GetSBOM E h (object_key (sm_SBOM msg)) = Inr sbom"
    "NewResultsFromTrivyReport (se_trivy E) trivy = Inr results"
  shows "emits (writes_ok E msg) (storeReport E msg registry sbom (results, NewSummaryFromResults results))"
proof -
  let ?f = "fillReport (ob_UID (bm_ScanJob msg)) registry sbom (results, NewSummaryFromResults results)"
  have "emits (writes_ok E msg) (se_CreateOrUpdate E owned ?f)"
    if "se_SetReportOwner E sbom (newReport msg) = Inr owned" for owned
  proof (rule emits_mono)
    show "emits (\<lambda>c. c = SCGetReport (report_key owned) \<or> (\<exists>x. report_key x = report_key owned
        \<and> (c = SCCreateReport (?f x) \<or> c = SCUpdateReport (?f x)))) (se_CreateOrUpdate E owned ?f)"
      using assms(1) by (simp only: report_contract_def)
    have "report_key owned = object_key (sm_SBOM msg)"
      using assms(1) that by (auto simp: report_contract_def newReport_def)
    then show "writes_ok E msg c" if "c = SCGetReport (report_key owned) \<or> (\<exists>x. report_key x = report_key owned
        \<and> (c = SCCreateReport (?f x) \<or> c = SCUpdateReport (?f x)))" for c
      using that fillReport_ok[OF assms(2-4)] unfolding writes_ok_def by auto
  qed
  then show ?thesis
    unfolding storeReport_def by (intro emits_intros)
qed

lemma scanForJob_emits:
  assumes "report_contract E" "\<exists>h. se_GetScanJob E h (object_key (bm_ScanJob msg)) = Inr job"
    "om_UID (sj_meta job) = ob_UID (bm_ScanJob msg)" "\<not> ScanJob_IsFailed (se_meta E) job"
  shows "emits (writes_ok E msg) (scanForJob E msg job)"
proof -
  have sbom: "yields (pred_sum (\<lambda>_. True) (\<lambda>sbom. \<exists>h. se_GetSBOM E h (object_key (sm_SBOM msg)) = Inr sbom))
      (call (\<lambda>h. se_GetSBOM E h (object_key (sm_SBOM msg))) (SCGetSBOM (object_key (sm_SBOM msg))))"
    by (rule yields_call, rule pred_sum_InrI) blast
  have run: "emits (writes_ok E msg) (do {
        r \<leftarrow> runTrivyScan E (sb_SPDX sbom);
        _ \<leftarrow> ignoring (imageScanned sbom r);
        (case r of Inl err \<Rightarrow> fail err | Inr scanned \<Rightarrow> storeReport E msg registry sbom scanned) })"
    if "\<exists>h. se_GetSBOM E h (object_key (sm_SBOM msg)) = Inr sbom"
      and reg: "registryFromScanJob (se_unmarshalRegistry E) job = Inr registry" for sbom registry
  proof -
    from that(1) obtain h where h: "se_GetSBOM E h (object_key (sm_SBOM msg)) = Inr sbom" ..
    have "current_job E (bm_ScanJob msg) job registry"
      using assms(2-4) reg by (auto simp: current_job_def)
    note stored = storeReport_emits[OF assms(1) this h]
    have store: "emits (writes_ok E msg) (storeReport E msg registry sbom (results, NewSummaryFromResults results))"
      if "\<exists>trivy. NewResultsFromTrivyReport (se_trivy E) trivy = Inr results" for results
      using that stored by blast
    show ?thesis
      by (rule emits_bind_yields[OF emits_mono[OF runTrivyScan_emits no_report_writes] runTrivyScan_yields])
        (auto intro!: emits_intros store simp: no_report_writes imageScanned_def split: sum.splits)
  qed
  show ?thesis
  proof (cases "registryFromScanJob (se_unmarshalRegistry E) job")
    case (Inr registry)
    show ?thesis
      unfolding scanForJob_def Inr sum.case
      by (rule emits_bind_yields[OF _ sbom])
        (auto intro!: emits_intros run[OF _ Inr] simp: no_report_writes split: sum.splits)
  qed (simp add: scanForJob_def)
qed


section \<open>Failing a job\<close>

definition marks_failed :: "sbom_env \<Rightarrow> BaseMessage \<Rightarrow> string \<Rightarrow> ScanJob \<Rightarrow> bool" where
  "marks_failed E msg errorMessage failed \<longleftrightarrow>
    (\<exists>job h now. se_GetScanJob E h (object_key (bm_ScanJob msg)) = Inr job
       \<and> failed = ScanJob_MarkFailed (se_meta E) now ReasonScanJobInternalError errorMessage job)"

lemma failAttempt_emits:
  "emits (\<lambda>c. \<forall>s. c = SCUpdateStatus s \<longrightarrow> marks_failed E msg m s) (failAttempt E msg m)"
proof -
  have job: "yields (pred_sum (\<lambda>_. True) (\<lambda>job. \<exists>h. se_GetScanJob E h (object_key (bm_ScanJob msg)) = Inr job))
      (call (\<lambda>h. se_GetScanJob E h (object_key (bm_ScanJob msg))) (SCGetScanJob (object_key (bm_ScanJob msg))))"
    by (rule yields_call, rule pred_sum_InrI) blast
  show ?thesis
    unfolding failAttempt_def Let_def
    by (rule emits_bind_yields[OF _ job])
      (auto intro!: emits_intros simp: marks_failed_def split: sum.splits)
qed


section \<open>A sample environment\<close>

definition documented_CreateOrUpdate ::
  "VulnerabilityReport option \<Rightarrow> VulnerabilityReport \<Rightarrow> (VulnerabilityReport \<Rightarrow> VulnerabilityReport)
     \<Rightarrow> (sbom_call, unit result) prog" where
  "documented_CreateOrUpdate existing base f = do {
     r \<leftarrow> call (\<lambda>_. existing) (SCGetReport (report_key base));
     (case r of
        None \<Rightarrow> call (\<lambda>_. Inr ()) (SCCreateReport (f base))
      | Some v \<Rightarrow>
          if report_key v \<noteq> report_key base \<or> f v = v then ok () else call (\<lambda>_. Inr ()) (SCUpdateReport (f v)))
   }"

definition sample_image_ref :: ObjectRef where
  "sample_image_ref = \<lparr>ob_Name = ''img'', ob_Namespace = ''ns'', ob_UID = []\<rparr>"

definition sample_sbom :: SBOM where
  "sample_sbom = \<lparr>sb_meta = empty_meta\<lparr>om_Name := ''img'', om_Namespace := ''ns''\<rparr>,
     sb_ImageMetadata = im_ImageMetadata (named_image ''img''), sb_SPDX = ''spdx''\<rparr>"

definition sample_sbom_env :: sbom_env where
  "sample_sbom_env =
    \<lparr>se_GetScanJob = (\<lambda>h k. Inr sample_catalog_job), se_UpdateStatus = (\<lambda>h s. Inr s), se_Now = (\<lambda>h. 7),
     se_GetImage = (\<lambda>h k. Inr (named_image ''img'')), se_ListSBOMs = (\<lambda>h ns d. Inr []),
     se_GetSBOM = (\<lambda>h k. Inr sample_sbom), se_CreateSBOM = (\<lambda>h s. Inr ()), se_ListVEXHubs = (\<lambda>h. Inr []),
     se_CreateOrUpdate = documented_CreateOrUpdate None, se_InProgress = (\<lambda>h. Inr ()),
     se_Publish = (\<lambda>h s i p. Inr ()), se_access = sample_access, se_CreateTemp = (\<lambda>h p. Inr p),
     se_Write = (\<lambda>h f b. Inr ()), se_Close = (\<lambda>h f. Inr ()), se_MkdirTemp = (\<lambda>h. Inr ''/tmp/trivy''),
     se_MkdirAll = (\<lambda>h p. Inr ()), se_WriteFile = (\<lambda>h p b. Inr ()), se_Setenv = (\<lambda>h k v. Inr ()),
     se_Trivy = (\<lambda>h a. Inr ()), se_ReadAll = (\<lambda>h f. Inr ''spdx''), se_RetryOnConflict = retry_times 1,
     se_meta = list_meta,
     se_trivy = \<lparr>tl_FormatFloat = (\<lambda>_. []), tl_gobEncode = Inr, tl_gobDecode = (\<lambda>_. Inl (ErrorNew ''none''))\<rparr>,
     se_workDir = ''/work'', se_trivyDBRepository = ''db'', se_trivyJavaDBRepository = ''jdb'',
     se_installationNamespace = ''sys'', se_pathJoin = (\<lambda>a b. a @ ''/'' @ b),
     se_SetSBOMOwner = (\<lambda>i s. Inr s), se_SetReportOwner = (\<lambda>s v. Inr v),
     se_unmarshalGenerate = (\<lambda>d. Inr \<lparr>bm_ScanJob = bm_ScanJob sample_message, gm_Image = sample_image_ref\<rparr>),
     se_unmarshalScan = (\<lambda>d. Inr \<lparr>bm_ScanJob = bm_ScanJob sample_message, sm_SBOM = sample_image_ref\<rparr>),
     se_unmarshalBase = (\<lambda>d. Inr sample_message), se_marshalScan = (\<lambda>m. Inr (ob_Name (sm_SBOM m))),
     se_unmarshalRegistry = (\<lambda>d. Inr sample_catalog_registry), se_unmarshalTrivy = (\<lambda>b. Inr []),
     se_marshalVEX = (\<lambda>v. Inr [])\<rparr>"

lemma sample_owner: "owner_contract sample_sbom_env"
  unfolding owner_contract_def
proof (intro allI impI)
  fix img sbom sbom' assume "se_SetSBOMOwner sample_sbom_env img sbom = Inr sbom'"
  then show "\<exists>refs. sbom' = sbom\<lparr>sb_meta := (sb_meta sbom)\<lparr>om_OwnerReferences := refs\<rparr>\<rparr>"
    by (intro exI[of _ "om_OwnerReferences (sb_meta sbom)"]) (simp add: sample_sbom_env_def)
qed

lemma documented_contract:
  "emits (\<lambda>c. c = SCGetReport (report_key base)
      \<or> (\<exists>x. report_key x = report_key base \<and> (c = SCCreateReport (f x) \<or> c = SCUpdateReport (f x))))
    (documented_CreateOrUpdate existing base f)"
  unfolding documented_CreateOrUpdate_def by (intro emits_intros) auto

lemma sample_report_contract: "report_contract sample_sbom_env"
proof -
  have "se_CreateOrUpdate sample_sbom_env = documented_CreateOrUpdate None"
    "se_SetReportOwner sample_sbom_env = (\<lambda>s. Inr)"
    by (simp_all add: sample_sbom_env_def)
  then show ?thesis
    using documented_contract unfolding report_contract_def by simp
qed

theorem generate_sbom_belongs_to_job_witness:
  "generates sample_sbom_env \<lparr>bm_ScanJob = bm_ScanJob sample_message, gm_Image = sample_image_ref\<rparr>
     (SCPublish ScanSBOMSubject ''scanSBOM/u1/img'' ''img'')"
proof (rule generate_sbom_belongs_to_job[OF sample_owner])
  show "se_unmarshalGenerate sample_sbom_env []
      = Inr \<lparr>bm_ScanJob = bm_ScanJob sample_message, gm_Image = sample_image_ref\<rparr>"
    by (simp add: sample_sbom_env_def)
  show "SCPublish ScanSBOMSubject ''scanSBOM/u1/img'' ''img''
      \<in> set (calls (GenerateSBOMHandler_Handle sample_sbom_env []))"
    by code_simp
qed

definition written_report :: VulnerabilityReport where
  "written_report = fillReport ''u1'' sample_catalog_registry sample_sbom ([], empty_summary)
     (newReport \<lparr>bm_ScanJob = bm_ScanJob sample_message, sm_SBOM = sample_image_ref\<rparr>)"



end
