(* ===== verification/Messaging.thy ===== *)
theory Messaging
  imports Complex_Main Prelude
begin

text \<open>
  The subscriber of the worker: \<open>src/internal/messaging/subscriber.go\<close>.  Handlers and the failure
  handler are programs over any calls; the acknowledgements of the message are calls of their own.
  A message that is not acknowledged is delivered again with the next delivery count, which is what
  JetStream does without a limit on deliveries.

  \<open>float64\<close> values are rational numbers, so rounding is not in the model; the conversion to
  \<open>time.Duration\<close> truncates, and its value outside of 64 bits is a parameter.
\<close>

section \<open>Configuration\<close>

definition maxDeliver :: nat where "maxDeliver = 5"

record RetryConfig =
  rc_BaseDelay :: int
  rc_Jitter :: rat
  rc_MaxAttempts :: int

datatype 'c sub_call = Inner 'c | SubAck | SubNak | SubNakWithDelay int

fun inner :: "'c sub_call \<Rightarrow> 'c option" where
  "inner (Inner c) = Some c"
| "inner _ = None"

text \<open>A message with the answer of its \<open>Metadata\<close> for the n-th delivery.\<close>

record Msg =
  mg_Subject :: string
  mg_Data :: string
  mg_Metadata :: "nat \<Rightarrow> nat result"

text \<open>\<open>sub_rand\<close> is \<open>rand.Float64\<close>.\<close>

record 'c subscriber =
  sub_handlers :: "(string \<times> (string \<Rightarrow> ('c, unit result) prog)) list"
  sub_failureHandler :: "string \<Rightarrow> string \<Rightarrow> ('c, unit result) prog"
  sub_retryConfig :: RetryConfig
  sub_rand :: "'c sub_call list \<Rightarrow> rat"
  sub_overflow :: "rat \<Rightarrow> int"
  sub_errorText :: "error \<Rightarrow> string"

section \<open>Operations\<close>

definition toDuration :: "(rat \<Rightarrow> int) \<Rightarrow> rat \<Rightarrow> int" where
  "toDuration overflow x =
    (let t = (if 0 \<le> x then \<lfloor>x\<rfloor> else \<lceil>x\<rceil>)
     in if - (2 ^ 63) \<le> t \<and> t < 2 ^ 63 then t else overflow x)"

definition backoffDelay :: "RetryConfig \<Rightarrow> (rat \<Rightarrow> int) \<Rightarrow> rat \<Rightarrow> int \<Rightarrow> int" where
  "backoffDelay cfg overflow random attempt =
    (let base = of_int (rc_BaseDelay cfg);
         delay = base * 2 powi (attempt - 1);
         jittered = (if rc_Jitter cfg > 0
                     then (let d = delay + delay * (rc_Jitter cfg * (random * 2 - 1)) in if d < 0 then 0 else d)
                     else delay)
     in toDuration overflow jittered)"

definition handleMessage ::
  "'c subscriber \<Rightarrow> string \<Rightarrow> string \<Rightarrow> ('c sub_call, unit result) prog" where
  "handleMessage S subject data =
    (case map_of (sub_handlers S) subject of
       None \<Rightarrow> fail (ErrorNew (''no handler found for subject: '' @ subject))
     | Some handler \<Rightarrow> do {
         r \<leftarrow> embed Inner inner (handler data);
         State_Monad.return (map_sum (ErrorWrap (''failed to handle message on subject '' @ subject)) id r)
       })"

text \<open>How a delivery ends.\<close>

datatype outcome = Handled | GaveUp | Retried int | Unreadable

definition handleFailure ::
  "'c subscriber \<Rightarrow> Msg \<Rightarrow> nat \<Rightarrow> error \<Rightarrow> ('c sub_call, outcome) prog" where
  "handleFailure S msg numDelivered processingErr =
    (if numDelivered \<ge> maxDeliver
     then do {
       _ \<leftarrow> embed Inner inner (sub_failureHandler S (mg_Data msg) (sub_errorText S processingErr));
       _ \<leftarrow> call (\<lambda>_. ()) SubAck;
       State_Monad.return GaveUp
     }
     else do {
       random \<leftarrow> State (\<lambda>h. (sub_rand S h, h));
       let delay = backoffDelay (sub_retryConfig S) (sub_overflow S) random (int numDelivered);
       _ \<leftarrow> call (\<lambda>_. ()) (SubNakWithDelay delay);
       State_Monad.return (Retried delay)
     })"

text \<open>The callback that \<open>Run\<close> gives to the consumer, for the n-th delivery.\<close>

definition onMessage :: "'c subscriber \<Rightarrow> Msg \<Rightarrow> nat \<Rightarrow> ('c sub_call, outcome) prog" where
  "onMessage S msg n =
    (case mg_Metadata msg n of
       Inl err \<Rightarrow> do {
         _ \<leftarrow> call (\<lambda>_. ()) SubNak;
         State_Monad.return Unreadable
       }
     | Inr numDelivered \<Rightarrow> do {
         r \<leftarrow> handleMessage S (mg_Subject msg) (mg_Data msg);
         (case r of
            Inl err \<Rightarrow> handleFailure S msg numDelivered err
          | Inr _ \<Rightarrow> do {
              _ \<leftarrow> call (\<lambda>_. ()) SubAck;
              State_Monad.return Handled
            })
       })"

text \<open>The deliveries of a message until it is acknowledged; they need not end.\<close>

definition acknowledged :: "outcome \<Rightarrow> bool" where
  "acknowledged out \<longleftrightarrow> out = Handled \<or> out = GaveUp"

partial_function (option) deliveries ::
  "'c subscriber \<Rightarrow> Msg \<Rightarrow> nat \<Rightarrow> 'c sub_call list \<Rightarrow> (outcome list \<times> 'c sub_call list) option" where
  "deliveries S msg n h =
    (case run_state (onMessage S msg n) h of
       (out, h') \<Rightarrow>
         if acknowledged out then Some ([out], h')
         else Option.bind (deliveries S msg (n + 1) h') (\<lambda>(outs, h2). Some (out # outs, h2)))"

section \<open>Lemmas\<close>

lemma onMessage_outcome:
  assumes "run_state (onMessage S msg n) h = (out, h')" "mg_Metadata msg n = Inr n"
  shows "out = Handled \<or> (out = GaveUp \<and> maxDeliver \<le> n)
    \<or> (n < maxDeliver \<and> (\<exists>random \<in> range (sub_rand S).
         out = Retried (backoffDelay (sub_retryConfig S) (sub_overflow S) random (int n))))"
  using assms
  by (auto simp: onMessage_def handleFailure_def Let_def split: prod.splits sum.splits if_splits)

text \<open>The outcomes from the n-th delivery on.\<close>

definition delivered_from :: "'c subscriber \<Rightarrow> nat \<Rightarrow> outcome list \<Rightarrow> bool" where
  "delivered_from S n outs \<longleftrightarrow>
    outs \<noteq> [] \<and> n + length outs \<le> Suc maxDeliver
    \<and> (last outs = Handled \<or> last outs = GaveUp \<and> n + length outs = Suc maxDeliver)
    \<and> (\<forall>i < length outs - 1. \<exists>random \<in> range (sub_rand S).
         outs ! i = Retried (backoffDelay (sub_retryConfig S) (sub_overflow S) random (int (n + i))))"

lemma deliveries_end:
  assumes "\<And>n. mg_Metadata msg n = Inr n" "n \<le> maxDeliver"
  shows "\<exists>outs h'. deliveries S msg n h = Some (outs, h') \<and> delivered_from S n outs"
  using assms(2)
proof (induction "maxDeliver - n" arbitrary: n h)
  case 0
  obtain out h' where r: "run_state (onMessage S msg n) h = (out, h')" by fastforce
  with 0 onMessage_outcome[OF r assms(1)] have out: "out = Handled \<or> out = GaveUp" by auto
  then have "deliveries S msg n h = Some ([out], h')"
    using r by (subst deliveries.simps) (auto simp: acknowledged_def)
  moreover have "delivered_from S n [out]"
    using 0 out by (auto simp: delivered_from_def)
  ultimately show ?case by blast
next
  case (Suc k)
  obtain out h' where r: "run_state (onMessage S msg n) h = (out, h')" by fastforce
  show ?case
  proof (cases "out = Handled")
    case True
    then have "deliveries S msg n h = Some ([out], h')"
      using r by (subst deliveries.simps) (auto simp: acknowledged_def)
    moreover have "delivered_from S n [out]" using True Suc.prems by (simp add: delivered_from_def)
    ultimately show ?thesis by blast
  next
    case False
    with onMessage_outcome[OF r assms(1)] Suc.hyps(2)
    obtain random where random: "random \<in> range (sub_rand S)"
      "out = Retried (backoffDelay (sub_retryConfig S) (sub_overflow S) random (int n))" by auto
    have "k = maxDeliver - (n + 1)" "n + 1 \<le> maxDeliver" using Suc.hyps(2) by simp_all
    from Suc.hyps(1)[OF this, of h'] obtain outs h2
      where rest: "deliveries S msg (n + 1) h' = Some (outs, h2)" "delivered_from S (n + 1) outs"
      by (elim exE conjE) (rule that)
    have "deliveries S msg n h = Some (out # outs, h2)"
      using r rest(1) random(2) by (subst deliveries.simps) (simp add: acknowledged_def)
    moreover have "delivered_from S n (out # outs)"
      unfolding delivered_from_def
    proof (intro conjI allI impI)
      fix i assume i: "i < length (out # outs) - 1"
      show "\<exists>random\<in>range (sub_rand S). (out # outs) ! i
          = Retried (backoffDelay (sub_retryConfig S) (sub_overflow S) random (int (n + i)))"
      proof (cases i)
        case 0
        with random show ?thesis by auto
      next
        case (Suc j)
        with i rest(2) show ?thesis by (auto simp: delivered_from_def)
      qed
    qed (use rest(2) in \<open>auto simp: delivered_from_def\<close>)
    ultimately show ?thesis by blast
  qed
qed


definition sample_msg :: Msg where
  "sample_msg = \<lparr>mg_Subject = ''s'', mg_Data = [], mg_Metadata = Inr\<rparr>"

definition sample_subscriber :: "string subscriber" where
  "sample_subscriber =
    \<lparr>sub_handlers = [(''s'', \<lambda>d. call (\<lambda>_. Inl (ErrorNew ''broken'')) ''handle'')],
     sub_failureHandler = (\<lambda>d e. call (\<lambda>_. Inr ()) ''fail''),
     sub_retryConfig = \<lparr>rc_BaseDelay = 5000000000, rc_Jitter = 1 / 5, rc_MaxAttempts = 5\<rparr>,
     sub_rand = (\<lambda>h. 1 / 2), sub_overflow = (\<lambda>_. 0), sub_errorText = (\<lambda>_. [])\<rparr>"


section \<open>The delay\<close>

lemma jitter_bounds:
  fixes d j r :: rat
  assumes "0 \<le> d" "0 \<le> j" "j \<le> 1" "0 \<le> r" "r < 1"
  shows "d * (1 - j) \<le> d + d * (j * (r * 2 - 1))" "d + d * (j * (r * 2 - 1)) \<le> d * (1 + j)"
proof -
  have "j * (- 1) \<le> j * (r * 2 - 1)" "j * (r * 2 - 1) \<le> j * 1"
    using assms by (intro mult_left_mono; simp)+
  then have "d * (- j) \<le> d * (j * (r * 2 - 1))" "d * (j * (r * 2 - 1)) \<le> d * j"
    using assms(1) by (intro mult_left_mono; simp)+
  then show "d * (1 - j) \<le> d + d * (j * (r * 2 - 1))" "d + d * (j * (r * 2 - 1)) \<le> d * (1 + j)"
    by (simp_all add: algebra_simps)
qed



end
