(* ===== verification/Workload_Scan.thy ===== *)
theory Workload_Scan
  imports Reports
begin

text \<open>
  The workload scan controller, which keeps a Registry for every registry that the pods of a
  namespace pull from and a WorkloadScanReport for every workload:
  \<open>src/internal/controller/workloadscan_controller.go\<close>, \<open>workloadscan_controller_registry.go\<close>,
  \<open>workloadscan_controller_report.go\<close>, \<open>workloadscan_watch_helpers.go\<close>, and the controller that
  writes the reports of an image into its status, \<open>image_workloadscan_controller.go\<close>,
  \<open>image_workloadscan_watch_helpers.go\<close> and the keys of \<open>indexer.go\<close>.

  A \<open>sets.Set\<close> is a list without repetition and a map is an association list; the order stands for
  the arbitrary order in which Go iterates over them.  A nil map is the empty one.
\<close>

section \<open>The environment\<close>

record Container =
  ctr_Name :: string
  ctr_Image :: string

record Pod =
  pod_meta :: ObjectMeta
  pod_InitContainers :: "Container list"
  pod_Containers :: "Container list"

type_synonym repositoryTags = "(string \<times> string list) list"

record matchConditionKey =
  mk_repository :: string
  mk_name :: string
  mk_expression :: string

datatype workload_call =
    WLGetConfig
  | WLGetNamespace string
  | WLListPods string
  | WLListRegistries "string option"
  | WLUpdateRegistry Registry
  | WLCreateRegistry Registry
  | WLDeleteRegistry Registry
  | WLNewUUID
  | WLListReports "string option"
  | WLGetReport NamespacedName
  | WLCreateReport WorkloadScanReport
  | WLPatchReport WorkloadScanReport
  | WLDeleteReport WorkloadScanReport
  | WLGetOwner string NamespacedName

text \<open>
  Registries are listed with the labels of workload scan, reports with the label of the scanner; the
  argument is the namespace, or \<open>None\<close> for all of them.  \<open>we_GetOwner\<close> reads the metadata of a
  ReplicaSet or Job; \<open>we_CreateOrPatch\<close> is \<open>controllerutil.CreateOrPatch\<close> on a report, given the
  object and the function that mutates it; \<open>we_quote\<close> is the verb \<open>%q\<close>.
\<close>

record workload_env =
  we_GetConfig :: "workload_call list \<Rightarrow> WorkloadScanConfiguration result"
  we_GetNamespace :: "workload_call list \<Rightarrow> string \<Rightarrow> string_map result"
  we_ListPods :: "workload_call list \<Rightarrow> string \<Rightarrow> Pod list result"
  we_ListRegistries :: "workload_call list \<Rightarrow> string option \<Rightarrow> Registry list result"
  we_UpdateRegistry :: "workload_call list \<Rightarrow> Registry \<Rightarrow> unit result"
  we_CreateRegistry :: "workload_call list \<Rightarrow> Registry \<Rightarrow> unit result"
  we_DeleteRegistry :: "workload_call list \<Rightarrow> Registry \<Rightarrow> unit result"
  we_NewUUID :: "workload_call list \<Rightarrow> string"
  we_ListReports :: "workload_call list \<Rightarrow> string option \<Rightarrow> WorkloadScanReport list result"
  we_DeleteReport :: "workload_call list \<Rightarrow> WorkloadScanReport \<Rightarrow> unit result"
  we_GetOwner :: "workload_call list \<Rightarrow> string \<Rightarrow> NamespacedName \<Rightarrow> ObjectMeta result"
  we_CreateOrPatch :: "WorkloadScanReport \<Rightarrow> (WorkloadScanReport \<Rightarrow> WorkloadScanReport)
     \<Rightarrow> (workload_call, unit result) prog"
  we_GetControllerOf :: "ObjectMeta \<Rightarrow> OwnerReference option"
  we_selector :: "LabelSelector \<Rightarrow> (string_map \<Rightarrow> bool) result"
  we_ParseReference :: "string \<Rightarrow> Reference result"
  we_quote :: "string \<Rightarrow> string"
  we_sha256hex :: "string \<Rightarrow> string"
  we_marshalRescan :: "RescanRequest \<Rightarrow> string result"
  we_sortRepositories :: "Repository sorter"
  we_sortConditions :: "MatchCondition sorter"
  we_sortContainers :: "ContainerRef sorter"

section \<open>Registries\<close>

abbreviation namespacePrefix :: string where "namespacePrefix \<equiv> ''namespace/''"

text \<open>The label with which a namespace marks the conditions it needs.\<close>

definition nsLabel :: "string \<Rightarrow> string" where
  "nsLabel sourceNamespace = namespacePrefix @ sourceNamespace"

definition extractImagesFromPodSpec :: "Pod \<Rightarrow> string list" where
  "extractImagesFromPodSpec pod = map ctr_Image (pod_InitContainers pod) @ map ctr_Image (pod_Containers pod)"

definition groupImage ::
  "workload_env \<Rightarrow> string \<Rightarrow> (string \<times> repositoryTags) list \<Rightarrow> (string \<times> repositoryTags) list" where
  "groupImage E img acc =
    (if img = [] then acc
     else case we_ParseReference E img of
       Inl err \<Rightarrow> acc
     | Inr reference \<Rightarrow>
         (let uri = rf_RegistryStr reference;
              repository = rf_RepositoryStr reference;
              repositories = (case map_of acc uri of None \<Rightarrow> [] | Some rs \<Rightarrow> rs);
              tags = (case map_of repositories repository of None \<Rightarrow> [] | Some ts \<Rightarrow> ts)
          in AList.update uri
               (AList.update repository (List.insert (rf_Identifier reference) tags) repositories) acc))"

definition groupImagesByRegistry :: "workload_env \<Rightarrow> string list \<Rightarrow> (string \<times> repositoryTags) list" where
  "groupImagesByRegistry E images = fold (groupImage E) images []"

text \<open>The name and the expression of the condition for a tag or digest.\<close>

definition tagCondition :: "workload_env \<Rightarrow> string \<Rightarrow> string \<Rightarrow> matchConditionKey" where
  "tagCondition E repositoryName tag =
    \<lparr>mk_repository = repositoryName, mk_name = ''tag-'' @ tag, mk_expression = ''tag == '' @ we_quote E tag\<rparr>"

definition buildNeededMatchConditions :: "workload_env \<Rightarrow> repositoryTags \<Rightarrow> matchConditionKey list" where
  "buildNeededMatchConditions E repositories =
    fold (\<lambda>(repositoryName, tags) acc. fold (\<lambda>tag. List.insert (tagCondition E repositoryName tag)) tags acc)
      repositories []"

definition conditionKey :: "Repository \<Rightarrow> MatchCondition \<Rightarrow> matchConditionKey" where
  "conditionKey repository c =
    \<lparr>mk_repository = rp_Name repository, mk_name = mc_Name c, mk_expression = mc_Expression c\<rparr>"

definition extractMatchConditionsFromRegistry :: "Registry \<Rightarrow> matchConditionKey list" where
  "extractMatchConditionsFromRegistry registry =
    fold (\<lambda>repository acc. fold (\<lambda>c. List.insert (conditionKey repository c)) (rp_MatchConditions repository) acc)
      (rs_Repositories (rg_Spec registry)) []"

text \<open>One condition of an existing repository, with the label of the namespace set or removed.\<close>

definition relabelCondition ::
  "string \<Rightarrow> matchConditionKey list \<Rightarrow> Repository \<Rightarrow> MatchCondition \<Rightarrow> MatchCondition" where
  "relabelCondition sourceNamespace needed repository c =
    (if conditionKey repository c \<in> set needed
     then c\<lparr>mc_Labels := AList.update (nsLabel sourceNamespace) ''true'' (mc_Labels c)\<rparr>
     else c\<lparr>mc_Labels := AList.delete (nsLabel sourceNamespace) (mc_Labels c)\<rparr>)"

definition processRepositoryMatchConditions ::
  "Repository \<Rightarrow> string \<Rightarrow> matchConditionKey list \<Rightarrow> MatchCondition list \<times> matchConditionKey list" where
  "processRepositoryMatchConditions repository sourceNamespace needed =
    fold (\<lambda>c (keep, matched).
      (let key = conditionKey repository c;
           relabelled = relabelCondition sourceNamespace needed repository c
       in (if mc_Labels relabelled \<noteq> [] then keep @ [relabelled] else keep,
           if key \<in> set needed then List.insert key matched else matched)))
      (rp_MatchConditions repository) ([], [])"

definition processExistingRepositories ::
  "Registry \<Rightarrow> string \<Rightarrow> matchConditionKey list \<Rightarrow> Repository list \<times> matchConditionKey list" where
  "processExistingRepositories registry sourceNamespace needed =
    fold (\<lambda>repository (repositories, matched).
      (case processRepositoryMatchConditions repository sourceNamespace needed of
         (conditions, processed) \<Rightarrow>
           (if conditions \<noteq> []
            then repositories @ [\<lparr>rp_Name = rp_Name repository, rp_MatchConditions = conditions,
                                  rp_MatchOperator = MatchOperatorOr\<rparr>]
            else repositories,
            fold List.insert processed matched)))
      (rs_Repositories (rg_Spec registry)) ([], [])"

text \<open>
  \<open>findOrAppendRepository\<close> with the append to the conditions of the repository whose address it
  returns.
\<close>

fun findOrAppendRepository ::
  "string \<Rightarrow> (Repository \<Rightarrow> Repository) \<Rightarrow> Repository list \<Rightarrow> Repository list" where
  "findOrAppendRepository name f [] =
    [f \<lparr>rp_Name = name, rp_MatchConditions = [], rp_MatchOperator = MatchOperatorOr\<rparr>]"
| "findOrAppendRepository name f (repository # repositories) =
    (if rp_Name repository = name then f repository # repositories
     else repository # findOrAppendRepository name f repositories)"

definition addNewMatchConditions ::
  "Repository list \<Rightarrow> matchConditionKey list \<Rightarrow> string \<Rightarrow> Repository list" where
  "addNewMatchConditions repositories keys sourceNamespace =
    fold (\<lambda>key. findOrAppendRepository (mk_repository key)
        (\<lambda>repository. repository\<lparr>rp_MatchConditions := rp_MatchConditions repository @
           [\<lparr>mc_Name = mk_name key, mc_Expression = mk_expression key,
             mc_Labels = [(nsLabel sourceNamespace, ''true'')]\<rparr>]\<rparr>))
      keys repositories"

definition sortRepositories :: "workload_env \<Rightarrow> Repository list \<Rightarrow> Repository list" where
  "sortRepositories E repositories =
    map (\<lambda>r. r\<lparr>rp_MatchConditions :=
                we_sortConditions E (\<lambda>a b. mc_Name a < mc_Name b) (rp_MatchConditions r)\<rparr>)
      (we_sortRepositories E (\<lambda>a b. rp_Name a < rp_Name b) repositories)"

definition buildRescanRequest :: "matchConditionKey list \<Rightarrow> RescanRequest" where
  "buildRescanRequest keys =
    (let byRepo = fold (\<lambda>key acc. AList.update (mk_repository key)
           (List.insert (mk_name key) (case map_of acc (mk_repository key) of None \<Rightarrow> [] | Some cs \<Rightarrow> cs)) acc)
           keys []
     in \<lparr>rr_Repositories = map (\<lambda>name. \<lparr>sr_Name = name,
            sr_MatchConditions = (case map_of byRepo name of None \<Rightarrow> [] | Some cs \<Rightarrow> sort cs)\<rparr>)
          (sort (map fst byRepo))\<rparr>)"

text \<open>The repositories of an existing registry after the contributions of the namespace changed.\<close>

definition updatedRepositories ::
  "Registry \<Rightarrow> string \<Rightarrow> matchConditionKey list \<Rightarrow> Repository list" where
  "updatedRepositories registry sourceNamespace needed =
    (case processExistingRepositories registry sourceNamespace needed of
       (processed, matched) \<Rightarrow>
         addNewMatchConditions processed (filter (\<lambda>k. k \<notin> set matched) needed) sourceNamespace)"

definition configuredSpec :: "WorkloadScanConfigurationSpec \<Rightarrow> string \<Rightarrow> string \<Rightarrow> Repository list \<Rightarrow> RegistrySpec" where
  "configuredSpec config uri catalogType repositories =
    \<lparr>rs_URI = uri, rs_CatalogType = catalogType, rs_Repositories = repositories,
     rs_AuthSecret = wc_AuthSecret config, rs_ScanInterval = wc_ScanInterval config,
     rs_CABundle = wc_CABundle config, rs_CABundleRef = wc_CABundleRef config,
     rs_Insecure = wc_Insecure config, rs_Platforms = wc_Platforms config\<rparr>"

text \<open>The annotation that requests a scan of the added conditions.\<close>

definition annotateRescan ::
  "workload_env \<Rightarrow> RescanRequest \<Rightarrow> string \<Rightarrow> Registry \<Rightarrow> (workload_call, Registry result) prog" where
  "annotateRescan E request failure registry =
    (case we_marshalRescan E request of
       Inl err \<Rightarrow> fail (ErrorWrap failure err)
     | Inr payload \<Rightarrow> do {
         uuid \<leftarrow> call (we_NewUUID E) WLNewUUID;
         ok (registry\<lparr>rg_meta := (rg_meta registry)\<lparr>om_Annotations :=
               AList.update (NewRescanRequestedAnnotationKey uuid) payload (om_Annotations (rg_meta registry))\<rparr>\<rparr>)
       })"

definition updateRegistry ::
  "workload_env \<Rightarrow> Registry \<Rightarrow> string \<Rightarrow> repositoryTags \<Rightarrow> WorkloadScanConfiguration
     \<Rightarrow> (workload_call, bool result) prog" where
  "updateRegistry E registry sourceNamespace repositories config =
    (let needed = buildNeededMatchConditions E repositories;
         oldConditions = extractMatchConditionsFromRegistry registry;
         updated = updatedRepositories registry sourceNamespace needed
     in if updated = [] then ok True
        else
          (let registry' = registry\<lparr>rg_Spec := configuredSpec (wsc_Spec config) (rs_URI (rg_Spec registry))
                 (rs_CatalogType (rg_Spec registry)) (sortRepositories E updated)\<rparr>;
               added = filter (\<lambda>k. k \<notin> set oldConditions) (extractMatchConditionsFromRegistry registry')
           in do {
             a \<leftarrow> (if wc_ScanOnChange (wsc_Spec config) \<and> added \<noteq> []
                   then annotateRescan E (buildRescanRequest added) ''failed to marshal rescan annotation'' registry'
                   else ok registry');
             (case a of
                Inl err \<Rightarrow> fail err
              | Inr annotated \<Rightarrow> do {
                  u \<leftarrow> call (\<lambda>h. we_UpdateRegistry E h annotated) (WLUpdateRegistry annotated);
                  State_Monad.return (map_sum
                    (ErrorWrap (''failed to update registry '' @ om_Name (rg_meta registry))) (\<lambda>_. False) u)
                })
           }))"

definition computeRegistryName :: "workload_env \<Rightarrow> string \<Rightarrow> string" where
  "computeRegistryName E uri = ''workloadscan-'' @ we_sha256hex E uri"

definition newRepository :: "workload_env \<Rightarrow> string \<Rightarrow> string \<times> string list \<Rightarrow> Repository" where
  "newRepository E sourceNamespace entry =
    \<lparr>rp_Name = fst entry,
     rp_MatchConditions = map (\<lambda>tag. \<lparr>mc_Name = ''tag-'' @ tag, mc_Expression = ''tag == '' @ we_quote E tag,
         mc_Labels = [(nsLabel sourceNamespace, ''true'')]\<rparr>) (snd entry),
     rp_MatchOperator = MatchOperatorOr\<rparr>"

definition newRegistry ::
  "workload_env \<Rightarrow> string \<Rightarrow> string \<Rightarrow> string \<Rightarrow> repositoryTags \<Rightarrow> WorkloadScanConfiguration \<Rightarrow> Registry" where
  "newRegistry E uri sourceNamespace registryNamespace repositories config =
    \<lparr>rg_meta = empty_meta\<lparr>om_Name := computeRegistryName E uri, om_Namespace := registryNamespace,
       om_Labels := [(LabelManagedByKey, LabelManagedByValue), (LabelWorkloadScanKey, LabelWorkloadScanValue)]\<rparr>,
     rg_Spec = configuredSpec (wsc_Spec config) uri []
       (sortRepositories E (map (newRepository E sourceNamespace) repositories)),
     rg_Conditions = []\<rparr>"

definition createRegistry ::
  "workload_env \<Rightarrow> string \<Rightarrow> string \<Rightarrow> string \<Rightarrow> repositoryTags \<Rightarrow> WorkloadScanConfiguration
     \<Rightarrow> (workload_call, unit result) prog" where
  "createRegistry E uri sourceNamespace registryNamespace repositories config = do {
     let registry = newRegistry E uri sourceNamespace registryNamespace repositories config;
     a \<leftarrow> (if wc_ScanOnChange (wsc_Spec config)
           then annotateRescan E \<lparr>rr_Repositories = []\<rparr> ''failed to build rescan annotation'' registry
           else ok registry);
     (case a of
        Inl err \<Rightarrow> fail err
      | Inr annotated \<Rightarrow> do {
          c \<leftarrow> call (\<lambda>h. we_CreateRegistry E h annotated) (WLCreateRegistry annotated);
          State_Monad.return (map_sum
            (ErrorWrap (''failed to create registry '' @ computeRegistryName E uri)) id c)
        })
   }"

text \<open>Deletions that ignore an object that is already gone.\<close>

definition deleteRegistry :: "workload_env \<Rightarrow> string \<Rightarrow> Registry \<Rightarrow> (workload_call, unit result) prog" where
  "deleteRegistry E failure registry = do {
     d \<leftarrow> call (\<lambda>h. we_DeleteRegistry E h registry) (WLDeleteRegistry registry);
     (case d of
        Inl err \<Rightarrow> if IsNotFound err then ok () else fail (ErrorWrap failure err)
      | Inr _ \<Rightarrow> ok ())
   }"

definition deleteReport :: "workload_env \<Rightarrow> string \<Rightarrow> WorkloadScanReport \<Rightarrow> (workload_call, unit result) prog" where
  "deleteReport E failure report = do {
     d \<leftarrow> call (\<lambda>h. we_DeleteReport E h report) (WLDeleteReport report);
     (case d of
        Inl err \<Rightarrow> if IsNotFound err then ok () else fail (ErrorWrap failure err)
      | Inr _ \<Rightarrow> ok ())
   }"

text \<open>The body of the loop over the existing registries.\<close>

definition reconcileRegistry ::
  "workload_env \<Rightarrow> string \<Rightarrow> (string \<times> repositoryTags) list \<Rightarrow> WorkloadScanConfiguration \<Rightarrow> Registry
     \<Rightarrow> (workload_call, unit result) prog" where
  "reconcileRegistry E workloadNamespace registriesByURI config registry = do {
     let repositories = (case map_of registriesByURI (rs_URI (rg_Spec registry)) of None \<Rightarrow> [] | Some rs \<Rightarrow> rs);
     u \<leftarrow> updateRegistry E registry workloadNamespace repositories config;
     (case u of
        Inl err \<Rightarrow> fail err
      | Inr shouldDelete \<Rightarrow>
          if shouldDelete
          then deleteRegistry E (''failed to delete registry '' @ om_Name (rg_meta registry)) registry
          else ok ())
   }"

definition artifactsNamespace :: "WorkloadScanConfiguration \<Rightarrow> string \<Rightarrow> string" where
  "artifactsNamespace config namespace =
    (if wc_ArtifactsNamespace (wsc_Spec config) \<noteq> [] then wc_ArtifactsNamespace (wsc_Spec config) else namespace)"

definition podImages :: "Pod list \<Rightarrow> string list" where
  "podImages pods = fold (\<lambda>pod. fold List.insert (extractImagesFromPodSpec pod)) pods []"

definition reconcileRegistries ::
  "workload_env \<Rightarrow> string \<Rightarrow> Pod list \<Rightarrow> WorkloadScanConfiguration \<Rightarrow> (workload_call, unit result) prog" where
  "reconcileRegistries E workloadNamespace pods config = do {
     let registryNamespace = artifactsNamespace config workloadNamespace;
     let registriesByURI = groupImagesByRegistry E (podImages pods);
     l \<leftarrow> call (\<lambda>h. we_ListRegistries E h (Some registryNamespace)) (WLListRegistries (Some registryNamespace));
     (case l of
        Inl err \<Rightarrow> fail (ErrorWrap ''failed to list registries'' err)
      | Inr existing \<Rightarrow> do {
          let processedURIs = map (\<lambda>registry. rs_URI (rg_Spec registry)) existing;
          u \<leftarrow> for_each (reconcileRegistry E workloadNamespace registriesByURI config) existing;
          (case u of
             Inl err \<Rightarrow> fail err
           | Inr _ \<Rightarrow>
               for_each (\<lambda>(uri, repositories).
                   createRegistry E uri workloadNamespace registryNamespace repositories config)
                 (filter (\<lambda>(uri, _). uri \<notin> set processedURIs) registriesByURI))
        })
   }"

section \<open>Reports\<close>

text \<open>The controller of a pod, or the pod itself.\<close>

definition ownerThrough ::
  "workload_env \<Rightarrow> string \<Rightarrow> string \<Rightarrow> OwnerReference \<Rightarrow> (workload_call, OwnerReference result) prog" where
  "ownerThrough E namespace parentKind ownerReference = do {
     g \<leftarrow> call (\<lambda>h. we_GetOwner E h (or_Kind ownerReference) (namespace, or_Name ownerReference))
            (WLGetOwner (or_Kind ownerReference) (namespace, or_Name ownerReference));
     (case g of
        Inl err \<Rightarrow>
          if IsNotFound err then ok ownerReference
          else fail (ErrorWrap (''failed to get '' @ or_Kind ownerReference @ '' '' @ namespace @ ''/''
                                @ or_Name ownerReference) err)
      | Inr owner \<Rightarrow>
          (case we_GetControllerOf E owner of
             None \<Rightarrow> ok ownerReference
           | Some parent \<Rightarrow> if or_Kind parent = parentKind then ok parent else ok ownerReference))
   }"

definition resolveWorkloadOwner :: "workload_env \<Rightarrow> Pod \<Rightarrow> (workload_call, OwnerReference result) prog" where
  "resolveWorkloadOwner E pod =
    (case we_GetControllerOf E (pod_meta pod) of
       None \<Rightarrow> ok \<lparr>or_APIVersion = ''v1'', or_Kind = ''Pod'', or_Name = om_Name (pod_meta pod),
                  or_UID = om_UID (pod_meta pod), or_Controller = None\<rparr>
     | Some ownerReference \<Rightarrow>
         if or_Kind ownerReference = ''ReplicaSet''
         then ownerThrough E (om_Namespace (pod_meta pod)) ''Deployment'' ownerReference
         else if or_Kind ownerReference = ''Job''
         then ownerThrough E (om_Namespace (pod_meta pod)) ''CronJob'' ownerReference
         else ok ownerReference)"

text \<open>\<open>strings.ToLower\<close> on ASCII text; the kinds of Kubernetes objects are ASCII identifiers.\<close>

definition ToLower :: "string \<Rightarrow> string" where
  "ToLower s = map (\<lambda>c. if c \<in> set ''ABCDEFGHIJKLMNOPQRSTUVWXYZ'' then char_of (of_char c + 32 :: nat) else c) s"

definition computeWorkloadScanReportName :: "string \<Rightarrow> string \<Rightarrow> string" where
  "computeWorkloadScanReportName kind uid = ToLower kind @ ''-'' @ uid"

definition parseImageToImageRef :: "workload_env \<Rightarrow> string \<Rightarrow> string \<Rightarrow> ImageRef result" where
  "parseImageToImageRef E namespace img =
    (if img = [] then Inl (ErrorNew ''empty image reference'')
     else case we_ParseReference E img of
       Inl err \<Rightarrow> Inl (ErrorWrap (''failed to parse image '' @ we_quote E img) err)
     | Inr reference \<Rightarrow>
         Inr \<lparr>ir_Registry = computeRegistryName E (rf_RegistryStr reference), ir_Namespace = namespace,
              ir_Repository = rf_RepositoryStr reference, ir_Tag = rf_Identifier reference\<rparr>)"

definition containerRefs :: "workload_env \<Rightarrow> string \<Rightarrow> Container list \<Rightarrow> ContainerRef list" where
  "containerRefs E namespace containers =
    List.map_filter (\<lambda>c. case parseImageToImageRef E namespace (ctr_Image c) of
        Inl err \<Rightarrow> None
      | Inr reference \<Rightarrow> Some \<lparr>cr_Name = ctr_Name c, cr_ImageRef = reference\<rparr>) containers"

definition buildContainerRefs :: "workload_env \<Rightarrow> string \<Rightarrow> Pod \<Rightarrow> ContainerRef list" where
  "buildContainerRefs E namespace pod =
    we_sortContainers E (\<lambda>a b. cr_Name a < cr_Name b)
      (containerRefs E namespace (pod_InitContainers pod) @ containerRefs E namespace (pod_Containers pod))"

text \<open>The first pod of a workload stands for it.\<close>

definition buildPodsByReport :: "workload_env \<Rightarrow> Pod list \<Rightarrow> (workload_call, (string \<times> Pod) list result) prog" where
  "buildPodsByReport E pods =
    fold_prog (\<lambda>pod podsByReport. do {
      own \<leftarrow> resolveWorkloadOwner E pod;
      (case own of
         Inl err \<Rightarrow> fail (ErrorWrap (''failed to resolve workload owner for pod '' @ om_Name (pod_meta pod)) err)
       | Inr ownerReference \<Rightarrow>
           (let reportName = computeWorkloadScanReportName (or_Kind ownerReference) (or_UID ownerReference)
            in ok (if map_of podsByReport reportName \<noteq> None then podsByReport
                   else podsByReport @ [(reportName, pod)])))
    }) pods []"

text \<open>The function that \<open>CreateOrPatch\<close> applies to the report.\<close>

definition fillWorkloadReport ::
  "workload_env \<Rightarrow> OwnerReference \<Rightarrow> string \<Rightarrow> Pod \<Rightarrow> WorkloadScanConfiguration
     \<Rightarrow> WorkloadScanReport \<Rightarrow> WorkloadScanReport" where
  "fillWorkloadReport E ownerReference namespace pod config report =
    report\<lparr>ws_meta := (ws_meta report)
        \<lparr>om_Labels := AList.update LabelManagedByKey LabelManagedByValue (om_Labels (ws_meta report)),
         om_OwnerReferences := [ownerReference]\<rparr>,
      ws_SpecContainers := buildContainerRefs E (artifactsNamespace config namespace) pod\<rparr>"

definition newWorkloadReport :: "string \<Rightarrow> string \<Rightarrow> WorkloadScanReport" where
  "newWorkloadReport namespace reportName =
    \<lparr>ws_meta = empty_meta\<lparr>om_Name := reportName, om_Namespace := namespace\<rparr>, ws_SpecContainers = [],
     ws_ContainerStatuses = [], ws_Summary = empty_summary, ws_Containers = []\<rparr>"

definition createOrPatchWorkloadScanReport ::
  "workload_env \<Rightarrow> string \<Rightarrow> WorkloadScanConfiguration \<Rightarrow> string \<times> Pod \<Rightarrow> (workload_call, unit result) prog" where
  "createOrPatchWorkloadScanReport E namespace config entry = (case entry of (reportName, pod) \<Rightarrow> do {
     own \<leftarrow> resolveWorkloadOwner E pod;
     (case own of
        Inl err \<Rightarrow> fail (ErrorWrap (''failed to resolve workload owner for pod '' @ om_Name (pod_meta pod)) err)
      | Inr ownerReference \<Rightarrow> do {
          r \<leftarrow> we_CreateOrPatch E (newWorkloadReport namespace reportName)
                 (fillWorkloadReport E ownerReference namespace pod config);
          State_Monad.return (map_sum
            (ErrorWrap (''failed to create or update workload scan report '' @ reportName)) id r)
        })
   })"

definition reconcileWorkloadScanReports ::
  "workload_env \<Rightarrow> string \<Rightarrow> Pod list \<Rightarrow> WorkloadScanConfiguration \<Rightarrow> (workload_call, unit result) prog" where
  "reconcileWorkloadScanReports E namespace pods config = do {
     b \<leftarrow> buildPodsByReport E pods;
     (case b of
        Inl err \<Rightarrow> fail err
      | Inr podsByReport \<Rightarrow> do {
          l \<leftarrow> call (\<lambda>h. we_ListReports E h (Some namespace)) (WLListReports (Some namespace));
          (case l of
             Inl err \<Rightarrow> fail (ErrorWrap ''failed to list WorkloadScanReports'' err)
           | Inr existing \<Rightarrow> do {
               d \<leftarrow> for_each (\<lambda>report.
                      deleteReport E (''failed to delete stale WorkloadScanReport '' @ om_Name (ws_meta report)) report)
                      (filter (\<lambda>report. map_of podsByReport (om_Name (ws_meta report)) = None) existing);
               (case d of
                  Inl err \<Rightarrow> fail err
                | Inr _ \<Rightarrow> for_each (createOrPatchWorkloadScanReport E namespace config) podsByReport)
             })
        })
   }"

section \<open>One reconciliation\<close>

definition checkNamespaceSelector ::
  "workload_env \<Rightarrow> string \<Rightarrow> LabelSelector option \<Rightarrow> (workload_call, bool result) prog" where
  "checkNamespaceSelector E namespace selector =
    (case selector of
       None \<Rightarrow> ok True
     | Some s \<Rightarrow> do {
         n \<leftarrow> call (\<lambda>h. we_GetNamespace E h namespace) (WLGetNamespace namespace);
         State_Monad.return (case n of
            Inl err \<Rightarrow>
              if IsNotFound err then Inr False
              else Inl (ErrorWrap (''failed to get namespace '' @ namespace) err)
          | Inr labels \<Rightarrow>
              map_sum (ErrorWrap ''invalid label selector'') (\<lambda>matches. matches labels) (we_selector E s))
       })"

definition cleanupAllManagedResources :: "workload_env \<Rightarrow> (workload_call, unit result) prog" where
  "cleanupAllManagedResources E = do {
     l \<leftarrow> call (\<lambda>h. we_ListRegistries E h None) (WLListRegistries None);
     (case l of
        Inl err \<Rightarrow> fail (ErrorWrap ''failed to list managed registries'' err)
      | Inr registries \<Rightarrow> do {
          d \<leftarrow> for_each (\<lambda>registry. deleteRegistry E
                 (''failed to delete registry '' @ om_Namespace (rg_meta registry) @ ''/''
                  @ om_Name (rg_meta registry)) registry) registries;
          (case d of
             Inl err \<Rightarrow> fail err
           | Inr _ \<Rightarrow> do {
               r \<leftarrow> call (\<lambda>h. we_ListReports E h None) (WLListReports None);
               (case r of
                  Inl err \<Rightarrow> fail (ErrorWrap ''failed to list managed WorkloadScanReports'' err)
                | Inr reports \<Rightarrow>
                    for_each (\<lambda>report. deleteReport E
                      (''failed to delete WorkloadScanReport '' @ om_Namespace (ws_meta report) @ ''/''
                       @ om_Name (ws_meta report)) report) reports)
             })
        })
   }"

definition reconcileNamespace ::
  "workload_env \<Rightarrow> string \<Rightarrow> WorkloadScanConfiguration \<Rightarrow> Pod list \<Rightarrow> string \<Rightarrow> string
     \<Rightarrow> (workload_call, unit result) prog" where
  "reconcileNamespace E namespace config pods registryFailure reportFailure = do {
     r \<leftarrow> reconcileRegistries E namespace pods config;
     (case r of
        Inl err \<Rightarrow> fail (ErrorWrap registryFailure err)
      | Inr _ \<Rightarrow> do {
          w \<leftarrow> reconcileWorkloadScanReports E namespace pods config;
          State_Monad.return (map_sum (ErrorWrap reportFailure) id w)
        })
   }"

text \<open>With an enabled configuration; an invalid selector is not retried.\<close>

definition reconcileEnabled ::
  "workload_env \<Rightarrow> string \<Rightarrow> WorkloadScanConfiguration \<Rightarrow> (workload_call, unit result) prog" where
  "reconcileEnabled E namespace config = do {
     m \<leftarrow> checkNamespaceSelector E namespace (wc_NamespaceSelector (wsc_Spec config));
     (case m of
        Inl err \<Rightarrow> ok ()
      | Inr matches \<Rightarrow>
          if \<not> matches
          then reconcileNamespace E namespace config [] ''failed to cleanup registries''
                 ''failed to cleanup WorkloadScanReports''
          else do {
            p \<leftarrow> call (\<lambda>h. we_ListPods E h namespace) (WLListPods namespace);
            (case p of
               Inl err \<Rightarrow> fail (ErrorWrap (''failed to list pods in namespace '' @ namespace) err)
             | Inr pods \<Rightarrow> reconcileNamespace E namespace config pods ''failed to reconcile registries''
                             ''failed to reconcile WorkloadScanReports'')
          })
   }"

definition WorkloadScanReconciler_Reconcile :: "workload_env \<Rightarrow> string \<Rightarrow> (workload_call, unit result) prog" where
  "WorkloadScanReconciler_Reconcile E namespace = do {
     g \<leftarrow> call (we_GetConfig E) WLGetConfig;
     (case g of
        Inl err \<Rightarrow>
          if IsNotFound err
          then do {
            c \<leftarrow> cleanupAllManagedResources E;
            State_Monad.return (map_sum (ErrorWrap ''failed to cleanup managed resources'') id c)
          }
          else fail (ErrorWrap ''failed to get WorkloadScanConfiguration'' err)
      | Inr config \<Rightarrow>
          if \<not> wc_Enabled (wsc_Spec config)
          then do {
            c \<leftarrow> cleanupAllManagedResources E;
            State_Monad.return (map_sum (ErrorWrap ''failed to cleanup managed resources'') id c)
          }
          else reconcileEnabled E namespace config)
   }"

declare map_sum_Inr_iff [simp]

end
