(* ===== verification/Workload_Correct.thy ===== *)
theory Workload_Correct
  imports Workload_Scan Catalog_Correct
begin

text \<open>
  What the workload scan controller of \<open>Workload_Scan\<close> guarantees: the conditions of the registries
  it writes follow the images of the pods, namespace by namespace; every image in use is written;
  the reports name registries and conditions that are written.
\<close>

section \<open>The images in use\<close>

definition pulls :: "workload_env \<Rightarrow> string list \<Rightarrow> string \<Rightarrow> string \<Rightarrow> string \<Rightarrow> bool" where
  "pulls E images uri repository tag \<longleftrightarrow>
    (\<exists>img \<in> set images. img \<noteq> [] \<and> (\<exists>reference. we_ParseReference E img = Inr reference
       \<and> rf_RegistryStr reference = uri \<and> rf_RepositoryStr reference = repository
       \<and> rf_Identifier reference = tag))"

definition lookup_list :: "('k \<times> 'v list) list \<Rightarrow> 'k \<Rightarrow> 'v list" where
  "lookup_list m k = (case map_of m k of None \<Rightarrow> [] | Some vs \<Rightarrow> vs)"

lemma lookup_list_simps [simp]:
  "lookup_list [] k = []"
  "lookup_list (AList.update k vs m) k' = (if k' = k then vs else lookup_list m k')"
  by (simp_all add: lookup_list_def update_conv')

lemma groupImage_alt:
  "groupImage E img acc =
    (if img = [] then acc
     else case we_ParseReference E img of
       Inl err \<Rightarrow> acc
     | Inr reference \<Rightarrow>
         AList.update (rf_RegistryStr reference)
           (AList.update (rf_RepositoryStr reference)
             (List.insert (rf_Identifier reference)
               (lookup_list (lookup_list acc (rf_RegistryStr reference)) (rf_RepositoryStr reference)))
             (lookup_list acc (rf_RegistryStr reference))) acc)"
  by (cases "we_ParseReference E img") (simp_all add: groupImage_def lookup_list_def Let_def)

definition grouped :: "(string \<times> repositoryTags) list \<Rightarrow> bool" where
  "grouped acc \<longleftrightarrow> distinct (map fst acc)
    \<and> (\<forall>uri. distinct (map fst (lookup_list acc uri))
         \<and> (\<forall>repository. distinct (lookup_list (lookup_list acc uri) repository)))"

lemma grouped_groupImage: "grouped acc \<Longrightarrow> grouped (groupImage E img acc)"
  unfolding groupImage_alt grouped_def
  by (auto simp: distinct_update split: sum.splits)

lemma tags_groupImage:
  "tag \<in> set (lookup_list (lookup_list (groupImage E img acc) uri) repository)
    \<longleftrightarrow> pulls E [img] uri repository tag \<or> tag \<in> set (lookup_list (lookup_list acc uri) repository)"
  unfolding groupImage_alt pulls_def by (auto split: sum.splits)

lemma groupImagesByRegistry_grouped: "grouped (groupImagesByRegistry E images)"
proof -
  have "grouped (fold (groupImage E) images acc)" if "grouped acc" for acc
    using that by (induction images arbitrary: acc) (simp_all add: grouped_groupImage)
  then show ?thesis by (simp add: groupImagesByRegistry_def grouped_def)
qed

lemma groupImagesByRegistry_tags:
  "tag \<in> set (lookup_list (lookup_list (groupImagesByRegistry E images) uri) repository)
    \<longleftrightarrow> pulls E images uri repository tag"
proof -
  have "tag \<in> set (lookup_list (lookup_list (fold (groupImage E) images acc) uri) repository)
      \<longleftrightarrow> pulls E images uri repository tag
        \<or> tag \<in> set (lookup_list (lookup_list acc uri) repository)" for acc
    by (induction images arbitrary: acc) (auto simp: tags_groupImage pulls_def)
  from this[of "[]"] show ?thesis by (simp add: groupImagesByRegistry_def)
qed

lemma podImages_set: "set (podImages pods) = (\<Union>pod \<in> set pods. set (extractImagesFromPodSpec pod))"
proof -
  have "set (fold (\<lambda>pod. fold List.insert (extractImagesFromPodSpec pod)) pods acc)
      = set acc \<union> (\<Union>pod \<in> set pods. set (extractImagesFromPodSpec pod))" for acc
    by (induction pods arbitrary: acc) auto
  then show ?thesis by (simp add: podImages_def)
qed

section \<open>The conditions of a registry\<close>

lemma buildNeeded_set:
  "set (buildNeededMatchConditions E repositories)
    = (\<Union>(repository, tags) \<in> set repositories. tagCondition E repository ` set tags)"
proof -
  have inner: "set (fold (\<lambda>tag. List.insert (tagCondition E r tag)) tags acc) = set acc \<union> tagCondition E r ` set tags"
    for r tags acc by (induction tags arbitrary: acc) auto
  have "set (fold (\<lambda>(r, tags) acc. fold (\<lambda>tag. List.insert (tagCondition E r tag)) tags acc) repositories acc)
      = set acc \<union> (\<Union>(r, tags) \<in> set repositories. tagCondition E r ` set tags)" for acc
    by (induction repositories arbitrary: acc) (auto simp: inner)
  then show ?thesis by (simp add: buildNeededMatchConditions_def)
qed

lemma lookup_list_iff:
  assumes "distinct (map fst m)"
  shows "(\<exists>vs. (k, vs) \<in> set m \<and> v \<in> set vs) \<longleftrightarrow> v \<in> set (lookup_list m k)"
  using assms map_of_eq_Some_iff[OF assms] by (auto simp: lookup_list_def split: option.splits)

lemma needed_iff:
  "k \<in> set (buildNeededMatchConditions E (lookup_list (groupImagesByRegistry E images) uri))
    \<longleftrightarrow> (\<exists>repository tag. pulls E images uri repository tag \<and> k = tagCondition E repository tag)"
proof -
  have "distinct (map fst (lookup_list (groupImagesByRegistry E images) uri))"
    using groupImagesByRegistry_grouped[of E images] by (simp add: grouped_def)
  from lookup_list_iff[OF this] show ?thesis
    unfolding buildNeeded_set groupImagesByRegistry_tags[symmetric] by fastforce
qed

text \<open>\<open>contributes repositories k n\<close>: the condition \<open>k\<close> is there with the label of the namespace \<open>n\<close>.\<close>

definition contributes :: "Repository list \<Rightarrow> matchConditionKey \<Rightarrow> string \<Rightarrow> bool" where
  "contributes repositories k n \<longleftrightarrow>
    (\<exists>r \<in> set repositories. \<exists>c \<in> set (rp_MatchConditions r). conditionKey r c = k
       \<and> map_of (mc_Labels c) (nsLabel n) \<noteq> None)"

lemma nsLabel_eq [simp]: "nsLabel n = nsLabel n' \<longleftrightarrow> n = n'"
  by (simp add: nsLabel_def)

lemma relabel_label:
  "map_of (mc_Labels (relabelCondition ns needed r c)) (nsLabel n) \<noteq> None \<longleftrightarrow>
    (if n = ns then conditionKey r c \<in> set needed else map_of (mc_Labels c) (nsLabel n) \<noteq> None)"
  by (auto simp: relabelCondition_def Let_def update_conv' delete_conv')

lemma relabel_key [simp]: "conditionKey r' (relabelCondition ns needed r c) = conditionKey r' c"
  by (simp add: relabelCondition_def conditionKey_def Let_def)

lemma conditionKey_name: "rp_Name r = rp_Name r' \<Longrightarrow> conditionKey r c = conditionKey r' c"
  by (simp add: conditionKey_def)

lemma processRepository_result:
  "fst (processRepositoryMatchConditions r ns needed)
    = filter (\<lambda>c. mc_Labels c \<noteq> []) (map (relabelCondition ns needed r) (rp_MatchConditions r))"
  "set (snd (processRepositoryMatchConditions r ns needed))
    = set needed \<inter> conditionKey r ` set (rp_MatchConditions r)"
proof -
  let ?step = "\<lambda>c (keep, matched).
      (let key = conditionKey r c; relabelled = relabelCondition ns needed r c
       in (if mc_Labels relabelled \<noteq> [] then keep @ [relabelled] else keep,
           if key \<in> set needed then List.insert key matched else matched))"
  have "fst (fold ?step cs (keep, matched)) = keep @ filter (\<lambda>c. mc_Labels c \<noteq> []) (map (relabelCondition ns needed r) cs)
      \<and> set (snd (fold ?step cs (keep, matched))) = set matched \<union> (set needed \<inter> conditionKey r ` set cs)"
    for cs keep matched
    by (induction cs arbitrary: keep matched) (auto simp: Let_def)
  from this[of "rp_MatchConditions r" "[]" "[]"]
  show "fst (processRepositoryMatchConditions r ns needed)
    = filter (\<lambda>c. mc_Labels c \<noteq> []) (map (relabelCondition ns needed r) (rp_MatchConditions r))"
    "set (snd (processRepositoryMatchConditions r ns needed))
      = set needed \<inter> conditionKey r ` set (rp_MatchConditions r)"
    by (simp_all add: processRepositoryMatchConditions_def)
qed

definition kept_repository :: "string \<Rightarrow> matchConditionKey list \<Rightarrow> Repository \<Rightarrow> Repository" where
  "kept_repository ns needed r =
    \<lparr>rp_Name = rp_Name r, rp_MatchConditions = fst (processRepositoryMatchConditions r ns needed),
     rp_MatchOperator = MatchOperatorOr\<rparr>"

lemma processExisting_result:
  "fst (processExistingRepositories registry ns needed)
    = filter (\<lambda>r. rp_MatchConditions r \<noteq> []) (map (kept_repository ns needed) (rs_Repositories (rg_Spec registry)))"
  "set (snd (processExistingRepositories registry ns needed))
    = set needed \<inter> (\<Union>r \<in> set (rs_Repositories (rg_Spec registry)). conditionKey r ` set (rp_MatchConditions r))"
proof -
  let ?step = "\<lambda>repository (repositories, matched).
      (case processRepositoryMatchConditions repository ns needed of
         (conditions, processed) \<Rightarrow>
           (if conditions \<noteq> []
            then repositories @ [\<lparr>rp_Name = rp_Name repository, rp_MatchConditions = conditions,
                                  rp_MatchOperator = MatchOperatorOr\<rparr>]
            else repositories, fold List.insert processed matched))"
  have "fst (fold ?step rs (acc, matched))
        = acc @ filter (\<lambda>r. rp_MatchConditions r \<noteq> []) (map (kept_repository ns needed) rs)
      \<and> set (snd (fold ?step rs (acc, matched)))
        = set matched \<union> (set needed \<inter> (\<Union>r \<in> set rs. conditionKey r ` set (rp_MatchConditions r)))"
    for rs acc matched
  proof (induction rs arbitrary: acc matched)
    case (Cons r rs)
    obtain cs ps where p: "processRepositoryMatchConditions r ns needed = (cs, ps)" by fastforce
    then have "set ps = set needed \<inter> conditionKey r ` set (rp_MatchConditions r)"
      using processRepository_result(2)[of r ns needed] by simp
    with p Cons.IH show ?case by (auto simp: kept_repository_def)
  qed simp
  from this[of "rs_Repositories (rg_Spec registry)" "[]" "[]"] show
    "fst (processExistingRepositories registry ns needed)
      = filter (\<lambda>r. rp_MatchConditions r \<noteq> []) (map (kept_repository ns needed) (rs_Repositories (rg_Spec registry)))"
    "set (snd (processExistingRepositories registry ns needed))
      = set needed \<inter> (\<Union>r \<in> set (rs_Repositories (rg_Spec registry)). conditionKey r ` set (rp_MatchConditions r))"
    by (simp_all add: processExistingRepositories_def)
qed

lemma contributes_Nil [simp]: "\<not> contributes [] k n"
  by (simp add: contributes_def)

lemma contributes_Cons:
  "contributes (r # rs) k n \<longleftrightarrow>
    (\<exists>c \<in> set (rp_MatchConditions r). conditionKey r c = k
       \<and> map_of (mc_Labels c) (nsLabel n) \<noteq> None) \<or> contributes rs k n"
  by (auto simp: contributes_def)

lemma kept_condition:
  "(\<exists>c \<in> set (rp_MatchConditions (kept_repository ns needed r)). conditionKey (kept_repository ns needed r) c = k
      \<and> map_of (mc_Labels c) (nsLabel n) \<noteq> None)
    \<longleftrightarrow> (\<exists>c \<in> set (rp_MatchConditions r). conditionKey r c = k
      \<and> (if n = ns then k \<in> set needed else map_of (mc_Labels c) (nsLabel n) \<noteq> None))"
proof -
  have key: "conditionKey (kept_repository ns needed r) c = conditionKey r c" for c
    by (rule conditionKey_name) (simp add: kept_repository_def)
  have conds: "set (rp_MatchConditions (kept_repository ns needed r))
      = {c \<in> relabelCondition ns needed r ` set (rp_MatchConditions r). mc_Labels c \<noteq> []}"
    by (simp add: kept_repository_def processRepository_result)
  have ne: "mc_Labels c \<noteq> []" if "map_of (mc_Labels c) (nsLabel n) \<noteq> None" for c
    using that by (cases "mc_Labels c") simp_all
  have "(\<exists>c \<in> set (rp_MatchConditions (kept_repository ns needed r)). conditionKey r c = k
        \<and> map_of (mc_Labels c) (nsLabel n) \<noteq> None)
      \<longleftrightarrow> (\<exists>c \<in> set (rp_MatchConditions r). conditionKey r c = k
        \<and> map_of (mc_Labels (relabelCondition ns needed r c)) (nsLabel n) \<noteq> None)"
    unfolding conds using ne by auto
  then show ?thesis
    unfolding key relabel_label by (cases "n = ns") auto
qed

lemma kept_contributes:
  "contributes (fst (processExistingRepositories registry ns needed)) k n \<longleftrightarrow>
    (\<exists>r \<in> set (rs_Repositories (rg_Spec registry)). \<exists>c \<in> set (rp_MatchConditions r). conditionKey r c = k
       \<and> (if n = ns then k \<in> set needed else map_of (mc_Labels c) (nsLabel n) \<noteq> None))"
proof -
  have "contributes (filter (\<lambda>r. rp_MatchConditions r \<noteq> []) rs) k n \<longleftrightarrow> contributes rs k n" for rs
    by (induction rs) (auto simp: contributes_Cons)
  then show ?thesis
    unfolding processExisting_result(1) contributes_def by (simp only: set_map kept_condition bex_simps)
qed

lemma findOrAppend_contributes:
  "contributes (findOrAppendRepository (mk_repository key)
      (\<lambda>r. r\<lparr>rp_MatchConditions := rp_MatchConditions r @ [\<lparr>mc_Name = mk_name key, mc_Expression = mk_expression key,
         mc_Labels = [(nsLabel ns, v)]\<rparr>]\<rparr>) rs) k n
    \<longleftrightarrow> contributes rs k n \<or> k = key \<and> n = ns"
  by (induction rs) (auto simp: contributes_Cons conditionKey_def)

lemma addNew_contributes:
  "contributes (addNewMatchConditions rs keys ns) k n \<longleftrightarrow> contributes rs k n \<or> k \<in> set keys \<and> n = ns"
  unfolding addNewMatchConditions_def
  by (induction keys arbitrary: rs) (auto simp: findOrAppend_contributes)

lemma updatedRepositories_contributes:
  "contributes (updatedRepositories registry ns needed) k n \<longleftrightarrow>
    (if n = ns then k \<in> set needed else contributes (rs_Repositories (rg_Spec registry)) k n)"
proof -
  obtain p m where pm: "processExistingRepositories registry ns needed = (p, m)" by fastforce
  have "set m = set needed \<inter> (\<Union>r \<in> set (rs_Repositories (rg_Spec registry)). conditionKey r ` set (rp_MatchConditions r))"
    using processExisting_result(2)[of registry ns needed] pm by simp
  moreover have kept: "contributes p k n \<longleftrightarrow>
    (\<exists>r \<in> set (rs_Repositories (rg_Spec registry)). \<exists>c \<in> set (rp_MatchConditions r). conditionKey r c = k
       \<and> (if n = ns then k \<in> set needed else map_of (mc_Labels c) (nsLabel n) \<noteq> None))"
    using kept_contributes[of registry ns needed k n] pm by simp
  moreover have "contributes (updatedRepositories registry ns needed) k n \<longleftrightarrow>
      contributes p k n \<or> k \<in> set needed \<and> k \<notin> set m \<and> n = ns"
    by (auto simp: updatedRepositories_def pm addNew_contributes)
  ultimately show ?thesis
    unfolding contributes_def[of "rs_Repositories (rg_Spec registry)"] by (cases "n = ns") auto
qed

lemma findOrAppend_nonempty: "findOrAppendRepository name f rs \<noteq> []"
  by (cases rs) simp_all

lemma addNew_Nil_iff: "addNewMatchConditions rs keys ns = [] \<longleftrightarrow> rs = [] \<and> keys = []"
proof (cases keys rule: rev_cases)
  case (snoc ks k)
  then show ?thesis by (simp add: addNewMatchConditions_def findOrAppend_nonempty)
qed (simp add: addNewMatchConditions_def)

text \<open>A registry goes when no condition is needed and no other namespace or label holds one.\<close>

lemma updatedRepositories_Nil_iff:
  "updatedRepositories registry ns needed = [] \<longleftrightarrow>
    needed = [] \<and> (\<forall>r \<in> set (rs_Repositories (rg_Spec registry)). \<forall>c \<in> set (rp_MatchConditions r).
      fst ` set (mc_Labels c) \<subseteq> {nsLabel ns})"
proof -
  obtain p m where pm: "processExistingRepositories registry ns needed = (p, m)" by fastforce
  have m: "set m \<subseteq> set needed"
    using processExisting_result(2)[of registry ns needed] pm by auto
  have p: "p = filter (\<lambda>r. rp_MatchConditions r \<noteq> []) (map (kept_repository ns needed) (rs_Repositories (rg_Spec registry)))"
    using processExisting_result(1)[of registry ns needed] pm by simp
  have del: "AList.delete k (l :: string_map) = [] \<longleftrightarrow> fst ` set l \<subseteq> {k}" for k l
    by (induction l) auto
  have rel: "mc_Labels (relabelCondition ns [] r c) = [] \<longleftrightarrow> fst ` set (mc_Labels c) \<subseteq> {nsLabel ns}" for r c
    by (simp add: relabelCondition_def del)
  have upd: "mc_Labels (relabelCondition ns needed r c) \<noteq> []" if "conditionKey r c \<in> set needed" for r c
    using that by (cases "mc_Labels c") (auto simp: relabelCondition_def Let_def)
  show ?thesis
  proof (cases "needed = []")
    case True
    then have "filter (\<lambda>k. k \<notin> set m) needed = []" by simp
    then have "updatedRepositories registry ns needed = [] \<longleftrightarrow> p = []"
      using pm by (simp add: updatedRepositories_def addNew_Nil_iff)
    also have "\<dots> \<longleftrightarrow> (\<forall>r \<in> set (rs_Repositories (rg_Spec registry)). \<forall>c \<in> set (rp_MatchConditions r).
        fst ` set (mc_Labels c) \<subseteq> {nsLabel ns})"
      unfolding p filter_empty_conv using True
      by (simp add: kept_repository_def processRepository_result filter_empty_conv rel)
    finally show ?thesis using True by simp
  next
    case False
    then obtain k where "k \<in> set needed" by (cases needed) auto
    then have "contributes (updatedRepositories registry ns needed) k ns"
      by (simp add: updatedRepositories_contributes)
    then have "updatedRepositories registry ns needed \<noteq> []" by auto
    with False show ?thesis by simp
  qed
qed

lemma extract_set:
  "set (extractMatchConditionsFromRegistry registry)
    = (\<Union>r \<in> set (rs_Repositories (rg_Spec registry)). conditionKey r ` set (rp_MatchConditions r))"
proof -
  have inner: "set (fold (\<lambda>c. List.insert (conditionKey r c)) cs acc) = set acc \<union> conditionKey r ` set cs" for r cs acc
    by (induction cs arbitrary: acc) auto
  have "set (fold (\<lambda>r acc. fold (\<lambda>c. List.insert (conditionKey r c)) (rp_MatchConditions r) acc) rs acc)
      = set acc \<union> (\<Union>r \<in> set rs. conditionKey r ` set (rp_MatchConditions r))" for rs acc
    by (induction rs arbitrary: acc) (auto simp: inner)
  then show ?thesis by (simp add: extractMatchConditionsFromRegistry_def)
qed

section \<open>Sorting\<close>

definition sorts_properly :: "workload_env \<Rightarrow> bool" where
  "sorts_properly E \<longleftrightarrow> sorter_contract (we_sortRepositories E) \<and> sorter_contract (we_sortConditions E)
    \<and> sorter_contract (we_sortContainers E)"

lemma sorter_set:
  fixes f :: "'a \<Rightarrow> 'k :: linorder"
  assumes "sorter_contract srt"
  shows "set (srt (\<lambda>a b. f a < f b) xs) = set xs"
  using assms strict_weak_key[of f] unfolding sorter_contract_def by (metis set_mset_mset)

lemma sort_contributes:
  assumes "sorts_properly E"
  shows "contributes (sortRepositories E rs) k n \<longleftrightarrow> contributes rs k n"
proof -
  have "set (we_sortRepositories E (\<lambda>a b. rp_Name a < rp_Name b) rs) = set rs"
    "set (we_sortConditions E (\<lambda>a b. mc_Name a < mc_Name b) cs) = set cs" for cs
    using assms by (simp_all add: sorts_properly_def sorter_set)
  then show ?thesis
    by (simp add: contributes_def sortRepositories_def conditionKey_def)
qed

section \<open>Well-formed registries\<close>

text \<open>
  The registries of the controller have one entry per repository, with at least one condition, any of
  which suffices, and every condition is the one of a tag or digest.
\<close>

definition tag_condition :: "workload_env \<Rightarrow> string \<Rightarrow> MatchCondition \<Rightarrow> bool" where
  "tag_condition E tag c \<longleftrightarrow> mc_Name c = ''tag-'' @ tag \<and> mc_Expression c = ''tag == '' @ we_quote E tag"

definition workload_repository :: "workload_env \<Rightarrow> Repository \<Rightarrow> bool" where
  "workload_repository E r \<longleftrightarrow> rp_MatchOperator r = MatchOperatorOr \<and> rp_MatchConditions r \<noteq> []
    \<and> (\<forall>c \<in> set (rp_MatchConditions r). \<exists>tag. tag_condition E tag c)"

definition workload_wf :: "workload_env \<Rightarrow> Repository list \<Rightarrow> bool" where
  "workload_wf E rs \<longleftrightarrow> distinct (map rp_Name rs) \<and> (\<forall>r \<in> set rs. workload_repository E r)"

lemma findOrAppend_names:
  assumes "\<And>r. rp_Name (f r) = rp_Name r"
  shows "map rp_Name (findOrAppendRepository name f rs)
    = (if name \<in> rp_Name ` set rs then map rp_Name rs else map rp_Name rs @ [name])"
  by (induction rs) (auto simp: assms)

lemma findOrAppend_wf:
  assumes "workload_wf E rs" "tag_condition E tag c"
  shows "workload_wf E (findOrAppendRepository name (\<lambda>r. r\<lparr>rp_MatchConditions := rp_MatchConditions r @ [c]\<rparr>) rs)"
proof -
  let ?f = "\<lambda>r. r\<lparr>rp_MatchConditions := rp_MatchConditions r @ [c]\<rparr>"
  have repo: "workload_repository E (?f r)" if "rp_MatchOperator r = MatchOperatorOr"
    "\<forall>c \<in> set (rp_MatchConditions r). \<exists>tag. tag_condition E tag c" for r
    using that assms(2) by (auto simp: workload_repository_def)
  have old: "workload_repository E (?f r)" if "workload_repository E r" for r
    by (rule repo) (use that in \<open>simp_all add: workload_repository_def\<close>)
  have new: "workload_repository E (?f \<lparr>rp_Name = name, rp_MatchConditions = [], rp_MatchOperator = MatchOperatorOr\<rparr>)"
    by (rule repo) simp_all
  have "\<forall>r \<in> set (findOrAppendRepository name ?f rs). workload_repository E r"
    if "\<forall>r \<in> set rs. workload_repository E r"
    using that
  proof (induction rs)
    case Nil
    show ?case unfolding findOrAppendRepository.simps using new by simp
  next
    case (Cons r rs)
    then show ?case unfolding findOrAppendRepository.simps using old[of r] by simp
  qed
  moreover have "distinct (map rp_Name (findOrAppendRepository name ?f rs))"
    using assms(1) by (subst findOrAppend_names) (auto simp: workload_wf_def)
  ultimately show ?thesis
    using assms(1) unfolding workload_wf_def by blast
qed

lemma addNew_wf:
  assumes "workload_wf E rs" "\<forall>k \<in> set keys. \<exists>repository tag. k = tagCondition E repository tag"
  shows "workload_wf E (addNewMatchConditions rs keys ns)"
  using assms unfolding addNewMatchConditions_def
proof (induction keys arbitrary: rs)
  case (Cons k keys)
  then obtain repository tag where "k = tagCondition E repository tag" by auto
  then have "tag_condition E tag \<lparr>mc_Name = mk_name k, mc_Expression = mk_expression k, mc_Labels = l\<rparr>" for l
    by (simp add: tag_condition_def tagCondition_def)
  from findOrAppend_wf[OF Cons.prems(1) this] Cons.prems(2) show ?case
    by (auto intro!: Cons.IH)
qed simp

lemma kept_wf:
  assumes "workload_wf E (rs_Repositories (rg_Spec registry))"
  shows "workload_wf E (fst (processExistingRepositories registry ns needed))"
proof -
  let ?rs = "rs_Repositories (rg_Spec registry)"
  have names: "map rp_Name (map (kept_repository ns needed) ?rs) = map rp_Name ?rs"
    by (simp add: kept_repository_def)
  have same: "tag_condition E tag (relabelCondition ns needed r c) \<longleftrightarrow> tag_condition E tag c" for tag r c
    by (simp add: tag_condition_def relabelCondition_def)
  have "workload_repository E (kept_repository ns needed r)"
    if "r \<in> set ?rs" "rp_MatchConditions (kept_repository ns needed r) \<noteq> []" for r
    using that assms
    by (auto simp: workload_wf_def workload_repository_def kept_repository_def processRepository_result same)
  moreover have "distinct (map rp_Name (filter P (map (kept_repository ns needed) ?rs)))" for P
    by (rule distinct_map_filter) (use assms in \<open>simp only: names workload_wf_def\<close>)
  ultimately show ?thesis
    unfolding processExisting_result(1) workload_wf_def by auto
qed

lemma sort_wf:
  assumes "sorts_properly E" "workload_wf E rs"
  shows "workload_wf E (sortRepositories E rs)"
proof -
  have m: "mset (we_sortRepositories E (\<lambda>a b. rp_Name a < rp_Name b) rs) = mset rs"
    using assms(1) strict_weak_key[of rp_Name] unfolding sorts_properly_def sorter_contract_def by blast
  have c: "set (we_sortConditions E (\<lambda>a b. mc_Name a < mc_Name b) cs) = set cs" for cs
    using assms(1) by (simp add: sorts_properly_def sorter_set)
  have "mset (map rp_Name (sortRepositories E rs)) = mset (map rp_Name rs)"
    using m by (simp add: sortRepositories_def comp_def)
  then have "distinct (map rp_Name (sortRepositories E rs))"
    using assms(2) mset_eq_imp_distinct_iff unfolding workload_wf_def by metis
  moreover have "we_sortConditions E (\<lambda>a b. mc_Name a < mc_Name b) cs \<noteq> []" if "cs \<noteq> []" for cs
    using c[of cs] that by (metis set_empty)
  ultimately show ?thesis
    using assms(2) c mset_eq_setD[OF m]
    by (auto simp: workload_wf_def workload_repository_def sortRepositories_def)
qed

lemma needed_tags: "k \<in> set (buildNeededMatchConditions E ts) \<Longrightarrow> \<exists>repository tag. k = tagCondition E repository tag"
  by (auto simp: buildNeeded_set)

lemma updated_wf:
  assumes "workload_wf E (rs_Repositories (rg_Spec r))"
  shows "workload_wf E (updatedRepositories r ns (buildNeededMatchConditions E ts))"
  using kept_wf[OF assms, of ns "buildNeededMatchConditions E ts"] needed_tags[of _ E ts]
  unfolding updatedRepositories_def by (auto intro!: addNew_wf split: prod.splits)

lemma update_entry: "(a, b) \<in> set (AList.update k v m) \<Longrightarrow> b = v \<or> (a, b) \<in> set m"
  by (induction m) (auto split: if_splits)

lemma group_tags_nonempty: "(repository, tags) \<in> set (lookup_list (groupImagesByRegistry E images) uri) \<Longrightarrow> tags \<noteq> []"
proof -
  have "(repository, tags) \<in> set (lookup_list (fold (groupImage E) images acc) uri) \<Longrightarrow> tags \<noteq> []"
    if "\<And>uri repository tags. (repository, tags) \<in> set (lookup_list acc uri) \<Longrightarrow> tags \<noteq> []" for acc
    using that
  proof (induction images arbitrary: acc)
    case (Cons img images)
    have "tags \<noteq> []" if "(repository, tags) \<in> set (lookup_list (groupImage E img acc) uri)" for uri repository tags
    proof -
      have ins: "List.insert x xs \<noteq> []" "[] \<noteq> List.insert x xs" for x :: string and xs
        by (auto simp: List.insert_def)
      from that show ?thesis
        using Cons.prems(2) unfolding groupImage_alt
        by (auto split: if_splits sum.splits dest!: update_entry simp: ins)
    qed
    with Cons show ?case by simp
  qed simp
  from this[of "[]"] show "(repository, tags) \<in> set (lookup_list (groupImagesByRegistry E images) uri) \<Longrightarrow> tags \<noteq> []"
    by (simp add: groupImagesByRegistry_def)
qed

lemma newRepositories_wf:
  "workload_wf E (map (newRepository E ns) (lookup_list (groupImagesByRegistry E images) uri))"
proof -
  have "workload_repository E (newRepository E ns entry)" if "snd entry \<noteq> []" for entry
    using that by (auto simp: workload_repository_def newRepository_def tag_condition_def)
  moreover have "map rp_Name (map (newRepository E ns) ts) = map fst ts" for ts
    by (simp add: newRepository_def comp_def)
  ultimately show ?thesis
    using groupImagesByRegistry_grouped[of E images] group_tags_nonempty[of _ _ E images uri]
    by (auto simp: workload_wf_def grouped_def simp del: map_map)
qed

section \<open>Writes of registries\<close>

definition in_use :: "workload_env \<Rightarrow> Pod list \<Rightarrow> string \<Rightarrow> matchConditionKey \<Rightarrow> bool" where
  "in_use E pods uri k \<longleftrightarrow>
    (\<exists>repository tag. pulls E (podImages pods) uri repository tag \<and> k = tagCondition E repository tag)"

text \<open>The configured fields, and the annotation that asks for a scan of what was added.\<close>

definition configured :: "WorkloadScanConfiguration \<Rightarrow> Registry \<Rightarrow> bool" where
  "configured config r \<longleftrightarrow>
    rg_Spec r = configuredSpec (wsc_Spec config) (rs_URI (rg_Spec r)) (rs_CatalogType (rg_Spec r))
                  (rs_Repositories (rg_Spec r))"

definition rescan_added ::
  "workload_env \<Rightarrow> WorkloadScanConfiguration \<Rightarrow> Registry \<Rightarrow> Registry \<Rightarrow> bool" where
  "rescan_added E config r r' \<longleftrightarrow>
    (let added = set (extractMatchConditionsFromRegistry r') - set (extractMatchConditionsFromRegistry r)
     in if wc_ScanOnChange (wsc_Spec config) \<and> added \<noteq> {}
        then \<exists>uuid payload keys. set keys = added \<and> we_marshalRescan E (buildRescanRequest keys) = Inr payload
          \<and> rg_meta r' = (rg_meta r)\<lparr>om_Annotations :=
              AList.update (NewRescanRequestedAnnotationKey uuid) payload (om_Annotations (rg_meta r))\<rparr>
        else rg_meta r' = rg_meta r)"

definition registry_updated ::
  "workload_env \<Rightarrow> string \<Rightarrow> Pod list \<Rightarrow> WorkloadScanConfiguration \<Rightarrow> Registry \<Rightarrow> Registry \<Rightarrow> bool" where
  "registry_updated E ns pods config r r' \<longleftrightarrow>
    rs_URI (rg_Spec r') = rs_URI (rg_Spec r) \<and> configured config r' \<and> rescan_added E config r r'
    \<and> (\<forall>k n. contributes (rs_Repositories (rg_Spec r')) k n \<longleftrightarrow>
          (if n = ns then in_use E pods (rs_URI (rg_Spec r)) k
           else contributes (rs_Repositories (rg_Spec r)) k n))
    \<and> (workload_wf E (rs_Repositories (rg_Spec r)) \<longrightarrow> workload_wf E (rs_Repositories (rg_Spec r')))"

definition registry_unused :: "workload_env \<Rightarrow> string \<Rightarrow> Pod list \<Rightarrow> Registry \<Rightarrow> bool" where
  "registry_unused E ns pods r \<longleftrightarrow>
    (\<forall>k. \<not> in_use E pods (rs_URI (rg_Spec r)) k)
    \<and> (\<forall>rp \<in> set (rs_Repositories (rg_Spec r)). \<forall>c \<in> set (rp_MatchConditions rp).
         fst ` set (mc_Labels c) \<subseteq> {nsLabel ns})"

definition registry_created ::
  "workload_env \<Rightarrow> string \<Rightarrow> Pod list \<Rightarrow> WorkloadScanConfiguration \<Rightarrow> Registry \<Rightarrow> bool" where
  "registry_created E ns pods config r \<longleftrightarrow>
    om_Name (rg_meta r) = computeRegistryName E (rs_URI (rg_Spec r))
    \<and> om_Namespace (rg_meta r) = artifactsNamespace config ns \<and> IsManagedByWorkloadScan r \<and> configured config r
    \<and> (\<forall>k n. contributes (rs_Repositories (rg_Spec r)) k n \<longleftrightarrow> n = ns \<and> in_use E pods (rs_URI (rg_Spec r)) k)
    \<and> workload_wf E (rs_Repositories (rg_Spec r))"

lemma annotateRescan_yields:
  "yields (pred_sum (\<lambda>_. True) (\<lambda>r'. \<exists>uuid payload. we_marshalRescan E request = Inr payload
      \<and> r' = r\<lparr>rg_meta := (rg_meta r)\<lparr>om_Annotations :=
          AList.update (NewRescanRequestedAnnotationKey uuid) payload (om_Annotations (rg_meta r))\<rparr>\<rparr>))
    (annotateRescan E request failure r)"
  unfolding annotateRescan_def by (intro yields_intros) auto

lemma annotateRescan_emits: "emits (\<lambda>c. c = WLNewUUID) (annotateRescan E request failure r)"
  unfolding annotateRescan_def by (intro emits_intros) simp_all

lemma extract_meta: "extractMatchConditionsFromRegistry (r\<lparr>rg_meta := m\<rparr>) = extractMatchConditionsFromRegistry r"
  by (simp add: extractMatchConditionsFromRegistry_def)

definition tags_in_use :: "workload_env \<Rightarrow> Pod list \<Rightarrow> string \<Rightarrow> repositoryTags" where
  "tags_in_use E pods uri = lookup_list (groupImagesByRegistry E (podImages pods)) uri"

lemma tags_in_use_needed:
  "k \<in> set (buildNeededMatchConditions E (tags_in_use E pods uri)) \<longleftrightarrow> in_use E pods uri k"
  unfolding tags_in_use_def needed_iff in_use_def ..

text \<open>The registry before the annotation.\<close>

definition respecified :: "workload_env \<Rightarrow> string \<Rightarrow> Pod list \<Rightarrow> WorkloadScanConfiguration \<Rightarrow> Registry \<Rightarrow> Registry" where
  "respecified E ns pods config r =
    r\<lparr>rg_Spec := configuredSpec (wsc_Spec config) (rs_URI (rg_Spec r)) (rs_CatalogType (rg_Spec r))
        (sortRepositories E (updatedRepositories r ns
          (buildNeededMatchConditions E (tags_in_use E pods (rs_URI (rg_Spec r))))))\<rparr>"

lemma respecified_spec [simp]:
  "rs_URI (rg_Spec (respecified E ns pods config r)) = rs_URI (rg_Spec r)"
  "configured config (respecified E ns pods config r)"
  "rg_meta (respecified E ns pods config r) = rg_meta r"
  by (simp_all add: respecified_def configured_def configuredSpec_def)

lemma respecified_contributes:
  assumes "sorts_properly E"
  shows "contributes (rs_Repositories (rg_Spec (respecified E ns pods config r))) k n \<longleftrightarrow>
    (if n = ns then in_use E pods (rs_URI (rg_Spec r)) k else contributes (rs_Repositories (rg_Spec r)) k n)"
  by (simp add: respecified_def configuredSpec_def sort_contributes[OF assms] updatedRepositories_contributes
      tags_in_use_needed)

lemma respecified_wf:
  assumes "sorts_properly E" "workload_wf E (rs_Repositories (rg_Spec r))"
  shows "workload_wf E (rs_Repositories (rg_Spec (respecified E ns pods config r)))"
  using sort_wf[OF assms(1) updated_wf[OF assms(2)]] by (simp add: respecified_def configuredSpec_def)

definition added_conditions :: "workload_env \<Rightarrow> string \<Rightarrow> Pod list \<Rightarrow> WorkloadScanConfiguration \<Rightarrow> Registry \<Rightarrow> matchConditionKey list" where
  "added_conditions E ns pods config r =
    filter (\<lambda>k. k \<notin> set (extractMatchConditionsFromRegistry r))
      (extractMatchConditionsFromRegistry (respecified E ns pods config r))"

lemma annotated_updated:
  assumes "sorts_properly E"
  shows "yields (pred_sum (\<lambda>_. True) (registry_updated E ns pods config r))
    (if wc_ScanOnChange (wsc_Spec config) \<and> added_conditions E ns pods config r \<noteq> []
     then annotateRescan E (buildRescanRequest (added_conditions E ns pods config r)) failure
            (respecified E ns pods config r)
     else ok (respecified E ns pods config r))"
proof -
  let ?r = "respecified E ns pods config r" and ?added = "added_conditions E ns pods config r"
  have added: "set ?added = set (extractMatchConditionsFromRegistry ?r) - set (extractMatchConditionsFromRegistry r)"
    by (auto simp: added_conditions_def)
  have upd: "registry_updated E ns pods config r (?r\<lparr>rg_meta := m\<rparr>)"
    if "rescan_added E config r (?r\<lparr>rg_meta := m\<rparr>)" for m
    using that respecified_contributes[OF assms] respecified_spec(2)[of config E ns pods r] respecified_wf[OF assms]
    by (simp add: registry_updated_def configured_def)
  show ?thesis
  proof (cases "wc_ScanOnChange (wsc_Spec config) \<and> ?added \<noteq> []")
    case True
    have "registry_updated E ns pods config r (?r\<lparr>rg_meta := (rg_meta ?r)\<lparr>om_Annotations :=
        AList.update (NewRescanRequestedAnnotationKey uuid) payload (om_Annotations (rg_meta ?r))\<rparr>\<rparr>)"
      if "we_marshalRescan E (buildRescanRequest ?added) = Inr payload" for uuid payload
      by (rule upd) (use True that in \<open>auto simp: rescan_added_def Let_def extract_meta added[symmetric]\<close>)
    then have "yields (pred_sum (\<lambda>_. True) (registry_updated E ns pods config r))
        (annotateRescan E (buildRescanRequest ?added) failure ?r)"
      by (intro yields_mono[OF annotateRescan_yields]) (auto elim!: pred_sum.cases)
    then show ?thesis using True by simp
  next
    case False
    then have "rescan_added E config r (?r\<lparr>rg_meta := rg_meta r\<rparr>)"
      unfolding rescan_added_def Let_def extract_meta added[symmetric] by auto
    from upd[OF this] have "registry_updated E ns pods config r ?r" by (simp add: respecified_def)
    then show ?thesis using False by auto
  qed
qed

lemma updateRegistry_alt:
  "updateRegistry E r ns (tags_in_use E pods (rs_URI (rg_Spec r))) config =
    (if updatedRepositories r ns (buildNeededMatchConditions E (tags_in_use E pods (rs_URI (rg_Spec r)))) = [] then ok True
     else do {
       a \<leftarrow> (if wc_ScanOnChange (wsc_Spec config) \<and> added_conditions E ns pods config r \<noteq> []
             then annotateRescan E (buildRescanRequest (added_conditions E ns pods config r))
                    ''failed to marshal rescan annotation'' (respecified E ns pods config r)
             else ok (respecified E ns pods config r));
       (case a of
          Inl err \<Rightarrow> fail err
        | Inr annotated \<Rightarrow> do {
            u \<leftarrow> call (\<lambda>h. we_UpdateRegistry E h annotated) (WLUpdateRegistry annotated);
            State_Monad.return (map_sum
              (ErrorWrap (''failed to update registry '' @ om_Name (rg_meta r))) (\<lambda>_. False) u)
          })
     })"
  unfolding updateRegistry_def Let_def respecified_def added_conditions_def ..

lemma updateRegistry_emits:
  assumes "sorts_properly E"
  shows "emits (\<lambda>c. c = WLNewUUID \<or> (\<exists>r'. c = WLUpdateRegistry r' \<and> registry_updated E ns pods config r r'))
    (updateRegistry E r ns (tags_in_use E pods (rs_URI (rg_Spec r))) config)"
  unfolding updateRegistry_alt
  by (rule emits_cases(2), simp, rule emits_bind_yields[OF _ annotated_updated[OF assms]])
    (auto intro!: emits_intros emits_mono[OF annotateRescan_emits] split: sum.splits)

lemma updateRegistry_True:
  "yields (pred_sum (\<lambda>_. True) (\<lambda>b. b \<longrightarrow> registry_unused E ns pods r))
    (updateRegistry E r ns (tags_in_use E pods (rs_URI (rg_Spec r))) config)"
proof -
  have "registry_unused E ns pods r"
    if "updatedRepositories r ns (buildNeededMatchConditions E (tags_in_use E pods (rs_URI (rg_Spec r)))) = []"
    using that tags_in_use_needed[of _ E pods "rs_URI (rg_Spec r)"]
    unfolding updatedRepositories_Nil_iff registry_unused_def by simp
  then show ?thesis
    unfolding updateRegistry_alt by (intro yields_intros pred_sum_InrI) auto
qed

text \<open>What one step of the loop over the existing registries writes.\<close>

definition registry_write ::
  "workload_env \<Rightarrow> string \<Rightarrow> Pod list \<Rightarrow> WorkloadScanConfiguration \<Rightarrow> Registry \<Rightarrow> workload_call \<Rightarrow> bool" where
  "registry_write E ns pods config r c \<longleftrightarrow>
    c = WLNewUUID \<or> (\<exists>r'. c = WLUpdateRegistry r' \<and> registry_updated E ns pods config r r')
    \<or> c = WLDeleteRegistry r \<and> registry_unused E ns pods r"

lemma deleteRegistry_emits: "P (WLDeleteRegistry r) \<Longrightarrow> emits P (deleteRegistry E failure r)"
  unfolding deleteRegistry_def by (intro emits_intros)

lemma reconcileRegistry_emits:
  assumes "sorts_properly E"
  shows "emits (registry_write E ns pods config r)
    (reconcileRegistry E ns (groupImagesByRegistry E (podImages pods)) config r)"
  unfolding reconcileRegistry_def Let_def lookup_list_def[symmetric] tags_in_use_def[symmetric]
proof (rule emits_bind_yields[OF _ updateRegistry_True])
  show "emits (registry_write E ns pods config r)
      (updateRegistry E r ns (tags_in_use E pods (rs_URI (rg_Spec r))) config)"
    by (rule emits_mono[OF updateRegistry_emits[OF assms]]) (auto simp: registry_write_def)
qed (auto intro!: emits_intros deleteRegistry_emits simp: registry_write_def split: sum.splits)

lemma newRegistry_created:
  assumes "sorts_properly E"
  shows "registry_created E ns pods config
    (newRegistry E uri ns (artifactsNamespace config ns) (tags_in_use E pods uri) config)"
proof -
  have one: "(\<exists>c \<in> set (rp_MatchConditions (newRepository E ns entry)). conditionKey (newRepository E ns entry) c = k
      \<and> map_of (mc_Labels c) (nsLabel n) \<noteq> None) \<longleftrightarrow> n = ns \<and> k \<in> tagCondition E (fst entry) ` set (snd entry)"
    for entry k n by (auto simp: newRepository_def conditionKey_def tagCondition_def)
  have step: "contributes (newRepository E ns entry # rs) k n \<longleftrightarrow>
      n = ns \<and> k \<in> tagCondition E (fst entry) ` set (snd entry) \<or> contributes rs k n" for entry rs k n
    unfolding contributes_Cons one ..
  have "contributes (map (newRepository E ns) ts) k n \<longleftrightarrow> n = ns \<and> k \<in> set (buildNeededMatchConditions E ts)"
    for ts k n
    unfolding buildNeeded_set by (induction ts) (auto simp: step)
  moreover have wf: "workload_wf E (sortRepositories E (map (newRepository E ns) (tags_in_use E pods uri)))"
    unfolding tags_in_use_def by (rule sort_wf[OF assms newRepositories_wf])
  ultimately show ?thesis
    by (simp add: registry_created_def newRegistry_def configured_def configuredSpec_def IsManagedByWorkloadScan_def
        sort_contributes[OF assms] tags_in_use_needed wf)
qed

lemma newRegistry_annotated:
  assumes "sorts_properly E"
  defines "r0 uri ns pods config \<equiv> newRegistry E uri ns (artifactsNamespace config ns) (tags_in_use E pods uri) config"
  shows "yields (pred_sum (\<lambda>_. True) (\<lambda>r. rs_URI (rg_Spec r) = uri \<and> registry_created E ns pods config r))
      (if wc_ScanOnChange (wsc_Spec config) then annotateRescan E request failure (r0 uri ns pods config)
       else ok (r0 uri ns pods config))"
proof -
  let ?r = "r0 uri ns pods config"
  have uri: "rs_URI (rg_Spec ?r) = uri" by (simp add: r0_def newRegistry_def configuredSpec_def)
  have created: "registry_created E ns pods config (?r\<lparr>rg_meta := (rg_meta ?r)\<lparr>om_Annotations := a\<rparr>\<rparr>)" for a
    using newRegistry_created[OF assms(1), of ns pods config uri]
    by (simp add: r0_def registry_created_def configured_def IsManagedByWorkloadScan_def)
  show ?thesis
    by (intro yields_cases yields_mono[OF annotateRescan_yields] yields_return)
      (use uri created newRegistry_created[OF assms(1), of ns pods config uri] in
        \<open>auto simp: r0_def elim!: pred_sum.cases\<close>)
qed

lemma createRegistry_emits:
  assumes "sorts_properly E"
  shows "emits (\<lambda>c. c = WLNewUUID \<or> (\<exists>r. c = WLCreateRegistry r \<and> rs_URI (rg_Spec r) = uri
      \<and> registry_created E ns pods config r))
    (createRegistry E uri ns (artifactsNamespace config ns) (tags_in_use E pods uri) config)"
  unfolding createRegistry_def Let_def
  by (rule emits_bind_yields[OF _ newRegistry_annotated[OF assms]])
    (auto intro!: emits_intros emits_mono[OF annotateRescan_emits] split: sum.splits)

definition registries_write ::
  "workload_env \<Rightarrow> string \<Rightarrow> Pod list \<Rightarrow> WorkloadScanConfiguration \<Rightarrow> workload_call \<Rightarrow> bool" where
  "registries_write E ns pods config c \<longleftrightarrow>
    c = WLNewUUID \<or> c = WLListRegistries (Some (artifactsNamespace config ns))
    \<or> (\<exists>h listed. we_ListRegistries E h (Some (artifactsNamespace config ns)) = Inr listed
        \<and> ((\<exists>r \<in> set listed. registry_write E ns pods config r c)
          \<or> (\<exists>r. c = WLCreateRegistry r \<and> rs_URI (rg_Spec r) \<notin> (\<lambda>x. rs_URI (rg_Spec x)) ` set listed
               \<and> registry_created E ns pods config r)))"

lemma reconcileRegistries_emits:
  assumes "sorts_properly E"
  shows "emits (registries_write E ns pods config) (reconcileRegistries E ns pods config)"
proof -
  let ?ns = "artifactsNamespace config ns" and ?groups = "groupImagesByRegistry E (podImages pods)"
  have list: "yields (pred_sum (\<lambda>_. True) (\<lambda>listed. \<exists>h. we_ListRegistries E h (Some ?ns) = Inr listed))
      (call (\<lambda>h. we_ListRegistries E h (Some ?ns)) (WLListRegistries (Some ?ns)))"
    by (rule yields_call, rule pred_sum_InrI) blast
  have step: "emits (registries_write E ns pods config) (reconcileRegistry E ns ?groups config r)"
    if "we_ListRegistries E h (Some ?ns) = Inr listed" "r \<in> set listed" for h listed r
    by (rule emits_mono[OF reconcileRegistry_emits[OF assms]]) (use that in \<open>auto simp: registries_write_def\<close>)
  have tags: "tags_in_use E pods uri = repositories" if "(uri, repositories) \<in> set ?groups" for uri repositories
    using groupImagesByRegistry_grouped[of E "podImages pods"] that
    by (simp add: tags_in_use_def lookup_list_def grouped_def map_of_eq_Some_iff)
  have new: "emits (registries_write E ns pods config) (createRegistry E uri ns ?ns repositories config)"
    if "we_ListRegistries E h (Some ?ns) = Inr listed" "(uri, repositories) \<in> set ?groups"
      "uri \<notin> (\<lambda>x. rs_URI (rg_Spec x)) ` set listed" for h listed uri repositories
    unfolding tags[OF that(2), symmetric]
    by (rule emits_mono[OF createRegistry_emits[OF assms]]) (use that in \<open>auto simp: registries_write_def\<close>)
  show ?thesis
    unfolding reconcileRegistries_def Let_def
    by (rule emits_bind_yields[OF _ list])
      (auto intro!: emits_intros simp: registries_write_def[of _ _ _ _ "WLListRegistries _"] intro: step new split: sum.splits)
qed

section \<open>Success\<close>

text \<open>\<open>performs Q m\<close>: when \<open>m\<close> succeeds, a call that satisfies \<open>Q\<close> is in the history.\<close>

definition performs :: "('c \<Rightarrow> bool) \<Rightarrow> ('c, 'a result) prog \<Rightarrow> bool" where
  "performs Q m \<longleftrightarrow> (\<forall>h x h'. run_state m h = (Inr x, h') \<longrightarrow> (\<exists>c \<in> set h'. Q c))"

lemma performs_calls: "performs Q m \<Longrightarrow> answer_of m = Inr x \<Longrightarrow> \<exists>c \<in> set (calls m). Q c"
  unfolding performs_def answer_of_def calls_def by (metis prod.collapse)

lemma performs_call [intro]: "Q c \<Longrightarrow> performs Q (call f c)"
  by (simp add: performs_def)

lemma performs_mono: "performs P m \<Longrightarrow> (\<And>c. P c \<Longrightarrow> Q c) \<Longrightarrow> performs Q m"
  unfolding performs_def by blast

lemma performs_fail [simp]: "performs Q (fail e)"
  by (simp add: performs_def)

lemma performs_bind: "(\<And>x. performs Q (f x)) \<Longrightarrow> performs Q (State_Monad.bind m f)"
  unfolding performs_def by (auto split: prod.splits)

lemma performs_bind_yields: "yields R m \<Longrightarrow> (\<And>x. R x \<Longrightarrow> performs Q (f x)) \<Longrightarrow> performs Q (State_Monad.bind m f)"
  unfolding performs_def by (auto split: prod.splits dest: yields_run)

lemma performs_first:
  assumes "performs Q m" "\<And>x. emits (\<lambda>_. True) (f x)" "\<And>e. yields isl (f (Inl e))"
  shows "performs Q (State_Monad.bind m f)"
  unfolding performs_def
proof (intro allI impI)
  fix h y h' assume run: "run_state (State_Monad.bind m f) h = (Inr y, h')"
  obtain x h1 where m: "run_state m h = (x, h1)" by fastforce
  with run have f: "run_state (f x) h1 = (Inr y, h')" by simp
  have "\<exists>z. x = Inr z"
    using yields_run[OF assms(3)] f by (cases x) force+
  then obtain c where "c \<in> set h1" "Q c"
    using assms(1) m unfolding performs_def by blast
  moreover obtain new where "h' = h1 @ new" by (rule emits_history[OF assms(2) f])
  ultimately show "\<exists>c \<in> set h'. Q c" by auto
qed

lemma performs_for_each:
  assumes "x \<in> set xs" "performs Q (f x)" "\<And>y. emits (\<lambda>_. True) (f y)"
  shows "performs Q (for_each f xs)"
  using assms(1)
proof (induction xs)
  case (Cons y ys)
  show ?case
  proof (cases "x = y")
    case True
    then show ?thesis
      using assms(2,3) by (auto intro!: performs_first emits_intros)
  next
    case False
    with Cons show ?thesis by (auto intro!: performs_bind split: sum.splits)
  qed
qed simp

lemma emits_any: "emits P m \<Longrightarrow> emits (\<lambda>_. True) m"
  by (rule emits_mono) simp_all

lemma performs_call_map:
  "Q c \<Longrightarrow> performs Q (do { u \<leftarrow> call f c; State_Monad.return (map_sum g k u) })"
  by (auto simp: performs_def)

lemma updateRegistry_performs:
  assumes "sorts_properly E" "\<exists>k. in_use E pods (rs_URI (rg_Spec r)) k"
  shows "performs (\<lambda>c. \<exists>r'. c = WLUpdateRegistry r' \<and> registry_updated E ns pods config r r')
    (updateRegistry E r ns (tags_in_use E pods (rs_URI (rg_Spec r))) config)"
proof -
  have "buildNeededMatchConditions E (tags_in_use E pods (rs_URI (rg_Spec r))) \<noteq> []"
    using assms(2) tags_in_use_needed[of _ E pods "rs_URI (rg_Spec r)"] by force
  then have ne: "updatedRepositories r ns (buildNeededMatchConditions E (tags_in_use E pods (rs_URI (rg_Spec r)))) \<noteq> []"
    by (simp add: updatedRepositories_Nil_iff)
  show ?thesis
    unfolding updateRegistry_alt if_not_P[OF ne]
    by (rule performs_bind_yields[OF annotated_updated[OF assms(1)]]) (auto intro!: performs_call_map split: sum.splits)
qed

lemma createRegistry_performs:
  assumes "sorts_properly E"
  shows "performs (\<lambda>c. \<exists>r. c = WLCreateRegistry r \<and> rs_URI (rg_Spec r) = uri \<and> registry_created E ns pods config r)
    (createRegistry E uri ns (artifactsNamespace config ns) (tags_in_use E pods uri) config)"
  unfolding createRegistry_def Let_def
  by (rule performs_bind_yields[OF newRegistry_annotated[OF assms]])
    (auto intro!: performs_call_map split: sum.splits)

lemma createRegistry_any: "emits (\<lambda>_. True) (createRegistry E uri ns ns' repositories config)"
  unfolding createRegistry_def Let_def by (intro emits_intros emits_any[OF annotateRescan_emits]) simp_all

lemma reconcileRegistries_performs:
  assumes "sorts_properly E" "pulls E (podImages pods) uri repository tag"
    and upd0: "\<And>h listed r r'. \<lbrakk>we_ListRegistries E h (Some (artifactsNamespace config ns)) = Inr listed;
      r \<in> set listed; rs_URI (rg_Spec r) = uri; registry_updated E ns pods config r r'\<rbrakk> \<Longrightarrow> Q (WLUpdateRegistry r')"
    and new0: "\<And>r. \<lbrakk>rs_URI (rg_Spec r) = uri; registry_created E ns pods config r\<rbrakk> \<Longrightarrow> Q (WLCreateRegistry r)"
  shows "performs Q (reconcileRegistries E ns pods config)"
proof -
  let ?ns = "artifactsNamespace config ns" and ?groups = "groupImagesByRegistry E (podImages pods)"
  have upd: "performs Q (reconcileRegistry E ns ?groups config r)"
    if "rs_URI (rg_Spec r) = uri" "\<And>r'. registry_updated E ns pods config r r' \<Longrightarrow> Q (WLUpdateRegistry r')" for r
    unfolding reconcileRegistry_def Let_def lookup_list_def[symmetric] tags_in_use_def[symmetric]
  proof (rule performs_first)
    have "\<exists>k. in_use E pods (rs_URI (rg_Spec r)) k" using assms(2) that(1) by (auto simp: in_use_def)
    then show "performs Q (updateRegistry E r ns (tags_in_use E pods (rs_URI (rg_Spec r))) config)"
      by (rule performs_mono[OF updateRegistry_performs[OF assms(1)]]) (use that(2) in auto)
  qed (auto intro!: emits_intros deleteRegistry_emits simp: yields_def split: sum.splits)
  have new: "performs Q (createRegistry E uri ns ?ns (tags_in_use E pods uri) config)"
    by (rule performs_mono[OF createRegistry_performs[OF assms(1)]]) (auto intro: new0)
  have tags: "(uri, tags_in_use E pods uri) \<in> set ?groups"
    using assms(2) groupImagesByRegistry_tags[of tag E "podImages pods" uri repository]
    by (auto simp: tags_in_use_def lookup_list_def dest: map_of_SomeD split: option.splits)
  have any: "emits (\<lambda>_. True) (reconcileRegistry E ns ?groups config r)"
    "emits (\<lambda>_. True) (createRegistry E u ns ?ns rs config)" for r u rs
    by (rule emits_any[OF reconcileRegistry_emits[OF assms(1)]]) (rule createRegistry_any)
  have list: "yields (\<lambda>l. \<exists>h. we_ListRegistries E h (Some ?ns) = l)
      (call (\<lambda>h. we_ListRegistries E h (Some ?ns)) (WLListRegistries (Some ?ns)))"
    by (rule yields_call) blast
  show ?thesis
    unfolding reconcileRegistries_def Let_def
  proof (rule performs_bind_yields[OF list])
    fix l assume l: "\<exists>h. we_ListRegistries E h (Some ?ns) = l"
    show "performs Q (case l of
        Inl err \<Rightarrow> fail (ErrorWrap ''failed to list registries'' err)
      | Inr existing \<Rightarrow> do {
          u \<leftarrow> for_each (reconcileRegistry E ns ?groups config) existing;
          (case u of
             Inl err \<Rightarrow> fail err
           | Inr _ \<Rightarrow> for_each (\<lambda>(uri, repositories). createRegistry E uri ns ?ns repositories config)
                 (filter (\<lambda>(uri, _). uri \<notin> set (map (\<lambda>registry. rs_URI (rg_Spec registry)) existing)) ?groups))
        })"
    proof (cases l)
      case (Inr existing)
      show ?thesis
      proof (cases "uri \<in> set (map (\<lambda>registry. rs_URI (rg_Spec registry)) existing)")
        case True
        then obtain r where "r \<in> set existing" "rs_URI (rg_Spec r) = uri" by auto
        then have "performs Q (for_each (reconcileRegistry E ns ?groups config) existing)"
          using l Inr upd0 by (intro performs_for_each[OF _ upd any(1)]) auto
        with Inr any show ?thesis by (auto intro!: performs_first emits_intros simp: yields_def)
      next
        case False
        then have "performs Q (for_each (\<lambda>(uri, repositories). createRegistry E uri ns ?ns repositories config)
            (filter (\<lambda>(uri, _). uri \<notin> set (map (\<lambda>registry. rs_URI (rg_Spec registry)) existing)) ?groups))"
          using new tags any by (intro performs_for_each[of "(uri, tags_in_use E pods uri)"]) auto
        with Inr show ?thesis by (auto intro!: performs_bind split: sum.splits)
      qed
    qed simp
  qed
qed

text \<open>
  C26: every image in use is in a registry.  When the registries of a namespace are reconciled without
  error, then for every image of its pods that can be parsed a registry of its URI was written, by an
  update or a creation, whose condition for the repository and the tag or digest carries the label of
  the namespace.
\<close>

theorem workload_images_reach_registries:
  assumes "sorts_properly E" "answer_of (reconcileRegistries E ns pods config) = Inr ()"
    "pulls E (podImages pods) uri repository tag"
  shows "\<exists>r. (WLUpdateRegistry r \<in> set (calls (reconcileRegistries E ns pods config))
        \<or> WLCreateRegistry r \<in> set (calls (reconcileRegistries E ns pods config)))
      \<and> rs_URI (rg_Spec r) = uri \<and> contributes (rs_Repositories (rg_Spec r)) (tagCondition E repository tag) ns"
proof -
  define Q where "Q c \<longleftrightarrow> (\<exists>r. (c = WLUpdateRegistry r \<or> c = WLCreateRegistry r) \<and> rs_URI (rg_Spec r) = uri
      \<and> contributes (rs_Repositories (rg_Spec r)) (tagCondition E repository tag) ns)" for c
  have "in_use E pods uri (tagCondition E repository tag)"
    using assms(3) by (auto simp: in_use_def)
  then have "performs Q (reconcileRegistries E ns pods config)"
    by (intro reconcileRegistries_performs[OF assms(1,3)])
      (auto simp: Q_def registry_updated_def registry_created_def)
  from performs_calls[OF this assms(2)] show ?thesis unfolding Q_def by blast
qed

lemma registry_updated_managed:
  "registry_updated E ns pods config r r' \<Longrightarrow> IsManagedByWorkloadScan r' = IsManagedByWorkloadScan r"
  by (auto simp: registry_updated_def rescan_added_def IsManagedByWorkloadScan_def Let_def split: if_splits)

section \<open>Writes of reports\<close>

abbreviation workload_key :: "WorkloadScanReport \<Rightarrow> NamespacedName" where
  "workload_key v \<equiv> (om_Namespace (ws_meta v), om_Name (ws_meta v))"

text \<open>
  \<open>CreateOrPatch\<close> reads the object and applies the function to the object it found or, when there is
  none, to the given one; then it creates or patches the result.
\<close>

definition patch_contract :: "workload_env \<Rightarrow> bool" where
  "patch_contract E \<longleftrightarrow>
    (\<forall>base f. emits (\<lambda>c. c = WLGetReport (workload_key base)
        \<or> (\<exists>x. workload_key x = workload_key base \<and> (c = WLCreateReport (f x) \<or> c = WLPatchReport (f x))))
      (we_CreateOrPatch E base f))"

definition owned_by :: "workload_env \<Rightarrow> Pod \<Rightarrow> OwnerReference \<Rightarrow> bool" where
  "owned_by E pod own \<longleftrightarrow> (\<exists>h. fst (run_state (resolveWorkloadOwner E pod) h) = Inr own)"

abbreviation owner_report :: "OwnerReference \<Rightarrow> string" where
  "owner_report own \<equiv> computeWorkloadScanReportName (or_Kind own) (or_UID own)"

text \<open>
  A container of the report refers to an image in use: to its repository and tag in the registry that
  has the computed name, in the namespace of the registries.
\<close>

definition refers_to_registry ::
  "workload_env \<Rightarrow> string \<Rightarrow> Pod list \<Rightarrow> WorkloadScanConfiguration \<Rightarrow> Pod \<Rightarrow> ContainerRef \<Rightarrow> bool" where
  "refers_to_registry E ns pods config pod ref \<longleftrightarrow>
    (\<exists>ctr uri. ctr \<in> set (pod_InitContainers pod) \<union> set (pod_Containers pod) \<and> cr_Name ref = ctr_Name ctr
      \<and> pulls E [ctr_Image ctr] uri (ir_Repository (cr_ImageRef ref)) (ir_Tag (cr_ImageRef ref))
      \<and> in_use E pods uri (tagCondition E (ir_Repository (cr_ImageRef ref)) (ir_Tag (cr_ImageRef ref)))
      \<and> ir_Registry (cr_ImageRef ref) = computeRegistryName E uri
      \<and> ir_Namespace (cr_ImageRef ref) = artifactsNamespace config ns)"

definition report_written ::
  "workload_env \<Rightarrow> string \<Rightarrow> Pod list \<Rightarrow> WorkloadScanConfiguration \<Rightarrow> WorkloadScanReport \<Rightarrow> bool" where
  "report_written E ns pods config v \<longleftrightarrow>
    om_Namespace (ws_meta v) = ns \<and> map_of (om_Labels (ws_meta v)) LabelManagedByKey = Some LabelManagedByValue
    \<and> (\<exists>pod \<in> set pods. (\<exists>own. owned_by E pod own \<and> om_Name (ws_meta v) = owner_report own)
        \<and> (\<exists>own. owned_by E pod own \<and> om_OwnerReferences (ws_meta v) = [own])
        \<and> (\<forall>ref \<in> set (ws_SpecContainers v). refers_to_registry E ns pods config pod ref)
        \<and> (\<forall>ctr \<in> set (pod_InitContainers pod) \<union> set (pod_Containers pod).
             (\<exists>uri repository tag. pulls E [ctr_Image ctr] uri repository tag)
               \<longrightarrow> ctr_Name ctr \<in> cr_Name ` set (ws_SpecContainers v)))"

definition reports_write ::
  "workload_env \<Rightarrow> string \<Rightarrow> Pod list \<Rightarrow> WorkloadScanConfiguration \<Rightarrow> workload_call \<Rightarrow> bool" where
  "reports_write E ns pods config c \<longleftrightarrow>
    (\<exists>kind key. c = WLGetOwner kind key) \<or> c = WLListReports (Some ns) \<or> (\<exists>key. c = WLGetReport key)
    \<or> (\<exists>v. (c = WLCreateReport v \<or> c = WLPatchReport v) \<and> report_written E ns pods config v)
    \<or> (\<exists>v h listed. c = WLDeleteReport v \<and> we_ListReports E h (Some ns) = Inr listed \<and> v \<in> set listed
         \<and> (\<forall>pod \<in> set pods. \<exists>own. owned_by E pod own \<and> om_Name (ws_meta v) \<noteq> owner_report own))"

lemma resolveWorkloadOwner_emits: "emits (reports_write E ns pods config) (resolveWorkloadOwner E pod)"
  unfolding resolveWorkloadOwner_def ownerThrough_def
  by (intro emits_intros) (auto simp: reports_write_def)

lemma resolveWorkloadOwner_yields:
  "yields (pred_sum (\<lambda>_. True) (owned_by E pod)) (resolveWorkloadOwner E pod)"
  unfolding yields_def owned_by_def by (auto intro!: pred_sum_InrI)

lemma in_map_filter: "y \<in> set (List.map_filter f xs) \<longleftrightarrow> (\<exists>x \<in> set xs. f x = Some y)"
  by (induction xs) (auto simp: List.map_filter_simps split: option.splits)

lemma parseImageToImageRef_iff:
  "parseImageToImageRef E namespace img = Inr ref \<longleftrightarrow>
    (\<exists>uri. pulls E [img] uri (ir_Repository ref) (ir_Tag ref)
      \<and> ir_Registry ref = computeRegistryName E uri \<and> ir_Namespace ref = namespace)"
proof (cases "img = [] \<or> (\<exists>e. we_ParseReference E img = Inl e)")
  case True
  then show ?thesis by (auto simp: parseImageToImageRef_def pulls_def)
next
  case False
  then obtain reference where "we_ParseReference E img = Inr reference" "img \<noteq> []"
    by (cases "we_ParseReference E img") auto
  then show ?thesis
    by (cases ref) (auto simp: parseImageToImageRef_def pulls_def)
qed

lemma containerRefs_iff:
  "ref \<in> set (containerRefs E namespace containers) \<longleftrightarrow>
    (\<exists>ctr uri. ctr \<in> set containers \<and> cr_Name ref = ctr_Name ctr
      \<and> pulls E [ctr_Image ctr] uri (ir_Repository (cr_ImageRef ref)) (ir_Tag (cr_ImageRef ref))
      \<and> ir_Registry (cr_ImageRef ref) = computeRegistryName E uri \<and> ir_Namespace (cr_ImageRef ref) = namespace)"
proof -
  have "(case parseImageToImageRef E namespace (ctr_Image ctr) of Inl err \<Rightarrow> None
        | Inr reference \<Rightarrow> Some \<lparr>cr_Name = ctr_Name ctr, cr_ImageRef = reference\<rparr>) = Some ref \<longleftrightarrow>
      cr_Name ref = ctr_Name ctr \<and> parseImageToImageRef E namespace (ctr_Image ctr) = Inr (cr_ImageRef ref)" for ctr
    by (cases ref) (auto split: sum.splits)
  then show ?thesis
    unfolding containerRefs_def in_map_filter parseImageToImageRef_iff by auto
qed

lemma buildContainerRefs_iff:
  assumes "sorts_properly E"
  shows "ref \<in> set (buildContainerRefs E namespace pod) \<longleftrightarrow>
    (\<exists>ctr uri. ctr \<in> set (pod_InitContainers pod) \<union> set (pod_Containers pod) \<and> cr_Name ref = ctr_Name ctr
      \<and> pulls E [ctr_Image ctr] uri (ir_Repository (cr_ImageRef ref)) (ir_Tag (cr_ImageRef ref))
      \<and> ir_Registry (cr_ImageRef ref) = computeRegistryName E uri \<and> ir_Namespace (cr_ImageRef ref) = namespace)"
proof -
  have "set (buildContainerRefs E namespace pod)
      = set (containerRefs E namespace (pod_InitContainers pod)) \<union> set (containerRefs E namespace (pod_Containers pod))"
    using assms by (simp add: buildContainerRefs_def sorts_properly_def sorter_set)
  then show ?thesis by (auto simp: containerRefs_iff)
qed

lemma fillWorkloadReport_written:
  assumes "sorts_properly E" "pod \<in> set pods" "owned_by E pod own0" "owned_by E pod own"
    "workload_key x = (ns, owner_report own0)"
  shows "report_written E ns pods config (fillWorkloadReport E own ns pod config x)"
proof -
  let ?v = "fillWorkloadReport E own ns pod config x"
  have spec: "ws_SpecContainers ?v = buildContainerRefs E (artifactsNamespace config ns) pod"
    and meta: "om_Namespace (ws_meta ?v) = ns" "om_Name (ws_meta ?v) = owner_report own0"
      "om_OwnerReferences (ws_meta ?v) = [own]"
      "map_of (om_Labels (ws_meta ?v)) LabelManagedByKey = Some LabelManagedByValue"
    using assms(5) by (simp_all add: fillWorkloadReport_def update_conv')
  have img: "in_use E pods uri (tagCondition E repository tag)"
    if "ctr \<in> set (pod_InitContainers pod) \<union> set (pod_Containers pod)" "pulls E [ctr_Image ctr] uri repository tag"
    for ctr uri repository tag
  proof -
    have "ctr_Image ctr \<in> set (podImages pods)"
      using that(1) assms(2) by (auto simp: podImages_set extractImagesFromPodSpec_def)
    then have "pulls E (podImages pods) uri repository tag" using that(2) by (auto simp: pulls_def)
    then show ?thesis by (auto simp: in_use_def)
  qed
  have "refers_to_registry E ns pods config pod ref" if "ref \<in> set (ws_SpecContainers ?v)" for ref
    using that img unfolding spec buildContainerRefs_iff[OF assms(1)] refers_to_registry_def by blast
  moreover have "ctr_Name ctr \<in> cr_Name ` set (ws_SpecContainers ?v)"
    if "ctr \<in> set (pod_InitContainers pod) \<union> set (pod_Containers pod)" "pulls E [ctr_Image ctr] uri repository tag"
    for ctr uri repository tag
  proof -
    have "\<lparr>cr_Name = ctr_Name ctr, cr_ImageRef = \<lparr>ir_Registry = computeRegistryName E uri,
        ir_Namespace = artifactsNamespace config ns, ir_Repository = repository, ir_Tag = tag\<rparr>\<rparr>
        \<in> set (ws_SpecContainers ?v)" (is "?ref \<in> _")
      unfolding spec buildContainerRefs_iff[OF assms(1)] using that by auto
    then have "cr_Name ?ref \<in> cr_Name ` set (ws_SpecContainers ?v)" by (rule imageI)
    then show ?thesis by simp
  qed
  ultimately show ?thesis
    unfolding report_written_def using meta assms(2-4) by blast
qed

definition podStep :: "workload_env \<Rightarrow> Pod \<Rightarrow> (string \<times> Pod) list \<Rightarrow> (workload_call, (string \<times> Pod) list result) prog" where
  "podStep E pod podsByReport = do {
      own \<leftarrow> resolveWorkloadOwner E pod;
      (case own of
         Inl err \<Rightarrow> fail (ErrorWrap (''failed to resolve workload owner for pod '' @ om_Name (pod_meta pod)) err)
       | Inr ownerReference \<Rightarrow>
           (let reportName = owner_report ownerReference
            in ok (if map_of podsByReport reportName \<noteq> None then podsByReport
                   else podsByReport @ [(reportName, pod)])))
    }"

definition names_owner :: "workload_env \<Rightarrow> Pod list \<Rightarrow> string \<times> Pod \<Rightarrow> bool" where
  "names_owner E pods entry \<longleftrightarrow>
    snd entry \<in> set pods \<and> (\<exists>own. owned_by E (snd entry) own \<and> fst entry = owner_report own)"

definition pod_covered :: "workload_env \<Rightarrow> (string \<times> Pod) list \<Rightarrow> Pod \<Rightarrow> bool" where
  "pod_covered E podsByReport pod \<longleftrightarrow> (\<exists>own. owned_by E pod own \<and> owner_report own \<in> fst ` set podsByReport)"

lemma podStep_yields:
  "yields (pred_sum (\<lambda>_. True) (\<lambda>m. set acc \<subseteq> set m \<and> pod_covered E m pod
      \<and> (\<forall>entry \<in> set m - set acc. snd entry = pod \<and> (\<exists>own. owned_by E pod own \<and> fst entry = owner_report own))))
    (podStep E pod acc)"
  unfolding podStep_def Let_def
  by (rule yields_bind[OF resolveWorkloadOwner_yields])
    (auto intro!: yields_intros pred_sum_InrI simp: pod_covered_def map_of_eq_None_iff split: if_splits)

lemma podSteps_yields:
  "yields (pred_sum (\<lambda>_. True) (\<lambda>m. set acc \<subseteq> set m \<and> (\<forall>pod \<in> set ps. pod_covered E m pod)
      \<and> (\<forall>entry \<in> set m - set acc. names_owner E ps entry)))
    (fold_prog (podStep E) ps acc)"
proof (induction ps arbitrary: acc)
  case (Cons pod ps)
  have tail: "yields (pred_sum (\<lambda>_. True) (\<lambda>m. set acc \<subseteq> set m \<and> (\<forall>pod \<in> set (pod # ps). pod_covered E m pod)
      \<and> (\<forall>entry \<in> set m - set acc. names_owner E (pod # ps) entry))) (fold_prog (podStep E) ps acc')"
    if a1: "set acc \<subseteq> set acc'" and a2: "pod_covered E acc' pod"
      and a3: "\<forall>entry \<in> set acc' - set acc. snd entry = pod \<and> (\<exists>own. owned_by E pod own \<and> fst entry = owner_report own)" for acc'
  proof (rule yields_mono[OF Cons.IH], rule pred_sum_InrI)
    fix x m assume "pred_sum (\<lambda>_. True) (\<lambda>m. set acc' \<subseteq> set m \<and> (\<forall>pod \<in> set ps. pod_covered E m pod)
        \<and> (\<forall>entry \<in> set m - set acc'. names_owner E ps entry)) x" "x = Inr m"
    then have m: "set acc' \<subseteq> set m" "\<forall>pod \<in> set ps. pod_covered E m pod"
      "\<forall>entry \<in> set m - set acc'. names_owner E ps entry" by auto
    have "pod_covered E m pod"
      using a2 m(1) unfolding pod_covered_def by blast
    moreover have "names_owner E (pod # ps) entry" if e: "entry \<in> set m - set acc" for entry
      using e m(3) a3 by (cases "entry \<in> set acc'") (auto simp: names_owner_def)
    ultimately show "set acc \<subseteq> set m \<and> (\<forall>pod \<in> set (pod # ps). pod_covered E m pod)
        \<and> (\<forall>entry \<in> set m - set acc. names_owner E (pod # ps) entry)"
      using m a1 by auto
  qed
  show ?case
    unfolding fold_prog.simps
    by (rule yields_bind[OF podStep_yields], rule yields_cases(1)) (simp add: yields_def, rule tail, auto)
qed (auto simp: yields_def)

lemma buildPodsByReport_yields:
  "yields (pred_sum (\<lambda>_. True) (\<lambda>m. (\<forall>pod \<in> set pods. pod_covered E m pod) \<and> list_all (names_owner E pods) m))
    (buildPodsByReport E pods)"
proof -
  have "buildPodsByReport E pods = fold_prog (podStep E) pods []"
    unfolding buildPodsByReport_def podStep_def ..
  then show ?thesis
    using podSteps_yields[of "[]" pods E] by (simp add: list_all_iff)
qed

lemma buildPodsByReport_emits: "emits (reports_write E ns pods config) (buildPodsByReport E ps)"
  unfolding buildPodsByReport_def Let_def
  by (intro emits_intros resolveWorkloadOwner_emits)

lemma createOrPatch_emits:
  assumes "sorts_properly E" "patch_contract E" "names_owner E pods entry"
  shows "emits (reports_write E ns pods config) (createOrPatchWorkloadScanReport E ns config entry)"
proof -
  obtain name pod where entry: "entry = (name, pod)" by fastforce
  obtain own0 where own0: "owned_by E pod own0" "name = owner_report own0" "pod \<in> set pods"
    using assms(3) unfolding names_owner_def entry by auto
  have "emits (reports_write E ns pods config)
      (we_CreateOrPatch E (newWorkloadReport ns name) (fillWorkloadReport E own ns pod config))"
    if "owned_by E pod own" for own
  proof (rule emits_mono)
    let ?base = "newWorkloadReport ns name" and ?f = "fillWorkloadReport E own ns pod config"
    show "emits (\<lambda>c. c = WLGetReport (workload_key ?base)
        \<or> (\<exists>x. workload_key x = workload_key ?base \<and> (c = WLCreateReport (?f x) \<or> c = WLPatchReport (?f x))))
      (we_CreateOrPatch E ?base ?f)"
      using assms(2) unfolding patch_contract_def by blast
    have "workload_key ?base = (ns, owner_report own0)"
      by (simp add: newWorkloadReport_def own0(2))
    then show "reports_write E ns pods config c" if "c = WLGetReport (workload_key ?base)
        \<or> (\<exists>x. workload_key x = workload_key ?base \<and> (c = WLCreateReport (?f x) \<or> c = WLPatchReport (?f x)))" for c
      using that fillWorkloadReport_written[OF assms(1) own0(3,1) \<open>owned_by E pod own\<close>]
      unfolding reports_write_def by metis
  qed
  then show ?thesis
    unfolding createOrPatchWorkloadScanReport_def entry prod.case
    by (intro emits_bind_yields[OF resolveWorkloadOwner_emits resolveWorkloadOwner_yields])
      (auto intro!: emits_intros split: sum.splits)
qed

lemma reconcileWorkloadScanReports_emits:
  assumes "sorts_properly E" "patch_contract E"
  shows "emits (reports_write E ns pods config) (reconcileWorkloadScanReports E ns pods config)"
proof -
  let ?P = "reports_write E ns pods config"
  have list: "yields (pred_sum (\<lambda>_. True) (\<lambda>listed. \<exists>h. we_ListReports E h (Some ns) = Inr listed))
      (call (\<lambda>h. we_ListReports E h (Some ns)) (WLListReports (Some ns)))"
    by (rule yields_call, rule pred_sum_InrI) blast
  have del: "emits ?P (deleteReport E failure v)"
    if "we_ListReports E h (Some ns) = Inr listed" "v \<in> set listed" "map_of m (om_Name (ws_meta v)) = None"
      "\<forall>pod \<in> set pods. pod_covered E m pod" for h listed v m failure
  proof -
    have "\<exists>own. owned_by E pod own \<and> om_Name (ws_meta v) \<noteq> owner_report own" if "pod \<in> set pods" for pod
      using that \<open>\<forall>pod \<in> set pods. pod_covered E m pod\<close> \<open>map_of m _ = None\<close>
      unfolding pod_covered_def map_of_eq_None_iff by metis
    then have "?P (WLDeleteReport v)"
      unfolding reports_write_def using that(1,2) by blast
    then show ?thesis unfolding deleteReport_def by (intro emits_intros)
  qed
  have tail: "emits ?P (do {
          l \<leftarrow> call (\<lambda>h. we_ListReports E h (Some ns)) (WLListReports (Some ns));
          (case l of
             Inl err \<Rightarrow> fail (ErrorWrap ''failed to list WorkloadScanReports'' err)
           | Inr existing \<Rightarrow> do {
               d \<leftarrow> for_each (\<lambda>report.
                      deleteReport E (''failed to delete stale WorkloadScanReport '' @ om_Name (ws_meta report)) report)
                      (filter (\<lambda>report. map_of m (om_Name (ws_meta report)) = None) existing);
               (case d of
                  Inl err \<Rightarrow> fail err
                | Inr _ \<Rightarrow> for_each (createOrPatchWorkloadScanReport E ns config) m)
             }) })"
    if "\<forall>pod \<in> set pods. pod_covered E m pod" "list_all (names_owner E pods) m" for m
    by (rule emits_bind_yields[OF _ list])
      (use that del createOrPatch_emits[OF assms] in
        \<open>auto intro!: emits_intros simp: list_all_iff reports_write_def[of _ _ _ _ "WLListReports _"] split: sum.splits\<close>)
  show ?thesis
    unfolding reconcileWorkloadScanReports_def
    by (rule emits_bind_yields[OF buildPodsByReport_emits buildPodsByReport_yields], rule emits_cases(1))
      (simp, rule tail, auto)
qed

section \<open>One reconciliation\<close>

text \<open>The pods of the namespace, or none when the selector of the configuration does not select it.\<close>

definition reconciled :: "workload_env \<Rightarrow> string \<Rightarrow> WorkloadScanConfiguration \<Rightarrow> Pod list \<Rightarrow> bool" where
  "reconciled E ns config pods \<longleftrightarrow>
    (\<exists>h. we_GetConfig E h = Inr config) \<and> wc_Enabled (wsc_Spec config)
    \<and> (\<exists>selected h. fst (run_state (checkNamespaceSelector E ns (wc_NamespaceSelector (wsc_Spec config))) h) = Inr selected
         \<and> (if selected then \<exists>h. we_ListPods E h ns = Inr pods else pods = []))"

definition scanning_off :: "workload_env \<Rightarrow> bool" where
  "scanning_off E \<longleftrightarrow> (\<exists>h e. we_GetConfig E h = Inl e \<and> IsNotFound e)
    \<or> (\<exists>h config. we_GetConfig E h = Inr config \<and> \<not> wc_Enabled (wsc_Spec config))"

definition cleanup_call :: "workload_env \<Rightarrow> workload_call \<Rightarrow> bool" where
  "cleanup_call E c \<longleftrightarrow> c = WLListRegistries None \<or> c = WLListReports None
    \<or> (\<exists>r h listed. c = WLDeleteRegistry r \<and> we_ListRegistries E h None = Inr listed \<and> r \<in> set listed)
    \<or> (\<exists>v h listed. c = WLDeleteReport v \<and> we_ListReports E h None = Inr listed \<and> v \<in> set listed)"

definition workload_call_ok :: "workload_env \<Rightarrow> string \<Rightarrow> workload_call \<Rightarrow> bool" where
  "workload_call_ok E ns c \<longleftrightarrow>
    c = WLGetConfig \<or> c = WLGetNamespace ns \<or> c = WLListPods ns
    \<or> scanning_off E \<and> cleanup_call E c
    \<or> (\<exists>config pods. reconciled E ns config pods
         \<and> (registries_write E ns pods config c \<or> reports_write E ns pods config c))"

lemma cleanup_emits: "emits (cleanup_call E) (cleanupAllManagedResources E)"
proof -
  have registries: "yields (pred_sum (\<lambda>_. True) (\<lambda>l. \<exists>h. we_ListRegistries E h None = Inr l))
      (call (\<lambda>h. we_ListRegistries E h None) (WLListRegistries None))"
    and reports: "yields (pred_sum (\<lambda>_. True) (\<lambda>l. \<exists>h. we_ListReports E h None = Inr l))
      (call (\<lambda>h. we_ListReports E h None) (WLListReports None))"
    by (rule yields_call, rule pred_sum_InrI, blast)+
  have r: "emits (cleanup_call E) (deleteRegistry E f r)" if "we_ListRegistries E h None = Inr l" "r \<in> set l" for f r h l
    by (rule deleteRegistry_emits) (use that in \<open>auto simp: cleanup_call_def\<close>)
  have v: "emits (cleanup_call E) (deleteReport E f v)" if "we_ListReports E h None = Inr l" "v \<in> set l" for f v h l
    unfolding deleteReport_def by (intro emits_intros) (use that in \<open>auto simp: cleanup_call_def\<close>)
  have tail: "emits (cleanup_call E) (do {
      r \<leftarrow> call (\<lambda>h. we_ListReports E h None) (WLListReports None);
      (case r of
         Inl err \<Rightarrow> fail (ErrorWrap ''failed to list managed WorkloadScanReports'' err)
       | Inr reports \<Rightarrow> for_each (\<lambda>report. deleteReport E
            (''failed to delete WorkloadScanReport '' @ om_Namespace (ws_meta report) @ ''/''
             @ om_Name (ws_meta report)) report) reports) })"
    by (rule emits_bind_yields[OF _ reports])
      (auto intro!: emits_intros intro: v simp: cleanup_call_def[of _ "WLListReports _"] split: sum.splits)
  show ?thesis
    unfolding cleanupAllManagedResources_def
  proof (rule emits_bind_yields[OF _ registries], goal_cases)
    case (2 l)
    then show ?case
      by (intro emits_cases emits_bind[OF emits_for_each] emits_return tail) (auto intro: r)
  qed (simp add: cleanup_call_def)
qed

lemma reconciledI:
  assumes "\<exists>h. we_GetConfig E h = Inr config" "wc_Enabled (wsc_Spec config)"
    "\<exists>h. fst (run_state (checkNamespaceSelector E ns (wc_NamespaceSelector (wsc_Spec config))) h) = Inr selected"
    "if selected then \<exists>h. we_ListPods E h ns = Inr pods else pods = []"
  shows "reconciled E ns config pods"
  unfolding reconciled_def using assms by blast

lemma reconcileNamespace_emits:
  assumes "sorts_properly E" "patch_contract E" "reconciled E ns config pods"
  shows "emits (workload_call_ok E ns) (reconcileNamespace E ns config pods f g)"
  unfolding reconcileNamespace_def
  by (intro emits_intros emits_mono[OF reconcileRegistries_emits[OF assms(1)]]
      emits_mono[OF reconcileWorkloadScanReports_emits[OF assms(1,2)]])
    (use assms(3) in \<open>unfold workload_call_ok_def, blast+\<close>)

lemma checkNamespaceSelector_emits: "emits (workload_call_ok E ns) (checkNamespaceSelector E ns selector)"
  unfolding checkNamespaceSelector_def by (intro emits_intros) (simp add: workload_call_ok_def)

lemma reconcileEnabled_emits:
  assumes "sorts_properly E" "patch_contract E" "\<exists>h. we_GetConfig E h = Inr config" "wc_Enabled (wsc_Spec config)"
  shows "emits (workload_call_ok E ns) (reconcileEnabled E ns config)"
proof -
  let ?check = "checkNamespaceSelector E ns (wc_NamespaceSelector (wsc_Spec config))"
  have selected: "yields (\<lambda>m. \<exists>h. fst (run_state ?check h) = m) ?check"
    unfolding yields_def by blast
  have pods: "yields (pred_sum (\<lambda>_. True) (\<lambda>p. \<exists>h. we_ListPods E h ns = Inr p))
      (call (\<lambda>h. we_ListPods E h ns) (WLListPods ns))"
    by (rule yields_call, rule pred_sum_InrI) blast
  have some: "emits (workload_call_ok E ns) (do {
        p \<leftarrow> call (\<lambda>h. we_ListPods E h ns) (WLListPods ns);
        (case p of
           Inl err \<Rightarrow> fail (ErrorWrap (''failed to list pods in namespace '' @ ns) err)
         | Inr pods \<Rightarrow> reconcileNamespace E ns config pods f g) })"
    if "\<exists>h. fst (run_state ?check h) = Inr True" for f g
    by (rule emits_bind_yields[OF _ pods], simp add: workload_call_ok_def, rule emits_cases(1))
      (simp, rule reconcileNamespace_emits[OF assms(1,2) reconciledI[OF assms(3,4) that]], simp)
  have none: "emits (workload_call_ok E ns) (reconcileNamespace E ns config [] f g)"
    if "\<exists>h. fst (run_state ?check h) = Inr False" for f g
    by (rule reconcileNamespace_emits[OF assms(1,2) reconciledI[OF assms(3,4) that]]) simp
  show ?thesis
    unfolding reconcileEnabled_def
    by (rule emits_bind_yields[OF checkNamespaceSelector_emits selected], rule emits_cases(1), simp, rule emits_cases(2))
      (rule none, simp, rule some, simp)
qed

text \<open>
  C25: what the workload scan controller writes follows the pods.  With an enabled configuration, an
  update of a registry sets the conditions of the namespace to exactly the images its pods use,
  keeps the conditions of every other namespace, takes the settings from the configuration and, when
  it adds conditions and scans on change are enabled, requests a scan of exactly those; a registry is
  deleted only when nothing uses it; a registry is created only for a URI without one.  A report
  belongs to the owner of a pod, and its containers refer to a registry, repository and tag that are
  in use; a report is deleted only when it has no pod.  Otherwise everything managed is deleted.
\<close>

theorem workload_writes_follow_pods:
  assumes "sorts_properly E" "patch_contract E"
    "c \<in> set (calls (WorkloadScanReconciler_Reconcile E ns))"
  shows "workload_call_ok E ns c"
proof -
  have config: "yields (\<lambda>g. \<exists>h. we_GetConfig E h = g) (call (we_GetConfig E) WLGetConfig)"
    by (rule yields_call) blast
  have off: "emits (workload_call_ok E ns) (do { c \<leftarrow> cleanupAllManagedResources E;
      State_Monad.return (map_sum (ErrorWrap f) id c) })" if "scanning_off E" for f
    by (intro emits_intros emits_mono[OF cleanup_emits]) (use that in \<open>simp add: workload_call_ok_def\<close>)
  have "emits (workload_call_ok E ns) (WorkloadScanReconciler_Reconcile E ns)"
    unfolding WorkloadScanReconciler_Reconcile_def
  proof (rule emits_bind_yields[OF _ config])
    fix g assume g: "\<exists>h. we_GetConfig E h = g"
    show "emits (workload_call_ok E ns) (case g of
        Inl err \<Rightarrow>
          if IsNotFound err
          then do {
            c \<leftarrow> cleanupAllManagedResources E;
            State_Monad.return (map_sum (ErrorWrap ''failed to cleanup managed resources'') id c)
          }
          else fail (ErrorWrap ''failed to get WorkloadScanConfiguration'' err)
      | Inr config \<Rightarrow>
          if \<not> wc_Enabled (wsc_Spec config)
          then do {
            c \<leftarrow> cleanupAllManagedResources E;
            State_Monad.return (map_sum (ErrorWrap ''failed to cleanup managed resources'') id c)
          }
          else reconcileEnabled E ns config)"
      by (intro emits_cases off reconcileEnabled_emits[OF assms(1,2)] emits_return)
        (use g in \<open>auto simp: scanning_off_def\<close>)
  qed (simp add: workload_call_ok_def)
  from emits_calls[OF this assms(3)] show ?thesis .
qed

section \<open>A sample environment\<close>

definition documented_CreateOrPatch ::
  "WorkloadScanReport \<Rightarrow> (WorkloadScanReport \<Rightarrow> WorkloadScanReport) \<Rightarrow> (workload_call, unit result) prog" where
  "documented_CreateOrPatch base f = do {
     _ \<leftarrow> call (\<lambda>_. ()) (WLGetReport (workload_key base));
     call (\<lambda>_. Inr ()) (WLCreateReport (f base))
   }"

definition sample_config :: WorkloadScanConfiguration where
  "sample_config = \<lparr>wsc_meta = empty_meta\<lparr>om_Name := WorkloadScanConfigurationName\<rparr>,
     wsc_Spec = \<lparr>wc_Enabled = True, wc_NamespaceSelector = None, wc_ArtifactsNamespace = [], wc_ScanInterval = None,
       wc_ScanOnChange = True, wc_AuthSecret = [], wc_CABundle = [], wc_CABundleRef = None, wc_Insecure = False,
       wc_Platforms = []\<rparr>\<rparr>"

definition sample_pod :: Pod where
  "sample_pod = \<lparr>pod_meta = empty_meta\<lparr>om_Name := ''p'', om_Namespace := ''ns'', om_UID := ''1''\<rparr>,
     pod_InitContainers = [], pod_Containers = [\<lparr>ctr_Name = ''c'', ctr_Image = ''h/app:v1''\<rparr>]\<rparr>"

text \<open>A registry in which another namespace needs one condition and this one needed another.\<close>

definition sample_workload_registry :: Registry where
  "sample_workload_registry =
    \<lparr>rg_meta = empty_meta\<lparr>om_Name := ''workloadscan-h'', om_Namespace := ''ns''\<rparr>,
     rg_Spec = configuredSpec (wsc_Spec sample_config) ''h'' []
       [\<lparr>rp_Name = ''app'', rp_MatchConditions =
           [\<lparr>mc_Name = ''tag-v0'', mc_Expression = ''tag == v0'', mc_Labels = [(nsLabel ''ns'', ''true'')]\<rparr>,
            \<lparr>mc_Name = ''tag-v2'', mc_Expression = ''tag == v2'', mc_Labels = [(nsLabel ''b'', ''true'')]\<rparr>],
         rp_MatchOperator = MatchOperatorOr\<rparr>],
     rg_Conditions = []\<rparr>"

definition sample_workload_env :: workload_env where
  "sample_workload_env =
    \<lparr>we_GetConfig = (\<lambda>h. Inr sample_config), we_GetNamespace = (\<lambda>h n. Inr []), we_ListPods = (\<lambda>h n. Inr [sample_pod]),
     we_ListRegistries = (\<lambda>h n. Inr [sample_workload_registry]), we_UpdateRegistry = (\<lambda>h r. Inr ()),
     we_CreateRegistry = (\<lambda>h r. Inr ()), we_DeleteRegistry = (\<lambda>h r. Inr ()), we_NewUUID = (\<lambda>h. ''u''),
     we_ListReports = (\<lambda>h n. Inr []), we_DeleteReport = (\<lambda>h v. Inr ()), we_GetOwner = (\<lambda>h k n. Inr empty_meta),
     we_CreateOrPatch = documented_CreateOrPatch, we_GetControllerOf = (\<lambda>m. None),
     we_selector = (\<lambda>s. Inr (\<lambda>l. True)),
     we_ParseReference = (\<lambda>i. Inr \<lparr>rf_Name = i, rf_String = i, rf_ContextName = ''h/app'', rf_RegistryStr = ''h'',
        rf_RepositoryStr = ''app'', rf_Identifier = ''v1''\<rparr>),
     we_quote = (\<lambda>s. s), we_sha256hex = (\<lambda>s. s), we_marshalRescan = (\<lambda>r. Inr []),
     we_sortRepositories = insertion_sorter, we_sortConditions = insertion_sorter,
     we_sortContainers = insertion_sorter\<rparr>"

lemma sample_sorts: "sorts_properly sample_workload_env"
  by (simp add: sorts_properly_def sample_workload_env_def insertion_sorter_contract)

lemma sample_patch: "patch_contract sample_workload_env"
proof -
  have "we_CreateOrPatch sample_workload_env = documented_CreateOrPatch" by (simp add: sample_workload_env_def)
  then show ?thesis
    unfolding patch_contract_def documented_CreateOrPatch_def by (auto intro!: emits_intros)
qed

definition sample_updated_registry :: Registry where
  "sample_updated_registry =
    sample_workload_registry
      \<lparr>rg_meta := (rg_meta sample_workload_registry)\<lparr>om_Annotations := [(NewRescanRequestedAnnotationKey ''u'', [])]\<rparr>,
       rg_Spec := (rg_Spec sample_workload_registry)\<lparr>rs_Repositories :=
         [\<lparr>rp_Name = ''app'', rp_MatchConditions =
             [\<lparr>mc_Name = ''tag-v1'', mc_Expression = ''tag == v1'', mc_Labels = [(nsLabel ''ns'', ''true'')]\<rparr>,
              \<lparr>mc_Name = ''tag-v2'', mc_Expression = ''tag == v2'', mc_Labels = [(nsLabel ''b'', ''true'')]\<rparr>],
           rp_MatchOperator = MatchOperatorOr\<rparr>]\<rparr>\<rparr>"

theorem workload_writes_follow_pods_witness:
  "workload_call_ok sample_workload_env ''ns'' (WLUpdateRegistry sample_updated_registry)"
proof (rule workload_writes_follow_pods[OF sample_sorts sample_patch])
  show "WLUpdateRegistry sample_updated_registry
      \<in> set (calls (WorkloadScanReconciler_Reconcile sample_workload_env ''ns''))"
    by code_simp
qed

theorem workload_images_reach_registries_witness:
  "\<exists>r. (WLUpdateRegistry r \<in> set (calls (reconcileRegistries sample_workload_env ''ns'' [sample_pod] sample_config))
      \<or> WLCreateRegistry r \<in> set (calls (reconcileRegistries sample_workload_env ''ns'' [sample_pod] sample_config)))
    \<and> rs_URI (rg_Spec r) = ''h''
    \<and> contributes (rs_Repositories (rg_Spec r)) (tagCondition sample_workload_env ''app'' ''v1'') ''ns''"
proof (rule workload_images_reach_registries[OF sample_sorts])
  show "answer_of (reconcileRegistries sample_workload_env ''ns'' [sample_pod] sample_config) = Inr ()"
    by code_simp
  show "pulls sample_workload_env (podImages [sample_pod]) ''h'' ''app'' ''v1''"
    by (auto simp: pulls_def podImages_set extractImagesFromPodSpec_def sample_pod_def sample_workload_env_def)
qed

end
