(* ===== verification/Image_Workloads.thy ===== *)
theory Image_Workloads
  imports Workload_Scan
begin

text \<open>
  Which workloads use an image: the controller that writes the workload scan reports of an image into
  its status, \<open>src/internal/controller/image_workloadscan_controller.go\<close>, the requests that a changed
  report causes, \<open>image_workloadscan_watch_helpers.go\<close>, the keys of \<open>indexer.go\<close>, and the events of
  \<open>workloadscan_watch_helpers.go\<close>.
\<close>

section \<open>Index keys\<close>

definition imageMetadataIndexKey :: "ImageMetadata \<Rightarrow> string" where
  "imageMetadataIndexKey md = md_Registry md @ ''/'' @ md_Repository md @ '':'' @ md_Tag md"

definition imageRefIndexKey :: "ImageRef \<Rightarrow> string" where
  "imageRefIndexKey ref = ir_Namespace ref @ ''/'' @ ir_Registry ref @ ''/'' @ ir_Repository ref @ '':'' @ ir_Tag ref"

definition indexImageByMetadata :: "Image \<Rightarrow> string list" where
  "indexImageByMetadata img = [imageMetadataIndexKey (im_ImageMetadata img)]"

text \<open>The keys of the containers in their order, each once.\<close>

definition indexWorkloadByImageRef :: "WorkloadScanReport \<Rightarrow> string list" where
  "indexWorkloadByImageRef workload =
    fold (\<lambda>container keys. if imageRefIndexKey (cr_ImageRef container) \<in> set keys then keys
                          else keys @ [imageRefIndexKey (cr_ImageRef container)])
      (ws_SpecContainers workload) []"

section \<open>The status of an image\<close>

datatype image_call =
    ICGetImage NamespacedName
  | ICListReports string
  | ICPatchImage Image Image
  | ICListImages string string

record image_env =
  ie_GetImage :: "image_call list \<Rightarrow> NamespacedName \<Rightarrow> Image result"
  ie_ListReports :: "image_call list \<Rightarrow> string \<Rightarrow> WorkloadScanReport list result"
  ie_PatchImage :: "image_call list \<Rightarrow> Image \<Rightarrow> Image \<Rightarrow> unit result"
  ie_ListImages :: "image_call list \<Rightarrow> string \<Rightarrow> string \<Rightarrow> Image list result"
  ie_sort :: "ImageWorkloadScanReports sorter"

definition image_ref :: "Image \<Rightarrow> ImageRef" where
  "image_ref img =
    \<lparr>ir_Registry = md_Registry (im_ImageMetadata img), ir_Namespace = om_Namespace (im_meta img),
     ir_Repository = md_Repository (im_ImageMetadata img), ir_Tag = md_Tag (im_ImageMetadata img)\<rparr>"

definition findWorkloadScanReportsByImage ::
  "image_env \<Rightarrow> Image \<Rightarrow> (image_call, WorkloadScanReport list result) prog" where
  "findWorkloadScanReportsByImage E img = do {
     let indexKey = imageRefIndexKey (image_ref img);
     l \<leftarrow> call (\<lambda>h. ie_ListReports E h indexKey) (ICListReports indexKey);
     State_Monad.return (map_sum (ErrorWrap ''failed to list workload scan reports'') id l)
   }"

text \<open>By namespace, then by name.\<close>

definition compareReports :: "ImageWorkloadScanReports \<Rightarrow> ImageWorkloadScanReports \<Rightarrow> bool" where
  "compareReports a b \<longleftrightarrow>
    (if iw_Namespace a \<noteq> iw_Namespace b then iw_Namespace a < iw_Namespace b else iw_Name a < iw_Name b)"

definition ImageWorkloadScanReconciler_Reconcile ::
  "image_env \<Rightarrow> NamespacedName \<Rightarrow> (image_call, unit result) prog" where
  "ImageWorkloadScanReconciler_Reconcile E key = do {
     g \<leftarrow> call (\<lambda>h. ie_GetImage E h key) (ICGetImage key);
     (case g of
        Inl err \<Rightarrow> if IsNotFound err then ok () else fail (ErrorWrap ''failed to get image'' err)
      | Inr img \<Rightarrow> do {
          l \<leftarrow> findWorkloadScanReportsByImage E img;
          (case l of
             Inl err \<Rightarrow> fail (ErrorWrap ''failed to find workload scan reports'' err)
           | Inr workloadScanReports \<Rightarrow>
               (let newReports = ie_sort E compareReports
                      (map (\<lambda>w. \<lparr>iw_Name = om_Name (ws_meta w), iw_Namespace = om_Namespace (ws_meta w)\<rparr>)
                         workloadScanReports);
                    patched = img\<lparr>im_WorkloadScanReports := newReports\<rparr>
                in if im_WorkloadScanReports img = newReports then ok ()
                   else do {
                     p \<leftarrow> call (\<lambda>h. ie_PatchImage E h img patched) (ICPatchImage img patched);
                     State_Monad.return (map_sum (ErrorWrap ''failed to patch image status'') id p)
                   }))
        })
   }"

section \<open>Events\<close>

definition workloadScanPredicate :: "ObjectMeta \<Rightarrow> bool" where
  "workloadScanPredicate meta \<longleftrightarrow> map_index (om_Labels meta) LabelWorkloadScanKey = LabelWorkloadScanValue"

text \<open>The body of the loop over the containers; an error of the listing is only logged.\<close>

definition imagesOfContainer ::
  "image_env \<Rightarrow> ContainerRef \<Rightarrow> ImageRef list \<times> NamespacedName list
     \<Rightarrow> (image_call, (ImageRef list \<times> NamespacedName list) result) prog" where
  "imagesOfContainer E container st = (case st of (seen, requests) \<Rightarrow>
     (let ref = cr_ImageRef container;
          indexKey = imageMetadataIndexKey \<lparr>md_Registry = ir_Registry ref, md_RegistryURI = [],
            md_Repository = ir_Repository ref, md_Tag = ir_Tag ref, md_Platform = [], md_Digest = [], md_IndexDigest = []\<rparr>
      in if ref \<in> set seen then ok (seen, requests)
         else do {
           l \<leftarrow> call (\<lambda>h. ie_ListImages E h (ir_Namespace ref) indexKey) (ICListImages (ir_Namespace ref) indexKey);
           (case l of
              Inl err \<Rightarrow> ok (ref # seen, requests)
            | Inr images \<Rightarrow>
                ok (ref # seen, requests @ map (\<lambda>i. (om_Namespace (im_meta i), om_Name (im_meta i))) images))
         }))"

definition mapWorkloadScanReportToImages ::
  "image_env \<Rightarrow> WorkloadScanReport \<Rightarrow> (image_call, NamespacedName list result) prog" where
  "mapWorkloadScanReportToImages E workload = do {
     r \<leftarrow> fold_prog (imagesOfContainer E) (ws_SpecContainers workload) ([], []);
     State_Monad.return (map_sum id snd r)
   }"

definition mapObjToNamespace :: "ObjectMeta \<Rightarrow> NamespacedName list" where
  "mapObjToNamespace meta = [(om_Namespace meta, [])]"

definition mapNamespace :: "ObjectMeta \<Rightarrow> NamespacedName list" where
  "mapNamespace meta = [(om_Name meta, [])]"

text \<open>\<open>selectorOf\<close> converts the selector; \<open>listNamespaces\<close> lists the namespaces that match it, or all.\<close>

definition mapConfigToNamespaces ::
  "(LabelSelector \<Rightarrow> 'sel result) \<Rightarrow> ('sel option \<Rightarrow> string list result) \<Rightarrow> WorkloadScanConfiguration
     \<Rightarrow> NamespacedName list" where
  "mapConfigToNamespaces selectorOf listNamespaces config =
    (case (case wc_NamespaceSelector (wsc_Spec config) of
             None \<Rightarrow> Inr None | Some s \<Rightarrow> map_sum id Some (selectorOf s)) of
       Inl err \<Rightarrow> []
     | Inr selector \<Rightarrow>
         (case listNamespaces selector of
            Inl err \<Rightarrow> []
          | Inr names \<Rightarrow> map (\<lambda>n. (n, [])) names))"

definition podImagesChanged :: "Pod \<Rightarrow> Pod \<Rightarrow> bool" where
  "podImagesChanged oldPod newPod \<longleftrightarrow>
    sort (extractImagesFromPodSpec oldPod) \<noteq> sort (extractImagesFromPodSpec newPod)"

section \<open>The keys identify\<close>

lemma set_indexWorkload:
  "set (indexWorkloadByImageRef w) = imageRefIndexKey ` cr_ImageRef ` set (ws_SpecContainers w)"
proof -
  have "set (fold (\<lambda>c keys. if imageRefIndexKey (cr_ImageRef c) \<in> set keys then keys
        else keys @ [imageRefIndexKey (cr_ImageRef c)]) cs keys)
      = set keys \<union> imageRefIndexKey ` cr_ImageRef ` set cs" for cs keys
    by (induction cs arbitrary: keys) auto
  from this[of "ws_SpecContainers w" "[]"] show ?thesis unfolding indexWorkloadByImageRef_def by simp
qed

definition plain_ref :: "ImageRef \<Rightarrow> bool" where
  "plain_ref ref \<longleftrightarrow> CHR ''/'' \<notin> set (ir_Namespace ref) \<and> CHR ''/'' \<notin> set (ir_Registry ref)
    \<and> CHR '':'' \<notin> set (ir_Repository ref)"

lemma imageRefIndexKey_inject:
  assumes "plain_ref r" "plain_ref r'"
  shows "imageRefIndexKey r = imageRefIndexKey r' \<longleftrightarrow> r = r'"
proof
  assume "imageRefIndexKey r = imageRefIndexKey r'"
  then have "ir_Namespace r = ir_Namespace r'" "ir_Registry r = ir_Registry r'"
    "ir_Repository r @ CHR '':'' # ir_Tag r = ir_Repository r' @ CHR '':'' # ir_Tag r'"
    using assms sep_append_inject[of "CHR ''/''"] by (auto simp: imageRefIndexKey_def plain_ref_def)
  then show "r = r'"
    using assms sep_append_inject[of "CHR '':''"] by (cases r, cases r') (auto simp: plain_ref_def)
qed simp

lemma compareReports_strict: "strict_weak compareReports"
  unfolding strict_weak_def compareReports_def by (auto split: if_splits)

text \<open>
  \<open>reports_contract\<close>: the cache lists the objects that have the key in their index, out of the reports
  there are.
\<close>

definition reports_contract :: "image_env \<Rightarrow> WorkloadScanReport set \<Rightarrow> bool" where
  "reports_contract E all \<longleftrightarrow>
    (\<forall>h key l. ie_ListReports E h key = Inr l \<longrightarrow> set l = {w \<in> all. key \<in> set (indexWorkloadByImageRef w)})"

definition uses_image :: "Image \<Rightarrow> WorkloadScanReport \<Rightarrow> bool" where
  "uses_image img w \<longleftrightarrow> image_ref img \<in> cr_ImageRef ` set (ws_SpecContainers w)"

definition report_name :: "WorkloadScanReport \<Rightarrow> ImageWorkloadScanReports" where
  "report_name w = \<lparr>iw_Name = om_Name (ws_meta w), iw_Namespace = om_Namespace (ws_meta w)\<rparr>"

text \<open>A status that names exactly the reports that use the image, ordered by namespace and name.\<close>

definition status_patched :: "image_env \<Rightarrow> WorkloadScanReport set \<Rightarrow> NamespacedName \<Rightarrow> image_call \<Rightarrow> bool" where
  "status_patched E all key c \<longleftrightarrow>
    (\<forall>img patched. c = ICPatchImage img patched \<longrightarrow>
      (\<exists>h. ie_GetImage E h key = Inr img)
      \<and> patched = img\<lparr>im_WorkloadScanReports := im_WorkloadScanReports patched\<rparr>
      \<and> im_WorkloadScanReports patched \<noteq> im_WorkloadScanReports img
      \<and> (plain_ref (image_ref img) \<longrightarrow>
           set (im_WorkloadScanReports patched) = report_name ` {w \<in> all. uses_image img w})
      \<and> sorted_wrt (\<lambda>a b. \<not> compareReports b a) (im_WorkloadScanReports patched))"

definition plain_workload :: "WorkloadScanReport \<Rightarrow> bool" where
  "plain_workload w \<longleftrightarrow> list_all (\<lambda>c. plain_ref (cr_ImageRef c)) (ws_SpecContainers w)"

lemma index_uses_image:
  assumes "plain_workload w" "plain_ref (image_ref img)"
  shows "imageRefIndexKey (image_ref img) \<in> set (indexWorkloadByImageRef w) \<longleftrightarrow> uses_image img w"
  using assms imageRefIndexKey_inject[OF assms(2)]
  by (auto simp: set_indexWorkload uses_image_def plain_workload_def list_all_iff image_iff)

lemma reconcile_patch:
  assumes "sorter_contract (ie_sort E)" "reports_contract E all" "\<forall>w \<in> all. plain_workload w"
  shows "emits (status_patched E all key) (ImageWorkloadScanReconciler_Reconcile E key)"
proof -
  have get: "yields (pred_sum (\<lambda>_. True) (\<lambda>img. \<exists>h. ie_GetImage E h key = Inr img))
      (call (\<lambda>h. ie_GetImage E h key) (ICGetImage key))"
    by (rule yields_call, rule pred_sum_InrI) blast
  have find: "yields (pred_sum (\<lambda>_. True) (\<lambda>l. set l = {w \<in> all. imageRefIndexKey (image_ref img) \<in> set (indexWorkloadByImageRef w)}))
      (findWorkloadScanReportsByImage E img)" for img
    unfolding findWorkloadScanReportsByImage_def Let_def
    by (rule yields_bind[of "\<lambda>r. \<exists>h. r = ie_ListReports E h (imageRefIndexKey (image_ref img))"])
      (use assms(2) in \<open>auto intro!: yields_call yields_return pred_sum_InrI simp: reports_contract_def\<close>)
  have patch: "status_patched E all key (ICPatchImage img (img\<lparr>im_WorkloadScanReports := newReports\<rparr>))"
    if "\<exists>h. ie_GetImage E h key = Inr img"
      "set l = {w \<in> all. imageRefIndexKey (image_ref img) \<in> set (indexWorkloadByImageRef w)}"
      "newReports = ie_sort E compareReports (map report_name l)" "im_WorkloadScanReports img \<noteq> newReports"
    for img l newReports
  proof -
    have "mset newReports = mset (map report_name l)" "sorted_wrt (\<lambda>a b. \<not> compareReports b a) newReports"
      using assms(1) compareReports_strict that(3) unfolding sorter_contract_def by auto
    moreover have "set l = {w \<in> all. uses_image img w}" if "plain_ref (image_ref img)"
      using \<open>set l = _\<close> assms(3) index_uses_image that by auto
    ultimately show ?thesis
      using that(1,4) mset_eq_setD[of newReports "map report_name l"] unfolding status_patched_def by auto
  qed
  show ?thesis
    unfolding ImageWorkloadScanReconciler_Reconcile_def Let_def report_name_def[symmetric]
  proof (rule emits_bind_yields[OF _ get], goal_cases)
    case (2 g)
    have find_emits: "emits (status_patched E all key) (findWorkloadScanReportsByImage E img)" for img
      unfolding findWorkloadScanReportsByImage_def Let_def
      by (intro emits_intros) (simp add: status_patched_def)
    from 2 show ?case
      by (auto intro!: emits_intros emits_bind_yields[OF find_emits find] patch split: sum.splits)
  qed (simp add: status_patched_def)
qed

text \<open>
  C29: the status of an image names the workloads that use it.  Whatever the controller patches is
  the image it read, with only the status changed, and changed; the status names exactly the workload
  scan reports that have a container of this image, ordered by namespace and name.  The reports are
  found by an index over a key of joined texts: the key identifies an image because namespaces and
  registry names contain no slash and repositories no colon.
\<close>

theorem image_status_lists_workloads:
  assumes "sorter_contract (ie_sort E)" "reports_contract E all" "\<forall>w \<in> all. plain_workload w"
    "c \<in> set (calls (ImageWorkloadScanReconciler_Reconcile E key))"
  shows "status_patched E all key c"
  using emits_calls[OF reconcile_patch[OF assms(1-3)] assms(4)] .

definition sample_using_report :: WorkloadScanReport where
  "sample_using_report = newWorkloadReport ''ns'' ''pod-1''
     \<lparr>ws_SpecContainers := [\<lparr>cr_Name = ''c'', cr_ImageRef =
        \<lparr>ir_Registry = ''r'', ir_Namespace = ''art'', ir_Repository = ''lib/app'', ir_Tag = ''sha256:1''\<rparr>\<rparr>]\<rparr>"

definition sample_used_image :: Image where
  "sample_used_image = \<lparr>im_meta = empty_meta\<lparr>om_Name := ''i'', om_Namespace := ''art''\<rparr>,
     im_ImageMetadata = \<lparr>md_Registry = ''r'', md_RegistryURI = ''h'', md_Repository = ''lib/app'', md_Tag = ''sha256:1'',
       md_Platform = [], md_Digest = [], md_IndexDigest = []\<rparr>, im_Layers = [], im_WorkloadScanReports = []\<rparr>"

definition sample_image_env :: image_env where
  "sample_image_env = \<lparr>ie_GetImage = (\<lambda>h k. Inr sample_used_image),
     ie_ListReports = (\<lambda>h k. Inr (filter (\<lambda>w. k \<in> set (indexWorkloadByImageRef w)) [sample_using_report])),
     ie_PatchImage = (\<lambda>h i j. Inr ()), ie_ListImages = (\<lambda>h n k. Inr []), ie_sort = insertion_sorter\<rparr>"

theorem image_status_lists_workloads_witness:
  "status_patched sample_image_env {sample_using_report} (''art'', ''i'')
     (ICPatchImage sample_used_image
        (sample_used_image\<lparr>im_WorkloadScanReports := [\<lparr>iw_Name = ''pod-1'', iw_Namespace = ''ns''\<rparr>]\<rparr>))"
proof (rule image_status_lists_workloads)
  show "sorter_contract (ie_sort sample_image_env)"
    by (simp add: sample_image_env_def insertion_sorter_contract)
  show "reports_contract sample_image_env {sample_using_report}"
    by (auto simp: reports_contract_def sample_image_env_def)
  show "\<forall>w \<in> {sample_using_report}. plain_workload w"
    by (simp add: plain_workload_def plain_ref_def sample_using_report_def)
  show "ICPatchImage sample_used_image
      (sample_used_image\<lparr>im_WorkloadScanReports := [\<lparr>iw_Name = ''pod-1'', iw_Namespace = ''ns''\<rparr>]\<rparr>)
      \<in> set (calls (ImageWorkloadScanReconciler_Reconcile sample_image_env (''art'', ''i'')))"
    by code_simp
qed

end
