(* ===== verification/Node_Scan.thy ===== *)
theory Node_Scan
  imports ScanJob_Controller Filters Telemetry
begin

text \<open>
  Scans of nodes, on the side of the controller: the periodic runner
  \<open>src/internal/controller/nodescan_runner.go\<close>, the controller of NodeScanJobs
  \<open>nodescanjob_controller.go\<close>, and the two controllers that clean up after a node or the configuration
  is gone, \<open>nodescan_controller.go\<close> and \<open>nodescanconfiguration_controller.go\<close>.  NodeScanJobs and
  NodeSBOMs are cluster scoped.
\<close>

section \<open>The environment\<close>

record Node =
  nd_meta :: ObjectMeta
  nd_OperatingSystem :: string
  nd_Architecture :: string

record NodeMetadata =
  nm_Name :: string
  nm_Platform :: string

record NodeSBOM =
  bn_meta :: ObjectMeta
  bn_NodeMetadata :: NodeMetadata
  bn_SPDX :: string

text \<open>The index of NodeSBOMs by the name of their node (\<open>src/internal/controller/indexer.go\<close>).\<close>

definition nodeMetadataIndexKey :: "NodeMetadata \<Rightarrow> string" where
  "nodeMetadataIndexKey md = nm_Name md"

definition indexNodeSBOMByNodeName :: "NodeSBOM \<Rightarrow> string list" where
  "indexNodeSBOMByNodeName nodeSBOM = [nodeMetadataIndexKey (bn_NodeMetadata nodeSBOM)]"

datatype node_call =
    NDGetConfig string
  | NDUpdateConfig NodeScanConfiguration
  | NDListNodes "LabelSelector option"
  | NDGetNode string
  | NDListJobs string
  | NDGetJob NamespacedName
  | NDCreateJob NodeScanJob
  | NDDeleteJob NodeScanJob
  | NDPatchJob NodeScanJob NodeScanJob
  | NDUpdateStatus NodeScanJob
  | NDListNodeSBOMs string
  | NDDeleteNodeSBOM NodeSBOM
  | NDDeleteAllJobs
  | NDDeleteAllNodeSBOMs
  | NDPublish string string string
  | NDNow
  | NDMetric string

text \<open>
  \<open>nv_ListNodes\<close> lists the nodes whose labels the selector accepts, all without one; jobs and SBOMs are
  listed by the name of their node.
\<close>

record node_env =
  nv_GetConfig :: "node_call list \<Rightarrow> string \<Rightarrow> NodeScanConfiguration result"
  nv_UpdateConfig :: "node_call list \<Rightarrow> NodeScanConfiguration \<Rightarrow> unit result"
  nv_ListNodes :: "node_call list \<Rightarrow> (string_map \<Rightarrow> bool) option \<Rightarrow> Node list result"
  nv_GetNode :: "node_call list \<Rightarrow> string \<Rightarrow> Node result"
  nv_ListJobs :: "node_call list \<Rightarrow> string \<Rightarrow> NodeScanJob list result"
  nv_GetJob :: "node_call list \<Rightarrow> NamespacedName \<Rightarrow> NodeScanJob result"
  nv_CreateJob :: "node_call list \<Rightarrow> NodeScanJob \<Rightarrow> unit result"
  nv_DeleteJob :: "node_call list \<Rightarrow> NodeScanJob \<Rightarrow> unit result"
  nv_PatchJob :: "node_call list \<Rightarrow> NodeScanJob \<Rightarrow> NodeScanJob \<Rightarrow> NodeScanJob result"
  nv_UpdateStatus :: "node_call list \<Rightarrow> NodeScanJob \<Rightarrow> NodeScanJob result"
  nv_ListNodeSBOMs :: "node_call list \<Rightarrow> string \<Rightarrow> NodeSBOM list result"
  nv_DeleteNodeSBOM :: "node_call list \<Rightarrow> NodeSBOM \<Rightarrow> unit result"
  nv_DeleteAllJobs :: "node_call list \<Rightarrow> unit result"
  nv_DeleteAllNodeSBOMs :: "node_call list \<Rightarrow> unit result"
  nv_Publish :: "node_call list \<Rightarrow> string \<Rightarrow> string \<Rightarrow> string \<Rightarrow> unit result"
  nv_Now :: "node_call list \<Rightarrow> time"
  nv_meta :: meta_lib
  nv_selector :: "LabelSelector \<Rightarrow> (string_map \<Rightarrow> bool) result"
  nv_sort :: "NodeScanJob sorter"
  nv_retry :: "(node_call, unit) retrier"
  nv_trace :: "(string \<times> string) list"
  nv_parseTime :: "string \<Rightarrow> time option"
  nv_quote :: "string \<Rightarrow> string"
  nv_marshalConfig :: "NodeScanConfiguration \<Rightarrow> string result"
  nv_marshalMessage :: "GenerateNodeSBOMMessage \<Rightarrow> string result"
  nv_SetControllerReference :: "NodeScanConfiguration \<Rightarrow> NodeScanJob \<Rightarrow> NodeScanJob result"

section \<open>The runner\<close>

definition hasForceNodeScanAnnotation :: "NodeScanConfiguration \<Rightarrow> bool" where
  "hasForceNodeScanAnnotation config \<longleftrightarrow>
    map_index (om_Annotations (nsc_meta config)) AnnotationNodeRescanRequested = ''true''"

definition getMatchingNodes :: "node_env \<Rightarrow> NodeScanConfiguration \<Rightarrow> (node_call, Node list result) prog" where
  "getMatchingNodes E config =
    (case (case nc_NodeSelector (nsc_Spec config) of
             None \<Rightarrow> Inr None | Some s \<Rightarrow> map_sum (ErrorWrap ''failed to parse node selector'') Some (nv_selector E s)) of
       Inl err \<Rightarrow> fail err
     | Inr selector \<Rightarrow> do {
         l \<leftarrow> call (\<lambda>h. nv_ListNodes E h selector) (NDListNodes (nc_NodeSelector (nsc_Spec config)));
         State_Monad.return (map_sum (ErrorWrap ''failed to list nodes'') id l)
       })"

definition getLastNodeScanJob :: "node_env \<Rightarrow> string \<Rightarrow> (node_call, NodeScanJob result) prog" where
  "getLastNodeScanJob E nodeName = do {
     l \<leftarrow> call (\<lambda>h. nv_ListJobs E h nodeName) (NDListJobs nodeName);
     State_Monad.return (case l of
        Inl err \<Rightarrow> Inl (ErrorWrap ''failed to list node scan jobs'' err)
      | Inr items \<Rightarrow>
          if items = [] then Inl (StatusError ReasonNotFound (''for node '' @ nodeName))
          else Inr (hd (nv_sort E
                 (\<lambda>i j. om_CreationTimestamp (nj_meta i) > om_CreationTimestamp (nj_meta j)) items)))
   }"

text \<open>\<open>time.Since\<close> reads the clock only on the path that compares the interval.\<close>

definition shouldCreateNodeScanJob ::
  "node_env \<Rightarrow> NodeScanConfiguration \<Rightarrow> NodeScanJob option \<Rightarrow> bool \<Rightarrow> (node_call, bool) prog" where
  "shouldCreateNodeScanJob E config lastScanJob rescanRequested =
    (if rescanRequested then State_Monad.return True
     else case nc_ScanInterval (nsc_Spec config) of
       None \<Rightarrow> State_Monad.return False
     | Some interval \<Rightarrow>
         if interval = 0 then State_Monad.return False
         else case lastScanJob of
           None \<Rightarrow> State_Monad.return True
         | Some job \<Rightarrow>
             (case ns_CompletionTime (nj_Status job) of
                None \<Rightarrow> State_Monad.return True
              | Some completed \<Rightarrow> do {
                  now \<leftarrow> call (nv_Now E) NDNow;
                  State_Monad.return (\<not> time_Sub now completed < interval)
                }))"

definition newNodeScanJob :: "node_env \<Rightarrow> string \<Rightarrow> NodeScanJob" where
  "newNodeScanJob E nodeName =
    \<lparr>nj_meta = empty_meta
       \<lparr>om_GenerateName := ''node-'' @ nodeName @ ''-'',
        om_Annotations := the (InjectAnnotations (nv_trace E) (Some [(AnnotationNodeScanJobTriggerKey, ''runner'')]))\<rparr>,
     nj_Spec = \<lparr>np_NodeName = nodeName\<rparr>,
     nj_Status = \<lparr>ns_Conditions = [], ns_StartTime = None, ns_CompletionTime = None\<rparr>\<rparr>"

definition createNodeScanJob :: "node_env \<Rightarrow> string \<Rightarrow> (node_call, unit result) prog" where
  "createNodeScanJob E nodeName = do {
     c \<leftarrow> call (\<lambda>h. nv_CreateJob E h (newNodeScanJob E nodeName)) (NDCreateJob (newNodeScanJob E nodeName));
     State_Monad.return (map_sum (ErrorWrap ''failed to create NodeScanJob'') id c)
   }"

text \<open>The part of \<open>checkNodeForScan\<close> after the last job is known; \<open>None\<close> is the nil pointer.\<close>

definition scanNodeAfter ::
  "node_env \<Rightarrow> NodeScanConfiguration \<Rightarrow> string \<Rightarrow> bool \<Rightarrow> NodeScanJob option \<Rightarrow> (node_call, unit result) prog" where
  "scanNodeAfter E config nodeName rescanRequested lastScanJob =
    (if (case lastScanJob of
           None \<Rightarrow> False
         | Some job \<Rightarrow> \<not> NodeScanJob_IsComplete (nv_meta E) job \<and> \<not> NodeScanJob_IsFailed (nv_meta E) job)
     then ok ()
     else do {
       due \<leftarrow> shouldCreateNodeScanJob E config lastScanJob rescanRequested;
       if \<not> due then ok ()
       else do {
         c \<leftarrow> createNodeScanJob E nodeName;
         State_Monad.return (map_sum (ErrorWrap (''failed to create node scan job for node '' @ nodeName)) id c)
       }
     })"

definition checkNodeForScan ::
  "node_env \<Rightarrow> NodeScanConfiguration \<Rightarrow> bool \<Rightarrow> Node \<Rightarrow> (node_call, unit result) prog" where
  "checkNodeForScan E config rescanRequested node =
    (if \<not> IsPlatformAllowed (nd_OperatingSystem node) (nd_Architecture node) [] (nc_Platforms (nsc_Spec config))
     then ok ()
     else do {
       let nodeName = om_Name (nd_meta node);
       lastScanJob \<leftarrow> getLastNodeScanJob E nodeName;
       (case lastScanJob of
          Inl err \<Rightarrow>
            if \<not> IsNotFound err
            then fail (ErrorWrap (''failed to get last node scan job for node '' @ nodeName) err)
            else scanNodeAfter E config nodeName rescanRequested None
        | Inr job \<Rightarrow> scanNodeAfter E config nodeName rescanRequested (Some job))
     })"

definition removeRescanRequestedAttempt :: "node_env \<Rightarrow> string \<Rightarrow> (node_call, unit result) prog" where
  "removeRescanRequestedAttempt E name = do {
     g \<leftarrow> call (\<lambda>h. nv_GetConfig E h name) (NDGetConfig name);
     (case g of
        Inl err \<Rightarrow> fail (ErrorWrap ''failed to get current NodeScanConfiguration'' err)
      | Inr current \<Rightarrow>
          if map_of (om_Annotations (nsc_meta current)) AnnotationNodeRescanRequested = None then ok ()
          else do {
            let cleared = current\<lparr>nsc_meta := (nsc_meta current)
                  \<lparr>om_Annotations := AList.delete AnnotationNodeRescanRequested (om_Annotations (nsc_meta current))\<rparr>\<rparr>;
            u \<leftarrow> call (\<lambda>h. nv_UpdateConfig E h cleared) (NDUpdateConfig cleared);
            State_Monad.return (map_sum (ErrorWrap ''failed to update NodeScanConfiguration'') id u)
          })
   }"

definition removeRescanRequestedAnnotation ::
  "node_env \<Rightarrow> NodeScanConfiguration \<Rightarrow> (node_call, unit result) prog" where
  "removeRescanRequestedAnnotation E config = do {
     r \<leftarrow> nv_retry E (removeRescanRequestedAttempt E (om_Name (nsc_meta config)));
     State_Monad.return (map_sum (ErrorWrap ''failed to remove node-rescan-requested annotation'') id r)
   }"

text \<open>A node that fails is logged and does not stop the cycle.\<close>

primrec checkEachNode ::
  "node_env \<Rightarrow> NodeScanConfiguration \<Rightarrow> bool \<Rightarrow> Node list \<Rightarrow> (node_call, unit) prog" where
  "checkEachNode E config rescanRequested [] = State_Monad.return ()"
| "checkEachNode E config rescanRequested (node # nodes) = do {
     _ \<leftarrow> checkNodeForScan E config rescanRequested node;
     checkEachNode E config rescanRequested nodes
   }"

definition scanNodes :: "node_env \<Rightarrow> (node_call, unit result) prog" where
  "scanNodes E = do {
     g \<leftarrow> call (\<lambda>h. nv_GetConfig E h NodeScanConfigurationName) (NDGetConfig NodeScanConfigurationName);
     (case g of
        Inl err \<Rightarrow>
          if IsNotFound err then ok () else fail (ErrorWrap ''failed to get NodeScanConfiguration'' err)
      | Inr config \<Rightarrow>
          if \<not> nc_Enabled (nsc_Spec config) then ok ()
          else do {
            let rescanRequested = hasForceNodeScanAnnotation config;
            l \<leftarrow> getMatchingNodes E config;
            (case l of
               Inl err \<Rightarrow> fail (ErrorWrap ''failed to list matching nodes'' err)
             | Inr nodes \<Rightarrow> do {
                 _ \<leftarrow> checkEachNode E config rescanRequested nodes;
                 if rescanRequested
                 then do {
                   r \<leftarrow> removeRescanRequestedAnnotation E config;
                   State_Monad.return (map_sum (ErrorWrap ''failed to remove rescan-requested annotation'') id r)
                 }
                 else ok ()
               })
          })
   }"

section \<open>The NodeScanJob controller\<close>

text \<open>The job in memory, failed when the node is not valid, and whether it is.\<close>

definition validateNodeAgainstConfig ::
  "node_env \<Rightarrow> NodeScanJob \<Rightarrow> NodeScanConfiguration \<Rightarrow> (node_call, (NodeScanJob \<times> bool) result) prog" where
  "validateNodeAgainstConfig E job config = do {
     let nodeName = np_NodeName (nj_Spec job);
     g \<leftarrow> call (\<lambda>h. nv_GetNode E h nodeName) (NDGetNode nodeName);
     (case g of
        Inl err \<Rightarrow>
          if IsNotFound err
          then do {
            now \<leftarrow> call (nv_Now E) NDNow;
            ok (NodeScanJob_MarkFailed (nv_meta E) now ReasonNodeScanJobNodeNotFound
                  (''Node '' @ nodeName @ '' not found'') job, False)
          }
          else fail (ErrorWrap (''failed to check if node '' @ nodeName @ '' exists'') err)
      | Inr node \<Rightarrow>
          (case (case nc_NodeSelector (nsc_Spec config) of
                   None \<Rightarrow> Inr True
                 | Some s \<Rightarrow> map_sum (ErrorWrap ''failed to parse NodeSelector'')
                              (\<lambda>matches. matches (om_Labels (nd_meta node))) (nv_selector E s)) of
             Inl err \<Rightarrow> fail err
           | Inr selected \<Rightarrow>
               if \<not> selected
               then do {
                 now \<leftarrow> call (nv_Now E) NDNow;
                 ok (NodeScanJob_MarkFailed (nv_meta E) now ReasonNodeScanJobNotMatching
                       (''node '' @ nv_quote E (om_Name (nd_meta node))
                        @ '' does not match the NodeScanConfiguration nodeSelector'') job, False)
               }
               else if \<not> IsPlatformAllowed (nd_OperatingSystem node) (nd_Architecture node) []
                          (nc_Platforms (nsc_Spec config))
               then do {
                 now \<leftarrow> call (nv_Now E) NDNow;
                 ok (NodeScanJob_MarkFailed (nv_meta E) now ReasonNodeScanJobNotMatching
                       (''node '' @ nv_quote E (om_Name (nd_meta node)) @ '' platform '' @ nd_OperatingSystem node
                        @ ''/'' @ nd_Architecture node @ '' is not allowed by the NodeScanConfiguration'') job, False)
               }
               else ok (job, True)))
   }"

definition deleteOldNodeScanJob :: "node_env \<Rightarrow> NodeScanJob \<Rightarrow> (node_call, unit result) prog" where
  "deleteOldNodeScanJob E job = do {
     d \<leftarrow> call (\<lambda>h. nv_DeleteJob E h job) (NDDeleteJob job);
     State_Monad.return (map_sum (ErrorWrap (''failed to delete old NodeScanJob '' @ om_Name (nj_meta job))) id d)
   }"

definition cleanupOldNodeScanJobs :: "node_env \<Rightarrow> NodeScanJob \<Rightarrow> (node_call, unit result) prog" where
  "cleanupOldNodeScanJobs E currentNodeScanJob = do {
     let nodeName = np_NodeName (nj_Spec currentNodeScanJob);
     l \<leftarrow> call (\<lambda>h. nv_ListJobs E h nodeName) (NDListJobs nodeName);
     (case l of
        Inl err \<Rightarrow> fail (ErrorWrap (''failed to list NodeScanJobs for node '' @ nodeName) err)
      | Inr items \<Rightarrow>
          if length items \<le> scanJobsHistoryLimit then ok ()
          else
            (let sorted = nv_sort E
                   (\<lambda>i j. NodeScanJob_GetCreationTimestampFromAnnotation (nv_parseTime E) i
                            < NodeScanJob_GetCreationTimestampFromAnnotation (nv_parseTime E) j) items
             in for_each (deleteOldNodeScanJob E) (take (length items - scanJobsHistoryLimit) sorted)))
   }"

text \<open>
  The annotation with the snapshot is written with a patch, which triggers a new reconciliation.
  The first component of the result is the object in memory.
\<close>

definition patchConfigSnapshot ::
  "node_env \<Rightarrow> NodeScanConfiguration \<Rightarrow> NodeScanJob \<Rightarrow> (node_call, NodeScanJob \<times> unit result) prog" where
  "patchConfigSnapshot E config nodeScanJob =
    (case nv_marshalConfig E config of
       Inl err \<Rightarrow> State_Monad.return
         (nodeScanJob, Inl (ErrorWrap ''failed to marshal NodeScanConfiguration data'' err))
     | Inr configData \<Rightarrow>
         (case nv_SetControllerReference E config nodeScanJob of
            Inl err \<Rightarrow> State_Monad.return
              (nodeScanJob, Inl (ErrorWrap ''failed to set owner reference on NodeScanJob'' err))
          | Inr owned \<Rightarrow> do {
              let annotated = owned\<lparr>nj_meta := (nj_meta owned)
                \<lparr>om_Annotations := AList.update AnnotationNodeScanJobNodeScanConfigurationKey configData
                   (om_Annotations (nj_meta owned))\<rparr>\<rparr>;
              r \<leftarrow> call (\<lambda>h. nv_PatchJob E h nodeScanJob annotated) (NDPatchJob nodeScanJob annotated);
              (case r of
                 Inl err \<Rightarrow> State_Monad.return
                   (annotated, Inl (ErrorWrap ''failed to patch NodeScanJob with NodeScanConfiguration snapshot'' err))
               | Inr patched \<Rightarrow> State_Monad.return (patched, Inr ()))
            }))"

definition generateNodeMessage :: "NodeScanJob \<Rightarrow> GenerateNodeSBOMMessage" where
  "generateNodeMessage nodeScanJob =
    \<lparr>nb_NodeScanJob = \<lparr>ob_Name = om_Name (nj_meta nodeScanJob), ob_Namespace = om_Namespace (nj_meta nodeScanJob),
       ob_UID = om_UID (nj_meta nodeScanJob)\<rparr>,
     gn_Node = \<lparr>ob_Name = np_NodeName (nj_Spec nodeScanJob), ob_Namespace = [], ob_UID = []\<rparr>\<rparr>"

definition generateNodeSubject :: "NodeScanJob \<Rightarrow> string" where
  "generateNodeSubject nodeScanJob = GenerateNodeSBOMSubject @ ''.'' @ np_NodeName (nj_Spec nodeScanJob)"

definition generateNodeMessageID :: "NodeScanJob \<Rightarrow> string" where
  "generateNodeMessageID nodeScanJob = ''generateNodeSBOM/'' @ om_UID (nj_meta nodeScanJob)"

definition publishGenerateNodeSBOM ::
  "node_env \<Rightarrow> NodeScanJob \<Rightarrow> (node_call, NodeScanJob \<times> unit result) prog" where
  "publishGenerateNodeSBOM E nodeScanJob = do {
     let messageID = generateNodeMessageID nodeScanJob;
     let subject = generateNodeSubject nodeScanJob;
     (case nv_marshalMessage E (generateNodeMessage nodeScanJob) of
        Inl err \<Rightarrow> State_Monad.return
          (nodeScanJob, Inl (ErrorWrap ''unable to marshal GenerateNodeSBOM message'' err))
      | Inr message \<Rightarrow> do {
          r \<leftarrow> call (\<lambda>h. nv_Publish E h subject messageID message) (NDPublish subject messageID message);
          (case r of
             Inl err \<Rightarrow> State_Monad.return
               (nodeScanJob, Inl (ErrorWrap ''unable to publish GenerateNodeSBOM message'' err))
           | Inr _ \<Rightarrow> do {
               now \<leftarrow> call (nv_Now E) NDNow;
               State_Monad.return
                 (NodeScanJob_MarkScheduled (nv_meta E) now ReasonScanJobScheduled
                    ''NodeScanJob has been scheduled for processing by the controller'' nodeScanJob, Inr ())
             })
        })
   }"

definition reconcileNodeScanJob ::
  "node_env \<Rightarrow> NodeScanJob \<Rightarrow> NodeScanConfiguration \<Rightarrow> (node_call, NodeScanJob \<times> unit result) prog" where
  "reconcileNodeScanJob E nodeScanJob config = do {
     cleaned \<leftarrow> cleanupOldNodeScanJobs E nodeScanJob;
     (case cleaned of
        Inl err \<Rightarrow> State_Monad.return
          (nodeScanJob, Inl (ErrorWrap ''failed to cleanup old NodeScanJobs'' err))
      | Inr _ \<Rightarrow>
          if map_of (om_Annotations (nj_meta nodeScanJob)) AnnotationNodeScanJobNodeScanConfigurationKey = None
          then patchConfigSnapshot E config nodeScanJob
          else publishGenerateNodeSBOM E nodeScanJob)
   }"

text \<open>The status update with the counter of finished jobs, and the result after it.\<close>

definition persistNodeScanJob ::
  "node_env \<Rightarrow> NodeScanJob \<Rightarrow> unit result \<Rightarrow> (node_call, unit result) prog" where
  "persistNodeScanJob E nodeScanJob answer = do {
     u \<leftarrow> call (\<lambda>h. nv_UpdateStatus E h nodeScanJob) (NDUpdateStatus nodeScanJob);
     (case u of
        Inl err \<Rightarrow> fail (ErrorWrap ''failed to update NodeScanJob status'' err)
      | Inr persisted \<Rightarrow>
          (case RecordNodeScanJobFinished (nv_meta E) persisted of
             None \<Rightarrow> State_Monad.return answer
           | Some outcome \<Rightarrow> do { _ \<leftarrow> call (\<lambda>_. ()) (NDMetric outcome); State_Monad.return answer }))
   }"

definition reconcilePending :: "node_env \<Rightarrow> NodeScanJob \<Rightarrow> (node_call, unit result) prog" where
  "reconcilePending E nodeScanJob = do {
     g \<leftarrow> call (\<lambda>h. nv_GetConfig E h NodeScanConfigurationName) (NDGetConfig NodeScanConfigurationName);
     (case g of
        Inl err \<Rightarrow>
          if IsNotFound err
          then do {
            now \<leftarrow> call (nv_Now E) NDNow;
            persistNodeScanJob E (NodeScanJob_MarkFailed (nv_meta E) now ReasonNodeScanJobConfigurationMissing
              ''NodeScanConfiguration not found: node scanning is not configured'' nodeScanJob) (Inr ())
          }
          else fail (ErrorWrap ''failed to get NodeScanConfiguration'' err)
      | Inr config \<Rightarrow> do {
          v \<leftarrow> validateNodeAgainstConfig E nodeScanJob config;
          (case v of
             Inl err \<Rightarrow> fail err
           | Inr (job, valid) \<Rightarrow>
               if \<not> valid then persistNodeScanJob E job (Inr ())
               else do {
                 r \<leftarrow> reconcileNodeScanJob E job config;
                 (case r of (job', reconcileErr) \<Rightarrow> persistNodeScanJob E job' reconcileErr)
               })
        })
   }"

definition NodeScanJobReconciler_Reconcile :: "node_env \<Rightarrow> NamespacedName \<Rightarrow> (node_call, unit result) prog" where
  "NodeScanJobReconciler_Reconcile E req = do {
     g \<leftarrow> call (\<lambda>h. nv_GetJob E h req) (NDGetJob req);
     (case g of
        Inl err \<Rightarrow> if IsNotFound err then ok () else fail (ErrorWrap ''unable to get NodeScanJob'' err)
      | Inr nodeScanJob \<Rightarrow>
          if om_DeletionTimestamp (nj_meta nodeScanJob) \<noteq> None then ok ()
          else if \<not> NodeScanJob_IsPending (nv_meta E) nodeScanJob then ok ()
          else do {
            now \<leftarrow> call (nv_Now E) NDNow;
            reconcilePending E (NodeScanJob_InitializeConditions (nv_meta E) now nodeScanJob)
          })
   }"

section \<open>Cleaning up\<close>

definition ignoreNotFound :: "string \<Rightarrow> unit result \<Rightarrow> unit result" where
  "ignoreNotFound failure r =
    (case r of Inl err \<Rightarrow> if IsNotFound err then Inr () else Inl (ErrorWrap failure err) | Inr _ \<Rightarrow> Inr ())"

definition cleanupNodeResources :: "node_env \<Rightarrow> string \<Rightarrow> (node_call, unit result) prog" where
  "cleanupNodeResources E nodeName = do {
     j \<leftarrow> call (\<lambda>h. nv_ListJobs E h nodeName) (NDListJobs nodeName);
     (case j of
        Inl err \<Rightarrow> fail (ErrorWrap (''list NodeScanJobs for node '' @ nodeName) err)
      | Inr jobs \<Rightarrow> do {
          d \<leftarrow> for_each (\<lambda>job. do {
                 r \<leftarrow> call (\<lambda>h. nv_DeleteJob E h job) (NDDeleteJob job);
                 State_Monad.return (ignoreNotFound (''delete NodeScanJob '' @ om_Name (nj_meta job)) r)
               }) jobs;
          (case d of
             Inl err \<Rightarrow> fail err
           | Inr _ \<Rightarrow> do {
               b \<leftarrow> call (\<lambda>h. nv_ListNodeSBOMs E h nodeName) (NDListNodeSBOMs nodeName);
               (case b of
                  Inl err \<Rightarrow> fail (ErrorWrap (''list NodeSBOMs for node '' @ nodeName) err)
                | Inr sboms \<Rightarrow>
                    for_each (\<lambda>sbom. do {
                      r \<leftarrow> call (\<lambda>h. nv_DeleteNodeSBOM E h sbom) (NDDeleteNodeSBOM sbom);
                      State_Monad.return (ignoreNotFound (''delete NodeSBOM '' @ om_Name (bn_meta sbom)) r)
                    }) sboms)
             })
        })
   }"

definition NodeScanReconciler_Reconcile :: "node_env \<Rightarrow> string \<Rightarrow> (node_call, unit result) prog" where
  "NodeScanReconciler_Reconcile E name = do {
     g \<leftarrow> call (\<lambda>h. nv_GetNode E h name) (NDGetNode name);
     (case g of
        Inl err \<Rightarrow>
          if IsNotFound err
          then do {
            c \<leftarrow> cleanupNodeResources E name;
            State_Monad.return (map_sum (ErrorWrap (''failed to cleanup resources for deleted node '' @ name)) id c)
          }
          else fail (ErrorWrap ''failed to get Node'' err)
      | Inr _ \<Rightarrow> ok ())
   }"

definition cleanupAllNodeResources :: "node_env \<Rightarrow> (node_call, unit result) prog" where
  "cleanupAllNodeResources E = do {
     j \<leftarrow> call (nv_DeleteAllJobs E) NDDeleteAllJobs;
     (case ignoreNotFound ''delete all NodeScanJobs'' j of
        Inl err \<Rightarrow> fail err
      | Inr _ \<Rightarrow> do {
          b \<leftarrow> call (nv_DeleteAllNodeSBOMs E) NDDeleteAllNodeSBOMs;
          State_Monad.return (ignoreNotFound ''delete all NodeSBOMs'' b)
        })
   }"

definition NodeScanConfigurationReconciler_Reconcile :: "node_env \<Rightarrow> string \<Rightarrow> (node_call, unit result) prog" where
  "NodeScanConfigurationReconciler_Reconcile E name = do {
     g \<leftarrow> call (\<lambda>h. nv_GetConfig E h name) (NDGetConfig name);
     (case g of
        Inl err \<Rightarrow>
          if IsNotFound err
          then do {
            c \<leftarrow> cleanupAllNodeResources E;
            State_Monad.return (map_sum (ErrorWrap ''failed to cleanup all node scan resources'') id c)
          }
          else fail (ErrorWrap ''failed to get NodeScanConfiguration'' err)
      | Inr config \<Rightarrow>
          if \<not> nc_Enabled (nsc_Spec config)
          then do {
            c \<leftarrow> cleanupAllNodeResources E;
            State_Monad.return (map_sum (ErrorWrap ''failed to cleanup all node scan resources'') id c)
          }
          else ok ())
   }"

end
