(* ===== verification/Node_Handlers.thy ===== *)
theory Node_Handlers
  imports Node_Scan Sbom_Handlers
begin

text \<open>
  The worker's handlers for nodes: \<open>src/internal/handlers/generate_node_sbom.go\<close>,
  \<open>node_scan_sbom.go\<close> and \<open>nodescanjob_failure.go\<close>.  The scan itself is the \<open>runTrivyScan\<close> that the
  handler of images uses; its calls enter the history under \<open>HCScan\<close>.
\<close>

section \<open>The environment\<close>

record NodeVulnerabilityReport =
  nr_meta :: ObjectMeta
  nr_NodeMetadata :: NodeMetadata
  nr_Report :: Report

datatype handler_call =
    HCGetJob NamespacedName
  | HCUpdateStatus NodeScanJob
  | HCNow
  | HCMetric string
  | HCGetNode string
  | HCGetConfig string
  | HCGetNodeSBOM NamespacedName
  | HCCreateNodeSBOM NodeSBOM
  | HCUpdateNodeSBOM NodeSBOM
  | HCGetReport string
  | HCCreateReport NodeVulnerabilityReport
  | HCUpdateReport NodeVulnerabilityReport
  | HCInProgress
  | HCPublish string string string
  | HCCreateTemp string
  | HCClose string
  | HCRemove string
  | HCTrivy "string list"
  | HCReadAll string
  | HCScan sbom_call

fun as_scan :: "handler_call \<Rightarrow> sbom_call option" where
  "as_scan (HCScan c) = Some c"
| "as_scan _ = None"

text \<open>
  \<open>hn_PutNodeSBOM\<close> and \<open>hn_PutReport\<close> are \<open>controllerutil.CreateOrUpdate\<close>, given the object and the
  function that mutates it, which may fail; \<open>hn_scan\<close> is the environment of \<open>scanSBOMBase\<close>.
\<close>

record handler_env =
  hn_GetJob :: "handler_call list \<Rightarrow> NamespacedName \<Rightarrow> NodeScanJob result"
  hn_UpdateStatus :: "handler_call list \<Rightarrow> NodeScanJob \<Rightarrow> NodeScanJob result"
  hn_Now :: "handler_call list \<Rightarrow> time"
  hn_GetNode :: "handler_call list \<Rightarrow> string \<Rightarrow> Node result"
  hn_GetConfig :: "handler_call list \<Rightarrow> string \<Rightarrow> NodeScanConfiguration result"
  hn_GetNodeSBOM :: "handler_call list \<Rightarrow> NamespacedName \<Rightarrow> NodeSBOM result"
  hn_PutNodeSBOM :: "NodeSBOM \<Rightarrow> (NodeSBOM \<Rightarrow> NodeSBOM result) \<Rightarrow> (handler_call, unit result) prog"
  hn_PutReport :: "NodeVulnerabilityReport \<Rightarrow> (NodeVulnerabilityReport \<Rightarrow> NodeVulnerabilityReport result)
     \<Rightarrow> (handler_call, unit result) prog"
  hn_InProgress :: "handler_call list \<Rightarrow> unit result"
  hn_Publish :: "handler_call list \<Rightarrow> string \<Rightarrow> string \<Rightarrow> string \<Rightarrow> unit result"
  hn_CreateTemp :: "handler_call list \<Rightarrow> string \<Rightarrow> string result"
  hn_Trivy :: "handler_call list \<Rightarrow> string list \<Rightarrow> unit result"
  hn_ReadAll :: "handler_call list \<Rightarrow> string \<Rightarrow> string result"
  hn_retry :: "(handler_call, NodeScanJob) retrier"
  hn_retryFinish :: "(handler_call, NodeScanJob \<times> bool) retrier"
  hn_meta :: meta_lib
  hn_scan :: sbom_env
  hn_workDir :: string
  hn_targetDir :: string
  hn_trivyJavaDBRepository :: string
  hn_pathJoin :: "string \<Rightarrow> string \<Rightarrow> string"
  hn_SetSBOMOwner :: "NodeScanConfiguration \<Rightarrow> NodeSBOM \<Rightarrow> NodeSBOM result"
  hn_SetReportOwner :: "NodeSBOM \<Rightarrow> NodeVulnerabilityReport \<Rightarrow> NodeVulnerabilityReport result"
  hn_unmarshalGenerate :: "string \<Rightarrow> GenerateNodeSBOMMessage result"
  hn_unmarshalScan :: "string \<Rightarrow> ScanNodeSBOMMessage result"
  hn_unmarshalBase :: "string \<Rightarrow> NodeBaseMessage result"
  hn_marshalScan :: "ScanNodeSBOMMessage \<Rightarrow> string result"
  hn_unmarshalConfig :: "string \<Rightarrow> NodeScanConfiguration result"

section \<open>Generating the SBOM of a node\<close>

definition skipArgs :: "handler_env \<Rightarrow> string list \<Rightarrow> string list" where
  "skipArgs E skipPats =
    concat (map (\<lambda>dir. [''--skip-dirs'', hn_pathJoin E (hn_targetDir E) dir]) (pr_SkipDirs (Parse skipPats)))
    @ concat (map (\<lambda>file. [''--skip-files'', hn_pathJoin E (hn_targetDir E) file]) (pr_SkipFiles (Parse skipPats)))"

definition filesystemArgs :: "handler_env \<Rightarrow> string list \<Rightarrow> string \<Rightarrow> string list" where
  "filesystemArgs E skipPats sbomFile =
    [''filesystem'', ''--skip-version-check'', ''--disable-telemetry'', ''--cache-dir'', hn_workDir E,
     ''--format'', ''spdx-json'', ''--skip-db-update'', ''--java-db-repository'', hn_trivyJavaDBRepository E,
     ''--output'', sbomFile]
    @ skipArgs E skipPats @ [hn_targetDir E]"

definition executeFilesystem :: "handler_env \<Rightarrow> string list \<Rightarrow> string \<Rightarrow> (handler_call, string result) prog" where
  "executeFilesystem E skipPats sbomFile = do {
     let args = filesystemArgs E skipPats sbomFile;
     t \<leftarrow> call (\<lambda>h. hn_Trivy E h args) (HCTrivy args);
     (case t of
        Inl err \<Rightarrow> fail (ErrorWrap ''failed to execute trivy'' err)
      | Inr _ \<Rightarrow> do {
          b \<leftarrow> call (\<lambda>h. hn_ReadAll E h sbomFile) (HCReadAll sbomFile);
          State_Monad.return (map_sum (ErrorWrap ''failed to read NodeSBOM output'') id b)
        })
   }"

definition generateNodeSPDX :: "handler_env \<Rightarrow> string list \<Rightarrow> (handler_call, string result) prog" where
  "generateNodeSPDX E skipPats = do {
     f \<leftarrow> call (\<lambda>h. hn_CreateTemp E h ''trivy.sbom.*.json'') (HCCreateTemp ''trivy.sbom.*.json'');
     (case f of
        Inl err \<Rightarrow> fail (ErrorWrap ''failed to create temporary SBOM file'' err)
      | Inr sbomFile \<Rightarrow> do {
          r \<leftarrow> executeFilesystem E skipPats sbomFile;
          _ \<leftarrow> call (\<lambda>_. ()) (HCClose sbomFile);
          _ \<leftarrow> call (\<lambda>_. ()) (HCRemove sbomFile);
          State_Monad.return r
        })
   }"

definition newNodeSBOM :: "GenerateNodeSBOMMessage \<Rightarrow> Node \<Rightarrow> string \<Rightarrow> NodeSBOM" where
  "newNodeSBOM msg node spdxBytes =
    \<lparr>bn_meta = empty_meta\<lparr>om_Name := ob_Name (gn_Node msg),
       om_Labels := [(LabelManagedByKey, LabelManagedByValue), (LabelPartOfKey, LabelPartOfValue)]\<rparr>,
     bn_NodeMetadata = \<lparr>nm_Name = om_Name (nd_meta node),
       nm_Platform = nd_OperatingSystem node @ ''/'' @ nd_Architecture node\<rparr>,
     bn_SPDX = spdxBytes\<rparr>"

definition generateNodeSBOM ::
  "handler_env \<Rightarrow> Node \<Rightarrow> GenerateNodeSBOMMessage \<Rightarrow> NodeScanConfiguration
     \<Rightarrow> (handler_call, NodeSBOM result) prog" where
  "generateNodeSBOM E node msg config = do {
     s \<leftarrow> generateNodeSPDX E (case nc_SkipPatterns (nsc_Spec config) of None \<Rightarrow> [] | Some ps \<Rightarrow> ps);
     State_Monad.return (map_sum id (newNodeSBOM msg node) s)
   }"

text \<open>The object and the function given to \<open>CreateOrUpdate\<close>.\<close>

definition emptyNodeSBOM :: "string \<Rightarrow> NodeSBOM" where
  "emptyNodeSBOM name =
    \<lparr>bn_meta = empty_meta\<lparr>om_Name := name\<rparr>, bn_NodeMetadata = \<lparr>nm_Name = [], nm_Platform = []\<rparr>, bn_SPDX = []\<rparr>"

definition fillNodeSBOM ::
  "handler_env \<Rightarrow> NodeScanConfiguration \<Rightarrow> NodeSBOM \<Rightarrow> NodeSBOM \<Rightarrow> NodeSBOM result" where
  "fillNodeSBOM E config generated s =
    hn_SetSBOMOwner E config
      (s\<lparr>bn_meta := (bn_meta s)\<lparr>om_Labels := om_Labels (bn_meta generated)\<rparr>,
         bn_NodeMetadata := bn_NodeMetadata generated, bn_SPDX := bn_SPDX generated\<rparr>)"

definition scanNodeMessage :: "GenerateNodeSBOMMessage \<Rightarrow> ScanNodeSBOMMessage" where
  "scanNodeMessage msg =
    \<lparr>nb_NodeScanJob = nb_NodeScanJob msg,
     sn_NodeSBOM = \<lparr>ob_Name = ob_Name (gn_Node msg), ob_Namespace = [], ob_UID = []\<rparr>\<rparr>"

text \<open>The publication of the next message, if the job still exists.\<close>

definition publishScanNodeSBOM ::
  "handler_env \<Rightarrow> GenerateNodeSBOMMessage \<Rightarrow> NodeScanJob \<Rightarrow> (handler_call, unit result) prog" where
  "publishScanNodeSBOM E msg nodeScanJob =
    (case hn_marshalScan E (scanNodeMessage msg) of
       Inl err \<Rightarrow> fail (ErrorWrap ''cannot marshal scan NodeSBOM message'' err)
     | Inr payload \<Rightarrow> do {
         let key = ([], ob_Name (nb_NodeScanJob msg));
         g \<leftarrow> call (\<lambda>h. hn_GetJob E h key) (HCGetJob key);
         (case g of
            Inl err \<Rightarrow>
              if IsNotFound err then ok ()
              else fail (ErrorWrap (''cannot get NodeScanJob '' @ ob_Name (nb_NodeScanJob msg)) err)
          | Inr _ \<Rightarrow> do {
              let subject = ScanNodeSBOMSubject @ ''.'' @ np_NodeName (nj_Spec nodeScanJob);
              let messageID = ''nodeScanSBOM/'' @ om_UID (nj_meta nodeScanJob) @ ''/'' @ ob_Name (gn_Node msg);
              p \<leftarrow> call (\<lambda>h. hn_Publish E h subject messageID payload) (HCPublish subject messageID payload);
              State_Monad.return (map_sum (ErrorWrap ''failed to publish scan NodeSBOM message'') id p)
            })
       })"

definition storeNodeSBOM ::
  "handler_env \<Rightarrow> GenerateNodeSBOMMessage \<Rightarrow> NodeScanJob \<Rightarrow> NodeScanConfiguration \<Rightarrow> NodeSBOM
     \<Rightarrow> (handler_call, unit result) prog" where
  "storeNodeSBOM E msg nodeScanJob config generated = do {
     a \<leftarrow> call (hn_InProgress E) HCInProgress;
     (case a of
        Inl err \<Rightarrow> fail (ErrorWrap ''failed to ack message as in progress'' err)
      | Inr _ \<Rightarrow> do {
          s \<leftarrow> hn_PutNodeSBOM E (emptyNodeSBOM (om_Name (bn_meta generated))) (fillNodeSBOM E config generated);
          (case s of
             Inl err \<Rightarrow> fail (ErrorWrap ''failed to create or update NodeSBOM'' err)
           | Inr _ \<Rightarrow> publishScanNodeSBOM E msg nodeScanJob)
        })
   }"

text \<open>
  From the live configuration, which only stops the scan, to the end: the scan uses the snapshot in
  the annotation of the job.
\<close>

definition generateWithSnapshot ::
  "handler_env \<Rightarrow> GenerateNodeSBOMMessage \<Rightarrow> Node \<Rightarrow> NodeScanJob \<Rightarrow> (handler_call, unit result) prog" where
  "generateWithSnapshot E msg node nodeScanJob = do {
     g \<leftarrow> call (\<lambda>h. hn_GetConfig E h NodeScanConfigurationName) (HCGetConfig NodeScanConfigurationName);
     (case g of
        Inl err \<Rightarrow> if IsNotFound err then ok () else fail (ErrorWrap ''cannot get NodeScanConfiguration'' err)
      | Inr _ \<Rightarrow>
          (case map_of (om_Annotations (nj_meta nodeScanJob)) AnnotationNodeScanJobNodeScanConfigurationKey of
             None \<Rightarrow> fail (ErrorNew (''NodeScanJob '' @ om_Name (nj_meta nodeScanJob)
                        @ '' does not have a NodeScanConfiguration snapshot annotation''))
           | Some snapshotData \<Rightarrow>
               (case hn_unmarshalConfig E snapshotData of
                  Inl err \<Rightarrow> fail (ErrorWrap ''cannot unmarshal NodeScanConfiguration snapshot'' err)
                | Inr config \<Rightarrow> do {
                    s \<leftarrow> generateNodeSBOM E node msg config;
                    (case s of
                       Inl err \<Rightarrow> fail (ErrorWrap ''failed to generate NodeSBOM'' err)
                     | Inr generated \<Rightarrow> storeNodeSBOM E msg nodeScanJob config generated)
                  })))
   }"

text \<open>The function retried on conflicts that marks a job in progress.\<close>

definition progressAttempt ::
  "handler_env \<Rightarrow> NamespacedName \<Rightarrow> string \<Rightarrow> string \<Rightarrow> (handler_call, NodeScanJob result) prog" where
  "progressAttempt E key reason text = do {
     g \<leftarrow> call (\<lambda>h. hn_GetJob E h key) (HCGetJob key);
     (case g of
        Inl err \<Rightarrow> fail (ErrorWrap ''cannot get NodeScanJob'' err)
      | Inr nodeScanJob \<Rightarrow> do {
          now \<leftarrow> call (hn_Now E) HCNow;
          let started = NodeScanJob_MarkInProgress (hn_meta E) now reason text nodeScanJob;
          call (\<lambda>h. hn_UpdateStatus E h started) (HCUpdateStatus started)
        })
   }"

definition generateForNode ::
  "handler_env \<Rightarrow> GenerateNodeSBOMMessage \<Rightarrow> Node \<Rightarrow> NodeScanJob \<Rightarrow> (handler_call, unit result) prog" where
  "generateForNode E msg node nodeScanJob =
    (if NodeScanJob_IsFailed (hn_meta E) nodeScanJob then ok ()
     else do {
       r \<leftarrow> hn_retry E (progressAttempt E ([], ob_Name (nb_NodeScanJob msg)) ReasonNodeScanJobInProgress
              ''Scanning node filesystem and collecting data'');
       (case r of
          Inl err \<Rightarrow>
            if IsNotFound err then ok ()
            else fail (ErrorWrap ''failed to update NodeScanJob status to in progress'' err)
        | Inr started \<Rightarrow> generateWithSnapshot E msg node started)
     })"

definition GenerateNodeSBOMHandler_Handle :: "handler_env \<Rightarrow> string \<Rightarrow> (handler_call, unit result) prog" where
  "GenerateNodeSBOMHandler_Handle E data =
    (case hn_unmarshalGenerate E data of
       Inl err \<Rightarrow> fail (ErrorWrap ''failed to unmarshal GenerateNodeSBOM message'' err)
     | Inr msg \<Rightarrow> do {
         let key = ([], ob_Name (nb_NodeScanJob msg));
         j \<leftarrow> call (\<lambda>h. hn_GetJob E h key) (HCGetJob key);
         (case j of
            Inl err \<Rightarrow>
              if IsNotFound err then ok ()
              else fail (ErrorWrap (''cannot get NodeScanJob '' @ ob_Name (nb_NodeScanJob msg)) err)
          | Inr nodeScanJob \<Rightarrow>
              if om_Name (nj_meta nodeScanJob) \<noteq> ob_Name (nb_NodeScanJob msg) then ok ()
              else do {
                n \<leftarrow> call (\<lambda>h. hn_GetNode E h (ob_Name (gn_Node msg))) (HCGetNode (ob_Name (gn_Node msg)));
                (case n of
                   Inl err \<Rightarrow>
                     if IsNotFound err then ok ()
                     else fail (ErrorWrap (''cannot get node '' @ ob_Name (gn_Node msg)) err)
                 | Inr node \<Rightarrow> generateForNode E msg node nodeScanJob)
              })
       })"

section \<open>Scanning the SBOM of a node\<close>

definition emptyNodeReport :: "string \<Rightarrow> NodeVulnerabilityReport" where
  "emptyNodeReport name =
    \<lparr>nr_meta = empty_meta\<lparr>om_Name := name\<rparr>, nr_NodeMetadata = \<lparr>nm_Name = [], nm_Platform = []\<rparr>,
     nr_Report = \<lparr>rp_Summary = empty_summary, rp_Results = []\<rparr>\<rparr>"

definition fillNodeReport ::
  "handler_env \<Rightarrow> string \<Rightarrow> NodeSBOM \<Rightarrow> Result list \<times> Summary \<Rightarrow> NodeVulnerabilityReport
     \<Rightarrow> NodeVulnerabilityReport result" where
  "fillNodeReport E uid sbom scanned v =
    (case hn_SetReportOwner E sbom v of
       Inl err \<Rightarrow> Inl (ErrorWrap ''failed to set owner reference'' err)
     | Inr owned \<Rightarrow> Inr (owned\<lparr>nr_meta := (nr_meta owned)\<lparr>om_Labels :=
           [(LabelNodeScanJobUIDKey, uid), (LabelManagedByKey, LabelManagedByValue),
            (LabelPartOfKey, LabelPartOfValue)]\<rparr>,
         nr_NodeMetadata := bn_NodeMetadata sbom,
         nr_Report := \<lparr>rp_Summary = snd scanned, rp_Results = fst scanned\<rparr>\<rparr>))"

text \<open>A function retried on conflicts that finishes a job; the flag is \<open>wasFinished\<close>.\<close>

definition finishNodeAttempt ::
  "handler_env \<Rightarrow> NamespacedName \<Rightarrow> (time \<Rightarrow> NodeScanJob \<Rightarrow> NodeScanJob)
     \<Rightarrow> (handler_call, (NodeScanJob \<times> bool) result) prog" where
  "finishNodeAttempt E key mark = do {
     g \<leftarrow> call (\<lambda>h. hn_GetJob E h key) (HCGetJob key);
     (case g of
        Inl err \<Rightarrow> fail (ErrorWrap ''failed to get NodeScanJob'' err)
      | Inr scanJob \<Rightarrow> do {
          now \<leftarrow> call (hn_Now E) HCNow;
          let wasFinished = JobFinished (NodeScanJob_view (hn_meta E) scanJob);
          u \<leftarrow> call (\<lambda>h. hn_UpdateStatus E h (mark now scanJob)) (HCUpdateStatus (mark now scanJob));
          State_Monad.return (map_sum id (\<lambda>persisted. (persisted, wasFinished)) u)
        })
   }"

text \<open>The retried update, and the counter of finished jobs.\<close>

definition finishNodeJob ::
  "handler_env \<Rightarrow> NamespacedName \<Rightarrow> (time \<Rightarrow> NodeScanJob \<Rightarrow> NodeScanJob) \<Rightarrow> (handler_call, unit result) prog" where
  "finishNodeJob E key mark = do {
     r \<leftarrow> hn_retryFinish E (finishNodeAttempt E key mark);
     (case r of
        Inl err \<Rightarrow>
          if IsNotFound err then ok () else fail (ErrorWrap ''failed to update NodeScanJob status'' err)
      | Inr (scanJob, wasFinished) \<Rightarrow>
          (case (if wasFinished then None else RecordNodeScanJobFinished (hn_meta E) scanJob) of
             None \<Rightarrow> ok ()
           | Some outcome \<Rightarrow> do { _ \<leftarrow> call (\<lambda>_. ()) (HCMetric outcome); ok () }))
   }"

definition scanNodeSBOM :: "handler_env \<Rightarrow> ScanNodeSBOMMessage \<Rightarrow> (handler_call, unit result) prog" where
  "scanNodeSBOM E msg = do {
     let key = object_key (nb_NodeScanJob msg);
     let name = ob_Name (sn_NodeSBOM msg);
     s \<leftarrow> call (\<lambda>h. hn_GetNodeSBOM E h (object_key (sn_NodeSBOM msg))) (HCGetNodeSBOM (object_key (sn_NodeSBOM msg)));
     (case s of
        Inl err \<Rightarrow> if IsNotFound err then ok () else fail (ErrorWrap ''failed to get SBOM'' err)
      | Inr sbom \<Rightarrow> do {
          r \<leftarrow> embed HCScan as_scan (runTrivyScan (hn_scan E) (bn_SPDX sbom));
          (case r of
             Inl err \<Rightarrow> fail err
           | Inr scanned \<Rightarrow> do {
               w \<leftarrow> hn_PutReport E (emptyNodeReport name) (fillNodeReport E (ob_UID (nb_NodeScanJob msg)) sbom scanned);
               (case w of
                  Inl err \<Rightarrow> fail (ErrorWrap ''failed to create or update nodevulnerabilityreport'' err)
                | Inr _ \<Rightarrow> finishNodeJob E key (\<lambda>now. NodeScanJob_MarkComplete (hn_meta E) now ReasonNodeScanJobComplete
                             ''NodeSBOM scanned successfully''))
             })
        })
   }"

definition NodeScanSBOMHandler_Handle :: "handler_env \<Rightarrow> string \<Rightarrow> (handler_call, unit result) prog" where
  "NodeScanSBOMHandler_Handle E data =
    (case hn_unmarshalScan E data of
       Inl err \<Rightarrow> fail (ErrorWrap ''failed to unmarshal scan job message'' err)
     | Inr msg \<Rightarrow> do {
         let key = object_key (nb_NodeScanJob msg);
         j \<leftarrow> call (\<lambda>h. hn_GetJob E h key) (HCGetJob key);
         (case j of
            Inl err \<Rightarrow> if IsNotFound err then ok () else fail (ErrorWrap ''failed to get ScanJob'' err)
          | Inr scanJob \<Rightarrow>
              if om_UID (nj_meta scanJob) \<noteq> ob_UID (nb_NodeScanJob msg) then ok ()
              else if JobFinished (NodeScanJob_view (hn_meta E) scanJob) then ok ()
              else do {
                r \<leftarrow> hn_retry E (progressAttempt E key ReasonNodeScanJobSBOMGenerationInProgress
                       ''NodeSBOM vulnerability scan in progress'');
                (case r of
                   Inl err \<Rightarrow>
                     if IsNotFound err then ok ()
                     else fail (ErrorWrap ''failed to update NodeScanJob status to SBOM generation in progress'' err)
                 | Inr _ \<Rightarrow> scanNodeSBOM E msg)
              })
       })"

section \<open>Failures\<close>

definition NodeScanJobFailureHandler_HandleFailure ::
  "handler_env \<Rightarrow> string \<Rightarrow> string \<Rightarrow> (handler_call, unit result) prog" where
  "NodeScanJobFailureHandler_HandleFailure E data errorMessage =
    (case hn_unmarshalBase E data of
       Inl err \<Rightarrow> fail (ErrorWrap ''failed to unmarshal node base message'' err)
     | Inr msg \<Rightarrow> finishNodeJob E ([], ob_Name (nb_NodeScanJob msg))
         (\<lambda>now. NodeScanJob_MarkFailed (hn_meta E) now ReasonScanJobInternalError errorMessage))"

end
