(* ===== verification/Node_Correct.thy ===== *)
theory Node_Correct
  imports Node_Scan
begin

text \<open>
  The scans of nodes on the side of the controller: when the runner creates a job, what a forced
  rescan reaches, and which statuses the controller of NodeScanJobs persists.
\<close>

section \<open>The decision for one node\<close>

definition newest_node_job :: "node_env \<Rightarrow> NodeScanJob list \<Rightarrow> NodeScanJob option" where
  "newest_node_job E items =
    (if items = [] then None
     else Some (hd (nv_sort E
            (\<lambda>i j. om_CreationTimestamp (nj_meta i) > om_CreationTimestamp (nj_meta j)) items)))"

definition node_job_running :: "node_env \<Rightarrow> NodeScanJob option \<Rightarrow> bool" where
  "node_job_running E prev =
    (case prev of None \<Rightarrow> False | Some job \<Rightarrow> \<not> JobFinished (NodeScanJob_view (nv_meta E) job))"

definition node_interval_elapsed :: "time \<Rightarrow> NodeScanConfiguration \<Rightarrow> NodeScanJob option \<Rightarrow> bool" where
  "node_interval_elapsed now config prev =
    (case nc_ScanInterval (nsc_Spec config) of
       None \<Rightarrow> False
     | Some interval \<Rightarrow> interval \<noteq> 0 \<and>
         (case Option.bind prev (\<lambda>job. ns_CompletionTime (nj_Status job)) of
            None \<Rightarrow> True | Some completed \<Rightarrow> interval \<le> time_Sub now completed))"

definition platform_allowed :: "NodeScanConfiguration \<Rightarrow> Node \<Rightarrow> bool" where
  "platform_allowed config node =
    IsPlatformAllowed (nd_OperatingSystem node) (nd_Architecture node) [] (nc_Platforms (nsc_Spec config))"

lemma newest_node_job_max:
  assumes "sorter_contract (nv_sort E)" "newest_node_job E items = Some job"
  shows "job \<in> set items"
    and "i \<in> set items \<Longrightarrow> om_CreationTimestamp (nj_meta i) \<le> om_CreationTimestamp (nj_meta job)"
proof -
  let ?lt = "\<lambda>i j. om_CreationTimestamp (nj_meta i) > om_CreationTimestamp (nj_meta j)"
  let ?s = "nv_sort E ?lt items"
  have "strict_weak ?lt" by (auto simp: strict_weak_def)
  then have s: "mset ?s = mset items" "sorted_wrt (\<lambda>x y. \<not> ?lt y x) ?s"
    using assms(1) unfolding sorter_contract_def by blast+
  have set: "set ?s = set items" using s(1) by (metis set_mset_mset)
  have job: "job = hd ?s" "items \<noteq> []"
    using assms(2) by (auto simp: newest_node_job_def split: if_splits)
  then obtain ys where ys: "?s = job # ys"
    using set by (cases ?s) auto
  then show "job \<in> set items" using set by auto
  show "i \<in> set items \<Longrightarrow> om_CreationTimestamp (nj_meta i) \<le> om_CreationTimestamp (nj_meta job)"
    using set s(2) unfolding ys by fastforce
qed

fun is_node_create :: "node_call \<Rightarrow> bool" where
  "is_node_create (NDCreateJob _) = True"
| "is_node_create _ = False"

lemma shouldCreateNodeScanJob_run:
  "\<exists>pre. run_state (shouldCreateNodeScanJob E config prev requested) h =
      (requested \<or> node_interval_elapsed (nv_Now E h) config prev, h @ pre)
    \<and> filter is_node_create pre = []"
  by (auto simp: shouldCreateNodeScanJob_def node_interval_elapsed_def split: option.splits)

text \<open>The jobs a check creates, from any history.\<close>

definition due_jobs ::
  "node_env \<Rightarrow> NodeScanConfiguration \<Rightarrow> bool \<Rightarrow> time \<Rightarrow> NodeScanJob list \<Rightarrow> Node \<Rightarrow> node_call list" where
  "due_jobs E config rescanRequested now items node =
    (if platform_allowed config node \<and> \<not> node_job_running E (newest_node_job E items)
        \<and> (rescanRequested \<or> node_interval_elapsed now config (newest_node_job E items))
     then [NDCreateJob (newNodeScanJob E (om_Name (nd_meta node)))] else [])"

lemma scanNodeAfter_creates:
  "\<exists>new. snd (run_state (scanNodeAfter E config nodeName requested prev) h) = h @ new
    \<and> filter is_node_create new =
       (if \<not> node_job_running E prev \<and> (requested \<or> node_interval_elapsed (nv_Now E h) config prev)
        then [NDCreateJob (newNodeScanJob E nodeName)] else [])"
proof -
  have run: "scanNodeAfter E config nodeName requested prev =
      (if node_job_running E prev then ok ()
       else do { due \<leftarrow> shouldCreateNodeScanJob E config prev requested;
                 if \<not> due then ok ()
                 else do { c \<leftarrow> createNodeScanJob E nodeName;
                   State_Monad.return
                     (map_sum (ErrorWrap (''failed to create node scan job for node '' @ nodeName)) id c) } })"
    by (simp add: scanNodeAfter_def node_job_running_def JobFinished_def NodeScanJob_view_def
        split: option.splits)
  obtain pre where pre: "run_state (shouldCreateNodeScanJob E config prev requested) h =
      (requested \<or> node_interval_elapsed (nv_Now E h) config prev, h @ pre)"
      "filter is_node_create pre = []"
    using shouldCreateNodeScanJob_run by blast
  then show ?thesis
    unfolding run
    by (cases "node_job_running E prev";
        cases "requested \<or> node_interval_elapsed (nv_Now E h) config prev")
      (simp_all add: createNodeScanJob_def del: de_Morgan_disj)
qed

lemma checkNodeForScan_creates:
  assumes "nv_ListJobs E h (om_Name (nd_meta node)) = Inr items"
  shows "\<exists>new. snd (run_state (checkNodeForScan E config requested node) h) = h @ new
    \<and> filter is_node_create new =
        due_jobs E config requested (nv_Now E (h @ [NDListJobs (om_Name (nd_meta node))])) items node"
proof (cases "platform_allowed config node")
  case True
  let ?n = "om_Name (nd_meta node)"
  have "run_state (checkNodeForScan E config requested node) h =
      run_state (scanNodeAfter E config ?n requested (newest_node_job E items)) (h @ [NDListJobs ?n])"
    using True assms
    by (auto simp: checkNodeForScan_def getLastNodeScanJob_def newest_node_job_def platform_allowed_def Let_def)
  moreover obtain new where
    "snd (run_state (scanNodeAfter E config ?n requested (newest_node_job E items)) (h @ [NDListJobs ?n]))
       = (h @ [NDListJobs ?n]) @ new"
    "filter is_node_create new =
       (if \<not> node_job_running E (newest_node_job E items)
           \<and> (requested \<or> node_interval_elapsed (nv_Now E (h @ [NDListJobs ?n])) config (newest_node_job E items))
        then [NDCreateJob (newNodeScanJob E ?n)] else [])"
    using scanNodeAfter_creates by blast
  ultimately show ?thesis
    using True by (intro exI[of _ "NDListJobs ?n # new"]) (simp add: due_jobs_def)
qed (simp add: checkNodeForScan_def due_jobs_def platform_allowed_def)

section \<open>A forced rescan\<close>

text \<open>With a request the clock does not matter.\<close>

lemma checkEachNode_creates:
  assumes "\<And>h n. nv_ListJobs E h n = Inr (jobs n)"
  shows "\<exists>new. snd (run_state (checkEachNode E config True nodes) h) = h @ new
    \<and> filter is_node_create new =
        concat (map (\<lambda>node. due_jobs E config True 0 (jobs (om_Name (nd_meta node))) node) nodes)"
proof (induction nodes arbitrary: h)
  case (Cons node nodes)
  obtain r h' where r: "run_state (checkNodeForScan E config True node) h = (r, h')" by fastforce
  obtain new where new: "h' = h @ new"
      "filter is_node_create new = due_jobs E config True 0 (jobs (om_Name (nd_meta node))) node"
    using checkNodeForScan_creates[where E = E and h = h and node = node and config = config
        and requested = True, OF assms] r
    by (auto simp: due_jobs_def)
  obtain new' where "snd (run_state (checkEachNode E config True nodes) h') = h' @ new'"
      "filter is_node_create new' =
        concat (map (\<lambda>node. due_jobs E config True 0 (jobs (om_Name (nd_meta node))) node) nodes)"
    using Cons.IH by blast
  with r new show ?case by (intro exI[of _ "new @ new'"]) simp
qed simp

lemma removeRescan_emits:
  assumes "retrier_contract (nv_retry E)"
  shows "emits (\<lambda>c. \<not> is_node_create c) (removeRescanRequestedAnnotation E config)"
  unfolding removeRescanRequestedAnnotation_def removeRescanRequestedAttempt_def Let_def
  by (intro emits_intros emits_retrier[OF assms]) simp_all

lemma getMatchingNodes_run:
  assumes "nc_NodeSelector (nsc_Spec config) = Some s" "nv_selector E s = Inr matches"
    "nv_ListNodes E h (Some matches) = Inr nodes"
  shows "run_state (getMatchingNodes E config) h = (Inr nodes, h @ [NDListNodes (Some s)])"
  using assms by (simp add: getMatchingNodes_def)

lemma scanNodes_creates:
  assumes "retrier_contract (nv_retry E)"
    and config: "nv_GetConfig E [] NodeScanConfigurationName = Inr config"
      "nc_Enabled (nsc_Spec config)" "hasForceNodeScanAnnotation config"
    and nodes: "run_state (getMatchingNodes E config) [NDGetConfig NodeScanConfigurationName] = (Inr nodes, h)"
      "filter is_node_create h = []"
    and jobs: "\<And>h n. nv_ListJobs E h n = Inr (jobs n)"
  shows "filter is_node_create (calls (scanNodes E)) =
    concat (map (\<lambda>node. due_jobs E config True 0 (jobs (om_Name (nd_meta node))) node) nodes)"
proof -
  let ?due = "concat (map (\<lambda>node. due_jobs E config True 0 (jobs (om_Name (nd_meta node))) node) nodes)"
  obtain h' where u: "run_state (checkEachNode E config True nodes) h = ((), h')"
    by (cases "run_state (checkEachNode E config True nodes) h") simp
  then obtain new where new: "h' = h @ new" "filter is_node_create new = ?due"
    using checkEachNode_creates[OF jobs, of config nodes h] by auto
  obtain r h'' where r: "run_state (removeRescanRequestedAnnotation E config) h' = (r, h'')" by fastforce
  obtain t where t: "h'' = h' @ t" "list_all (\<lambda>c. \<not> is_node_create c) t"
    using emits_history[OF removeRescan_emits[OF assms(1)] r] .
  have "filter is_node_create t = []" using t(2) by (simp add: filter_empty_conv list_all_iff)
  moreover have "calls (scanNodes E) = h''"
    using config nodes(1) u r by (simp add: calls_def scanNodes_def)
  ultimately show ?thesis using nodes(2) new t(1) by simp
qed

section \<open>Answers in a history\<close>

text \<open>The call \<open>c\<close>, answered by \<open>f\<close>, was made in the history \<open>h\<close> and its answer was \<open>r\<close>.\<close>

definition seen :: "('c list \<Rightarrow> 'a) \<Rightarrow> 'c \<Rightarrow> 'c list \<Rightarrow> 'a \<Rightarrow> bool" where
  "seen f c h r \<longleftrightarrow> (\<exists>h' t. h = h' @ c # t \<and> f h' = r)"

lemma seen_call [intro]: "f h = r \<Longrightarrow> seen f c (h @ [c]) r"
  unfolding seen_def by blast

lemma seen_append [intro]: "seen f c h r \<Longrightarrow> seen f c (h @ n) r"
  unfolding seen_def by fastforce

lemma seen_emits:
  assumes "seen f c h r" "emits P m" "run_state m h = (x, h')"
  shows "seen f c h' r"
  using emits_history[OF assms(2,3)] seen_append[OF assms(1)] by blast

section \<open>The controller of NodeScanJobs\<close>

text \<open>The node as the configuration selects it.\<close>

definition node_selected :: "node_env \<Rightarrow> NodeScanConfiguration \<Rightarrow> Node \<Rightarrow> bool" where
  "node_selected E config node \<longleftrightarrow>
    (case nc_NodeSelector (nsc_Spec config) of
       None \<Rightarrow> True
     | Some s \<Rightarrow> (case nv_selector E s of Inl _ \<Rightarrow> False | Inr matches \<Rightarrow> matches (om_Labels (nd_meta node))))
    \<and> platform_allowed config node"

abbreviation config_seen :: "node_env \<Rightarrow> node_call list \<Rightarrow> NodeScanConfiguration result \<Rightarrow> bool" where
  "config_seen E \<equiv> seen (\<lambda>h. nv_GetConfig E h NodeScanConfigurationName) (NDGetConfig NodeScanConfigurationName)"

abbreviation node_seen :: "node_env \<Rightarrow> string \<Rightarrow> node_call list \<Rightarrow> Node result \<Rightarrow> bool" where
  "node_seen E n \<equiv> seen (\<lambda>h. nv_GetNode E h n) (NDGetNode n)"

text \<open>Why a job fails before it is scheduled.\<close>

definition node_rejected :: "node_env \<Rightarrow> string \<Rightarrow> node_call list \<Rightarrow> string \<Rightarrow> bool" where
  "node_rejected E nodeName h reason \<longleftrightarrow>
    (reason = ReasonNodeScanJobConfigurationMissing \<and> (\<exists>e. IsNotFound e \<and> config_seen E h (Inl e)))
    \<or> (\<exists>config. config_seen E h (Inr config) \<and>
        ((reason = ReasonNodeScanJobNodeNotFound \<and> (\<exists>e. IsNotFound e \<and> node_seen E nodeName h (Inl e)))
         \<or> (reason = ReasonNodeScanJobNotMatching
             \<and> (\<exists>node. node_seen E nodeName h (Inr node) \<and> \<not> node_selected E config node))))"

definition node_accepted :: "node_env \<Rightarrow> string \<Rightarrow> node_call list \<Rightarrow> bool" where
  "node_accepted E nodeName h \<longleftrightarrow>
    (\<exists>config node. config_seen E h (Inr config) \<and> node_seen E nodeName h (Inr node)
       \<and> node_selected E config node)"

definition failed_as :: "node_env \<Rightarrow> node_call list \<Rightarrow> NodeScanJob \<Rightarrow> NodeScanJob \<Rightarrow> bool" where
  "failed_as E h j s \<longleftrightarrow>
    (\<exists>now reason m. s = NodeScanJob_MarkFailed (nv_meta E) now reason m j
       \<and> node_rejected E (np_NodeName (nj_Spec j)) h reason)"

lemma failed_asI:
  "node_rejected E (np_NodeName (nj_Spec j)) h reason
    \<Longrightarrow> failed_as E h j (NodeScanJob_MarkFailed (nv_meta E) now reason m j)"
  unfolding failed_as_def by blast

lemma validate_outcome:
  assumes "config_seen E h (Inr config)"
    and "run_state (validateNodeAgainstConfig E j config) h = (Inr (j', valid), h')"
  shows "if valid then j' = j \<and> node_accepted E (np_NodeName (nj_Spec j)) h' else failed_as E h' j j'"
proof -
  let ?n = "np_NodeName (nj_Spec j)"
  have config: "config_seen E (h @ n) (Inr config)" for n using assms(1) by blast
  have node: "node_seen E ?n (h @ NDGetNode ?n # t) (nv_GetNode E h ?n)" for t
    unfolding seen_def by blast
  note run = assms(2)[unfolded validateNodeAgainstConfig_def Let_def run_state_bind run_call prod.case]
  show ?thesis
  proof (cases "nv_GetNode E h ?n")
    case (Inl e)
    have "node_rejected E ?n (h @ [NDGetNode ?n, NDNow]) ReasonNodeScanJobNodeNotFound" if "IsNotFound e"
      unfolding node_rejected_def using that config node[of "[NDNow]"] Inl by auto
    with run Inl show ?thesis by (auto split: if_splits intro!: failed_asI)
  next
    case (Inr n)
    have "node_rejected E ?n (h @ [NDGetNode ?n, NDNow]) ReasonNodeScanJobNotMatching"
      if "\<not> node_selected E config n"
      unfolding node_rejected_def using that config node[of "[NDNow]"] Inr by auto
    moreover have "node_accepted E ?n (h @ [NDGetNode ?n])" if "node_selected E config n"
      unfolding node_accepted_def using that config node[of "[]"] Inr by auto
    ultimately show ?thesis
      using run Inr
      by (auto simp: node_selected_def platform_allowed_def map_sum_Inr_iff intro!: failed_asI
          split: if_splits option.splits sum.splits)
  qed
qed

text \<open>
  The outcomes of \<open>reconcileNodeScanJob\<close> on the job \<open>j\<close>: an error with the status unchanged, the answer to
  the patch with the snapshot, or the job scheduled after its message was published.
\<close>

definition scheduled_as :: "node_env \<Rightarrow> node_call list \<Rightarrow> NodeScanJob \<Rightarrow> NodeScanJob \<Rightarrow> bool" where
  "scheduled_as E h j s \<longleftrightarrow>
    map_of (om_Annotations (nj_meta j)) AnnotationNodeScanJobNodeScanConfigurationKey \<noteq> None
    \<and> (\<exists>now. s = NodeScanJob_MarkScheduled (nv_meta E) now ReasonScanJobScheduled
          ''NodeScanJob has been scheduled for processing by the controller'' j)
    \<and> (\<exists>message. let subject = generateNodeSubject j; messageID = generateNodeMessageID j in
         nv_marshalMessage E (generateNodeMessage j) = Inr message
         \<and> seen (\<lambda>h. nv_Publish E h subject messageID message) (NDPublish subject messageID message) h (Inr ()))"

definition patched_as :: "node_env \<Rightarrow> node_call list \<Rightarrow> NodeScanJob \<Rightarrow> NodeScanJob \<Rightarrow> bool" where
  "patched_as E h j s \<longleftrightarrow>
    map_of (om_Annotations (nj_meta j)) AnnotationNodeScanJobNodeScanConfigurationKey = None
    \<and> (\<exists>new. seen (\<lambda>h. nv_PatchJob E h j new) (NDPatchJob j new) h (Inr s)
         \<and> map_of (om_Annotations (nj_meta new)) AnnotationNodeScanJobNodeScanConfigurationKey \<noteq> None)"

definition node_owner_contract :: "node_env \<Rightarrow> bool" where
  "node_owner_contract E \<longleftrightarrow>
    (\<forall>c j j'. nv_SetControllerReference E c j = Inr j' \<longrightarrow>
       (\<exists>refs. j' = j\<lparr>nj_meta := (nj_meta j)\<lparr>om_OwnerReferences := refs\<rparr>\<rparr>))"

fun is_node_cleanup :: "node_call \<Rightarrow> bool" where
  "is_node_cleanup (NDListJobs _) = True"
| "is_node_cleanup (NDDeleteJob _) = True"
| "is_node_cleanup _ = False"

lemma node_cleanup_emits: "emits is_node_cleanup (cleanupOldNodeScanJobs E j)"
  unfolding cleanupOldNodeScanJobs_def deleteOldNodeScanJob_def Let_def
  by (intro emits_intros) simp_all

lemma publish_node_outcome:
  assumes "map_of (om_Annotations (nj_meta j)) AnnotationNodeScanJobNodeScanConfigurationKey \<noteq> None"
    and "run_state (publishGenerateNodeSBOM E j) h = ((s, r), h')"
  shows "scheduled_as E h' j s \<or> s = j"
proof (cases "nv_marshalMessage E (generateNodeMessage j)")
  case (Inr message)
  let ?s = "generateNodeSubject j" and ?i = "generateNodeMessageID j"
  note run = assms(2)[unfolded publishGenerateNodeSBOM_def Let_def Inr sum.case run_state_bind run_call prod.case]
  show ?thesis
  proof (cases "nv_Publish E h ?s ?i message")
    case ok: (Inr u)
    have "seen (\<lambda>h. nv_Publish E h ?s ?i message) (NDPublish ?s ?i message)
        (h @ [NDPublish ?s ?i message, NDNow]) (Inr ())"
      unfolding seen_def using ok by (intro exI[of _ h] exI[of _ "[NDNow]"]) simp
    moreover have "\<exists>now. s = NodeScanJob_MarkScheduled (nv_meta E) now ReasonScanJobScheduled
          ''NodeScanJob has been scheduled for processing by the controller'' j"
      "h' = h @ [NDPublish ?s ?i message, NDNow]"
      using run[unfolded ok sum.case run_state_bind run_call prod.case] by auto
    ultimately show ?thesis
      unfolding scheduled_as_def Let_def using assms(1) Inr by blast
  next
    case (Inl e)
    show ?thesis using run[unfolded Inl sum.case] by simp
  qed
next
  case (Inl e)
  show ?thesis using assms(2)[unfolded publishGenerateNodeSBOM_def Let_def Inl sum.case] by simp
qed

lemma patch_node_outcome:
  assumes "node_owner_contract E"
    and "map_of (om_Annotations (nj_meta j)) AnnotationNodeScanJobNodeScanConfigurationKey = None"
    and "run_state (patchConfigSnapshot E config j) h = ((s, r), h')"
  shows "if r = Inr () then patched_as E h' j s else nj_Status s = nj_Status j"
proof -
  have owned: "nj_Status j' = nj_Status j" if "nv_SetControllerReference E config j = Inr j'" for j'
    using assms(1) that unfolding node_owner_contract_def by fastforce
  have "\<exists>new. seen (\<lambda>h. nv_PatchJob E h j new) (NDPatchJob j new) h' (Inr s)
      \<and> map_of (om_Annotations (nj_meta new)) AnnotationNodeScanJobNodeScanConfigurationKey \<noteq> None"
    if ok: "r = Inr ()"
  proof -
    obtain d o' where d: "nv_marshalConfig E config = Inr d" "nv_SetControllerReference E config j = Inr o'"
      using assms(3) ok unfolding patchConfigSnapshot_def Let_def by (auto split: sum.splits)
    let ?new = "o'\<lparr>nj_meta := (nj_meta o')\<lparr>om_Annotations :=
        AList.update AnnotationNodeScanJobNodeScanConfigurationKey d (om_Annotations (nj_meta o'))\<rparr>\<rparr>"
    have "nv_PatchJob E h j ?new = Inr s \<and> h' = h @ [NDPatchJob j ?new]"
      using assms(3) ok d unfolding patchConfigSnapshot_def Let_def by (auto split: sum.splits)
    then show ?thesis
      by (intro exI[of _ ?new]) (simp add: seen_call update_conv)
  qed
  moreover have "nj_Status s = nj_Status j" if "r \<noteq> Inr ()"
    using assms(3) that unfolding patchConfigSnapshot_def Let_def by (auto split: sum.splits simp: owned)
  ultimately show ?thesis
    using assms(2) unfolding patched_as_def by simp
qed

lemma reconcile_node_outcome:
  assumes "node_owner_contract E" "run_state (reconcileNodeScanJob E j config) h = ((s, r), h')"
  shows "scheduled_as E h' j s \<or> patched_as E h' j s \<or> nj_Status s = nj_Status j"
proof -
  obtain c hc where c: "run_state (cleanupOldNodeScanJobs E j) h = (c, hc)" by fastforce
  show ?thesis
  proof (cases c)
    case (Inl e)
    with c assms(2) show ?thesis by (auto simp: reconcileNodeScanJob_def)
  next
    case (Inr u)
    note run = assms(2)[unfolded reconcileNodeScanJob_def run_state_bind c Inr prod.case sum.case]
    show ?thesis
      using run publish_node_outcome[where E = E and j = j and h = hc] patch_node_outcome[OF assms(1), of j config hc s r h']
      by (auto split: if_splits)
  qed
qed

lemma reconcile_node_emits:
  "emits (\<lambda>c. \<forall>s. c \<noteq> NDUpdateStatus s) (reconcileNodeScanJob E j config)"
  "emits (\<lambda>c. \<forall>s. c \<noteq> NDUpdateStatus s) (validateNodeAgainstConfig E j config)"
proof -
  have "emits (\<lambda>c. \<forall>s. c \<noteq> NDUpdateStatus s) (cleanupOldNodeScanJobs E j)"
    by (rule emits_mono[OF node_cleanup_emits]) auto
  then show "emits (\<lambda>c. \<forall>s. c \<noteq> NDUpdateStatus s) (reconcileNodeScanJob E j config)"
    unfolding reconcileNodeScanJob_def patchConfigSnapshot_def publishGenerateNodeSBOM_def Let_def
    by (intro emits_intros) simp_all
  show "emits (\<lambda>c. \<forall>s. c \<noteq> NDUpdateStatus s) (validateNodeAgainstConfig E j config)"
    unfolding validateNodeAgainstConfig_def Let_def by (intro emits_intros) simp_all
qed

definition node_status_ok :: "node_env \<Rightarrow> NamespacedName \<Rightarrow> node_call list \<Rightarrow> NodeScanJob \<Rightarrow> bool" where
  "node_status_ok E req h s \<longleftrightarrow>
    (\<exists>job. nv_GetJob E [] req = Inr job \<and> om_DeletionTimestamp (nj_meta job) = None
       \<and> NodeScanJob_IsPending (nv_meta E) job
       \<and> (let j = NodeScanJob_InitializeConditions (nv_meta E) (nv_Now E [NDGetJob req]) job in
            failed_as E h j s \<or> (node_accepted E (np_NodeName (nj_Spec job)) h \<and> scheduled_as E h j s)
            \<or> patched_as E h j s \<or> nj_Status s = nj_Status j))"

lemma initialize_node_meta [simp]:
  "nj_meta (NodeScanJob_InitializeConditions M now job) = nj_meta job"
  "nj_Spec (NodeScanJob_InitializeConditions M now job) = nj_Spec job"
  by (simp_all add: NodeScanJob_InitializeConditions_def NodeScanJob_set_conditions_def Let_def)

lemma persist_guarded:
  assumes "P h (NDUpdateStatus s)" "\<And>h m. P h (NDMetric m)"
  shows "guarded P h (persistNodeScanJob E s answer)"
  unfolding persistNodeScanJob_def by (intro guarded_bind guarded_cases) (simp_all add: assms)

lemma accepted_emits:
  assumes "node_accepted E n h" "emits P m" "run_state m h = (x, h')"
  shows "node_accepted E n h'"
proof -
  obtain config node where acc: "config_seen E h (Inr config)" "node_seen E n h (Inr node)"
    "node_selected E config node"
    using assms(1) unfolding node_accepted_def by (elim exE conjE) (rule that)
  show ?thesis
    unfolding node_accepted_def
    using seen_emits[OF acc(1) assms(2,3)] seen_emits[OF acc(2) assms(2,3)] acc(3)
    by (intro exI conjI)
qed

lemma reconcilePending_guarded:
  fixes E req job
  defines "j \<equiv> NodeScanJob_InitializeConditions (nv_meta E) (nv_Now E [NDGetJob req]) job"
    and "P \<equiv> \<lambda>h c. \<forall>s. c = NDUpdateStatus s \<longrightarrow> node_status_ok E req h s"
  assumes "node_owner_contract E" "nv_GetJob E [] req = Inr job" "om_DeletionTimestamp (nj_meta job) = None"
    "NodeScanJob_IsPending (nv_meta E) job"
  shows "guarded P h (reconcilePending E j)"
proof -
  have spec: "np_NodeName (nj_Spec j) = np_NodeName (nj_Spec job)" by (simp add: j_def)
  have failed: "P h (NDUpdateStatus s)" if "failed_as E h j s" for h s
    using assms(4-6) that unfolding P_def node_status_ok_def j_def Let_def by blast
  have quiet: "P h c" if "\<forall>s. c \<noteq> NDUpdateStatus s" for h c using that unfolding P_def by blast
  have reconciled: "guarded P h (case r of (job', e) \<Rightarrow> persistNodeScanJob E job' e)"
    if run: "run_state (reconcileNodeScanJob E j config) h0 = (r, h)"
      and acc: "node_accepted E (np_NodeName (nj_Spec job)) h0" for h0 h r config
  proof (cases r)
    case (Pair s e)
    have "node_accepted E (np_NodeName (nj_Spec job)) h"
      by (rule accepted_emits[OF acc reconcile_node_emits(1) run])
    moreover have "scheduled_as E h j s \<or> patched_as E h j s \<or> nj_Status s = nj_Status j"
      by (rule reconcile_node_outcome[OF assms(3) run[unfolded Pair]])
    ultimately have "P h (NDUpdateStatus s)"
      using assms(4-6) unfolding P_def node_status_ok_def j_def Let_def by blast
    then show ?thesis unfolding Pair prod.case by (rule persist_guarded) (simp add: quiet)
  qed
  have valid: "guarded P h' (if \<not> v then persistNodeScanJob E j' (Inr ())
        else reconcileNodeScanJob E j' config \<bind> (\<lambda>r. case r of (job', e) \<Rightarrow> persistNodeScanJob E job' e))"
    if "config_seen E h (Inr config)"
      and "run_state (validateNodeAgainstConfig E j config) h = (Inr (j', v), h')" for h config j' v h'
  proof (cases v)
    case True
    then have "j' = j" and acc: "node_accepted E (np_NodeName (nj_Spec job)) h'"
      using validate_outcome[OF that] spec by simp_all
    with True show ?thesis
      by (simp add: guarded_bind guarded_emits[OF reconcile_node_emits(1) quiet] reconciled)
  next
    case False
    then have "failed_as E h' j j'" using validate_outcome[OF that] by simp
    then have "guarded P h' (persistNodeScanJob E j' (Inr ()))"
      by (intro persist_guarded failed) (simp_all add: quiet)
    with False show ?thesis by simp
  qed
  have missing: "guarded P (h @ [NDGetConfig NodeScanConfigurationName, NDNow])
      (persistNodeScanJob E (NodeScanJob_MarkFailed (nv_meta E) now ReasonNodeScanJobConfigurationMissing m j) a)"
    if "nv_GetConfig E h NodeScanConfigurationName = Inl e" "IsNotFound e" for h e now m a
  proof (intro persist_guarded failed failed_asI)
    have "config_seen E (h @ [NDGetConfig NodeScanConfigurationName, NDNow]) (Inl e)"
      unfolding seen_def using that(1) by (intro exI[of _ h] exI[of _ "[NDNow]"]) simp
    with that(2) show "node_rejected E (np_NodeName (nj_Spec j))
        (h @ [NDGetConfig NodeScanConfigurationName, NDNow]) ReasonNodeScanJobConfigurationMissing"
      unfolding node_rejected_def by blast
  qed (simp add: quiet)
  show ?thesis
    unfolding reconcilePending_def
  proof (rule guarded_bind, goal_cases)
    case (2 g h')
    then have g: "g = nv_GetConfig E h NodeScanConfigurationName" "h' = h @ [NDGetConfig NodeScanConfigurationName]"
      by simp_all
    show ?case
    proof (cases g)
      case (Inl e)
      show ?thesis
        unfolding Inl sum.case
        by (rule guarded_cases(2), rule guarded_bind)
          (use missing[of h e] g Inl in \<open>simp_all add: quiet\<close>)
    next
      case (Inr config)
      then have config: "config_seen E h' (Inr config)" using g by (simp add: seen_call)
      show ?thesis
        unfolding Inr sum.case
      proof (rule guarded_bind[OF guarded_emits[OF reconcile_node_emits(2) quiet]], assumption)
        fix r h'' assume "run_state (validateNodeAgainstConfig E j config) h' = (r, h'')"
        with valid[OF config] show "guarded P h'' (case r of Inl err \<Rightarrow> fail err
            | Inr (job, v) \<Rightarrow> if \<not> v then persistNodeScanJob E job (Inr ())
               else reconcileNodeScanJob E job config \<bind> (\<lambda>r. case r of (job', e) \<Rightarrow> persistNodeScanJob E job' e))"
          by (cases r) auto
      qed
    qed
  qed (simp add: quiet)
qed

lemma node_mark_views:
  assumes "meta_contract M"
  shows "NodeScanJob_view M (NodeScanJob_MarkScheduled M now r m j) = phase_view (Some Scheduled)"
    and "NodeScanJob_view M (NodeScanJob_MarkInProgress M now r m j) = phase_view (Some InProgress)"
    and "NodeScanJob_view M (NodeScanJob_MarkComplete M now r m j) = phase_view (Some Complete)"
    and "NodeScanJob_view M (NodeScanJob_MarkFailed M now r m j) = phase_view (Some Failed)"
    and "NodeScanJob_view M (NodeScanJob_InitializeConditions M now j) = phase_view None"
  using nj.view_mark[OF assms, of "\<lparr>mk_phase = Scheduled, mk_now = now, mk_reason = r, mk_message = m\<rparr>" j]
    nj.view_mark[OF assms, of "\<lparr>mk_phase = InProgress, mk_now = now, mk_reason = r, mk_message = m\<rparr>" j]
    nj.view_mark[OF assms, of "\<lparr>mk_phase = Complete, mk_now = now, mk_reason = r, mk_message = m\<rparr>" j]
    nj.view_mark[OF assms, of "\<lparr>mk_phase = Failed, mk_now = now, mk_reason = r, mk_message = m\<rparr>" j]
  by (simp_all add: NodeScanJob_mark_def nj.view_initialize[OF assms])

lemma node_view_status: "nj_Status s = nj_Status j \<Longrightarrow> NodeScanJob_view M s = NodeScanJob_view M j"
  by (simp add: nodescanjob_flags)

lemma Reconcile_node_status:
  assumes "node_owner_contract E"
    and "calls (NodeScanJobReconciler_Reconcile E req) = pre @ NDUpdateStatus s # post"
  shows "node_status_ok E req pre s"
proof -
  let ?P = "\<lambda>h c. \<forall>s. c = NDUpdateStatus s \<longrightarrow> node_status_ok E req h s"
  have "guarded ?P [] (NodeScanJobReconciler_Reconcile E req)"
    unfolding NodeScanJobReconciler_Reconcile_def
    by (intro guarded_bind guarded_cases)
      (auto intro!: guarded_bind guarded_cases reconcilePending_guarded[OF assms(1)] split: sum.splits)
  from guarded_calls[OF this assms(2)] show ?thesis by blast
qed

section \<open>The properties\<close>

text \<open>
  When a node gets a new job.  A check of a node creates at most one job, exactly when the
  platform of the node is allowed, the newest job of the node is finished or absent, and either a
  rescan is requested or the interval is set and has elapsed since the newest job completed.  The
  newest job is a listed one and none is younger.
\<close>

theorem node_scan_decision:
  assumes "sorter_contract (nv_sort E)" "nv_ListJobs E [] (om_Name (nd_meta node)) = Inr items"
  shows "filter is_node_create (calls (checkNodeForScan E config requested node)) =
      (if platform_allowed config node \<and> \<not> node_job_running E (newest_node_job E items)
          \<and> (requested \<or> node_interval_elapsed (nv_Now E [NDListJobs (om_Name (nd_meta node))]) config
                (newest_node_job E items))
       then [NDCreateJob (newNodeScanJob E (om_Name (nd_meta node)))] else [])
    \<and> (case newest_node_job E items of
         None \<Rightarrow> items = []
       | Some job \<Rightarrow> job \<in> set items
           \<and> list_all (\<lambda>i. om_CreationTimestamp (nj_meta i) \<le> om_CreationTimestamp (nj_meta job)) items)"
proof (rule conjI)
  show "filter is_node_create (calls (checkNodeForScan E config requested node)) =
      (if platform_allowed config node \<and> \<not> node_job_running E (newest_node_job E items)
          \<and> (requested \<or> node_interval_elapsed (nv_Now E [NDListJobs (om_Name (nd_meta node))]) config
                (newest_node_job E items))
       then [NDCreateJob (newNodeScanJob E (om_Name (nd_meta node)))] else [])"
    using checkNodeForScan_creates[where h = "[]", OF assms(2), of config requested]
    unfolding due_jobs_def calls_def by auto
  show "case newest_node_job E items of None \<Rightarrow> items = []
      | Some job \<Rightarrow> job \<in> set items
          \<and> list_all (\<lambda>i. om_CreationTimestamp (nj_meta i) \<le> om_CreationTimestamp (nj_meta job)) items"
  proof (cases "newest_node_job E items")
    case None
    then show ?thesis by (simp add: newest_node_job_def split: if_splits)
  next
    case (Some job)
    then show ?thesis using newest_node_job_max[OF assms(1) Some] by (simp add: list_all_iff)
  qed
qed

definition rescan_cleared :: "NodeScanConfiguration \<Rightarrow> NodeScanConfiguration" where
  "rescan_cleared config = config\<lparr>nsc_meta := (nsc_meta config)
     \<lparr>om_Annotations := AList.delete AnnotationNodeRescanRequested (om_Annotations (nsc_meta config))\<rparr>\<rparr>"

lemma scanNodes_updates:
  assumes "retrier_contract (nv_retry E)"
  shows "emits (\<lambda>c. \<forall>c'. c = NDUpdateConfig c' \<longrightarrow>
      (\<exists>h n current. nv_GetConfig E h n = Inr current \<and> c' = rescan_cleared current)) (scanNodes E)"
    (is "emits ?P _")
proof -
  have "emits ?P (checkNodeForScan E config requested node)" for config requested node
    unfolding checkNodeForScan_def getLastNodeScanJob_def scanNodeAfter_def shouldCreateNodeScanJob_def
      createNodeScanJob_def Let_def
    by (intro emits_intros) simp_all
  then have each: "emits ?P (checkEachNode E config requested nodes)" for config requested nodes
    by (induction nodes) (auto intro!: emits_intros)
  have config: "yields (pred_sum (\<lambda>_. True) (\<lambda>c. \<exists>h. nv_GetConfig E h n = Inr c))
      (call (\<lambda>h. nv_GetConfig E h n) (NDGetConfig n))" for n
    by (rule yields_call, rule pred_sum_InrI) blast
  have "emits ?P (removeRescanRequestedAttempt E n)" for n
    unfolding removeRescanRequestedAttempt_def Let_def rescan_cleared_def[symmetric]
    by (rule emits_bind_yields[OF _ config]) (auto intro!: emits_intros split: sum.splits, blast)
  then have "emits ?P (removeRescanRequestedAnnotation E config)" for config
    unfolding removeRescanRequestedAnnotation_def by (intro emits_intros emits_retrier[OF assms])
  with each show ?thesis
    unfolding scanNodes_def getMatchingNodes_def Let_def by (intro emits_intros) simp_all
qed


text \<open>
  C30: the status that a reconciliation of a NodeScanJob persists belongs to a job read as pending
  and not being deleted, and is one of: failed, because the configuration or the node does not
  exist or the configuration does not select the node; scheduled, for a job with the snapshot of
  the configuration whose node the configuration selects, after the message for this node was
  published; the answer to the patch that stored the snapshot; or still pending.
\<close>

theorem node_job_persisted_status:
  assumes "node_owner_contract E" "meta_contract (nv_meta E)"
    and "calls (NodeScanJobReconciler_Reconcile E req) = pre @ NDUpdateStatus s # post"
  shows "\<exists>job j. nv_GetJob E [] req = Inr job \<and> NodeScanJob_IsPending (nv_meta E) job
    \<and> om_DeletionTimestamp (nj_meta job) = None \<and> nj_meta j = nj_meta job \<and> nj_Spec j = nj_Spec job
    \<and> ((NodeScanJob_view (nv_meta E) s = phase_view (Some Failed) \<and> failed_as E pre j s)
      \<or> (NodeScanJob_view (nv_meta E) s = phase_view (Some Scheduled) \<and> scheduled_as E pre j s
          \<and> node_accepted E (np_NodeName (nj_Spec job)) pre)
      \<or> patched_as E pre j s
      \<or> NodeScanJob_view (nv_meta E) s = phase_view None)"
proof -
  obtain job where job: "nv_GetJob E [] req = Inr job" "om_DeletionTimestamp (nj_meta job) = None"
    "NodeScanJob_IsPending (nv_meta E) job"
    and s: "let j = NodeScanJob_InitializeConditions (nv_meta E) (nv_Now E [NDGetJob req]) job in
            failed_as E pre j s \<or> (node_accepted E (np_NodeName (nj_Spec job)) pre \<and> scheduled_as E pre j s)
            \<or> patched_as E pre j s \<or> nj_Status s = nj_Status j"
    using Reconcile_node_status[OF assms(1,3)] unfolding node_status_ok_def by (elim exE conjE) (rule that)
  let ?j = "NodeScanJob_InitializeConditions (nv_meta E) (nv_Now E [NDGetJob req]) job"
  have "NodeScanJob_view (nv_meta E) s = phase_view (Some Failed)" if "failed_as E pre ?j s"
    using that node_mark_views(4)[OF assms(2)] unfolding failed_as_def by metis
  moreover have "NodeScanJob_view (nv_meta E) s = phase_view (Some Scheduled)" if "scheduled_as E pre ?j s"
    using that node_mark_views(1)[OF assms(2)] unfolding scheduled_as_def by metis
  moreover have "NodeScanJob_view (nv_meta E) s = phase_view None" if "nj_Status s = nj_Status ?j"
    using node_view_status[OF that] node_mark_views(5)[OF assms(2)] by metis
  ultimately show ?thesis
    using s job by (intro exI[of _ job] exI[of _ ?j]) (auto simp: Let_def)
qed

section \<open>Sample inputs\<close>

text \<open>
  A forced rescan of two selected nodes: the last job of \<open>n1\<close> is complete, that of \<open>n2\<close> still pending.
\<close>

definition sample_node :: "string \<Rightarrow> Node" where
  "sample_node n = \<lparr>nd_meta = empty_meta\<lparr>om_Name := n, om_Labels := [(''scan'', ''yes'')]\<rparr>,
     nd_OperatingSystem = ''linux'', nd_Architecture = ''amd64''\<rparr>"

definition sample_node_config :: NodeScanConfiguration where
  "sample_node_config =
    \<lparr>nsc_meta = empty_meta\<lparr>om_Name := ''default'',
       om_Annotations := [(AnnotationNodeRescanRequested, ''true''), (''team'', ''x'')]\<rparr>,
     nsc_Spec = \<lparr>nc_Enabled = True, nc_NodeSelector = Some \<lparr>ls_MatchLabels = [], ls_MatchExpressions = []\<rparr>,
       nc_ScanInterval = Some 60, nc_SkipPatterns = Some [''proc/'', ''*.tmp''], nc_Platforms = []\<rparr>\<rparr>"

definition sample_node_job :: "string \<Rightarrow> NodeScanJob" where
  "sample_node_job n = \<lparr>nj_meta = empty_meta\<lparr>om_Name := ''job-'' @ n, om_UID := ''u1'',
       om_Annotations := [(AnnotationNodeScanJobNodeScanConfigurationKey, ''snapshot'')]\<rparr>,
     nj_Spec = \<lparr>np_NodeName = n\<rparr>,
     nj_Status = \<lparr>ns_Conditions = [], ns_StartTime = None, ns_CompletionTime = None\<rparr>\<rparr>"

definition sample_node_jobs :: "string \<Rightarrow> NodeScanJob list" where
  "sample_node_jobs n =
    (if n = ''n1'' then [NodeScanJob_MarkComplete list_meta 5 ''Complete'' [] (sample_node_job n)]
     else [sample_node_job n])"

definition sample_node_env :: node_env where
  "sample_node_env =
    \<lparr>nv_GetConfig = (\<lambda>h n. Inr sample_node_config), nv_UpdateConfig = (\<lambda>h c. Inr ()),
     nv_ListNodes = (\<lambda>h s. Inr [sample_node ''n1'', sample_node ''n2'']),
     nv_GetNode = (\<lambda>h n. Inr (sample_node n)), nv_ListJobs = (\<lambda>h n. Inr (sample_node_jobs n)),
     nv_GetJob = (\<lambda>h k. Inr (sample_node_job ''n1'')), nv_CreateJob = (\<lambda>h j. Inr ()),
     nv_DeleteJob = (\<lambda>h j. Inr ()), nv_PatchJob = (\<lambda>h j j'. Inr j'), nv_UpdateStatus = (\<lambda>h j. Inr j),
     nv_ListNodeSBOMs = (\<lambda>h n. Inr []), nv_DeleteNodeSBOM = (\<lambda>h b. Inr ()),
     nv_DeleteAllJobs = (\<lambda>h. Inr ()), nv_DeleteAllNodeSBOMs = (\<lambda>h. Inr ()),
     nv_Publish = (\<lambda>h s i m. Inr ()), nv_Now = (\<lambda>h. 100), nv_meta = list_meta,
     nv_selector = (\<lambda>s. Inr (\<lambda>labels. map_index labels ''scan'' = ''yes'')), nv_sort = insertion_sorter,
     nv_retry = retry_times 1, nv_trace = [], nv_parseTime = (\<lambda>s. None), nv_quote = id,
     nv_marshalConfig = (\<lambda>c. Inr ''snapshot''), nv_marshalMessage = (\<lambda>m. Inr ''message''),
     nv_SetControllerReference = (\<lambda>c j. Inr j)\<rparr>"

theorem node_scan_decision_witness:
  "filter is_node_create (calls (checkNodeForScan sample_node_env sample_node_config False (sample_node ''n1'')))
    = [NDCreateJob (newNodeScanJob sample_node_env ''n1'')]"
proof -
  have "platform_allowed sample_node_config (sample_node ''n1'')
      \<and> \<not> node_job_running sample_node_env (newest_node_job sample_node_env (sample_node_jobs ''n1''))
      \<and> node_interval_elapsed 100 sample_node_config (newest_node_job sample_node_env (sample_node_jobs ''n1''))"
    by code_simp
  then show ?thesis
    using node_scan_decision[of sample_node_env "sample_node ''n1''" "sample_node_jobs ''n1''"
        sample_node_config False]
    by (simp add: sample_node_env_def insertion_sorter_contract) (simp add: sample_node_def)
qed


text \<open>
  The node whose job is running gets no job, and the annotation that asked for one is gone.
\<close>

lemma forced_rescan_forgets_busy_node:
  "NDCreateJob (newNodeScanJob sample_node_env ''n2'') \<notin> set (calls (scanNodes sample_node_env))
    \<and> NDUpdateConfig (rescan_cleared sample_node_config) \<in> set (calls (scanNodes sample_node_env))
    \<and> \<not> hasForceNodeScanAnnotation (rescan_cleared sample_node_config)"
  by code_simp

lemma sample_node_owner: "node_owner_contract sample_node_env"
  unfolding node_owner_contract_def
proof (intro allI impI)
  fix c j j' assume "nv_SetControllerReference sample_node_env c j = Inr j'"
  then show "\<exists>refs. j' = j\<lparr>nj_meta := (nj_meta j)\<lparr>om_OwnerReferences := refs\<rparr>\<rparr>"
    by (intro exI[of _ "om_OwnerReferences (nj_meta j)"]) (simp add: sample_node_env_def)
qed

theorem node_job_persisted_status_witness:
  "\<exists>pre s. calls (NodeScanJobReconciler_Reconcile sample_node_env ([], ''job-n1'')) = pre @ NDUpdateStatus s # []
     \<and> NodeScanJob_view list_meta s = phase_view (Some Scheduled)
     \<and> node_accepted sample_node_env ''n1'' pre"
proof -
  let ?calls = "calls (NodeScanJobReconciler_Reconcile sample_node_env ([], ''job-n1''))"
  let ?s = "NodeScanJob_MarkScheduled list_meta 100 ReasonScanJobScheduled
     ''NodeScanJob has been scheduled for processing by the controller''
     (NodeScanJob_InitializeConditions list_meta 100 (sample_node_job ''n1''))"
  let ?pre = "butlast ?calls"
  have trace: "?calls = ?pre @ NDUpdateStatus ?s # []" by code_simp
  have meta: "meta_contract (nv_meta sample_node_env)" "nv_meta sample_node_env = list_meta"
    by (simp_all add: sample_node_env_def list_meta_contract)
  have view: "NodeScanJob_view list_meta ?s = phase_view (Some Scheduled)"
    using meta by (simp add: node_mark_views)
  have quiet: "list_all (\<lambda>c. case c of NDPatchJob _ _ \<Rightarrow> False | _ \<Rightarrow> True) ?pre" by code_simp
  have "\<not> patched_as sample_node_env p j t"
    if "list_all (\<lambda>c. case c of NDPatchJob _ _ \<Rightarrow> False | _ \<Rightarrow> True) p" for p j t
    using that unfolding patched_as_def seen_def by auto
  note unpatched = this[OF quiet]
  have "phase_view (Some Scheduled) \<noteq> phase_view (Some Failed)" "phase_view (Some Scheduled) \<noteq> phase_view None"
    by (simp_all add: phase_view_def)
  with node_job_persisted_status[OF sample_node_owner meta(1) trace] view unpatched
  have "node_accepted sample_node_env ''n1'' ?pre"
    by (auto simp: meta(2)) (auto simp: sample_node_env_def sample_node_job_def)
  with trace view show ?thesis by blast
qed

end
