(* ===== verification/Node_Handlers_Correct.thy ===== *)
theory Node_Handlers_Correct
  imports Node_Handlers Node_Correct Sbom_Correct
begin

text \<open>
  The handlers for nodes: what is generated and stored follows the message, the node and the snapshot
  of the configuration; a job is completed only after its report was stored; and a finished job is
  counted by the handler that finished it.
\<close>

section \<open>Contracts\<close>

text \<open>
  \<open>controllerutil.CreateOrUpdate\<close> reads the object of the given name and then creates or updates an
  object of that name as the function returns it; it succeeds only after the read.
\<close>

definition put_contract ::
  "(string \<Rightarrow> handler_call) \<Rightarrow> ('a \<Rightarrow> handler_call) \<Rightarrow> ('a \<Rightarrow> handler_call) \<Rightarrow> ('a \<Rightarrow> ObjectMeta)
     \<Rightarrow> ('a \<Rightarrow> ('a \<Rightarrow> 'a result) \<Rightarrow> (handler_call, unit result) prog) \<Rightarrow> bool" where
  "put_contract rd create upd meta put \<longleftrightarrow>
    (\<forall>base f. emits (\<lambda>c. c = rd (om_Name (meta base))
        \<or> (\<exists>x y. om_Name (meta x) = om_Name (meta base) \<and> f x = Inr y \<and> (c = create y \<or> c = upd y)))
      (put base f))
    \<and> (\<forall>base f h h'. run_state (put base f) h = (Inr (), h') \<longrightarrow> rd (om_Name (meta base)) \<in> set h')"

abbreviation sbom_put_contract :: "handler_env \<Rightarrow> bool" where
  "sbom_put_contract E \<equiv> put_contract (\<lambda>n. HCGetNodeSBOM ([], n)) HCCreateNodeSBOM HCUpdateNodeSBOM bn_meta
     (hn_PutNodeSBOM E)"

abbreviation report_put_contract :: "handler_env \<Rightarrow> bool" where
  "report_put_contract E \<equiv> put_contract HCGetReport HCCreateReport HCUpdateReport nr_meta (hn_PutReport E)"

text \<open>\<open>controllerutil.SetControllerReference\<close> writes the owner references and nothing else.\<close>

definition handler_owner_contract :: "handler_env \<Rightarrow> bool" where
  "handler_owner_contract E \<longleftrightarrow>
    (\<forall>c s s'. hn_SetSBOMOwner E c s = Inr s' \<longrightarrow>
       (\<exists>refs. s' = s\<lparr>bn_meta := (bn_meta s)\<lparr>om_OwnerReferences := refs\<rparr>\<rparr>))
    \<and> (\<forall>b v v'. hn_SetReportOwner E b v = Inr v' \<longrightarrow>
       (\<exists>refs. v' = v\<lparr>nr_meta := (nr_meta v)\<lparr>om_OwnerReferences := refs\<rparr>\<rparr>))"

lemma yields_embed:
  assumes "yields Q m"
  shows "yields Q (embed to own_of m)"
  using assms unfolding yields_def embed_def Let_def by (simp add: split_beta)

section \<open>Generating\<close>

text \<open>The snapshot of the configuration that a job carries.\<close>

definition job_snapshot :: "handler_env \<Rightarrow> NodeScanJob \<Rightarrow> NodeScanConfiguration \<Rightarrow> bool" where
  "job_snapshot E job config \<longleftrightarrow>
    (\<exists>data. map_of (om_Annotations (nj_meta job)) AnnotationNodeScanJobNodeScanConfigurationKey = Some data
       \<and> hn_unmarshalConfig E data = Inr config)"

definition skip_patterns :: "NodeScanConfiguration \<Rightarrow> string list" where
  "skip_patterns config = (case nc_SkipPatterns (nsc_Spec config) of None \<Rightarrow> [] | Some ps \<Rightarrow> ps)"

text \<open>The job as the API server answered the update that started it.\<close>

definition started_job :: "handler_env \<Rightarrow> NodeScanJob \<Rightarrow> bool" where
  "started_job E job \<longleftrightarrow> (\<exists>h s. hn_UpdateStatus E h s = Inr job)"

definition node_sbom_ok :: "handler_env \<Rightarrow> GenerateNodeSBOMMessage \<Rightarrow> NodeSBOM \<Rightarrow> bool" where
  "node_sbom_ok E msg sbom \<longleftrightarrow>
    om_Name (bn_meta sbom) = ob_Name (gn_Node msg)
    \<and> (\<exists>h node. hn_GetNode E h (ob_Name (gn_Node msg)) = Inr node
         \<and> bn_NodeMetadata sbom = \<lparr>nm_Name = om_Name (nd_meta node),
             nm_Platform = nd_OperatingSystem node @ ''/'' @ nd_Architecture node\<rparr>)
    \<and> (\<exists>h f. hn_ReadAll E h f = Inr (bn_SPDX sbom))"

fun generates_node :: "handler_env \<Rightarrow> GenerateNodeSBOMMessage \<Rightarrow> handler_call \<Rightarrow> bool" where
  "generates_node E msg (HCCreateNodeSBOM s) \<longleftrightarrow> node_sbom_ok E msg s"
| "generates_node E msg (HCUpdateNodeSBOM s) \<longleftrightarrow> node_sbom_ok E msg s"
| "generates_node E msg (HCTrivy args) \<longleftrightarrow>
    (\<exists>job config f. started_job E job \<and> job_snapshot E job config
       \<and> args = filesystemArgs E (skip_patterns config) f)"
| "generates_node E msg (HCPublish subject ident payload) \<longleftrightarrow>
    (\<exists>job. started_job E job \<and> subject = ScanNodeSBOMSubject @ ''.'' @ np_NodeName (nj_Spec job))
    \<and> hn_marshalScan E (scanNodeMessage msg) = Inr payload"
| "generates_node E msg (HCUpdateStatus s) \<longleftrightarrow>
    (\<exists>h now job. hn_GetJob E h ([], ob_Name (nb_NodeScanJob msg)) = Inr job
       \<and> s = NodeScanJob_MarkInProgress (hn_meta E) now ReasonNodeScanJobInProgress
             ''Scanning node filesystem and collecting data'' job)"
| "generates_node E msg (HCCreateReport _) \<longleftrightarrow> False"
| "generates_node E msg (HCUpdateReport _) \<longleftrightarrow> False"
| "generates_node E msg (HCMetric _) \<longleftrightarrow> False"
| "generates_node E msg _ \<longleftrightarrow> True"

lemma generateNodeSPDX_emits:
  assumes "started_job E job" "job_snapshot E job config"
  shows "emits (generates_node E msg) (generateNodeSPDX E (skip_patterns config))"
  using assms unfolding generateNodeSPDX_def executeFilesystem_def Let_def
  by (intro emits_intros) auto

abbreviation read_by_node_trivy :: "handler_env \<Rightarrow> string result \<Rightarrow> bool" where
  "read_by_node_trivy E \<equiv> pred_sum (\<lambda>_. True) (\<lambda>spdx. \<exists>h f. hn_ReadAll E h f = Inr spdx)"

lemma generateNodeSPDX_yields: "yields (read_by_node_trivy E) (generateNodeSPDX E pats)"
proof -
  have rd: "yields (read_by_node_trivy E) (call (\<lambda>h. hn_ReadAll E h f) (HCReadAll f))" for f
    by (rule yields_call, rule pred_sum_InrI) blast
  have "yields (read_by_node_trivy E) (executeFilesystem E pats f)" for f
    unfolding executeFilesystem_def Let_def
    by (intro yields_intros yields_bind[OF rd]) (simp_all add: sum.pred_map comp_def)
  then show ?thesis
    unfolding generateNodeSPDX_def by (intro yields_deferred yields_intros) simp_all
qed

lemma newNodeSBOM_ok:
  assumes "hn_GetNode E h (ob_Name (gn_Node msg)) = Inr node" "hn_ReadAll E h' f = Inr spdx"
  shows "node_sbom_ok E msg (newNodeSBOM msg node spdx)"
  unfolding node_sbom_ok_def newNodeSBOM_def using assms
  by (intro conjI exI[of _ h] exI[of _ node] exI[of _ h'] exI[of _ f]) simp_all

lemma generateNodeSBOM_yields:
  assumes "hn_GetNode E h (ob_Name (gn_Node msg)) = Inr node"
  shows "yields (pred_sum (\<lambda>_. True) (\<lambda>g. node_sbom_ok E msg g)) (generateNodeSBOM E node msg config)"
  unfolding generateNodeSBOM_def
  by (rule yields_bind[OF generateNodeSPDX_yields])
    (auto intro!: yields_return pred_sum_InrI simp: map_sum_Inr_iff, metis newNodeSBOM_ok[OF assms])

lemma fillNodeSBOM_ok:
  assumes "handler_owner_contract E" "node_sbom_ok E msg generated"
    "om_Name (bn_meta x) = om_Name (bn_meta generated)" "fillNodeSBOM E config generated x = Inr y"
  shows "node_sbom_ok E msg y"
proof -
  obtain refs where "y = (x\<lparr>bn_meta := (bn_meta x)\<lparr>om_Labels := om_Labels (bn_meta generated)\<rparr>,
         bn_NodeMetadata := bn_NodeMetadata generated, bn_SPDX := bn_SPDX generated\<rparr>)
      \<lparr>bn_meta := (bn_meta x)\<lparr>om_Labels := om_Labels (bn_meta generated), om_OwnerReferences := refs\<rparr>\<rparr>"
    using assms(1,4) unfolding handler_owner_contract_def fillNodeSBOM_def by fastforce
  then show ?thesis using assms(2,3) by (simp add: node_sbom_ok_def)
qed

lemma storeNodeSBOM_emits:
  assumes "sbom_put_contract E" "handler_owner_contract E" "started_job E job" "node_sbom_ok E msg generated"
  shows "emits (generates_node E msg) (storeNodeSBOM E msg job config generated)"
proof -
  let ?base = "emptyNodeSBOM (om_Name (bn_meta generated))" and ?f = "fillNodeSBOM E config generated"
  have name: "om_Name (bn_meta ?base) = om_Name (bn_meta generated)" by (simp add: emptyNodeSBOM_def)
  have "emits (\<lambda>c. c = HCGetNodeSBOM ([], om_Name (bn_meta ?base))
      \<or> (\<exists>x y. om_Name (bn_meta x) = om_Name (bn_meta ?base) \<and> ?f x = Inr y
           \<and> (c = HCCreateNodeSBOM y \<or> c = HCUpdateNodeSBOM y))) (hn_PutNodeSBOM E ?base ?f)"
    using assms(1) unfolding put_contract_def by blast
  then have "emits (generates_node E msg) (hn_PutNodeSBOM E ?base ?f)"
    by (rule emits_mono) (use fillNodeSBOM_ok[OF assms(2,4)] in \<open>auto simp: name\<close>)
  with assms(3) show ?thesis
    unfolding storeNodeSBOM_def publishScanNodeSBOM_def Let_def
    by (intro emits_intros) auto
qed

lemma generateWithSnapshot_emits:
  assumes "sbom_put_contract E" "handler_owner_contract E" "started_job E job"
    "hn_GetNode E h (ob_Name (gn_Node msg)) = Inr node"
  shows "emits (generates_node E msg) (generateWithSnapshot E msg node job)"
proof -
  have run: "emits (generates_node E msg) (do {
        s \<leftarrow> generateNodeSBOM E node msg config;
        (case s of Inl err \<Rightarrow> fail (ErrorWrap ''failed to generate NodeSBOM'' err)
         | Inr generated \<Rightarrow> storeNodeSBOM E msg job config generated) })"
    if "job_snapshot E job config" for config
  proof (rule emits_bind_yields[OF _ generateNodeSBOM_yields[OF assms(4)]])
    show "emits (generates_node E msg) (generateNodeSBOM E node msg config)"
      unfolding generateNodeSBOM_def skip_patterns_def[symmetric]
      by (intro emits_intros generateNodeSPDX_emits[OF assms(3) that])
  qed (auto intro!: emits_intros storeNodeSBOM_emits[OF assms(1-3)] split: sum.splits)
  show ?thesis
    unfolding generateWithSnapshot_def
    by (intro emits_intros run) (auto simp: job_snapshot_def)
qed

lemma progressAttempt_emits:
  assumes "\<And>now h job. hn_GetJob E h key = Inr job
      \<Longrightarrow> P (HCUpdateStatus (NodeScanJob_MarkInProgress (hn_meta E) now reason text job))"
    "P (HCGetJob key)" "P HCNow"
  shows "emits P (progressAttempt E key reason text)"
proof -
  have job: "yields (pred_sum (\<lambda>_. True) (\<lambda>job. \<exists>h. hn_GetJob E h key = Inr job))
      (call (\<lambda>h. hn_GetJob E h key) (HCGetJob key))"
    by (rule yields_call, rule pred_sum_InrI) blast
  show ?thesis
    unfolding progressAttempt_def Let_def
    by (rule emits_bind_yields[OF _ job]) (use assms in \<open>auto intro!: emits_intros split: sum.splits\<close>)
qed

lemma progressAttempt_yields:
  "yields (pred_sum (\<lambda>_. True) (started_job E)) (progressAttempt E key reason text)"
  unfolding progressAttempt_def Let_def started_job_def
  by (rule yields_bind_any, rule yields_cases(1), simp, rule yields_bind_any, rule yields_call,
      rule pred_sum_InrI) blast


section \<open>Finishing a job\<close>

text \<open>
  The history right after a status was persisted that finishes a job that was not finished: the read
  of the job, the clock and the update.
\<close>

definition finished_by ::
  "handler_env \<Rightarrow> NamespacedName \<Rightarrow> (time \<Rightarrow> NodeScanJob \<Rightarrow> NodeScanJob) \<Rightarrow> handler_call list \<Rightarrow> bool" where
  "finished_by E key mark h \<longleftrightarrow>
    (\<exists>h0 job now. hn_GetJob E h0 key = Inr job \<and> \<not> JobFinished (NodeScanJob_view (hn_meta E) job)
       \<and> h = h0 @ [HCGetJob key, HCNow, HCUpdateStatus (mark now job)])"

lemma finishNodeAttempt_run:
  assumes "run_state (finishNodeAttempt E key mark) h0 = (Inr (job', wasFinished), h)" "\<not> wasFinished"
  shows "finished_by E key mark h"
proof -
  obtain job where job: "hn_GetJob E h0 key = Inr job"
    using assms(1) unfolding finishNodeAttempt_def by (auto split: sum.splits)
  then have "\<not> JobFinished (NodeScanJob_view (hn_meta E) job)"
    "h = h0 @ [HCGetJob key, HCNow, HCUpdateStatus (mark (hn_Now E (h0 @ [HCGetJob key])) job)]"
    using assms unfolding finishNodeAttempt_def Let_def by (auto simp: map_sum_Inr_iff)
  with job show ?thesis unfolding finished_by_def by blast
qed

text \<open>A call is allowed in a history when it is no status, report or counter of its own accord.\<close>

lemma finishNodeJob_guarded:
  assumes "retrier_contract (hn_retryFinish E)"
    "\<And>h m. finished_by E key mark h \<Longrightarrow> P h (HCMetric m)"
    "\<And>n h0 now job. hn_GetJob E h0 key = Inr job \<Longrightarrow> P (h @ n) (HCUpdateStatus (mark now job))"
    "\<And>h. P h (HCGetJob key)" "\<And>h. P h HCNow"
  shows "guarded P h (finishNodeJob E key mark)"
  unfolding finishNodeJob_def
proof (rule guarded_bind)
  have "guarded P (h @ n) (finishNodeAttempt E key mark)" for n
    unfolding finishNodeAttempt_def Let_def
    by (intro guarded_bind guarded_cases) (use assms(3)[of _ _ "n @ _"] assms(4,5) in auto)
  then show "guarded P h (hn_retryFinish E (finishNodeAttempt E key mark))"
    by (rule guarded_retrier[OF assms(1)])
next
  fix r h' assume run: "run_state (hn_retryFinish E (finishNodeAttempt E key mark)) h = (r, h')"
  have "finished_by E key mark h'" if r: "r = Inr (job, False)" for job
  proof -
    have "retried (finishNodeAttempt E key mark) h (Inr (job, False)) h'"
      using assms(1) run r unfolding retrier_contract_def by (metis fst_conv snd_conv)
    then obtain h0 where "run_state (finishNodeAttempt E key mark) h0 = (Inr (job, False), h')"
      by (rule retried_success)
    from finishNodeAttempt_run[OF this] show ?thesis by simp
  qed
  then show "guarded P h' (case r of
        Inl err \<Rightarrow> if IsNotFound err then ok () else fail (ErrorWrap ''failed to update NodeScanJob status'' err)
      | Inr (scanJob, wasFinished) \<Rightarrow>
          (case (if wasFinished then None else RecordNodeScanJobFinished (hn_meta E) scanJob) of
             None \<Rightarrow> ok () | Some outcome \<Rightarrow> do { _ \<leftarrow> call (\<lambda>_. ()) (HCMetric outcome); ok () }))"
    using assms(2) by (auto split: sum.splits prod.splits option.splits if_splits intro!: guarded_bind)
qed

section \<open>Scanning\<close>

abbreviation complete_node :: "handler_env \<Rightarrow> time \<Rightarrow> NodeScanJob \<Rightarrow> NodeScanJob" where
  "complete_node E now \<equiv> NodeScanJob_MarkComplete (hn_meta E) now ReasonNodeScanJobComplete
     ''NodeSBOM scanned successfully''"

definition node_report_ok :: "handler_env \<Rightarrow> ScanNodeSBOMMessage \<Rightarrow> NodeVulnerabilityReport \<Rightarrow> bool" where
  "node_report_ok E msg v \<longleftrightarrow>
    (\<exists>h sbom trivy. hn_GetNodeSBOM E h (object_key (sn_NodeSBOM msg)) = Inr sbom
       \<and> nr_NodeMetadata v = bn_NodeMetadata sbom
       \<and> NewResultsFromTrivyReport (se_trivy (hn_scan E)) trivy = Inr (rp_Results (nr_Report v)))
    \<and> om_Name (nr_meta v) = ob_Name (sn_NodeSBOM msg)
    \<and> map_of (om_Labels (nr_meta v)) LabelNodeScanJobUIDKey = Some (ob_UID (nb_NodeScanJob msg))
    \<and> su_Suppressed (rp_Summary (nr_Report v))
        = int (length (filter vu_Suppressed (all_findings (rp_Results (nr_Report v)))))
    \<and> unsuppressed_total (rp_Summary (nr_Report v))
        = int (length (filter (\<lambda>u. \<not> vu_Suppressed u) (all_findings (rp_Results (nr_Report v)))))"

text \<open>What a call of the scan handler has to satisfy in the history \<open>h\<close>.\<close>

fun scans_node :: "handler_env \<Rightarrow> ScanNodeSBOMMessage \<Rightarrow> handler_call list \<Rightarrow> handler_call \<Rightarrow> bool" where
  "scans_node E msg h (HCCreateReport v) \<longleftrightarrow> node_report_ok E msg v"
| "scans_node E msg h (HCUpdateReport v) \<longleftrightarrow> node_report_ok E msg v"
| "scans_node E msg h (HCUpdateStatus s) \<longleftrightarrow>
    (\<exists>h' now job. hn_GetJob E h' (object_key (nb_NodeScanJob msg)) = Inr job
       \<and> (s = NodeScanJob_MarkInProgress (hn_meta E) now ReasonNodeScanJobSBOMGenerationInProgress
               ''NodeSBOM vulnerability scan in progress'' job
          \<or> s = complete_node E now job \<and> HCGetReport (ob_Name (sn_NodeSBOM msg)) \<in> set h))"
| "scans_node E msg h (HCMetric _) \<longleftrightarrow> finished_by E (object_key (nb_NodeScanJob msg)) (complete_node E) h"
| "scans_node E msg h (HCCreateNodeSBOM _) \<longleftrightarrow> False"
| "scans_node E msg h (HCUpdateNodeSBOM _) \<longleftrightarrow> False"
| "scans_node E msg h (HCPublish _ _ _) \<longleftrightarrow> False"
| "scans_node E msg h _ \<longleftrightarrow> True"

lemma fillNodeReport_ok:
  assumes "handler_owner_contract E" "hn_GetNodeSBOM E h (object_key (sn_NodeSBOM msg)) = Inr sbom"
    "NewResultsFromTrivyReport (se_trivy (hn_scan E)) trivy = Inr results"
    "om_Name (nr_meta x) = ob_Name (sn_NodeSBOM msg)"
    "fillNodeReport E (ob_UID (nb_NodeScanJob msg)) sbom (results, NewSummaryFromResults results) x = Inr y"
  shows "node_report_ok E msg y"
proof -
  obtain owned refs where owned: "hn_SetReportOwner E sbom x = Inr owned"
    "owned = x\<lparr>nr_meta := (nr_meta x)\<lparr>om_OwnerReferences := refs\<rparr>\<rparr>"
    using assms(1,5) unfolding handler_owner_contract_def fillNodeReport_def by (fastforce split: sum.splits)
  have y: "y = owned\<lparr>nr_meta := (nr_meta owned)\<lparr>om_Labels :=
           [(LabelNodeScanJobUIDKey, ob_UID (nb_NodeScanJob msg)), (LabelManagedByKey, LabelManagedByValue),
            (LabelPartOfKey, LabelPartOfValue)]\<rparr>,
         nr_NodeMetadata := bn_NodeMetadata sbom,
         nr_Report := \<lparr>rp_Summary = NewSummaryFromResults results, rp_Results = results\<rparr>\<rparr>"
    using assms(5) owned(1) by (simp add: fillNodeReport_def)
  show ?thesis
    unfolding node_report_ok_def
    by (intro conjI exI[of _ h] exI[of _ sbom] exI[of _ trivy])
      (use assms(2-4) in \<open>simp_all add: y owned(2) NewSummaryFromResults_totals\<close>)
qed

lemma put_report_emits:
  assumes "report_put_contract E" "handler_owner_contract E"
    "hn_GetNodeSBOM E h (object_key (sn_NodeSBOM msg)) = Inr sbom"
    "NewResultsFromTrivyReport (se_trivy (hn_scan E)) trivy = Inr results"
  shows "emits (\<lambda>c. \<forall>h. scans_node E msg h c) (hn_PutReport E (emptyNodeReport (ob_Name (sn_NodeSBOM msg)))
    (fillNodeReport E (ob_UID (nb_NodeScanJob msg)) sbom (results, NewSummaryFromResults results)))"
proof -
  let ?base = "emptyNodeReport (ob_Name (sn_NodeSBOM msg))"
    and ?f = "fillNodeReport E (ob_UID (nb_NodeScanJob msg)) sbom (results, NewSummaryFromResults results)"
  have name: "om_Name (nr_meta ?base) = ob_Name (sn_NodeSBOM msg)" by (simp add: emptyNodeReport_def)
  have "emits (\<lambda>c. c = HCGetReport (om_Name (nr_meta ?base))
      \<or> (\<exists>x y. om_Name (nr_meta x) = om_Name (nr_meta ?base) \<and> ?f x = Inr y
           \<and> (c = HCCreateReport y \<or> c = HCUpdateReport y))) (hn_PutReport E ?base ?f)"
    using assms(1) unfolding put_contract_def by blast
  then show ?thesis
    by (rule emits_mono) (use fillNodeReport_ok[OF assms(2-4)] in \<open>auto simp: name\<close>)
qed

lemma storeNodeReport_guarded:
  assumes "report_put_contract E" "handler_owner_contract E" "retrier_contract (hn_retryFinish E)"
    "hn_GetNodeSBOM E h0 (object_key (sn_NodeSBOM msg)) = Inr sbom"
    "NewResultsFromTrivyReport (se_trivy (hn_scan E)) trivy = Inr results"
  shows "guarded (scans_node E msg) h (do {
      w \<leftarrow> hn_PutReport E (emptyNodeReport (ob_Name (sn_NodeSBOM msg)))
             (fillNodeReport E (ob_UID (nb_NodeScanJob msg)) sbom (results, NewSummaryFromResults results));
      (case w of
         Inl err \<Rightarrow> fail (ErrorWrap ''failed to create or update nodevulnerabilityreport'' err)
       | Inr _ \<Rightarrow> finishNodeJob E (object_key (nb_NodeScanJob msg)) (complete_node E)) })"
proof (rule guarded_bind[OF guarded_emits[OF put_report_emits[OF assms(1,2,4,5)]]])
  fix w h'
  assume run: "run_state (hn_PutReport E (emptyNodeReport (ob_Name (sn_NodeSBOM msg)))
      (fillNodeReport E (ob_UID (nb_NodeScanJob msg)) sbom (results, NewSummaryFromResults results))) h = (w, h')"
  have rd: "HCGetReport (ob_Name (sn_NodeSBOM msg)) \<in> set h'" if "w = Inr u" for u
  proof -
    have "HCGetReport (om_Name (nr_meta (emptyNodeReport (ob_Name (sn_NodeSBOM msg))))) \<in> set h'"
      using assms(1) run that unfolding put_contract_def by simp
    then show ?thesis by (simp add: emptyNodeReport_def)
  qed
  show "guarded (scans_node E msg) h' (case w of
         Inl err \<Rightarrow> fail (ErrorWrap ''failed to create or update nodevulnerabilityreport'' err)
       | Inr _ \<Rightarrow> finishNodeJob E (object_key (nb_NodeScanJob msg)) (complete_node E))"
    by (intro guarded_cases(1) finishNodeJob_guarded[OF assms(3)]) (use rd in auto)
qed simp

lemma scanNodeSBOM_guarded:
  assumes "report_put_contract E" "handler_owner_contract E" "retrier_contract (hn_retryFinish E)"
  shows "guarded (scans_node E msg) h (scanNodeSBOM E msg)"
proof -
  have trivy: "guarded (scans_node E msg) h (embed HCScan as_scan (runTrivyScan (hn_scan E) spdx))" for h spdx
    by (rule guarded_emits[OF emits_embed[OF runTrivyScan_emits, of "\<lambda>c. \<exists>s. c = HCScan s"]]) auto
  have store: "guarded (scans_node E msg) h' (case r of
        Inl err \<Rightarrow> fail err
      | Inr scanned \<Rightarrow> do {
          w \<leftarrow> hn_PutReport E (emptyNodeReport (ob_Name (sn_NodeSBOM msg)))
                 (fillNodeReport E (ob_UID (nb_NodeScanJob msg)) sbom scanned);
          (case w of
             Inl err \<Rightarrow> fail (ErrorWrap ''failed to create or update nodevulnerabilityreport'' err)
           | Inr _ \<Rightarrow> finishNodeJob E (object_key (nb_NodeScanJob msg)) (complete_node E)) })"
    if "hn_GetNodeSBOM E h0 (object_key (sn_NodeSBOM msg)) = Inr sbom"
      and run: "run_state (embed HCScan as_scan (runTrivyScan (hn_scan E) (bn_SPDX sbom))) h = (r, h')"
    for h0 h h' r sbom
  proof (cases r)
    case (Inr scanned)
    have "scanned_ok (hn_scan E) r" by (rule yields_run[OF yields_embed[OF runTrivyScan_yields] run])
    then obtain results trivy where "scanned = (results, NewSummaryFromResults results)"
      "NewResultsFromTrivyReport (se_trivy (hn_scan E)) trivy = Inr results"
      using Inr by (cases scanned) auto
    then show ?thesis
      unfolding Inr sum.case using storeNodeReport_guarded[OF assms that(1)] by blast
  qed simp
  show ?thesis
    unfolding scanNodeSBOM_def Let_def
    by (rule guarded_bind, simp, rule guarded_cases(1), simp_all)
      (auto intro!: guarded_bind[OF trivy store])
qed

text \<open>The job of the message as the handler read it first: the same instance, and not finished.\<close>

definition open_node_job :: "handler_env \<Rightarrow> ObjectRef \<Rightarrow> NodeScanJob \<Rightarrow> bool" where
  "open_node_job E ref job \<longleftrightarrow>
    hn_GetJob E [] (object_key ref) = Inr job \<and> om_UID (nj_meta job) = ob_UID ref
    \<and> \<not> JobFinished (NodeScanJob_view (hn_meta E) job)"

lemma scan_started_guarded:
  assumes "report_put_contract E" "handler_owner_contract E" "retrier_contract (hn_retry E)"
    "retrier_contract (hn_retryFinish E)"
  shows "guarded (scans_node E msg) h (do {
      r \<leftarrow> hn_retry E (progressAttempt E (object_key (nb_NodeScanJob msg)) ReasonNodeScanJobSBOMGenerationInProgress
             ''NodeSBOM vulnerability scan in progress'');
      (case r of
         Inl err \<Rightarrow>
           if IsNotFound err then ok ()
           else fail (ErrorWrap ''failed to update NodeScanJob status to SBOM generation in progress'' err)
       | Inr _ \<Rightarrow> scanNodeSBOM E msg) })"
proof (rule guarded_bind)
  have "emits (\<lambda>c. \<forall>h. scans_node E msg h c) (progressAttempt E (object_key (nb_NodeScanJob msg))
      ReasonNodeScanJobSBOMGenerationInProgress ''NodeSBOM vulnerability scan in progress'')"
    by (rule progressAttempt_emits) auto
  from emits_retrier[OF assms(3) this]
  show "guarded (scans_node E msg) h (hn_retry E (progressAttempt E (object_key (nb_NodeScanJob msg))
      ReasonNodeScanJobSBOMGenerationInProgress ''NodeSBOM vulnerability scan in progress''))"
    by (rule guarded_emits) simp
qed (intro guarded_cases scanNodeSBOM_guarded[OF assms(1,2,4)]; simp)


section \<open>Failing\<close>

text \<open>
  The failure handler marks the job of the message failed with the error, whatever its UID and
  state, and counts the failure only when it persisted it on a job that was not finished.
\<close>

theorem node_failure_counted_once:
  assumes "retrier_contract (hn_retryFinish E)" "hn_unmarshalBase E data = Inr msg"
    "calls (NodeScanJobFailureHandler_HandleFailure E data m) = pre @ c # post"
  shows "case c of
      HCUpdateStatus s \<Rightarrow> \<exists>h now job. hn_GetJob E h ([], ob_Name (nb_NodeScanJob msg)) = Inr job
        \<and> s = NodeScanJob_MarkFailed (hn_meta E) now ReasonScanJobInternalError m job
    | HCMetric _ \<Rightarrow> finished_by E ([], ob_Name (nb_NodeScanJob msg))
        (\<lambda>now. NodeScanJob_MarkFailed (hn_meta E) now ReasonScanJobInternalError m) pre
    | HCGetJob key \<Rightarrow> key = ([], ob_Name (nb_NodeScanJob msg))
    | HCNow \<Rightarrow> True
    | _ \<Rightarrow> False" (is "?P pre c")
proof -
  have "guarded ?P [] (NodeScanJobFailureHandler_HandleFailure E data m)"
    unfolding NodeScanJobFailureHandler_HandleFailure_def assms(2) sum.case
    by (rule finishNodeJob_guarded[OF assms(1)]) auto
  from guarded_calls[OF this assms(3)] show ?thesis .
qed

section \<open>Sample inputs\<close>

definition documented_put ::
  "(string \<Rightarrow> handler_call) \<Rightarrow> ('a \<Rightarrow> handler_call) \<Rightarrow> ('a \<Rightarrow> ObjectMeta) \<Rightarrow> 'a
     \<Rightarrow> ('a \<Rightarrow> 'a result) \<Rightarrow> (handler_call, unit result) prog" where
  "documented_put rd create meta base f = do {
     _ \<leftarrow> call (\<lambda>_. ()) (rd (om_Name (meta base)));
     (case f base of Inl err \<Rightarrow> fail err | Inr y \<Rightarrow> call (\<lambda>_. Inr ()) (create y))
   }"

lemma documented_put_contract: "put_contract rd create upd meta (documented_put rd create meta)"
proof -
  have "emits (\<lambda>c. c = rd (om_Name (meta base)) \<or> (\<exists>x y. om_Name (meta x) = om_Name (meta base) \<and> f x = Inr y
        \<and> (c = create y \<or> c = upd y))) (documented_put rd create meta base f)" for base f
    unfolding documented_put_def by (intro emits_intros) auto
  moreover have "rd (om_Name (meta base)) \<in> set h'"
    if "run_state (documented_put rd create meta base f) h = (Inr (), h')" for base f h h'
    using that unfolding documented_put_def by (auto split: sum.splits)
  ultimately show ?thesis unfolding put_contract_def by blast
qed

definition sample_job_ref :: ObjectRef where
  "sample_job_ref = \<lparr>ob_Name = ''job-n1'', ob_Namespace = [], ob_UID = ''u1''\<rparr>"

definition sample_generate_message :: GenerateNodeSBOMMessage where
  "sample_generate_message = \<lparr>nb_NodeScanJob = sample_job_ref,
     gn_Node = \<lparr>ob_Name = ''n1'', ob_Namespace = [], ob_UID = []\<rparr>\<rparr>"

definition sample_handler_env :: "NodeScanJob \<Rightarrow> handler_env" where
  "sample_handler_env job =
    \<lparr>hn_GetJob = (\<lambda>h k. Inr job), hn_UpdateStatus = (\<lambda>h s. Inr s), hn_Now = (\<lambda>h. 7),
     hn_GetNode = (\<lambda>h n. Inr (sample_node n)), hn_GetConfig = (\<lambda>h n. Inr sample_node_config),
     hn_GetNodeSBOM = (\<lambda>h k. Inr (newNodeSBOM sample_generate_message (sample_node ''n1'') ''spdx'')),
     hn_PutNodeSBOM = documented_put (\<lambda>n. HCGetNodeSBOM ([], n)) HCCreateNodeSBOM bn_meta,
     hn_PutReport = documented_put HCGetReport HCCreateReport nr_meta,
     hn_InProgress = (\<lambda>h. Inr ()), hn_Publish = (\<lambda>h s i p. Inr ()), hn_CreateTemp = (\<lambda>h p. Inr ''/work/sbom''),
     hn_Trivy = (\<lambda>h a. Inr ()), hn_ReadAll = (\<lambda>h f. Inr ''spdx''), hn_retry = retry_times 1,
     hn_retryFinish = retry_times 1, hn_meta = list_meta, hn_scan = sample_sbom_env, hn_workDir = ''/work'',
     hn_targetDir = ''/host'', hn_trivyJavaDBRepository = ''jdb'', hn_pathJoin = (\<lambda>a b. a @ ''/'' @ b),
     hn_SetSBOMOwner = (\<lambda>c s. Inr s), hn_SetReportOwner = (\<lambda>b v. Inr v),
     hn_unmarshalGenerate = (\<lambda>d. Inr sample_generate_message),
     hn_unmarshalScan = (\<lambda>d. Inr (scanNodeMessage sample_generate_message)),
     hn_unmarshalBase = (\<lambda>d. Inr \<lparr>nb_NodeScanJob = sample_job_ref\<rparr>), hn_marshalScan = (\<lambda>m. Inr ''scan''),
     hn_unmarshalConfig = (\<lambda>d. Inr sample_node_config)\<rparr>"

abbreviation sample_open_env :: handler_env where
  "sample_open_env \<equiv> sample_handler_env (sample_node_job ''n1'')"

lemma sample_handler_contracts:
  "sbom_put_contract (sample_handler_env job)" "report_put_contract (sample_handler_env job)"
  "handler_owner_contract (sample_handler_env job)"
  "retrier_contract (hn_retry (sample_handler_env job))" "retrier_contract (hn_retryFinish (sample_handler_env job))"
proof -
  show "handler_owner_contract (sample_handler_env job)"
    unfolding handler_owner_contract_def
  proof (intro conjI allI impI)
    fix c s s' assume "hn_SetSBOMOwner (sample_handler_env job) c s = Inr s'"
    then show "\<exists>refs. s' = s\<lparr>bn_meta := (bn_meta s)\<lparr>om_OwnerReferences := refs\<rparr>\<rparr>"
      by (intro exI[of _ "om_OwnerReferences (bn_meta s)"]) (simp add: sample_handler_env_def)
  next
    fix b v v' assume "hn_SetReportOwner (sample_handler_env job) b v = Inr v'"
    then show "\<exists>refs. v' = v\<lparr>nr_meta := (nr_meta v)\<lparr>om_OwnerReferences := refs\<rparr>\<rparr>"
      by (intro exI[of _ "om_OwnerReferences (nr_meta v)"]) (simp add: sample_handler_env_def)
  qed
qed (simp_all add: sample_handler_env_def documented_put_contract retry_times_contract)



theorem node_failure_counted_once_witness:
  "finished_by sample_open_env ([], ''job-n1'')
     (\<lambda>now. NodeScanJob_MarkFailed (hn_meta sample_open_env) now ReasonScanJobInternalError ''boom'')
     (butlast (calls (NodeScanJobFailureHandler_HandleFailure sample_open_env [] ''boom'')))"
proof -
  let ?calls = "calls (NodeScanJobFailureHandler_HandleFailure sample_open_env [] ''boom'')"
  have trace: "?calls = butlast ?calls @ HCMetric ''failed'' # []" by code_simp
  show ?thesis
    using node_failure_counted_once[OF sample_handler_contracts(5) _ trace, of "\<lparr>nb_NodeScanJob = sample_job_ref\<rparr>"]
    by (simp add: sample_handler_env_def sample_job_ref_def)
qed

text \<open>
  The SBOM handler does not compare the UID and does not skip a finished job: a message delivered
  again moves a complete job back to in progress.
\<close>

lemma redelivery_reopens_complete_job:
  "let job = NodeScanJob_MarkComplete list_meta 5 ''Complete'' [] (sample_node_job ''n1'');
       E = sample_handler_env job;
       reopened = NodeScanJob_MarkInProgress list_meta 7 ReasonNodeScanJobInProgress
         ''Scanning node filesystem and collecting data'' job
   in HCUpdateStatus reopened \<in> set (calls (GenerateNodeSBOMHandler_Handle E []))
      \<and> NodeScanJob_IsComplete list_meta job \<and> \<not> NodeScanJob_IsComplete list_meta reopened"
  by code_simp

end
