(* ===== verification/Webhooks.thy ===== *)
theory Webhooks
  imports Node_Scan Reports
begin

text \<open>
  Admission: the webhooks of \<open>src/internal/webhook/v1alpha1\<close> for Registries, ScanJobs, NodeScanJobs and
  the two scan configurations, the wrapper that adds the trace context to created jobs,
  \<open>src/internal/webhook/instrumentation.go\<close>, and the admission plugin of the storage server,
  \<open>src/internal/apiserver/admission/workloadscanreport.go\<close>.

  A validator answers with its warnings and an error, if any.  The user of the request is \<open>None\<close> when
  the context carries no request.  A field error keeps its path and text; the rejected value that
  \<open>field.Invalid\<close> repeats in the message is left out.
\<close>

section \<open>Errors and environment\<close>

datatype path_element = PathChild string | PathIndex nat

type_synonym field_path = "path_element list"

datatype field_error =
    FieldInvalid field_path string
  | FieldForbidden field_path string
  | FieldNotFound field_path string
  | FieldInternal field_path string

datatype admission_error =
    AdmissionInvalid string "field_error list"
  | AdmissionForbidden string string
  | AdmissionInternal string

type_synonym verdict = "string list \<times> admission_error option"

abbreviation specPath :: "string \<Rightarrow> field_path" where
  "specPath f \<equiv> [PathChild ''spec'', PathChild f]"

text \<open>
  \<open>wb_ListScanJobs\<close> lists by namespace and registry; \<open>wb_ValidateLabelSelector\<close> is the validation of
  selectors in the API machinery; \<open>wb_errorText\<close> renders an error.
\<close>

record 'ast webhook_env =
  wb_NewTagEvaluator :: "'ast cel_lib result"
  wb_errorText :: "error \<Rightarrow> string"
  wb_ValidateLabelSelector :: "field_path \<Rightarrow> LabelSelector \<Rightarrow> field_error list"
  wb_selector :: "LabelSelector \<Rightarrow> (string_map \<Rightarrow> bool) result"
  wb_quote :: "string \<Rightarrow> string"
  wb_formatTime :: "time \<Rightarrow> string"
  wb_meta :: meta_lib
  wb_ListScanJobs :: "string \<Rightarrow> string \<Rightarrow> ScanJob list result"
  wb_GetRegistry :: "NamespacedName \<Rightarrow> Registry result"
  wb_GetConfig :: "string \<Rightarrow> NodeScanConfiguration result"
  wb_GetNode :: "string \<Rightarrow> Node result"
  wb_serviceAccountNamespace :: string
  wb_serviceAccountName :: string

definition allowedUsername :: "string \<Rightarrow> string \<Rightarrow> string" where
  "allowedUsername namespace name = ''system:serviceaccount:'' @ namespace @ '':'' @ name"

abbreviation serviceAccount :: "'ast webhook_env \<Rightarrow> string" where
  "serviceAccount E \<equiv> allowedUsername (wb_serviceAccountNamespace E) (wb_serviceAccountName E)"

text \<open>\<open>apierrors.NewInvalid\<close> when there are field errors.\<close>

definition invalidOr :: "string \<Rightarrow> field_error list \<Rightarrow> string list \<Rightarrow> string list \<Rightarrow> verdict" where
  "invalidOr name errs rejected accepted =
    (if errs \<noteq> [] then (rejected, Some (AdmissionInvalid name errs)) else (accepted, None))"

section \<open>Validators of fields\<close>

definition validPlatforms :: "(string \<times> string list) list" where
  "validPlatforms =
    [(''aix'', [''ppc64'']),
     (''android'', [''386'', ''amd64'', ''arm'', ''arm64'']),
     (''darwin'', [''amd64'', ''arm64'']),
     (''dragonfly'', [''amd64'']),
     (''freebsd'', [''386'', ''amd64'', ''arm'']),
     (''illumos'', [''amd64'']),
     (''ios'', [''arm64'']),
     (''js'', [''wasm'']),
     (''linux'', [''386'', ''amd64'', ''arm'', ''arm64'', ''loong64'', ''mips'', ''mipsle'', ''mips64'', ''mips64le'',
                ''ppc64'', ''ppc64le'', ''riscv64'', ''s390x'']),
     (''netbsd'', [''386'', ''amd64'', ''arm'']),
     (''openbsd'', [''386'', ''amd64'', ''arm'', ''arm64'']),
     (''plan9'', [''386'', ''amd64'', ''arm'']),
     (''solaris'', [''amd64'']),
     (''wasip1'', [''wasm'']),
     (''windows'', [''386'', ''amd64'', ''arm'', ''arm64''])]"

definition allowedVariants :: "(string \<times> string list) list" where
  "allowedVariants = [(''arm'', [''v6'', ''v7'', ''v8'']), (''arm64'', [''v8''])]"

definition validatePlatform :: "Platform \<Rightarrow> string option" where
  "validatePlatform p =
    (case map_of validPlatforms (pl_OS p) of
       None \<Rightarrow> Some (''unsupported OS: '' @ pl_OS p)
     | Some arches \<Rightarrow>
         if pl_Architecture p \<notin> set arches
         then Some (''unsupported arch '' @ pl_Architecture p @ '' for OS '' @ pl_OS p)
         else case map_of allowedVariants (pl_Architecture p) of
           Some variants \<Rightarrow>
             if pl_Variant p \<noteq> [] \<and> pl_Variant p \<notin> set variants
             then Some (''invalid variant '' @ pl_Variant p @ '' for arch '' @ pl_Architecture p
                    @ '' (allowed: ['' @ Join variants '' '' @ ''])'')
             else None
         | None \<Rightarrow>
             if pl_Variant p \<noteq> [] then Some (''arch '' @ pl_Architecture p @ '' does not support variants'')
             else None)"

definition caBundleDeprecationWarning :: string where
  "caBundleDeprecationWarning = ''spec.caBundle is deprecated and will be removed in the following versions. Use spec.caBundleRef instead.''"

definition caBundleWarnings :: "string \<Rightarrow> string list" where
  "caBundleWarnings caBundle = (if caBundle = [] then [] else [caBundleDeprecationWarning])"

definition Minute :: int where
  "Minute = 60000000000"

definition validateScanInterval :: "int option \<Rightarrow> field_error list" where
  "validateScanInterval scanInterval =
    (case scanInterval of
       None \<Rightarrow> []
     | Some d \<Rightarrow>
         if d < Minute then [FieldInvalid (specPath ''scanInterval'') ''scanInterval must be at least 1 minute''] else [])"

definition availableCatalogTypes :: "string list" where
  "availableCatalogTypes = [CatalogTypeNoCatalog, CatalogTypeOCIDistribution]"

definition validateCatalogType :: "string \<Rightarrow> field_error list" where
  "validateCatalogType catalogType =
    (if catalogType = [] then []
     else if catalogType \<notin> set availableCatalogTypes
     then [FieldInvalid (specPath ''catalogType'') (catalogType @ '' is not a valid CatalogType'')]
     else [])"

definition validateCondition ::
  "'ast webhook_env \<Rightarrow> 'ast cel_lib \<Rightarrow> nat \<Rightarrow> nat \<times> MatchCondition \<Rightarrow> field_error list" where
  "validateCondition E L i entry =
    (case TagEvaluator_Validate L (mc_Expression (snd entry)) of
       Inl err \<Rightarrow>
         [FieldInvalid (specPath ''repositories'' @ [PathIndex i, PathChild ''matchConditions'', PathIndex (fst entry),
            PathChild ''expression'']) (wb_errorText E err)]
     | Inr _ \<Rightarrow> [])"

definition validateRepositories :: "'ast webhook_env \<Rightarrow> Repository list \<Rightarrow> string \<Rightarrow> field_error list" where
  "validateRepositories E repositories catalogType =
    (let allErrs =
       (if catalogType = CatalogTypeNoCatalog \<and> repositories = []
        then [FieldInvalid (specPath ''repositories'')
                ''repositories must be explicitly provided when catalogType is NoCatalog'']
        else [])
     in case wb_NewTagEvaluator E of
          Inl err \<Rightarrow> allErrs @ [FieldInternal (specPath ''repositories'') ''failed to create CEL tag evaluator'']
        | Inr L \<Rightarrow>
            allErrs @ concat (map (\<lambda>(i, repo).
              concat (map (validateCondition E L i) (List.enumerate 0 (rp_MatchConditions repo))))
              (List.enumerate 0 repositories)))"

definition validatePlatforms :: "Platform list \<Rightarrow> field_error list" where
  "validatePlatforms platforms =
    concat (map (\<lambda>(i, platform).
      (case validatePlatform platform of
         None \<Rightarrow> [] | Some err \<Rightarrow> [FieldInvalid (specPath ''platforms'' @ [PathIndex i]) err]))
      (List.enumerate 0 platforms))"

section \<open>Registry\<close>

definition RegistryCustomDefaulter_Default :: "Registry \<Rightarrow> Registry" where
  "RegistryCustomDefaulter_Default registry =
    (if rs_CatalogType (rg_Spec registry) = []
     then registry\<lparr>rg_Spec := (rg_Spec registry)\<lparr>rs_CatalogType := CatalogTypeOCIDistribution\<rparr>\<rparr>
     else registry)"

definition validatedManagedRegistry ::
  "'ast webhook_env \<Rightarrow> string option \<Rightarrow> Registry \<Rightarrow> admission_error option" where
  "validatedManagedRegistry E user registry =
    (if map_index (om_Labels (rg_meta registry)) LabelManagedByKey \<noteq> LabelManagedByValue then None
     else case user of
       None \<Rightarrow> Some (AdmissionInternal ''unable to retrieve admission request from context'')
     | Some username \<Rightarrow>
         if username \<noteq> serviceAccount E
         then Some (AdmissionForbidden (om_Name (rg_meta registry))
                ''only the designated service account can modify managed Registry resources'')
         else None)"

definition registryWarnings :: "'ast webhook_env \<Rightarrow> string option \<Rightarrow> Registry \<Rightarrow> string list" where
  "registryWarnings E user registry =
    (if user = Some (serviceAccount E) then [] else caBundleWarnings (rs_CABundle (rg_Spec registry)))"

definition validateRegistry :: "'ast webhook_env \<Rightarrow> Registry \<Rightarrow> field_error list" where
  "validateRegistry E registry =
    validateScanInterval (rs_ScanInterval (rg_Spec registry))
    @ validateCatalogType (rs_CatalogType (rg_Spec registry))
    @ validateRepositories E (rs_Repositories (rg_Spec registry)) (rs_CatalogType (rg_Spec registry))
    @ validatePlatforms (rs_Platforms (rg_Spec registry))"

definition RegistryCustomValidator_ValidateCreate ::
  "'ast webhook_env \<Rightarrow> string option \<Rightarrow> Registry \<Rightarrow> verdict" where
  "RegistryCustomValidator_ValidateCreate E user registry =
    (case validatedManagedRegistry E user registry of
       Some err \<Rightarrow> ([], Some err)
     | None \<Rightarrow> invalidOr (om_Name (rg_meta registry)) (validateRegistry E registry) []
                (registryWarnings E user registry))"

definition RegistryCustomValidator_ValidateUpdate ::
  "'ast webhook_env \<Rightarrow> string option \<Rightarrow> Registry \<Rightarrow> Registry \<Rightarrow> verdict" where
  "RegistryCustomValidator_ValidateUpdate E user oldRegistry registry =
    (case validatedManagedRegistry E user oldRegistry of
       Some err \<Rightarrow> ([], Some err)
     | None \<Rightarrow>
         (case validatedManagedRegistry E user registry of
            Some err \<Rightarrow> ([], Some err)
          | None \<Rightarrow> invalidOr (om_Name (rg_meta registry)) (validateRegistry E registry) []
                     (registryWarnings E user registry)))"

definition RegistryCustomValidator_ValidateDelete ::
  "'ast webhook_env \<Rightarrow> string option \<Rightarrow> Registry \<Rightarrow> verdict" where
  "RegistryCustomValidator_ValidateDelete E user registry =
    (case validatedManagedRegistry E user registry of Some err \<Rightarrow> ([], Some err) | None \<Rightarrow> ([], None))"

section \<open>ScanJob\<close>

definition ScanJobCustomDefaulter_Default :: "'ast webhook_env \<Rightarrow> time \<Rightarrow> ScanJob \<Rightarrow> ScanJob" where
  "ScanJobCustomDefaulter_Default E now scanJob =
    scanJob\<lparr>sj_meta := (sj_meta scanJob)
      \<lparr>om_Annotations := AList.update AnnotationScanJobCreationTimestampKey (wb_formatTime E now)
         (om_Annotations (sj_meta scanJob))\<rparr>\<rparr>"

definition validateRegistrySnapshotWriter ::
  "'ast webhook_env \<Rightarrow> string option \<Rightarrow> ScanJob \<Rightarrow> admission_error option" where
  "validateRegistrySnapshotWriter E user scanJob =
    (case user of
       None \<Rightarrow> Some (AdmissionInternal ''unable to retrieve admission request from context'')
     | Some username \<Rightarrow>
         if username \<noteq> serviceAccount E
         then Some (AdmissionForbidden (om_Name (sj_meta scanJob))
                (''only the designated service account can set the '' @ AnnotationScanJobRegistryKey @ '' annotation''))
         else None)"

definition runningErrors :: "'ast webhook_env \<Rightarrow> ScanJob \<Rightarrow> ScanJob list \<Rightarrow> field_error list" where
  "runningErrors E scanJob items =
    (if list_ex (\<lambda>existing. \<not> ScanJob_IsComplete (wb_meta E) existing \<and> \<not> ScanJob_IsFailed (wb_meta E) existing) items
     then [FieldForbidden (specPath ''registry'')
             (''a ScanJob for the registry '' @ wb_quote E (sp_Registry (sj_Spec scanJob)) @ '' is already running'')]
     else [])"

definition ScanJobCustomValidator_ValidateCreate ::
  "'ast webhook_env \<Rightarrow> string option \<Rightarrow> ScanJob \<Rightarrow> verdict" where
  "ScanJobCustomValidator_ValidateCreate E user scanJob =
    (case (if map_of (om_Annotations (sj_meta scanJob)) AnnotationScanJobRegistryKey \<noteq> None
           then validateRegistrySnapshotWriter E user scanJob else None) of
       Some err \<Rightarrow> ([], Some err)
     | None \<Rightarrow>
         (case wb_ListScanJobs E (om_Namespace (sj_meta scanJob)) (sp_Registry (sj_Spec scanJob)) of
            Inl err \<Rightarrow> ([], Some (AdmissionInternal (''listing ScanJobs: '' @ wb_errorText E err)))
          | Inr items \<Rightarrow>
              (case wb_GetRegistry E (om_Namespace (sj_meta scanJob), sp_Registry (sj_Spec scanJob)) of
                 Inl err \<Rightarrow>
                   if IsNotFound err
                   then invalidOr (om_Name (sj_meta scanJob)) (runningErrors E scanJob items
                          @ [FieldNotFound (specPath ''registry'') (sp_Registry (sj_Spec scanJob))]) [] []
                   else ([], Some (AdmissionInternal (''getting Registry: '' @ wb_errorText E err)))
               | Inr _ \<Rightarrow> invalidOr (om_Name (sj_meta scanJob)) (runningErrors E scanJob items) [] [])))"

definition ScanJobCustomValidator_ValidateUpdate ::
  "'ast webhook_env \<Rightarrow> string option \<Rightarrow> ScanJob \<Rightarrow> ScanJob \<Rightarrow> verdict" where
  "ScanJobCustomValidator_ValidateUpdate E user oldJob newJob =
    (let oldSnapshot = map_of (om_Annotations (sj_meta oldJob)) AnnotationScanJobRegistryKey;
         newSnapshot = map_of (om_Annotations (sj_meta newJob)) AnnotationScanJobRegistryKey
     in case (if oldSnapshot \<noteq> newSnapshot then validateRegistrySnapshotWriter E user newJob else None) of
          Some err \<Rightarrow> ([], Some err)
        | None \<Rightarrow>
            invalidOr (om_Name (sj_meta newJob))
              ((if sp_Registry (sj_Spec oldJob) \<noteq> sp_Registry (sj_Spec newJob)
                then [FieldInvalid (specPath ''registry'') ''field is immutable''] else [])
               @ (if sp_Repositories (sj_Spec oldJob) \<noteq> sp_Repositories (sj_Spec newJob)
                  then [FieldInvalid (specPath ''repositories'') ''field is immutable''] else [])) [] [])"

definition ScanJobCustomValidator_ValidateDelete :: "ScanJob \<Rightarrow> verdict" where
  "ScanJobCustomValidator_ValidateDelete scanJob = ([], None)"

section \<open>NodeScanJob\<close>

definition NodeScanJobCustomDefaulter_Default :: "NodeScanJob \<Rightarrow> NodeScanJob" where
  "NodeScanJobCustomDefaulter_Default job = job"

definition ValidateNodeScanJobAgainstConfig :: "'ast webhook_env \<Rightarrow> string \<Rightarrow> field_error list" where
  "ValidateNodeScanJobAgainstConfig E nodeName =
    (case wb_GetConfig E NodeScanConfigurationName of
       Inl err \<Rightarrow>
         if IsNotFound err
         then [FieldForbidden (specPath ''nodeName'') ''NodeScanConfiguration not found: node scanning is not configured'']
         else [FieldInternal (specPath ''nodeName'') (''fetching NodeScanConfiguration: '' @ wb_errorText E err)]
     | Inr config \<Rightarrow>
         (case wb_GetNode E nodeName of
            Inl err \<Rightarrow>
              if IsNotFound err then [FieldNotFound (specPath ''nodeName'') nodeName]
              else [FieldInternal (specPath ''nodeName'')
                     (''fetching Node '' @ wb_quote E nodeName @ '': '' @ wb_errorText E err)]
          | Inr node \<Rightarrow>
              (case (case nc_NodeSelector (nsc_Spec config) of
                       None \<Rightarrow> Inr True
                     | Some s \<Rightarrow> map_sum id (\<lambda>matches. matches (om_Labels (nd_meta node))) (wb_selector E s)) of
                 Inl err \<Rightarrow> [FieldInternal (specPath ''nodeName'') (''parsing NodeSelector: '' @ wb_errorText E err)]
               | Inr selected \<Rightarrow>
                   (if \<not> selected
                    then [FieldForbidden (specPath ''nodeName'') (''node '' @ wb_quote E nodeName
                            @ '' does not match the NodeScanConfiguration nodeSelector'')] else [])
                   @ (if \<not> IsPlatformAllowed (nd_OperatingSystem node) (nd_Architecture node) []
                             (nc_Platforms (nsc_Spec config))
                      then [FieldForbidden (specPath ''nodeName'') (''node '' @ wb_quote E nodeName @ '' platform ''
                              @ nd_OperatingSystem node @ ''/'' @ nd_Architecture node
                              @ '' is not allowed by the NodeScanConfiguration'')] else []))))"

definition NodeScanJobCustomValidator_ValidateCreate :: "'ast webhook_env \<Rightarrow> NodeScanJob \<Rightarrow> verdict" where
  "NodeScanJobCustomValidator_ValidateCreate E job =
    invalidOr (om_Name (nj_meta job)) (ValidateNodeScanJobAgainstConfig E (np_NodeName (nj_Spec job))) [] []"

definition NodeScanJobCustomValidator_ValidateUpdate :: "NodeScanJob \<Rightarrow> NodeScanJob \<Rightarrow> verdict" where
  "NodeScanJobCustomValidator_ValidateUpdate oldJob newJob =
    invalidOr (om_Name (nj_meta newJob))
      (if np_NodeName (nj_Spec oldJob) \<noteq> np_NodeName (nj_Spec newJob)
       then [FieldInvalid (specPath ''nodeName'') ''field is immutable''] else []) [] []"

definition NodeScanJobCustomValidator_ValidateDelete :: "NodeScanJob \<Rightarrow> verdict" where
  "NodeScanJobCustomValidator_ValidateDelete job = ([], None)"

section \<open>Scan configurations\<close>

definition missingDefaultSkipPatternsWarning :: string where
  "missingDefaultSkipPatternsWarning =
    ''spec.skipPatterns does not include all of the default skip patterns. The defaults exclude container-runtime state directories; scanning those paths may cause the node scan to fail. Default skip patterns: ''
    @ Join DefaultSkipPatterns '', '' @ ''.''"

definition validateNodeScanSkipPatterns :: "string list \<Rightarrow> string list" where
  "validateNodeScanSkipPatterns skipPatterns =
    (if set DefaultSkipPatterns \<subseteq> set skipPatterns then [] else [missingDefaultSkipPatternsWarning])"

definition validateNodeSelector :: "'ast webhook_env \<Rightarrow> LabelSelector option \<Rightarrow> field_error list" where
  "validateNodeSelector E selector =
    (case selector of None \<Rightarrow> [] | Some s \<Rightarrow> wb_ValidateLabelSelector E (specPath ''nodeSelector'') s)"

definition validateNodeScanConfiguration ::
  "'ast webhook_env \<Rightarrow> NodeScanConfiguration \<Rightarrow> string list \<times> field_error list" where
  "validateNodeScanConfiguration E config =
    (case nc_SkipPatterns (nsc_Spec config) of None \<Rightarrow> [] | Some ps \<Rightarrow> validateNodeScanSkipPatterns ps,
     validateScanInterval (nc_ScanInterval (nsc_Spec config)) @ validatePlatforms (nc_Platforms (nsc_Spec config))
     @ validateNodeSelector E (nc_NodeSelector (nsc_Spec config)))"

definition NodeScanConfigurationCustomDefaulter_Default :: "NodeScanConfiguration \<Rightarrow> NodeScanConfiguration" where
  "NodeScanConfigurationCustomDefaulter_Default config =
    (if nc_SkipPatterns (nsc_Spec config) = None
     then config\<lparr>nsc_Spec := (nsc_Spec config)\<lparr>nc_SkipPatterns := Some DefaultSkipPatterns\<rparr>\<rparr> else config)"

definition NodeScanConfigurationCustomValidator_ValidateCreate ::
  "'ast webhook_env \<Rightarrow> NodeScanConfiguration \<Rightarrow> verdict" where
  "NodeScanConfigurationCustomValidator_ValidateCreate E config =
    (case validateNodeScanConfiguration E config of
       (warnings, allErrs) \<Rightarrow> invalidOr (om_Name (nsc_meta config)) allErrs warnings warnings)"

definition NodeScanConfigurationCustomValidator_ValidateUpdate ::
  "'ast webhook_env \<Rightarrow> NodeScanConfiguration \<Rightarrow> NodeScanConfiguration \<Rightarrow> verdict" where
  "NodeScanConfigurationCustomValidator_ValidateUpdate E oldConfig config =
    (case validateNodeScanConfiguration E config of
       (warnings, allErrs) \<Rightarrow> invalidOr (om_Name (nsc_meta config)) allErrs warnings warnings)"

definition NodeScanConfigurationCustomValidator_ValidateDelete :: "NodeScanConfiguration \<Rightarrow> verdict" where
  "NodeScanConfigurationCustomValidator_ValidateDelete config =
    ([''NodeScanConfiguration deleted. Node scan feature is now disabled''], None)"

definition validateNamespaceSelector :: "'ast webhook_env \<Rightarrow> LabelSelector option \<Rightarrow> field_error list" where
  "validateNamespaceSelector E selector =
    (case selector of None \<Rightarrow> [] | Some s \<Rightarrow> wb_ValidateLabelSelector E (specPath ''namespaceSelector'') s)"

definition validateArtifactsNamespaceUpdate :: "string \<Rightarrow> string \<Rightarrow> bool \<Rightarrow> field_error list" where
  "validateArtifactsNamespaceUpdate oldNamespace newNamespace enabled =
    (if oldNamespace \<noteq> newNamespace \<and> enabled
     then [FieldInvalid (specPath ''artifactsNamespace'') ''can only be changed when enabled is false''] else [])"

definition validateWorkloadScanConfiguration ::
  "'ast webhook_env \<Rightarrow> WorkloadScanConfiguration \<Rightarrow> field_error list" where
  "validateWorkloadScanConfiguration E configuration =
    validateScanInterval (wc_ScanInterval (wsc_Spec configuration))
    @ validatePlatforms (wc_Platforms (wsc_Spec configuration))
    @ validateNamespaceSelector E (wc_NamespaceSelector (wsc_Spec configuration))"

definition WorkloadScanConfigurationCustomValidator_ValidateCreate ::
  "'ast webhook_env \<Rightarrow> WorkloadScanConfiguration \<Rightarrow> verdict" where
  "WorkloadScanConfigurationCustomValidator_ValidateCreate E configuration =
    invalidOr (om_Name (wsc_meta configuration)) (validateWorkloadScanConfiguration E configuration) []
      (caBundleWarnings (wc_CABundle (wsc_Spec configuration)))"

definition WorkloadScanConfigurationCustomValidator_ValidateUpdate ::
  "'ast webhook_env \<Rightarrow> WorkloadScanConfiguration \<Rightarrow> WorkloadScanConfiguration \<Rightarrow> verdict" where
  "WorkloadScanConfigurationCustomValidator_ValidateUpdate E oldConfiguration configuration =
    invalidOr (om_Name (wsc_meta configuration))
      (validateWorkloadScanConfiguration E configuration
       @ validateArtifactsNamespaceUpdate (wc_ArtifactsNamespace (wsc_Spec oldConfiguration))
           (wc_ArtifactsNamespace (wsc_Spec configuration)) (wc_Enabled (wsc_Spec oldConfiguration))) []
      (caBundleWarnings (wc_CABundle (wsc_Spec configuration)))"

definition WorkloadScanConfigurationCustomValidator_ValidateDelete :: "WorkloadScanConfiguration \<Rightarrow> verdict" where
  "WorkloadScanConfigurationCustomValidator_ValidateDelete configuration =
    ([''WorkloadScanConfiguration deleted. Workload scan feature is now disabled''], None)"

section \<open>The trace context of created jobs\<close>

text \<open>
  The fields the propagator writes for the span of the request are \<open>flds\<close>.  It writes into the map of the
  object, or into a fresh one when the object has no annotations, which is kept only with a traceparent.
\<close>

definition injectTraceparent :: "(string \<times> string) list \<Rightarrow> string_map \<Rightarrow> string_map" where
  "injectTraceparent flds annotations =
    (if map_index annotations TraceparentAnnotation \<noteq> [] then annotations
     else let injected = the (InjectAnnotations flds (Some annotations))
          in if annotations \<noteq> [] \<or> map_index injected TraceparentAnnotation \<noteq> [] then injected
             else annotations)"

text \<open>The wrapper around a defaulter that cannot fail, on the annotations of the defaulted object.\<close>

definition instrumentedDefaulter_Default ::
  "bool \<Rightarrow> bool \<Rightarrow> (string \<times> string) list \<Rightarrow> string_map \<Rightarrow> string_map" where
  "instrumentedDefaulter_Default withTraceparent isCreate flds defaulted =
    (if isCreate \<and> withTraceparent then injectTraceparent flds defaulted else defaulted)"

section \<open>The admission plugin for workload scan reports\<close>

datatype admission_operation = OperationCreate | OperationUpdate | OperationDelete | OperationConnect

text \<open>An object that is nil or of another type is \<open>None\<close>.\<close>

record report_attributes =
  at_isWorkloadScanReport :: bool
  at_Operation :: admission_operation
  at_Object :: "WorkloadScanReport option"
  at_OldObject :: "WorkloadScanReport option"
  at_User :: string

definition gcServiceAccount :: string where
  "gcServiceAccount = ''system:serviceaccount:kube-system:generic-garbage-collector''"

definition validateManagedWorkloadScanReport ::
  "string \<Rightarrow> report_attributes \<Rightarrow> WorkloadScanReport \<Rightarrow> admission_error option" where
  "validateManagedWorkloadScanReport allowed attrs report =
    (if map_index (om_Labels (ws_meta report)) LabelManagedByKey \<noteq> LabelManagedByValue then None
     else if at_User attrs = allowed then None
     else if at_Operation attrs = OperationDelete \<and> at_User attrs = gcServiceAccount then None
     else Some (AdmissionForbidden (om_Name (ws_meta report))
            ''modifying managed resources of type WorkloadScanReport is forbidden''))"

definition WorkloadScanReportValidation_Validate ::
  "string \<Rightarrow> report_attributes \<Rightarrow> admission_error option" where
  "WorkloadScanReportValidation_Validate allowed attrs =
    (if \<not> at_isWorkloadScanReport attrs then None
     else case (case at_Operation attrs of
                  OperationCreate \<Rightarrow> at_Object attrs
                | OperationUpdate \<Rightarrow> at_OldObject attrs
                | OperationDelete \<Rightarrow> at_OldObject attrs
                | OperationConnect \<Rightarrow> None) of
            None \<Rightarrow> None
          | Some report \<Rightarrow> validateManagedWorkloadScanReport allowed attrs report)"

end
