(* ===== verification/Webhooks_Correct.thy ===== *)
theory Webhooks_Correct
  imports Webhooks Node_Correct Registry_Runner
begin

text \<open>
  What the webhooks guarantee.  A store of objects behind admission is described by \<open>resource\<close> and
  \<open>apply_write\<close>: what is relied on in the API server is that a request is defaulted, then validated, then
  stored; that one write is handled after the other; and that the main resource and its status are
  written apart.  The locale \<open>guarded_resource\<close> collects what a validator has to promise so that users other
  than the controller cannot bring a protected part of an object into the store; \<open>locked_resource\<close> adds
  that they cannot remove it.  Registries and ScanJobs are the two instances.
\<close>

section \<open>A store behind admission\<close>

record 'o resource =
  rc_key :: "'o \<Rightarrow> NamespacedName"
  rc_default :: "bool \<Rightarrow> time \<Rightarrow> 'o \<Rightarrow> 'o"
  rc_create :: "'o list \<Rightarrow> string \<Rightarrow> 'o \<Rightarrow> bool"
  rc_update :: "string \<Rightarrow> 'o \<Rightarrow> 'o \<Rightarrow> bool"
  rc_delete :: "string \<Rightarrow> 'o \<Rightarrow> bool"
  rc_withStatus :: "'o \<Rightarrow> 'o \<Rightarrow> 'o"
  rc_blank :: "'o \<Rightarrow> 'o"

datatype 'o api_write =
    WriteCreate 'o
  | WriteUpdate 'o
  | WriteStatus 'o
  | WriteDelete NamespacedName

type_synonym 'o api_request = "string \<times> time \<times> 'o api_write"

definition stored :: "'o resource \<Rightarrow> 'o list \<Rightarrow> NamespacedName \<Rightarrow> 'o option" where
  "stored R s k = find (\<lambda>x. rc_key R x = k) s"

definition put_object :: "'o resource \<Rightarrow> 'o \<Rightarrow> 'o list \<Rightarrow> 'o list" where
  "put_object R x s = map (\<lambda>y. if rc_key R y = rc_key R x then x else y) s"

fun apply_write :: "'o resource \<Rightarrow> 'o list \<Rightarrow> 'o api_request \<Rightarrow> 'o list" where
  "apply_write R s (user, now, WriteCreate x) =
    (let x' = rc_blank R (rc_default R True now x)
     in if stored R s (rc_key R x') = None \<and> rc_create R s user x' then s @ [x'] else s)"
| "apply_write R s (user, now, WriteUpdate x) =
    (case stored R s (rc_key R x) of
       None \<Rightarrow> s
     | Some old \<Rightarrow>
         let x' = rc_withStatus R (rc_default R False now x) old
         in if rc_update R user old x' then put_object R x' s else s)"
| "apply_write R s (user, now, WriteStatus x) =
    (case stored R s (rc_key R x) of None \<Rightarrow> s | Some old \<Rightarrow> put_object R (rc_withStatus R old x) s)"
| "apply_write R s (user, now, WriteDelete k) =
    (case stored R s k of
       None \<Rightarrow> s | Some old \<Rightarrow> if rc_delete R user old then filter (\<lambda>y. rc_key R y \<noteq> k) s else s)"

abbreviation apply_writes :: "'o resource \<Rightarrow> 'o list \<Rightarrow> 'o api_request list \<Rightarrow> 'o list" where
  "apply_writes R \<equiv> foldl (apply_write R)"

definition part_of :: "'o resource \<Rightarrow> ('o \<Rightarrow> 's option) \<Rightarrow> 'o list \<Rightarrow> NamespacedName \<Rightarrow> 's option" where
  "part_of R part s k = Option.bind (stored R s k) part"

lemma stored_key: "stored R s k = Some x \<Longrightarrow> rc_key R x = k"
  by (auto simp: stored_def find_Some_iff)

lemma stored_append: "stored R (s @ [x]) k
    = (case stored R s k of None \<Rightarrow> if rc_key R x = k then Some x else None | Some y \<Rightarrow> Some y)"
  by (induction s) (auto simp: stored_def)

lemma stored_put: "stored R (put_object R x s) k
    = (if rc_key R x = k \<and> stored R s k \<noteq> None then Some x else stored R s k)"
  by (induction s) (auto simp: stored_def put_object_def)

lemma stored_filter: "stored R (filter (\<lambda>y. rc_key R y \<noteq> k') s) k = (if k = k' then None else stored R s k)"
  by (induction s) (auto simp: stored_def)

text \<open>Replacing an object by one with the same protected part changes no protected part.\<close>

lemma part_of_put:
  assumes "stored R s (rc_key R x) = Some old" "part x = part old"
  shows "part_of R part (put_object R x s) k = part_of R part s k"
  using assms by (auto simp: part_of_def stored_put)

locale guarded_resource =
  fixes R :: "'o resource" and foreign :: "string \<Rightarrow> bool" and part :: "'o \<Rightarrow> 's option"
  assumes create_law: "foreign u \<Longrightarrow> rc_create R s u x \<Longrightarrow> part x = None"
    and update_law: "foreign u \<Longrightarrow> rc_update R u old x \<Longrightarrow> part x = part old"
    and status_law: "part (rc_withStatus R old x) = part old"
    and key_status: "rc_key R (rc_withStatus R old x) = rc_key R old"
    and key_default: "rc_key R (rc_default R b now x) = rc_key R x"
begin

lemma part_kept_unless_deleted:
  assumes "foreign u" "\<forall>k. w \<noteq> WriteDelete k"
  shows "part_of R part (apply_write R s (u, now, w)) k = part_of R part s k"
proof (cases w)
  case (WriteCreate x)
  then show ?thesis
    using create_law[OF assms(1)] by (auto simp: part_of_def Let_def stored_append split: option.splits)
next
  case (WriteUpdate x)
  then show ?thesis
    using update_law[OF assms(1)]
    by (auto simp: Let_def key_status key_default split: option.splits intro!: part_of_put)
next
  case (WriteStatus x)
  have "part_of R part (put_object R (rc_withStatus R old x) s) k = part_of R part s k"
    if "stored R s (rc_key R x) = Some old" for old
    using that stored_key[OF that] by (intro part_of_put[of _ _ _ old]) (simp_all add: key_status status_law)
  with WriteStatus show ?thesis by (simp split: option.split)
qed (use assms(2) in simp)

lemma no_new_part_step:
  assumes "foreign u" "part_of R part (apply_write R s (u, now, w)) k = Some v"
  shows "part_of R part s k = Some v"
proof (cases "\<exists>k. w = WriteDelete k")
  case True
  then show ?thesis
    using assms(2) by (auto simp: part_of_def stored_filter split: option.splits if_splits)
next
  case False
  then show ?thesis using part_kept_unless_deleted[OF assms(1)] assms(2) by simp
qed

lemma no_new_part:
  assumes "\<forall>q\<in>set ws. foreign (fst q)" "part_of R part (apply_writes R s ws) k = Some v"
  shows "part_of R part s k = Some v"
  using assms
proof (induction ws arbitrary: s)
  case (Cons q ws)
  then show ?case by (cases q) (auto dest: no_new_part_step)
qed simp

end

locale locked_resource = guarded_resource +
  assumes delete_law: "foreign u \<Longrightarrow> rc_delete R u x \<Longrightarrow> part x = None"
begin

lemma part_kept_step:
  assumes "foreign u"
  shows "part_of R part (apply_write R s (u, now, w)) k = part_of R part s k"
proof (cases "\<exists>k. w = WriteDelete k")
  case True
  then show ?thesis
    using delete_law[OF assms] by (auto simp: part_of_def stored_filter split: option.splits)
next
  case False
  then show ?thesis using part_kept_unless_deleted[OF assms] by simp
qed

lemma part_kept:
  assumes "\<forall>q\<in>set ws. foreign (fst q)"
  shows "part_of R part (apply_writes R s ws) k = part_of R part s k"
  using assms
proof (induction ws arbitrary: s)
  case (Cons q ws)
  then show ?case by (cases q) (auto simp: part_kept_step)
qed simp

end

section \<open>Registries and ScanJobs behind admission\<close>

text \<open>A user the rules single out: anyone but the service account of the controller.\<close>

abbreviation foreign_user :: "'ast webhook_env \<Rightarrow> string \<Rightarrow> bool" where
  "foreign_user E u \<equiv> u \<noteq> serviceAccount E"

definition registry_resource :: "'ast webhook_env \<Rightarrow> Registry resource" where
  "registry_resource E =
    \<lparr>rc_key = (\<lambda>r. (om_Namespace (rg_meta r), om_Name (rg_meta r))),
     rc_default = (\<lambda>_ _. RegistryCustomDefaulter_Default),
     rc_create = (\<lambda>_ u r. snd (RegistryCustomValidator_ValidateCreate E (Some u) r) = None),
     rc_update = (\<lambda>u old r. snd (RegistryCustomValidator_ValidateUpdate E (Some u) old r) = None),
     rc_delete = (\<lambda>u r. snd (RegistryCustomValidator_ValidateDelete E (Some u) r) = None),
     rc_withStatus = (\<lambda>r r'. r\<lparr>rg_Conditions := rg_Conditions r'\<rparr>),
     rc_blank = (\<lambda>r. r\<lparr>rg_Conditions := []\<rparr>)\<rparr>"

text \<open>The protected part of a Registry: metadata and specification, when it carries the label.\<close>

definition managed_part :: "Registry \<Rightarrow> (ObjectMeta \<times> RegistrySpec) option" where
  "managed_part r =
    (if map_index (om_Labels (rg_meta r)) LabelManagedByKey = LabelManagedByValue
     then Some (rg_meta r, rg_Spec r) else None)"

lemma foreign_unmanaged:
  assumes "u \<noteq> serviceAccount E" "validatedManagedRegistry E (Some u) r = None"
  shows "managed_part r = None"
  using assms by (auto simp: validatedManagedRegistry_def managed_part_def split: if_splits)

interpretation registries: locked_resource "registry_resource E" "foreign_user E" managed_part for E
proof (unfold_locales, goal_cases)
  case (1 u s x)
  then show ?case
    by (auto simp: registry_resource_def RegistryCustomValidator_ValidateCreate_def
        intro!: foreign_unmanaged split: option.splits)
next
  case (2 u old x)
  then have "validatedManagedRegistry E (Some u) old = None" "validatedManagedRegistry E (Some u) x = None"
    by (auto simp: registry_resource_def RegistryCustomValidator_ValidateUpdate_def split: option.splits)
  with 2 show ?case by (simp add: foreign_unmanaged)
next
  case (6 u x)
  then show ?case
    by (auto simp: registry_resource_def RegistryCustomValidator_ValidateDelete_def
        intro!: foreign_unmanaged split: option.splits)
qed (auto simp: registry_resource_def managed_part_def RegistryCustomDefaulter_Default_def)

text \<open>
  The validator of ScanJobs lists the store.  Registries are looked up by \<open>wb_GetRegistry\<close>; \<open>flds\<close> is the
  trace context of the requests.
\<close>

definition listing :: "'ast webhook_env \<Rightarrow> ScanJob list \<Rightarrow> 'ast webhook_env" where
  "listing E s = E\<lparr>wb_ListScanJobs := (\<lambda>namespace registry.
     Inr (filter (\<lambda>j. om_Namespace (sj_meta j) = namespace \<and> sp_Registry (sj_Spec j) = registry) s))\<rparr>"

definition scanjob_defaulted ::
  "'ast webhook_env \<Rightarrow> (string \<times> string) list \<Rightarrow> bool \<Rightarrow> time \<Rightarrow> ScanJob \<Rightarrow> ScanJob" where
  "scanjob_defaulted E flds isCreate now job =
    (let defaulted = ScanJobCustomDefaulter_Default E now job
     in defaulted\<lparr>sj_meta := (sj_meta defaulted)\<lparr>om_Annotations :=
          instrumentedDefaulter_Default True isCreate flds (om_Annotations (sj_meta defaulted))\<rparr>\<rparr>)"

definition new_status :: ScanJobStatus where
  "new_status = \<lparr>ss_Conditions = [], ss_ImagesCount = 0, ss_ScannedImagesCount = 0,
     ss_StartTime = None, ss_CompletionTime = None\<rparr>"

definition scanjob_resource ::
  "'ast webhook_env \<Rightarrow> (string \<times> string) list \<Rightarrow> ScanJob resource" where
  "scanjob_resource E flds =
    \<lparr>rc_key = (\<lambda>j. (om_Namespace (sj_meta j), om_Name (sj_meta j))),
     rc_default = scanjob_defaulted E flds,
     rc_create = (\<lambda>s u j. snd (ScanJobCustomValidator_ValidateCreate (listing E s) (Some u) j) = None),
     rc_update = (\<lambda>u old j. snd (ScanJobCustomValidator_ValidateUpdate E (Some u) old j) = None),
     rc_delete = (\<lambda>u j. True),
     rc_withStatus = (\<lambda>j j'. j\<lparr>sj_Status := sj_Status j'\<rparr>),
     rc_blank = (\<lambda>j. j\<lparr>sj_Status := new_status\<rparr>)\<rparr>"

text \<open>The protected part of a ScanJob: its registry snapshot.\<close>

definition snapshot_part :: "ScanJob \<Rightarrow> string option" where
  "snapshot_part j = map_of (om_Annotations (sj_meta j)) AnnotationScanJobRegistryKey"

lemma foreign_writer:
  assumes "u \<noteq> serviceAccount E"
  shows "validateRegistrySnapshotWriter E (Some u) j \<noteq> None"
  using assms by (simp add: validateRegistrySnapshotWriter_def)

lemma serviceAccount_listing [simp]: "serviceAccount (listing E s) = serviceAccount E"
  by (simp add: listing_def)

interpretation scanjobs: guarded_resource "scanjob_resource E flds" "foreign_user E" snapshot_part for E flds
proof (unfold_locales, goal_cases)
  case (1 u s x)
  then show ?case
    using foreign_writer[of u "listing E s" x]
    by (auto simp: scanjob_resource_def ScanJobCustomValidator_ValidateCreate_def snapshot_part_def
        split: option.splits if_splits)
next
  case (2 u old x)
  then show ?case
    using foreign_writer[of u E x]
    by (auto simp: scanjob_resource_def ScanJobCustomValidator_ValidateUpdate_def snapshot_part_def Let_def
        split: option.splits if_splits)
qed (simp_all add: scanjob_resource_def snapshot_part_def scanjob_defaulted_def
       ScanJobCustomDefaulter_Default_def Let_def)

section \<open>At most one running job for a registry\<close>

definition running_job :: "'ast webhook_env \<Rightarrow> ScanJob \<Rightarrow> bool" where
  "running_job E j \<longleftrightarrow> \<not> ScanJob_IsComplete (wb_meta E) j \<and> \<not> ScanJob_IsFailed (wb_meta E) j"

abbreviation job_target :: "ScanJob \<Rightarrow> string \<times> string" where
  "job_target j \<equiv> (om_Namespace (sj_meta j), sp_Registry (sj_Spec j))"

abbreviation job_key :: "ScanJob \<Rightarrow> NamespacedName" where
  "job_key j \<equiv> (om_Namespace (sj_meta j), om_Name (sj_meta j))"

definition exclusive :: "'ast webhook_env \<Rightarrow> ScanJob list \<Rightarrow> bool" where
  "exclusive E s \<longleftrightarrow> distinct (map job_key s)
    \<and> (\<forall>x\<in>set s. \<forall>y\<in>set s. running_job E x \<and> running_job E y \<and> job_target x = job_target y \<longrightarrow> x = y)"

text \<open>Every status write of the sequence leaves a finished job finished.\<close>

fun keeps_finished ::
  "'ast webhook_env \<Rightarrow> (string \<times> string) list \<Rightarrow> ScanJob list \<Rightarrow> ScanJob api_request list \<Rightarrow> bool" where
  "keeps_finished E flds s [] = True"
| "keeps_finished E flds s ((u, now, w) # ws) \<longleftrightarrow>
    (case w of
       WriteStatus x \<Rightarrow>
         (case stored (scanjob_resource E flds) s (job_key x) of
            None \<Rightarrow> True | Some old \<Rightarrow> running_job E x \<longrightarrow> running_job E old)
     | _ \<Rightarrow> True)
    \<and> keeps_finished E flds (apply_write (scanjob_resource E flds) s (u, now, w)) ws"

lemma scanjob_key [simp]: "rc_key (scanjob_resource E flds) = job_key"
  by (simp add: scanjob_resource_def)

lemma running_status [simp]: "running_job E (j\<lparr>sj_Status := sj_Status j'\<rparr>) = running_job E j'"
  by (simp add: running_job_def ScanJob_IsComplete_def ScanJob_IsFailed_def)

lemma stored_in: "stored R s k = Some x \<Longrightarrow> x \<in> set s"
  unfolding stored_def find_Some_iff by (metis nth_mem)

lemma stored_None: "stored R s k = None \<longleftrightarrow> k \<notin> rc_key R ` set s"
  by (auto simp: stored_def find_None_iff)

lemma exclusive_key:
  assumes "distinct (map job_key s)" "x \<in> set s" "y \<in> set s" "job_key x = job_key y"
  shows "x = y"
  using assms by (auto simp: distinct_map dest: inj_onD)

lemma exclusive_put:
  assumes ex: "exclusive E s" and old: "old \<in> set s"
    and same: "job_key x = job_key old" "job_target x = job_target old" "running_job E x \<longrightarrow> running_job E old"
  shows "exclusive E (put_object (scanjob_resource E flds) x s)"
proof -
  let ?s = "put_object (scanjob_resource E flds) x s"
  have keys: "map job_key ?s = map job_key s" by (simp add: put_object_def)
  have origin: "\<exists>z'\<in>set s. job_key z = job_key z' \<and> job_target z = job_target z' \<and> (running_job E z \<longrightarrow> running_job E z')"
    if "z \<in> set ?s" for z
    using that old same by (auto simp: put_object_def split: if_splits)
  have "y = z" if yz: "y \<in> set ?s" "z \<in> set ?s" "running_job E y" "running_job E z" "job_target y = job_target z" for y z
  proof -
    obtain y' z' where "y' \<in> set s" "z' \<in> set s" "job_key y = job_key y'" "job_key z = job_key z'"
      "job_target y' = job_target z'" "running_job E y'" "running_job E z'"
      using origin[OF yz(1)] origin[OF yz(2)] yz(3-5) by metis
    moreover from this have "y' = z'" using ex unfolding exclusive_def by blast
    ultimately show ?thesis
      using exclusive_key[of ?s y z] keys ex yz(1,2) unfolding exclusive_def by simp
  qed
  then show ?thesis using keys ex unfolding exclusive_def by metis
qed

lemma create_no_running:
  assumes "rc_create (scanjob_resource E flds) s u x" "y \<in> set s" "job_target y = job_target x"
  shows "\<not> running_job E y"
  using assms
  by (auto simp: scanjob_resource_def ScanJobCustomValidator_ValidateCreate_def invalidOr_def runningErrors_def
      listing_def running_job_def list_ex_iff split: option.splits sum.splits if_splits)

lemma update_same_registry:
  assumes "rc_update (scanjob_resource E flds) u old x"
  shows "sp_Registry (sj_Spec x) = sp_Registry (sj_Spec old)"
  using assms
  by (auto simp: scanjob_resource_def ScanJobCustomValidator_ValidateUpdate_def invalidOr_def Let_def
      split: option.splits if_splits)

lemma exclusive_step:
  assumes ex: "exclusive E s" and keep: "keeps_finished E flds s [(u, now, w)]"
  shows "exclusive E (apply_write (scanjob_resource E flds) s (u, now, w))"
proof (cases w)
  case (WriteCreate x)
  let ?x = "rc_blank (scanjob_resource E flds) (rc_default (scanjob_resource E flds) True now x)"
  have "exclusive E (s @ [?x])"
    if "job_key ?x \<notin> job_key ` set s" "rc_create (scanjob_resource E flds) s u ?x"
    using ex that create_no_running[OF that(2)] by (auto simp: exclusive_def)
  with WriteCreate ex show ?thesis by (simp add: Let_def stored_None)
next
  case (WriteUpdate x)
  let ?R = "scanjob_resource E flds"
  have "exclusive E (put_object ?R (rc_withStatus ?R (rc_default ?R False now x) old) s)"
    if "stored ?R s (job_key x) = Some old" "rc_update ?R u old (rc_withStatus ?R (rc_default ?R False now x) old)" for old
  proof (rule exclusive_put[OF ex stored_in[OF that(1)]])
    show key: "job_key (rc_withStatus ?R (rc_default ?R False now x) old) = job_key old"
      using stored_key[OF that(1)] scanjobs.key_status[of E flds] scanjobs.key_default[of E flds] by simp
    then show "job_target (rc_withStatus ?R (rc_default ?R False now x) old) = job_target old"
      using update_same_registry[OF that(2)] by simp
  qed (simp add: scanjob_resource_def)
  with WriteUpdate ex show ?thesis by (simp add: Let_def split: option.split)
next
  case (WriteStatus x)
  let ?R = "scanjob_resource E flds"
  have "exclusive E (put_object ?R (rc_withStatus ?R old x) s)" if "stored ?R s (job_key x) = Some old" for old
    using keep that WriteStatus
    by (intro exclusive_put[OF ex stored_in[OF that]]) (simp_all add: scanjob_resource_def)
  with WriteStatus ex show ?thesis by (simp split: option.split)
next
  case (WriteDelete k)
  with ex show ?thesis by (auto simp: exclusive_def distinct_map_filter split: option.split)
qed

section \<open>When the field validators find nothing\<close>

lemma concat_enumerate_const:
  assumes "\<And>i x. f i x = [] \<longleftrightarrow> P x"
  shows "concat (map (\<lambda>(i, x). f i x) (List.enumerate n xs)) = [] \<longleftrightarrow> (\<forall>x\<in>set xs. P x)"
  using assms by (induction xs arbitrary: n) auto

lemma interval_errors: "validateScanInterval d = [] \<longleftrightarrow> (\<forall>i. d = Some i \<longrightarrow> Minute \<le> i)"
  by (auto simp: validateScanInterval_def split: option.split)

lemma catalog_errors:
  "validateCatalogType c = [] \<longleftrightarrow> c \<in> {[], CatalogTypeNoCatalog, CatalogTypeOCIDistribution}"
  by (auto simp: validateCatalogType_def availableCatalogTypes_def)

lemma platform_errors: "validatePlatforms ps = [] \<longleftrightarrow> (\<forall>p\<in>set ps. validatePlatform p = None)"
  unfolding validatePlatforms_def by (rule concat_enumerate_const) (simp split: option.split)

lemma condition_errors: "validateCondition E L i e = [] \<longleftrightarrow> TagEvaluator_Validate L (mc_Expression (snd e)) = Inr ()"
  by (simp add: validateCondition_def split: sum.split)

lemma repository_errors:
  assumes "wb_NewTagEvaluator E = Inr L"
  shows "validateRepositories E repos c = [] \<longleftrightarrow> (c = CatalogTypeNoCatalog \<longrightarrow> repos \<noteq> [])
    \<and> (\<forall>repo\<in>set repos. \<forall>mc\<in>set (rp_MatchConditions repo). TagEvaluator_Validate L (mc_Expression mc) = Inr ())"
proof -
  have "concat (map (validateCondition E L i) (List.enumerate 0 mcs)) = []
      \<longleftrightarrow> (\<forall>mc\<in>set mcs. TagEvaluator_Validate L (mc_Expression mc) = Inr ())" for i mcs
    by (rule concat_enumerate_const[of "\<lambda>j mc. validateCondition E L i (j, mc)", simplified case_prod_eta])
      (simp add: condition_errors)
  then have "concat (map (\<lambda>(i, repo). concat (map (validateCondition E L i) (List.enumerate 0 (rp_MatchConditions repo))))
        (List.enumerate 0 repos)) = []
      \<longleftrightarrow> (\<forall>repo\<in>set repos. \<forall>mc\<in>set (rp_MatchConditions repo). TagEvaluator_Validate L (mc_Expression mc) = Inr ())"
    by (rule concat_enumerate_const)
  then show ?thesis unfolding validateRepositories_def assms Let_def sum.case append_is_Nil_conv by simp
qed

text \<open>
  The plugin of the storage server looks at the old report only when a report is updated, so any user
  who may update an unmanaged report can put the managed-by label on it.
\<close>

lemma report_label_can_be_added:
  assumes "map_index (om_Labels (ws_meta old)) LabelManagedByKey \<noteq> LabelManagedByValue"
  shows "WorkloadScanReportValidation_Validate allowed
    \<lparr>at_isWorkloadScanReport = True, at_Operation = OperationUpdate, at_Object = Some new,
     at_OldObject = Some old, at_User = user\<rparr> = None"
  using assms by (simp add: WorkloadScanReportValidation_Validate_def validateManagedWorkloadScanReport_def)

section \<open>Properties\<close>

text \<open>
  C33: Managed registries belong to the controller.  Whatever sequence of creations, updates, status
  writes and deletions users other than the service account of the controller send, the registries
  that carry the managed-by label are the same afterwards, with the same metadata and specification:
  none is changed or deleted, none is created, and no existing registry becomes one.
\<close>

theorem managed_registries_protected:
  assumes "\<forall>q\<in>set ws. fst q \<noteq> serviceAccount E"
  shows "part_of (registry_resource E) managed_part (apply_writes (registry_resource E) s ws) k
    = part_of (registry_resource E) managed_part s k"
  using assms by (rule registries.part_kept)

text \<open>
  C34: At most one running job for a registry.  When requests are handled one after the other and no
  status write reopens a finished job, then no two unfinished ScanJobs of a namespace are for the
  same registry, whatever is created, updated and deleted and by whom.
\<close>

theorem one_running_job_per_registry:
  assumes "exclusive E s" "keeps_finished E flds s ws"
  shows "exclusive E (apply_writes (scanjob_resource E flds) s ws)"
  using assms
proof (induction ws arbitrary: s)
  case (Cons q ws)
  obtain u now w where q: "q = (u, now, w)" by (cases q) auto
  with Cons.prems have "keeps_finished E flds s [(u, now, w)]" by simp
  from exclusive_step[OF Cons.prems(1) this] Cons q show ?case by simp
qed simp

text \<open>
  C35: The two checks of a NodeScanJob agree.  On the same configuration, node and selector library the
  webhook finds no error exactly when the reconciler accepts the job, and then the reconciler leaves
  the job as it is.
\<close>

theorem node_validators_agree:
  assumes "wb_GetConfig W NodeScanConfigurationName = Inr config"
    "wb_GetNode W (np_NodeName (nj_Spec j)) = nv_GetNode E h (np_NodeName (nj_Spec j))"
    "wb_selector W = nv_selector E"
  shows "ValidateNodeScanJobAgainstConfig W (np_NodeName (nj_Spec j)) = []
    \<longleftrightarrow> (\<exists>h'. run_state (validateNodeAgainstConfig E j config) h = (Inr (j, True), h'))"
proof (cases "nv_GetNode E h (np_NodeName (nj_Spec j))")
  case (Inr node)
  define selected where "selected = (case nc_NodeSelector (nsc_Spec config) of
      None \<Rightarrow> Inr True | Some s \<Rightarrow> map_sum id (\<lambda>matches. matches (om_Labels (nd_meta node))) (nv_selector E s))"
  have wrapped: "(case nc_NodeSelector (nsc_Spec config) of
      None \<Rightarrow> Inr True
    | Some s \<Rightarrow> map_sum (ErrorWrap ''failed to parse NodeSelector'')
        (\<lambda>matches. matches (om_Labels (nd_meta node))) (nv_selector E s))
      = map_sum (ErrorWrap ''failed to parse NodeSelector'') id selected"
    by (simp add: selected_def sum.map_comp comp_def split: option.split)
  show ?thesis
    unfolding ValidateNodeScanJobAgainstConfig_def validateNodeAgainstConfig_def assms Inr Let_def run_state_bind
      run_call sum.case prod.case wrapped selected_def[symmetric]
    by (cases selected) auto
qed (auto simp: ValidateNodeScanJobAgainstConfig_def validateNodeAgainstConfig_def assms Let_def run_state_bind run_call)


section \<open>Witnesses\<close>

definition sample_webhook_env :: "string webhook_env" where
  "sample_webhook_env =
    \<lparr>wb_NewTagEvaluator = Inr sample_cel, wb_errorText = (\<lambda>_. ''error''), wb_ValidateLabelSelector = (\<lambda>_ _. []),
     wb_selector = nv_selector sample_node_env, wb_quote = id, wb_formatTime = (\<lambda>_. ''now''), wb_meta = list_meta,
     wb_ListScanJobs = (\<lambda>_ _. Inr []), wb_GetRegistry = (\<lambda>_. Inr sample_registry),
     wb_GetConfig = (\<lambda>_. Inr sample_node_config), wb_GetNode = (\<lambda>n. Inr (sample_node n)),
     wb_serviceAccountNamespace = ''sys'', wb_serviceAccountName = ''controller''\<rparr>"

definition labelled :: "string_map \<Rightarrow> string \<Rightarrow> Registry" where
  "labelled labels n = sample_registry
    \<lparr>rg_meta := (rg_meta sample_registry)\<lparr>om_Name := n, om_Labels := labels\<rparr>,
     rg_Spec := (rg_Spec sample_registry)\<lparr>rs_CatalogType := [], rs_ScanInterval := Some Minute\<rparr>\<rparr>"

definition managed_label :: string_map where
  "managed_label = [(LabelManagedByKey, LabelManagedByValue)]"

text \<open>Mallory creates a registry of their own, labels it, and tries to delete the managed one.\<close>

definition mallory :: "Registry api_request list" where
  "mallory = [(''mallory'', 1, WriteCreate (labelled [] ''own'')), (''mallory'', 2, WriteUpdate (labelled managed_label ''own'')),
     (''mallory'', 3, WriteDelete (''ns'', ''managed''))]"

theorem managed_registries_protected_witness:
  "(\<forall>k. part_of (registry_resource sample_webhook_env) managed_part
       (apply_writes (registry_resource sample_webhook_env) [labelled managed_label ''managed''] mallory) k
     = part_of (registry_resource sample_webhook_env) managed_part [labelled managed_label ''managed''] k)
   \<and> map (om_Name \<circ> rg_meta)
       (apply_writes (registry_resource sample_webhook_env) [labelled managed_label ''managed''] mallory)
     = [''managed'', ''own'']"
proof
  have "\<forall>q\<in>set mallory. fst q \<noteq> serviceAccount sample_webhook_env" by code_simp
  then show "\<forall>k. part_of (registry_resource sample_webhook_env) managed_part
       (apply_writes (registry_resource sample_webhook_env) [labelled managed_label ''managed''] mallory) k
     = part_of (registry_resource sample_webhook_env) managed_part [labelled managed_label ''managed''] k"
    using managed_registries_protected[of mallory sample_webhook_env] by blast
qed code_simp

definition job_named :: "string \<Rightarrow> ScanJob" where
  "job_named n = sample_done_job\<lparr>sj_meta := (sj_meta sample_done_job)\<lparr>om_Name := n\<rparr>\<rparr>"

definition rush :: "ScanJob api_request list" where
  "rush = [(''a'', 1, WriteCreate (job_named ''one'')), (''b'', 2, WriteCreate (job_named ''two'')),
     (''worker'', 3, WriteStatus (job_named ''one'')), (''b'', 4, WriteCreate (job_named ''three''))]"

theorem one_running_job_per_registry_witness:
  "exclusive sample_webhook_env (apply_writes (scanjob_resource sample_webhook_env []) [] rush)
   \<and> map (om_Name \<circ> sj_meta) (apply_writes (scanjob_resource sample_webhook_env []) [] rush) = [''one'', ''three'']"
proof
  have "exclusive sample_webhook_env []" by (simp add: exclusive_def)
  moreover have "keeps_finished sample_webhook_env [] [] rush" by code_simp
  ultimately show "exclusive sample_webhook_env (apply_writes (scanjob_resource sample_webhook_env []) [] rush)"
    by (rule one_running_job_per_registry)
qed code_simp

theorem node_validators_agree_witness:
  "ValidateNodeScanJobAgainstConfig sample_webhook_env ''n1'' = []
   \<and> (\<exists>h'. run_state (validateNodeAgainstConfig sample_node_env (sample_node_job ''n1'') sample_node_config) []
        = (Inr (sample_node_job ''n1'', True), h'))"
proof -
  have "ValidateNodeScanJobAgainstConfig sample_webhook_env ''n1'' = []" by code_simp
  moreover have "np_NodeName (nj_Spec (sample_node_job ''n1'')) = ''n1''" by (simp add: sample_node_job_def)
  ultimately show ?thesis
    using node_validators_agree[of sample_webhook_env sample_node_config "sample_node_job ''n1''" sample_node_env "[]"]
    by (simp add: sample_webhook_env_def sample_node_env_def)
qed


end
