(* ===== verification/Mcp_Server.thy ===== *)
theory Mcp_Server
  imports Node_Handlers Reports_Correct
begin

text \<open>
  The MCP server, \<open>src/internal/mcp\<close>: the tools that list and read resources and vulnerabilities, the
  tools that write, which a read-only server does not register, and the checks in front of them.

  A tool answers with a text or a text marked as an error; the JSON encoder, which may fail, takes the
  value that the tool returns (\<open>mcp_response\<close>).  A score is a rational number.  The server library,
  which decodes the arguments of a tool, is represented by \<open>tool_request\<close>, one constructor for a
  tool with its arguments.
\<close>

section \<open>Simplified vulnerabilities\<close>

record simplifiedVulnerability =
  sv_CVE :: string
  sv_Link :: string
  sv_CVSSScore :: rat
  sv_Severity :: string
  sv_Critical :: bool
  sv_FixAvailable :: bool
  sv_Suppressed :: bool
  sv_Package :: string

text \<open>\<open>strconv.ParseFloat\<close> is an argument.\<close>

fun highestScore ::
  "(string \<Rightarrow> rat result) \<Rightarrow> string \<Rightarrow> (string \<times> CVSS) list \<Rightarrow> rat \<Rightarrow> rat result" where
  "highestScore parse cve [] highest = Inr highest"
| "highestScore parse cve ((_, entry) # entries) highest =
    (if cv_V3Score entry = [] then highestScore parse cve entries highest
     else case parse (cv_V3Score entry) of
       Inl err \<Rightarrow> Inl (ErrorWrap (''parsing CVSS v3 score for '' @ cve) err)
     | Inr score \<Rightarrow> highestScore parse cve entries (if score > highest then score else highest))"

definition simplifyVulnerability :: "(string \<Rightarrow> rat result) \<Rightarrow> Vulnerability \<Rightarrow> simplifiedVulnerability result" where
  "simplifyVulnerability parse v =
    map_sum id (\<lambda>score.
      \<lparr>sv_CVE = vu_CVE v,
       sv_Link = (case vu_References v of [] \<Rightarrow> [] | link # _ \<Rightarrow> link),
       sv_CVSSScore = score,
       sv_Severity = vu_Severity v,
       sv_Critical = (vu_Severity v = SeverityCritical),
       sv_FixAvailable = (vu_FixedVersions v \<noteq> []),
       sv_Suppressed = vu_Suppressed v,
       sv_Package = vu_PackageName v\<rparr>)
      (highestScore parse (vu_CVE v) (vu_CVSS v) 0)"

definition severityRank :: "string \<Rightarrow> int" where
  "severityRank severity =
    (if severity = SeverityCritical then 4
     else if severity = SeverityHigh then 3
     else if severity = SeverityMedium then 2
     else if severity = SeverityLow then 1
     else 0)"

text \<open>The comparison function gives a negative number.\<close>

definition moreSevere :: "simplifiedVulnerability \<Rightarrow> simplifiedVulnerability \<Rightarrow> bool" where
  "moreSevere a b \<longleftrightarrow>
    (if severityRank (sv_Severity a) \<noteq> severityRank (sv_Severity b)
     then severityRank (sv_Severity b) < severityRank (sv_Severity a)
     else sv_CVSSScore b < sv_CVSSScore a)"

definition sortVulnerabilities ::
  "simplifiedVulnerability sorter \<Rightarrow> simplifiedVulnerability list \<Rightarrow> simplifiedVulnerability list" where
  "sortVulnerabilities srt vulnerabilities = srt moreSevere vulnerabilities"

text \<open>The map \<open>seen\<close>, with its entries in the order of their insertion.\<close>

fun collectSeen ::
  "(string \<Rightarrow> rat result) \<Rightarrow> Vulnerability list \<Rightarrow> (string \<times> simplifiedVulnerability) list
    \<Rightarrow> (string \<times> simplifiedVulnerability) list result" where
  "collectSeen parse [] seen = Inr seen"
| "collectSeen parse (v # vs) seen =
    (if map_of seen (vu_CVE v) \<noteq> None then collectSeen parse vs seen
     else case simplifyVulnerability parse v of
       Inl err \<Rightarrow> Inl err
     | Inr simplified \<Rightarrow> collectSeen parse vs (seen @ [(vu_CVE v, simplified)]))"

text \<open>
  What the server uses of its libraries: parsing, sorting, the order in which a map is visited,
  encoding, and the Kubernetes client.  A create or an update answers with the object as stored.
\<close>

datatype mcp_call =
    MCList string string
  | MCGet string NamespacedName
  | MCCreateRegistry Registry
  | MCUpdateRegistry Registry
  | MCDeleteRegistry Registry
  | MCCreateScanJob ScanJob
  | MCDeleteScanJob ScanJob
  | MCCreateNodeScanJob NodeScanJob
  | MCCreateVEXHub VEXHub
  | MCUpdateVEXHub VEXHub
  | MCDeleteVEXHub VEXHub

record imageListItem =
  il_Name :: string
  il_Namespace :: string
  il_Registry :: string
  il_Repository :: string
  il_Tag :: string
  il_Total :: int
  il_Summary :: Summary

record workloadListItem =
  wl_ReportName :: string
  wl_Namespace :: string
  wl_WorkloadName :: string
  wl_WorkloadKind :: string
  wl_Total :: int
  wl_Summary :: Summary

record nodeListItem =
  nl_Name :: string
  nl_Platform :: string
  nl_Total :: int
  nl_Summary :: Summary

record imageVulnerabilitiesResponse =
  iv_Registry :: string
  iv_Repository :: string
  iv_Tag :: string
  iv_Vulnerabilities :: "simplifiedVulnerability list"

record imageVulnerabilitySummaryResponse =
  is_Registry :: string
  is_Repository :: string
  is_Tag :: string
  is_Total :: int
  is_Summary :: Summary
  is_TopVulnerabilities :: "simplifiedVulnerability list"

record containerVulnerabilitySummary =
  cs_Container :: string
  cs_Total :: int
  cs_Summary :: Summary
  cs_TopVulnerabilities :: "simplifiedVulnerability list"

record workloadVulnerabilitySummaryResponse =
  wr_Workload :: string
  wr_Total :: int
  wr_Summary :: Summary
  wr_Containers :: "containerVulnerabilitySummary list"

record containerVulnerabilities =
  cx_Container :: string
  cx_Vulnerabilities :: "simplifiedVulnerability list"

record workloadVulnerabilitiesResponse =
  wx_Workload :: string
  wx_Containers :: "containerVulnerabilities list"

record nodeVulnerabilitiesResponse =
  nx_Node :: string
  nx_Platform :: string
  nx_Vulnerabilities :: "simplifiedVulnerability list"

record nodeVulnerabilitySummaryResponse =
  ny_Node :: string
  ny_Platform :: string
  ny_Total :: int
  ny_Summary :: Summary
  ny_TopVulnerabilities :: "simplifiedVulnerability list"

datatype mcp_response =
    RespRegistry Registry
  | RespRegistries "Registry list"
  | RespScanJob ScanJob
  | RespScanJobs "ScanJob list"
  | RespWorkloadConfig WorkloadScanConfiguration
  | RespVEXHub VEXHub
  | RespVEXHubs "VEXHub list"
  | RespNodeConfig NodeScanConfiguration
  | RespNodeScanJob NodeScanJob
  | RespNodeScanJobs "NodeScanJob list"
  | RespImages "imageListItem list"
  | RespImageVulnerabilities imageVulnerabilitiesResponse
  | RespImageSummary imageVulnerabilitySummaryResponse
  | RespWorkloads "workloadListItem list"
  | RespWorkloadVulnerabilities workloadVulnerabilitiesResponse
  | RespWorkloadSummary workloadVulnerabilitySummaryResponse
  | RespNodes "nodeListItem list"
  | RespNodeVulnerabilities nodeVulnerabilitiesResponse
  | RespNodeSummary nodeVulnerabilitySummaryResponse

record mcp_env =
  me_ParseFloat :: "string \<Rightarrow> rat result"
  me_sort :: "simplifiedVulnerability sorter"
  me_range :: "simplifiedVulnerability list \<Rightarrow> simplifiedVulnerability list"
  me_marshal :: "mcp_response \<Rightarrow> string result"
  me_errorText :: "error \<Rightarrow> string"
  me_ListRegistries :: "mcp_call list \<Rightarrow> string \<Rightarrow> Registry list result"
  me_GetRegistry :: "mcp_call list \<Rightarrow> NamespacedName \<Rightarrow> Registry result"
  me_CreateRegistry :: "mcp_call list \<Rightarrow> Registry \<Rightarrow> Registry result"
  me_UpdateRegistry :: "mcp_call list \<Rightarrow> Registry \<Rightarrow> Registry result"
  me_DeleteRegistry :: "mcp_call list \<Rightarrow> Registry \<Rightarrow> unit result"
  me_ListScanJobs :: "mcp_call list \<Rightarrow> string \<Rightarrow> ScanJob list result"
  me_GetScanJob :: "mcp_call list \<Rightarrow> NamespacedName \<Rightarrow> ScanJob result"
  me_CreateScanJob :: "mcp_call list \<Rightarrow> ScanJob \<Rightarrow> ScanJob result"
  me_DeleteScanJob :: "mcp_call list \<Rightarrow> ScanJob \<Rightarrow> unit result"
  me_GetWorkloadConfig :: "mcp_call list \<Rightarrow> NamespacedName \<Rightarrow> WorkloadScanConfiguration result"
  me_ListVEXHubs :: "mcp_call list \<Rightarrow> string \<Rightarrow> VEXHub list result"
  me_GetVEXHub :: "mcp_call list \<Rightarrow> NamespacedName \<Rightarrow> VEXHub result"
  me_CreateVEXHub :: "mcp_call list \<Rightarrow> VEXHub \<Rightarrow> VEXHub result"
  me_UpdateVEXHub :: "mcp_call list \<Rightarrow> VEXHub \<Rightarrow> VEXHub result"
  me_DeleteVEXHub :: "mcp_call list \<Rightarrow> VEXHub \<Rightarrow> unit result"
  me_ListReports :: "mcp_call list \<Rightarrow> string \<Rightarrow> VulnerabilityReport list result"
  me_GetReport :: "mcp_call list \<Rightarrow> NamespacedName \<Rightarrow> VulnerabilityReport result"
  me_ListWorkloadReports :: "mcp_call list \<Rightarrow> string \<Rightarrow> WorkloadScanReport list result"
  me_GetWorkloadReport :: "mcp_call list \<Rightarrow> NamespacedName \<Rightarrow> WorkloadScanReport result"
  me_GetNodeConfig :: "mcp_call list \<Rightarrow> NamespacedName \<Rightarrow> NodeScanConfiguration result"
  me_ListNodeScanJobs :: "mcp_call list \<Rightarrow> string \<Rightarrow> NodeScanJob list result"
  me_GetNodeScanJob :: "mcp_call list \<Rightarrow> NamespacedName \<Rightarrow> NodeScanJob result"
  me_CreateNodeScanJob :: "mcp_call list \<Rightarrow> NodeScanJob \<Rightarrow> NodeScanJob result"
  me_ListNodeReports :: "mcp_call list \<Rightarrow> string \<Rightarrow> NodeVulnerabilityReport list result"
  me_GetNodeReport :: "mcp_call list \<Rightarrow> NamespacedName \<Rightarrow> NodeVulnerabilityReport result"

definition collectFindings :: "mcp_env \<Rightarrow> Vulnerability list \<Rightarrow> simplifiedVulnerability list result" where
  "collectFindings E vs =
    map_sum id (\<lambda>seen. sortVulnerabilities (me_sort E) (me_range E (map snd seen)))
      (collectSeen (me_ParseFloat E) vs [])"

definition collectSimplifiedVulnerabilitiesFromReport :: "mcp_env \<Rightarrow> Report \<Rightarrow> simplifiedVulnerability list result" where
  "collectSimplifiedVulnerabilitiesFromReport E report =
    collectFindings E (concat (map re_Vulnerabilities (rp_Results report)))"

definition collectSimplifiedVulnerabilities ::
  "mcp_env \<Rightarrow> VulnerabilityReport \<Rightarrow> simplifiedVulnerability list result" where
  "collectSimplifiedVulnerabilities E report = collectSimplifiedVulnerabilitiesFromReport E (vr_Report report)"

definition collectSimplifiedVulnerabilitiesFromWorkload ::
  "mcp_env \<Rightarrow> WorkloadScanVulnerabilityReport list \<Rightarrow> simplifiedVulnerability list result" where
  "collectSimplifiedVulnerabilitiesFromWorkload E reports =
    collectFindings E (concat (map (\<lambda>report. concat (map re_Vulnerabilities (rp_Results (wv_Report report)))) reports))"

definition summarizeSimplified :: "Summary \<Rightarrow> simplifiedVulnerability \<Rightarrow> Summary" where
  "summarizeSimplified s v =
    (if sv_Suppressed v then s\<lparr>su_Suppressed := su_Suppressed s + 1\<rparr>
     else if sv_Severity v = SeverityCritical then s\<lparr>su_Critical := su_Critical s + 1\<rparr>
     else if sv_Severity v = SeverityHigh then s\<lparr>su_High := su_High s + 1\<rparr>
     else if sv_Severity v = SeverityMedium then s\<lparr>su_Medium := su_Medium s + 1\<rparr>
     else if sv_Severity v = SeverityLow then s\<lparr>su_Low := su_Low s + 1\<rparr>
     else s\<lparr>su_Unknown := su_Unknown s + 1\<rparr>)"

definition summaryFromSimplified :: "simplifiedVulnerability list \<Rightarrow> Summary" where
  "summaryFromSimplified vulnerabilities = foldl summarizeSimplified empty_summary vulnerabilities"

definition ownerWorkload :: "WorkloadScanReport \<Rightarrow> string \<times> string" where
  "ownerWorkload report =
    (case om_OwnerReferences (ws_meta report) of
       r # _ \<Rightarrow> (or_Name r, or_Kind r) | [] \<Rightarrow> (om_Name (ws_meta report), []))"

section \<open>Answers\<close>

datatype tool_result = ToolText string | ToolError string

type_synonym mcp_prog = "(mcp_call, tool_result result) prog"

definition jsonResult :: "mcp_env \<Rightarrow> mcp_response \<Rightarrow> mcp_prog" where
  "jsonResult E obj = State_Monad.return
    (case me_marshal E obj of Inl err \<Rightarrow> Inl (ErrorWrap ''marshaling result'' err) | Inr data \<Rightarrow> Inr (ToolText data))"

definition toolError :: "mcp_env \<Rightarrow> string \<Rightarrow> error \<Rightarrow> mcp_prog" where
  "toolError E what err = ok (ToolError (what @ '': '' @ me_errorText E err))"

text \<open>A step of a tool: the error is the answer, or the tool goes on with the value.\<close>

definition orToolError :: "mcp_env \<Rightarrow> string \<Rightarrow> 'a result \<Rightarrow> ('a \<Rightarrow> mcp_prog) \<Rightarrow> mcp_prog" where
  "orToolError E what r k = (case r of Inl err \<Rightarrow> toolError E what err | Inr x \<Rightarrow> k x)"

text \<open>The kinds name the resources in the trace; the empty namespace lists all namespaces.\<close>

definition getClusterScoped ::
  "mcp_env \<Rightarrow> string \<Rightarrow> (mcp_call list \<Rightarrow> NamespacedName \<Rightarrow> 'a result) \<Rightarrow> ('a \<Rightarrow> mcp_response) \<Rightarrow> string \<Rightarrow> mcp_prog" where
  "getClusterScoped E kind get wrap name = do {
     r \<leftarrow> call (\<lambda>h. get h ([], name)) (MCGet kind ([], name));
     orToolError E ''getting resource'' r (\<lambda>obj. jsonResult E (wrap obj))
   }"

definition listNamespaced ::
  "mcp_env \<Rightarrow> string \<Rightarrow> (mcp_call list \<Rightarrow> string \<Rightarrow> 'a list result) \<Rightarrow> ('a list \<Rightarrow> mcp_response) \<Rightarrow> string \<Rightarrow> mcp_prog" where
  "listNamespaced E kind list wrap namespace = do {
     r \<leftarrow> call (\<lambda>h. list h namespace) (MCList kind namespace);
     orToolError E ''listing resources'' r (\<lambda>objs. jsonResult E (wrap objs))
   }"

definition getNamespaced ::
  "mcp_env \<Rightarrow> string \<Rightarrow> (mcp_call list \<Rightarrow> NamespacedName \<Rightarrow> 'a result) \<Rightarrow> ('a \<Rightarrow> mcp_response)
    \<Rightarrow> string \<Rightarrow> string \<Rightarrow> mcp_prog" where
  "getNamespaced E kind get wrap name namespace = do {
     r \<leftarrow> call (\<lambda>h. get h (namespace, name)) (MCGet kind (namespace, name));
     orToolError E ''getting resource'' r (\<lambda>obj. jsonResult E (wrap obj))
   }"

section \<open>Reading tools\<close>

definition Server_listRegistries :: "mcp_env \<Rightarrow> string \<Rightarrow> mcp_prog" where
  "Server_listRegistries E namespace = listNamespaced E ''Registry'' (me_ListRegistries E) RespRegistries namespace"

definition Server_getRegistry :: "mcp_env \<Rightarrow> string \<Rightarrow> string \<Rightarrow> mcp_prog" where
  "Server_getRegistry E name namespace = getNamespaced E ''Registry'' (me_GetRegistry E) RespRegistry name namespace"

definition Server_listScanJobs :: "mcp_env \<Rightarrow> string \<Rightarrow> mcp_prog" where
  "Server_listScanJobs E namespace = listNamespaced E ''ScanJob'' (me_ListScanJobs E) RespScanJobs namespace"

definition Server_getScanJob :: "mcp_env \<Rightarrow> string \<Rightarrow> string \<Rightarrow> mcp_prog" where
  "Server_getScanJob E name namespace = getNamespaced E ''ScanJob'' (me_GetScanJob E) RespScanJob name namespace"

definition Server_getWorkloadScanConfiguration :: "mcp_env \<Rightarrow> mcp_prog" where
  "Server_getWorkloadScanConfiguration E =
    getClusterScoped E ''WorkloadScanConfiguration'' (me_GetWorkloadConfig E) RespWorkloadConfig
      WorkloadScanConfigurationName"

definition Server_listVEXHubs :: "mcp_env \<Rightarrow> mcp_prog" where
  "Server_listVEXHubs E = do {
     r \<leftarrow> call (\<lambda>h. me_ListVEXHubs E h []) (MCList ''VEXHub'' []);
     orToolError E ''listing VEXHubs'' r (\<lambda>list. jsonResult E (RespVEXHubs list))
   }"

definition Server_getVEXHub :: "mcp_env \<Rightarrow> string \<Rightarrow> mcp_prog" where
  "Server_getVEXHub E name = getClusterScoped E ''VEXHub'' (me_GetVEXHub E) RespVEXHub name"

definition newImageListItem :: "VulnerabilityReport \<Rightarrow> imageListItem" where
  "newImageListItem report = (let sum = rp_Summary (vr_Report report) in
    \<lparr>il_Name = om_Name (vr_meta report), il_Namespace = om_Namespace (vr_meta report),
     il_Registry = md_Registry (vr_ImageMetadata report), il_Repository = md_Repository (vr_ImageMetadata report),
     il_Tag = md_Tag (vr_ImageMetadata report), il_Total = unsuppressed_total sum, il_Summary = sum\<rparr>)"

definition Server_listImages :: "mcp_env \<Rightarrow> string \<Rightarrow> mcp_prog" where
  "Server_listImages E namespace = do {
     r \<leftarrow> call (\<lambda>h. me_ListReports E h namespace) (MCList ''VulnerabilityReport'' namespace);
     orToolError E ''listing vulnerability reports'' r (\<lambda>list. jsonResult E (RespImages (map newImageListItem list)))
   }"

definition Server_getImageVulnerabilities :: "mcp_env \<Rightarrow> string \<Rightarrow> string \<Rightarrow> mcp_prog" where
  "Server_getImageVulnerabilities E name namespace = do {
     r \<leftarrow> call (\<lambda>h. me_GetReport E h (namespace, name)) (MCGet ''VulnerabilityReport'' (namespace, name));
     orToolError E ''getting vulnerability report'' r (\<lambda>report.
       orToolError E ''collecting vulnerabilities'' (collectSimplifiedVulnerabilities E report) (\<lambda>vulnerabilities.
         jsonResult E (RespImageVulnerabilities
           \<lparr>iv_Registry = md_Registry (vr_ImageMetadata report), iv_Repository = md_Repository (vr_ImageMetadata report),
            iv_Tag = md_Tag (vr_ImageMetadata report), iv_Vulnerabilities = vulnerabilities\<rparr>)))
   }"

definition Server_getImageVulnerabilitySummary :: "mcp_env \<Rightarrow> string \<Rightarrow> string \<Rightarrow> mcp_prog" where
  "Server_getImageVulnerabilitySummary E name namespace = do {
     r \<leftarrow> call (\<lambda>h. me_GetReport E h (namespace, name)) (MCGet ''VulnerabilityReport'' (namespace, name));
     orToolError E ''getting vulnerability report'' r (\<lambda>report.
       orToolError E ''collecting vulnerabilities'' (collectSimplifiedVulnerabilities E report) (\<lambda>vulnerabilities.
         jsonResult E (RespImageSummary
           \<lparr>is_Registry = md_Registry (vr_ImageMetadata report), is_Repository = md_Repository (vr_ImageMetadata report),
            is_Tag = md_Tag (vr_ImageMetadata report), is_Total = unsuppressed_total (rp_Summary (vr_Report report)),
            is_Summary = rp_Summary (vr_Report report), is_TopVulnerabilities = take 10 vulnerabilities\<rparr>)))
   }"

definition newWorkloadListItem :: "WorkloadScanReport \<Rightarrow> workloadListItem" where
  "newWorkloadListItem report =
    \<lparr>wl_ReportName = om_Name (ws_meta report), wl_Namespace = om_Namespace (ws_meta report),
     wl_WorkloadName = fst (ownerWorkload report), wl_WorkloadKind = snd (ownerWorkload report),
     wl_Total = unsuppressed_total (ws_Summary report), wl_Summary = ws_Summary report\<rparr>"

definition Server_listWorkloads :: "mcp_env \<Rightarrow> string \<Rightarrow> mcp_prog" where
  "Server_listWorkloads E namespace = do {
     r \<leftarrow> call (\<lambda>h. me_ListWorkloadReports E h namespace) (MCList ''WorkloadScanReport'' namespace);
     orToolError E ''listing workload scan reports'' r (\<lambda>list.
       jsonResult E (RespWorkloads (map newWorkloadListItem list)))
   }"

text \<open>The loops over the containers, which stop at the first error.\<close>

fun eachContainer ::
  "mcp_env \<Rightarrow> (string \<Rightarrow> simplifiedVulnerability list \<Rightarrow> 'a) \<Rightarrow> ContainerResult list \<Rightarrow> 'a list result" where
  "eachContainer E f [] = Inr []"
| "eachContainer E f (c # cs) =
    (case collectSimplifiedVulnerabilitiesFromWorkload E (cn_VulnerabilityReports c) of
       Inl err \<Rightarrow> Inl err
     | Inr vulnerabilities \<Rightarrow> map_sum id ((#) (f (cn_Name c) vulnerabilities)) (eachContainer E f cs))"

definition newContainerSummary :: "string \<Rightarrow> simplifiedVulnerability list \<Rightarrow> containerVulnerabilitySummary" where
  "newContainerSummary name vulnerabilities = (let summary = summaryFromSimplified vulnerabilities in
    \<lparr>cs_Container = name, cs_Total = unsuppressed_total summary, cs_Summary = summary,
     cs_TopVulnerabilities = take 10 vulnerabilities\<rparr>)"

definition Server_getWorkloadVulnerabilitySummary :: "mcp_env \<Rightarrow> string \<Rightarrow> string \<Rightarrow> mcp_prog" where
  "Server_getWorkloadVulnerabilitySummary E name namespace = do {
     r \<leftarrow> call (\<lambda>h. me_GetWorkloadReport E h (namespace, name)) (MCGet ''WorkloadScanReport'' (namespace, name));
     orToolError E ''getting workload scan report'' r (\<lambda>report.
       orToolError E ''collecting vulnerabilities'' (eachContainer E newContainerSummary (ws_Containers report)) (\<lambda>containers.
         jsonResult E (RespWorkloadSummary
           \<lparr>wr_Workload = om_Name (ws_meta report), wr_Total = unsuppressed_total (ws_Summary report),
            wr_Summary = ws_Summary report, wr_Containers = containers\<rparr>)))
   }"

definition Server_getWorkloadVulnerabilities :: "mcp_env \<Rightarrow> string \<Rightarrow> string \<Rightarrow> mcp_prog" where
  "Server_getWorkloadVulnerabilities E name namespace = do {
     r \<leftarrow> call (\<lambda>h. me_GetWorkloadReport E h (namespace, name)) (MCGet ''WorkloadScanReport'' (namespace, name));
     orToolError E ''getting workload scan report'' r (\<lambda>report.
       orToolError E ''collecting vulnerabilities''
         (eachContainer E (\<lambda>n vs. \<lparr>cx_Container = n, cx_Vulnerabilities = vs\<rparr>) (ws_Containers report)) (\<lambda>containers.
         jsonResult E (RespWorkloadVulnerabilities
           \<lparr>wx_Workload = om_Name (ws_meta report), wx_Containers = containers\<rparr>)))
   }"

definition Server_getNodeScanConfiguration :: "mcp_env \<Rightarrow> mcp_prog" where
  "Server_getNodeScanConfiguration E =
    getClusterScoped E ''NodeScanConfiguration'' (me_GetNodeConfig E) RespNodeConfig NodeScanConfigurationName"

definition Server_listNodeScanJobs :: "mcp_env \<Rightarrow> mcp_prog" where
  "Server_listNodeScanJobs E = do {
     r \<leftarrow> call (\<lambda>h. me_ListNodeScanJobs E h []) (MCList ''NodeScanJob'' []);
     orToolError E ''listing NodeScanJobs'' r (\<lambda>list. jsonResult E (RespNodeScanJobs list))
   }"

definition Server_getNodeScanJob :: "mcp_env \<Rightarrow> string \<Rightarrow> mcp_prog" where
  "Server_getNodeScanJob E name = getClusterScoped E ''NodeScanJob'' (me_GetNodeScanJob E) RespNodeScanJob name"

definition newNodeListItem :: "NodeVulnerabilityReport \<Rightarrow> nodeListItem" where
  "newNodeListItem report = (let sum = rp_Summary (nr_Report report) in
    \<lparr>nl_Name = nm_Name (nr_NodeMetadata report), nl_Platform = nm_Platform (nr_NodeMetadata report),
     nl_Total = unsuppressed_total sum, nl_Summary = sum\<rparr>)"

definition Server_listNodes :: "mcp_env \<Rightarrow> mcp_prog" where
  "Server_listNodes E = do {
     r \<leftarrow> call (\<lambda>h. me_ListNodeReports E h []) (MCList ''NodeVulnerabilityReport'' []);
     orToolError E ''listing node vulnerability reports'' r (\<lambda>list. jsonResult E (RespNodes (map newNodeListItem list)))
   }"

definition Server_getNodeVulnerabilitySummary :: "mcp_env \<Rightarrow> string \<Rightarrow> mcp_prog" where
  "Server_getNodeVulnerabilitySummary E name = do {
     r \<leftarrow> call (\<lambda>h. me_GetNodeReport E h ([], name)) (MCGet ''NodeVulnerabilityReport'' ([], name));
     orToolError E ''getting node vulnerability report'' r (\<lambda>report.
       orToolError E ''collecting vulnerabilities'' (collectSimplifiedVulnerabilitiesFromReport E (nr_Report report))
         (\<lambda>vulnerabilities. jsonResult E (RespNodeSummary
           \<lparr>ny_Node = nm_Name (nr_NodeMetadata report), ny_Platform = nm_Platform (nr_NodeMetadata report),
            ny_Total = unsuppressed_total (rp_Summary (nr_Report report)), ny_Summary = rp_Summary (nr_Report report),
            ny_TopVulnerabilities = take 10 vulnerabilities\<rparr>)))
   }"

definition Server_getNodeVulnerabilities :: "mcp_env \<Rightarrow> string \<Rightarrow> mcp_prog" where
  "Server_getNodeVulnerabilities E name = do {
     r \<leftarrow> call (\<lambda>h. me_GetNodeReport E h ([], name)) (MCGet ''NodeVulnerabilityReport'' ([], name));
     orToolError E ''getting node vulnerability report'' r (\<lambda>report.
       orToolError E ''collecting vulnerabilities'' (collectSimplifiedVulnerabilitiesFromReport E (nr_Report report))
         (\<lambda>vulnerabilities. jsonResult E (RespNodeVulnerabilities
           \<lparr>nx_Node = nm_Name (nr_NodeMetadata report), nx_Platform = nm_Platform (nr_NodeMetadata report),
            nx_Vulnerabilities = vulnerabilities\<rparr>)))
   }"

section \<open>Writing tools\<close>

record registryCreateArgs =
  rca_Name :: string
  rca_Namespace :: string
  rca_URI :: string
  rca_CatalogType :: string
  rca_Insecure :: bool
  rca_Repositories :: "Repository list"

record registryUpdateArgs =
  rua_Name :: string
  rua_Namespace :: string
  rua_URI :: "string option"
  rua_CatalogType :: "string option"
  rua_Insecure :: "bool option"
  rua_Repositories :: "Repository list option"

definition registryFromArgs :: "registryCreateArgs \<Rightarrow> Registry" where
  "registryFromArgs args =
    \<lparr>rg_meta = empty_meta\<lparr>om_Name := rca_Name args, om_Namespace := rca_Namespace args\<rparr>,
     rg_Spec = \<lparr>rs_URI = rca_URI args, rs_CatalogType = rca_CatalogType args, rs_Repositories = rca_Repositories args,
       rs_AuthSecret = [], rs_ScanInterval = None, rs_CABundle = [], rs_CABundleRef = None,
       rs_Insecure = rca_Insecure args, rs_Platforms = []\<rparr>,
     rg_Conditions = []\<rparr>"

definition Server_createRegistry :: "mcp_env \<Rightarrow> registryCreateArgs \<Rightarrow> mcp_prog" where
  "Server_createRegistry E args = do {
     r \<leftarrow> call (\<lambda>h. me_CreateRegistry E h (registryFromArgs args)) (MCCreateRegistry (registryFromArgs args));
     orToolError E ''creating registry'' r (\<lambda>registry. jsonResult E (RespRegistry registry))
   }"

definition applyRegistryArgs :: "registryUpdateArgs \<Rightarrow> Registry \<Rightarrow> Registry" where
  "applyRegistryArgs args registry =
    (let spec = rg_Spec registry;
         spec = (case rua_URI args of None \<Rightarrow> spec | Some v \<Rightarrow> spec\<lparr>rs_URI := v\<rparr>);
         spec = (case rua_CatalogType args of None \<Rightarrow> spec | Some v \<Rightarrow> spec\<lparr>rs_CatalogType := v\<rparr>);
         spec = (case rua_Insecure args of None \<Rightarrow> spec | Some v \<Rightarrow> spec\<lparr>rs_Insecure := v\<rparr>);
         spec = (case rua_Repositories args of None \<Rightarrow> spec | Some v \<Rightarrow> spec\<lparr>rs_Repositories := v\<rparr>)
     in registry\<lparr>rg_Spec := spec\<rparr>)"

definition Server_updateRegistry :: "mcp_env \<Rightarrow> registryUpdateArgs \<Rightarrow> mcp_prog" where
  "Server_updateRegistry E args = do {
     let key = (rua_Namespace args, rua_Name args);
     r \<leftarrow> call (\<lambda>h. me_GetRegistry E h key) (MCGet ''Registry'' key);
     orToolError E ''getting registry'' r (\<lambda>registry. do {
       let registry = applyRegistryArgs args registry;
       u \<leftarrow> call (\<lambda>h. me_UpdateRegistry E h registry) (MCUpdateRegistry registry);
       orToolError E ''updating registry'' u (\<lambda>registry. jsonResult E (RespRegistry registry))
     })
   }"

definition Server_deleteRegistry :: "mcp_env \<Rightarrow> string \<Rightarrow> string \<Rightarrow> mcp_prog" where
  "Server_deleteRegistry E name namespace = do {
     r \<leftarrow> call (\<lambda>h. me_GetRegistry E h (namespace, name)) (MCGet ''Registry'' (namespace, name));
     orToolError E ''getting registry'' r (\<lambda>registry. do {
       d \<leftarrow> call (\<lambda>h. me_DeleteRegistry E h registry) (MCDeleteRegistry registry);
       orToolError E ''deleting registry'' d (\<lambda>_. jsonResult E (RespRegistry registry))
     })
   }"

definition scanJobFromArgs :: "string \<Rightarrow> string \<Rightarrow> string \<Rightarrow> ScanJob" where
  "scanJobFromArgs name namespace registry =
    \<lparr>sj_meta = empty_meta\<lparr>om_Name := name, om_Namespace := namespace\<rparr>,
     sj_Spec = \<lparr>sp_Registry = registry, sp_Repositories = []\<rparr>,
     sj_Status = \<lparr>ss_Conditions = [], ss_ImagesCount = 0, ss_ScannedImagesCount = 0,
                  ss_StartTime = None, ss_CompletionTime = None\<rparr>\<rparr>"

definition Server_createScanJob :: "mcp_env \<Rightarrow> string \<Rightarrow> string \<Rightarrow> string \<Rightarrow> mcp_prog" where
  "Server_createScanJob E name namespace registry = do {
     let job = scanJobFromArgs name namespace registry;
     r \<leftarrow> call (\<lambda>h. me_CreateScanJob E h job) (MCCreateScanJob job);
     orToolError E ''creating scan job'' r (\<lambda>job. jsonResult E (RespScanJob job))
   }"

definition Server_deleteScanJob :: "mcp_env \<Rightarrow> string \<Rightarrow> string \<Rightarrow> mcp_prog" where
  "Server_deleteScanJob E name namespace = do {
     r \<leftarrow> call (\<lambda>h. me_GetScanJob E h (namespace, name)) (MCGet ''ScanJob'' (namespace, name));
     orToolError E ''getting scan job'' r (\<lambda>job. do {
       d \<leftarrow> call (\<lambda>h. me_DeleteScanJob E h job) (MCDeleteScanJob job);
       orToolError E ''deleting scan job'' d (\<lambda>_. jsonResult E (RespScanJob job))
     })
   }"

definition nodeScanJobFromArgs :: "string \<Rightarrow> string \<Rightarrow> NodeScanJob" where
  "nodeScanJobFromArgs name nodeName =
    \<lparr>nj_meta = empty_meta\<lparr>om_Name := name\<rparr>, nj_Spec = \<lparr>np_NodeName = nodeName\<rparr>,
     nj_Status = \<lparr>ns_Conditions = [], ns_StartTime = None, ns_CompletionTime = None\<rparr>\<rparr>"

definition Server_createNodeScanJobs :: "mcp_env \<Rightarrow> string \<Rightarrow> string \<Rightarrow> mcp_prog" where
  "Server_createNodeScanJobs E name nodeName = do {
     let job = nodeScanJobFromArgs name nodeName;
     r \<leftarrow> call (\<lambda>h. me_CreateNodeScanJob E h job) (MCCreateNodeScanJob job);
     orToolError E ''creating NodeScanJobs'' r (\<lambda>job. jsonResult E (RespNodeScanJob job))
   }"

definition Server_createVEXHub :: "mcp_env \<Rightarrow> string \<Rightarrow> string \<Rightarrow> bool \<Rightarrow> mcp_prog" where
  "Server_createVEXHub E name url enabled = do {
     let hub = \<lparr>vh_Name = name, vh_URL = url, vh_Enabled = enabled\<rparr>;
     r \<leftarrow> call (\<lambda>h. me_CreateVEXHub E h hub) (MCCreateVEXHub hub);
     orToolError E ''creating VEXHub'' r (\<lambda>hub. jsonResult E (RespVEXHub hub))
   }"

definition applyVEXHubArgs :: "string option \<Rightarrow> bool option \<Rightarrow> VEXHub \<Rightarrow> VEXHub" where
  "applyVEXHubArgs url enabled hub =
    (let hub = (case url of None \<Rightarrow> hub | Some v \<Rightarrow> hub\<lparr>vh_URL := v\<rparr>)
     in case enabled of None \<Rightarrow> hub | Some v \<Rightarrow> hub\<lparr>vh_Enabled := v\<rparr>)"

definition Server_updateVEXHub :: "mcp_env \<Rightarrow> string \<Rightarrow> string option \<Rightarrow> bool option \<Rightarrow> mcp_prog" where
  "Server_updateVEXHub E name url enabled = do {
     r \<leftarrow> call (\<lambda>h. me_GetVEXHub E h ([], name)) (MCGet ''VEXHub'' ([], name));
     orToolError E ''getting VEXHub'' r (\<lambda>hub. do {
       let hub = applyVEXHubArgs url enabled hub;
       u \<leftarrow> call (\<lambda>h. me_UpdateVEXHub E h hub) (MCUpdateVEXHub hub);
       orToolError E ''updating VEXHub'' u (\<lambda>hub. jsonResult E (RespVEXHub hub))
     })
   }"

definition Server_deleteVEXHub :: "mcp_env \<Rightarrow> string \<Rightarrow> mcp_prog" where
  "Server_deleteVEXHub E name = do {
     r \<leftarrow> call (\<lambda>h. me_GetVEXHub E h ([], name)) (MCGet ''VEXHub'' ([], name));
     orToolError E ''getting VEXHub'' r (\<lambda>hub. do {
       d \<leftarrow> call (\<lambda>h. me_DeleteVEXHub E h hub) (MCDeleteVEXHub hub);
       orToolError E ''deleting VEXHub'' d (\<lambda>_. jsonResult E (RespVEXHub hub))
     })
   }"

section \<open>The server\<close>

datatype tool_request =
    ListRegistries string
  | GetRegistry string string
  | ListScanJobs string
  | GetScanJob string string
  | GetWorkloadScanConfiguration
  | ListVEXHubs
  | GetVEXHub string
  | ListImages string
  | GetImageVulnerabilities string string
  | GetImageVulnerabilitySummary string string
  | ListWorkloads string
  | GetWorkloadVulnerabilities string string
  | GetWorkloadVulnerabilitySummary string string
  | GetNodeScanConfiguration
  | ListNodeScanJobs
  | GetNodeScanJob string
  | ListNodes
  | GetNodeVulnerabilities string
  | GetNodeVulnerabilitySummary string
  | CreateRegistry registryCreateArgs
  | UpdateRegistry registryUpdateArgs
  | DeleteRegistry string string
  | CreateScanJob string string string
  | DeleteScanJob string string
  | CreateNodeScanJobs string string
  | CreateVEXHub string string bool
  | UpdateVEXHub string "string option" "bool option"
  | DeleteVEXHub string

text \<open>
  The table of a server: the handler of a request among the tools that were registered, the reading
  ones always and the writing ones unless the server is read-only.
\<close>

fun registerReadTools :: "mcp_env \<Rightarrow> tool_request \<Rightarrow> mcp_prog option" where
  "registerReadTools E (ListRegistries ns) = Some (Server_listRegistries E ns)"
| "registerReadTools E (GetRegistry n ns) = Some (Server_getRegistry E n ns)"
| "registerReadTools E (ListScanJobs ns) = Some (Server_listScanJobs E ns)"
| "registerReadTools E (GetScanJob n ns) = Some (Server_getScanJob E n ns)"
| "registerReadTools E GetWorkloadScanConfiguration = Some (Server_getWorkloadScanConfiguration E)"
| "registerReadTools E ListVEXHubs = Some (Server_listVEXHubs E)"
| "registerReadTools E (GetVEXHub n) = Some (Server_getVEXHub E n)"
| "registerReadTools E (ListImages ns) = Some (Server_listImages E ns)"
| "registerReadTools E (GetImageVulnerabilities n ns) = Some (Server_getImageVulnerabilities E n ns)"
| "registerReadTools E (GetImageVulnerabilitySummary n ns) = Some (Server_getImageVulnerabilitySummary E n ns)"
| "registerReadTools E (ListWorkloads ns) = Some (Server_listWorkloads E ns)"
| "registerReadTools E (GetWorkloadVulnerabilities n ns) = Some (Server_getWorkloadVulnerabilities E n ns)"
| "registerReadTools E (GetWorkloadVulnerabilitySummary n ns) = Some (Server_getWorkloadVulnerabilitySummary E n ns)"
| "registerReadTools E GetNodeScanConfiguration = Some (Server_getNodeScanConfiguration E)"
| "registerReadTools E ListNodeScanJobs = Some (Server_listNodeScanJobs E)"
| "registerReadTools E (GetNodeScanJob n) = Some (Server_getNodeScanJob E n)"
| "registerReadTools E ListNodes = Some (Server_listNodes E)"
| "registerReadTools E (GetNodeVulnerabilities n) = Some (Server_getNodeVulnerabilities E n)"
| "registerReadTools E (GetNodeVulnerabilitySummary n) = Some (Server_getNodeVulnerabilitySummary E n)"
| "registerReadTools E _ = None"

fun registerWriteTools :: "mcp_env \<Rightarrow> tool_request \<Rightarrow> mcp_prog option" where
  "registerWriteTools E (CreateRegistry args) = Some (Server_createRegistry E args)"
| "registerWriteTools E (UpdateRegistry args) = Some (Server_updateRegistry E args)"
| "registerWriteTools E (DeleteRegistry n ns) = Some (Server_deleteRegistry E n ns)"
| "registerWriteTools E (CreateScanJob n ns r) = Some (Server_createScanJob E n ns r)"
| "registerWriteTools E (DeleteScanJob n ns) = Some (Server_deleteScanJob E n ns)"
| "registerWriteTools E (CreateNodeScanJobs n node) = Some (Server_createNodeScanJobs E n node)"
| "registerWriteTools E (CreateVEXHub n url enabled) = Some (Server_createVEXHub E n url enabled)"
| "registerWriteTools E (UpdateVEXHub n url enabled) = Some (Server_updateVEXHub E n url enabled)"
| "registerWriteTools E (DeleteVEXHub n) = Some (Server_deleteVEXHub E n)"
| "registerWriteTools E _ = None"

definition NewServer :: "mcp_env \<Rightarrow> bool \<Rightarrow> tool_request \<Rightarrow> mcp_prog option" where
  "NewServer E readOnly request =
    (case registerReadTools E request of
       Some tool \<Rightarrow> Some tool
     | None \<Rightarrow> if readOnly then None else registerWriteTools E request)"

text \<open>The answers of \<open>os.ReadFile\<close> for the two files are the arguments.\<close>

definition readCredentials :: "string result \<Rightarrow> string result \<Rightarrow> (string \<times> string) result" where
  "readCredentials usernameFile passwordFile =
    (case usernameFile of
       Inl err \<Rightarrow> Inl (ErrorWrap ''failed to read username'' err)
     | Inr username \<Rightarrow>
         (case passwordFile of
            Inl err \<Rightarrow> Inl (ErrorWrap ''failed to read password'' err)
          | Inr password \<Rightarrow> Inr (TrimSpace username, TrimSpace password)))"

datatype http_answer = Unauthorized | Served "tool_result result"

text \<open>\<open>BasicAuth\<close> gives the user and the password of the request, if it has them.\<close>

definition requireBasicAuth ::
  "string \<times> string \<Rightarrow> (string \<times> string) option \<Rightarrow> (mcp_call, http_answer) prog \<Rightarrow> (mcp_call, http_answer) prog" where
  "requireBasicAuth credentials basicAuth next' =
    (case basicAuth of
       None \<Rightarrow> State_Monad.return Unauthorized
     | Some (u, p) \<Rightarrow>
         if u \<noteq> fst credentials \<or> p \<noteq> snd credentials then State_Monad.return Unauthorized else next')"

definition rateLimitMiddleware :: "bool \<Rightarrow> mcp_prog \<Rightarrow> mcp_prog" where
  "rateLimitMiddleware allow next' = (if \<not> allow then fail (ErrorNew ''rate limit exceeded'') else next')"

text \<open>
  One request to a running server.  The server runs only with credentials; the library answers a call
  of a tool that is not registered with an error.
\<close>

definition Server_serve ::
  "mcp_env \<Rightarrow> bool \<Rightarrow> (string \<times> string) result \<Rightarrow> (string \<times> string) option \<Rightarrow> bool \<Rightarrow> tool_request
    \<Rightarrow> (mcp_call, http_answer result) prog" where
  "Server_serve E readOnly credentials basicAuth allow request =
    (case credentials of
       Inl err \<Rightarrow> fail (ErrorWrap ''reading credentials'' err)
     | Inr cs \<Rightarrow> do {
         r \<leftarrow> requireBasicAuth cs basicAuth (do {
           r \<leftarrow> rateLimitMiddleware allow
             (case NewServer E readOnly request of None \<Rightarrow> fail (ErrorNew ''unknown tool'') | Some tool \<Rightarrow> tool);
           State_Monad.return (Served r)
         });
         ok r
       })"

end
