(* ===== verification/Mcp_Correct.thy ===== *)
theory Mcp_Correct
  imports Mcp_Server
begin

text \<open>
  The MCP server: what its vulnerability lists contain and in which order, and who gets what from it.
\<close>

section \<open>Vulnerability lists\<close>

abbreviation first_finding :: "Vulnerability list \<Rightarrow> string \<Rightarrow> Vulnerability option" where
  "first_finding vs cve \<equiv> find (\<lambda>v. vu_CVE v = cve) vs"

lemma simplify_CVE: "simplifyVulnerability parse v = Inr x \<Longrightarrow> sv_CVE x = vu_CVE v"
  by (auto simp: simplifyVulnerability_def map_sum_Inr_iff)

lemma highestScore_bound:
  assumes "highestScore parse cve entries highest = Inr r"
  shows "highest \<le> r
    \<and> (\<forall>(k, e) \<in> set entries. cv_V3Score e \<noteq> [] \<longrightarrow> (\<exists>s. parse (cv_V3Score e) = Inr s \<and> s \<le> r))"
  using assms
proof (induction entries arbitrary: highest)
  case (Cons ke entries)
  obtain k e where ke: "ke = (k, e)" by (cases ke)
  show ?case
  proof (cases "cv_V3Score e = []")
    case True
    with Cons ke show ?thesis by simp
  next
    case False
    with Cons.prems ke obtain s where s: "parse (cv_V3Score e) = Inr s"
      "highestScore parse cve entries (if s > highest then s else highest) = Inr r"
      by (auto split: sum.splits)
    with Cons.IH[OF s(2)] have "highest \<le> r" "s \<le> r" by (auto split: if_splits)
    with Cons.IH[OF s(2)] s(1) ke show ?thesis by simp
  qed
qed simp

lemma collectSeen_keys:
  assumes "collectSeen parse vs seen = Inr seen'" "distinct (map fst seen)"
  shows "distinct (map fst seen') \<and> fst ` set seen' = fst ` set seen \<union> vu_CVE ` set vs"
  using assms
proof (induction vs arbitrary: seen)
  case (Cons v vs)
  show ?case
  proof (cases "map_of seen (vu_CVE v)")
    case None
    then have new: "vu_CVE v \<notin> fst ` set seen" by (simp add: map_of_eq_None_iff)
    from Cons.prems(1) None obtain x where x: "collectSeen parse vs (seen @ [(vu_CVE v, x)]) = Inr seen'"
      by (auto split: sum.splits)
    from Cons.IH[OF x] Cons.prems(2) new show ?thesis by simp
  next
    case (Some y)
    then have old: "vu_CVE v \<in> fst ` set seen"
      using map_of_SomeD[OF Some] by (metis fst_conv imageI)
    from Cons.prems(1) Some have "collectSeen parse vs seen = Inr seen'" by simp
    from Cons.IH[OF this Cons.prems(2)] old show ?thesis by (simp add: insert_absorb)
  qed
qed simp

lemma collectSeen_keeps:
  assumes "collectSeen parse vs seen = Inr seen'" "map_of seen c = Some x"
  shows "map_of seen' c = Some x"
  using assms
proof (induction vs arbitrary: seen)
  case (Cons v vs)
  then show ?case by (auto split: if_splits sum.splits)
qed simp

lemma collectSeen_first:
  assumes "collectSeen parse vs seen = Inr seen'" "map_of seen c = None" "map_of seen' c = Some x"
  shows "\<exists>v. first_finding vs c = Some v \<and> simplifyVulnerability parse v = Inr x"
  using assms
proof (induction vs arbitrary: seen)
  case (Cons v vs)
  show ?case
  proof (cases "vu_CVE v = c")
    case True
    with Cons.prems obtain y where y: "simplifyVulnerability parse v = Inr y"
      "collectSeen parse vs (seen @ [(c, y)]) = Inr seen'"
      by (auto split: sum.splits)
    have "map_of (seen @ [(c, y)]) c = Some y" using Cons.prems(2) by (simp add: map_add_def)
    from collectSeen_keeps[OF y(2) this] Cons.prems(3) y(1) True show ?thesis by simp
  next
    case False
    have "\<exists>seen''. collectSeen parse vs seen'' = Inr seen' \<and> map_of seen'' c = None"
    proof (cases "map_of seen (vu_CVE v)")
      case None
      with Cons.prems(1) obtain y where "collectSeen parse vs (seen @ [(vu_CVE v, y)]) = Inr seen'"
        by (auto split: sum.splits)
      then show ?thesis
        using Cons.prems(2) False by (intro exI[of _ "seen @ [(vu_CVE v, y)]"]) (simp add: map_add_def)
    qed (use Cons.prems in auto)
    with Cons.IH Cons.prems(3) False show ?thesis by auto
  qed
qed simp

lemma moreSevere_iff: "moreSevere a b \<longleftrightarrow> severityRank (sv_Severity b) < severityRank (sv_Severity a)
    \<or> severityRank (sv_Severity a) = severityRank (sv_Severity b) \<and> sv_CVSSScore b < sv_CVSSScore a"
  by (auto simp: moreSevere_def)

lemma moreSevere_strict: "strict_weak moreSevere"
  unfolding strict_weak_def moreSevere_iff by (intro conjI allI impI) linarith+

abbreviation report_findings :: "Report \<Rightarrow> Vulnerability list" where
  "report_findings report \<equiv> concat (map re_Vulnerabilities (rp_Results report))"

definition scores_below :: "mcp_env \<Rightarrow> Vulnerability \<Rightarrow> rat \<Rightarrow> bool" where
  "scores_below E v highest \<longleftrightarrow> (\<forall>(k, e) \<in> set (vu_CVSS v).
     cv_V3Score e \<noteq> [] \<longrightarrow> (\<exists>s. me_ParseFloat E (cv_V3Score e) = Inr s \<and> s \<le> highest))"

lemma simplify_score:
  assumes "simplifyVulnerability (me_ParseFloat E) v = Inr x"
  shows "scores_below E v (sv_CVSSScore x)"
proof -
  from assms obtain r where "highestScore (me_ParseFloat E) (vu_CVE v) (vu_CVSS v) 0 = Inr r" "sv_CVSSScore x = r"
    by (auto simp: simplifyVulnerability_def map_sum_Inr_iff)
  with highestScore_bound[OF this(1)] show ?thesis by (simp add: scores_below_def)
qed

lemma collectFindings_seen:
  assumes "sorter_contract (me_sort E)" "\<And>xs. mset (me_range E xs) = mset xs" "collectFindings E vs = Inr out"
  obtains seen where "collectSeen (me_ParseFloat E) vs [] = Inr seen" "mset out = mset (map snd seen)"
    "sorted_wrt (\<lambda>x y. \<not> moreSevere y x) out"
proof -
  from assms(3) obtain seen where seen: "collectSeen (me_ParseFloat E) vs [] = Inr seen"
    "out = me_sort E moreSevere (me_range E (map snd seen))"
    by (auto simp: collectFindings_def sortVulnerabilities_def map_sum_Inr_iff)
  have "mset out = mset (map snd seen) \<and> sorted_wrt (\<lambda>x y. \<not> moreSevere y x) out"
    using assms(1,2) moreSevere_strict unfolding sorter_contract_def seen(2) by simp
  with seen(1) that show thesis by blast
qed

lemma seen_CVEs:
  assumes "collectSeen parse vs [] = Inr seen"
  shows "map sv_CVE (map snd seen) = map fst seen"
    and "x \<in> set (map snd seen)
      \<Longrightarrow> \<exists>v. first_finding vs (sv_CVE x) = Some v \<and> simplifyVulnerability parse v = Inr x"
proof -
  have dist: "distinct (map fst seen)" using collectSeen_keys[OF assms] by simp
  have first: "\<exists>v. first_finding vs c = Some v \<and> simplifyVulnerability parse v = Inr y" if "(c, y) \<in> set seen" for c y
    using collectSeen_first[OF assms, of c y] map_of_is_SomeI[OF dist that] by simp
  have cve: "sv_CVE y = c" if "(c, y) \<in> set seen" for c y
    using first[OF that] by (auto simp: find_Some_iff dest!: simplify_CVE)
  then show "map sv_CVE (map snd seen) = map fst seen" by auto
  show "\<exists>v. first_finding vs (sv_CVE x) = Some v \<and> simplifyVulnerability parse v = Inr x"
    if "x \<in> set (map snd seen)"
    using that first cve by auto
qed


section \<open>Access\<close>

fun reading :: "mcp_call \<Rightarrow> bool" where
  "reading (MCList _ _) = True"
| "reading (MCGet _ _) = True"
| "reading _ = False"

lemma orToolError_emits: "(\<And>x. emits P (k x)) \<Longrightarrow> emits P (orToolError E what r k)"
  by (auto simp: orToolError_def toolError_def intro!: emits_intros split: sum.split)

lemma jsonResult_emits: "emits P (jsonResult E obj)"
  unfolding jsonResult_def by (intro emits_intros)

lemmas tool_emits = orToolError_emits jsonResult_emits emits_intros

lemma read_tools_emits: "registerReadTools E request = Some tool \<Longrightarrow> emits reading tool"
  by (cases request)
    (auto intro!: tool_emits simp: Server_listRegistries_def Server_getRegistry_def Server_listScanJobs_def
      Server_getScanJob_def Server_getWorkloadScanConfiguration_def Server_listVEXHubs_def Server_getVEXHub_def
      Server_listImages_def Server_getImageVulnerabilities_def Server_getImageVulnerabilitySummary_def
      Server_listWorkloads_def Server_getWorkloadVulnerabilities_def Server_getWorkloadVulnerabilitySummary_def
      Server_getNodeScanConfiguration_def Server_listNodeScanJobs_def Server_getNodeScanJob_def Server_listNodes_def
      Server_getNodeVulnerabilities_def Server_getNodeVulnerabilitySummary_def
      getClusterScoped_def listNamespaced_def getNamespaced_def)

lemma writers_emits:
  "emits (\<lambda>_. True) (Server_createRegistry E rca)" "emits (\<lambda>_. True) (Server_updateRegistry E rua)"
  "emits (\<lambda>_. True) (Server_deleteRegistry E n ns)" "emits (\<lambda>_. True) (Server_createScanJob E n ns r)"
  "emits (\<lambda>_. True) (Server_deleteScanJob E n ns)" "emits (\<lambda>_. True) (Server_createNodeScanJobs E n node)"
  "emits (\<lambda>_. True) (Server_createVEXHub E n url on)" "emits (\<lambda>_. True) (Server_updateVEXHub E n url' on')"
  "emits (\<lambda>_. True) (Server_deleteVEXHub E n)"
  unfolding Server_createRegistry_def Server_updateRegistry_def Server_deleteRegistry_def
    Server_createScanJob_def Server_deleteScanJob_def Server_createNodeScanJobs_def Server_createVEXHub_def
    Server_updateVEXHub_def Server_deleteVEXHub_def Let_def
  by (intro tool_emits TrueI)+

lemma write_tools_emits: "registerWriteTools E request = Some tool \<Longrightarrow> emits (\<lambda>_. True) tool"
  by (cases request) (auto simp only: registerWriteTools.simps option.inject option.distinct writers_emits)

lemma registered_tool_emits:
  "emits (\<lambda>c. readOnly \<longrightarrow> reading c)
    (case NewServer E readOnly request of None \<Rightarrow> fail e | Some tool \<Rightarrow> tool)"
proof (cases "NewServer E readOnly request")
  case (Some tool)
  have "emits (\<lambda>c. readOnly \<longrightarrow> reading c) tool"
  proof (cases "registerReadTools E request")
    case None
    with Some have "\<not> readOnly" "registerWriteTools E request = Some tool"
      by (auto simp: NewServer_def split: if_splits)
    from write_tools_emits[OF this(2)] this(1) show ?thesis by simp
  next
    case (Some tool')
    with \<open>NewServer E readOnly request = Some tool\<close> have "registerReadTools E request = Some tool"
      by (simp add: NewServer_def)
    from read_tools_emits[OF this] show ?thesis by (rule emits_mono) simp
  qed
  with Some show ?thesis by simp
qed simp

text \<open>
  C39: Who reaches the cluster through the MCP server.  A request makes the server call the API server only
  if the credentials could be read, the request carries them, and the rate limiter lets it pass; and a
  read-only server only lists and gets, whatever tool is asked for.
\<close>

theorem mcp_access_control:
  assumes "c \<in> set (calls (Server_serve E readOnly credentials basicAuth allow request))"
  shows "(\<exists>cs. credentials = Inr cs \<and> basicAuth = Some cs) \<and> allow \<and> (readOnly \<longrightarrow> reading c)"
proof (cases "(\<exists>cs. credentials = Inr cs \<and> basicAuth = Some cs) \<and> allow")
  case True
  then obtain u p where cs: "credentials = Inr (u, p)" "basicAuth = Some (u, p)" "allow" by auto
  have "emits (\<lambda>c. readOnly \<longrightarrow> reading c) (Server_serve E readOnly credentials basicAuth allow request)"
    using cs(3) unfolding Server_serve_def requireBasicAuth_def rateLimitMiddleware_def cs(1,2) sum.case option.case
      prod.case fst_conv snd_conv
    by (simp del: option.case) (intro emits_bind emits_return registered_tool_emits)
  from emits_calls[OF this assms] True show ?thesis by blast
next
  case False
  have "emits (\<lambda>_. False) (Server_serve E readOnly credentials basicAuth allow request)"
  proof (cases credentials)
    case (Inr cs)
    have "emits (\<lambda>_. False) (requireBasicAuth cs basicAuth
        (rateLimitMiddleware allow m \<bind> (\<lambda>r. State_Monad.return (Served r))))" for m
    proof (cases "basicAuth = Some cs")
      case True
      with False Inr have "\<not> allow" by blast
      then show ?thesis
        unfolding True rateLimitMiddleware_def by (simp add: requireBasicAuth_def split_beta emits_bind)
    next
      case False
      then have "requireBasicAuth cs basicAuth n = State_Monad.return Unauthorized" for n
        by (cases cs) (auto simp: requireBasicAuth_def split: option.split)
      then show ?thesis by simp
    qed
    with Inr show ?thesis by (simp add: Server_serve_def emits_bind)
  qed (simp add: Server_serve_def)
  from emits_calls[OF this assms] show ?thesis ..
qed

section \<open>Witnesses\<close>

definition finding :: "string \<Rightarrow> string \<Rightarrow> string \<Rightarrow> bool \<Rightarrow> Vulnerability" where
  "finding cve package severity suppressed =
    \<lparr>vu_CVE = cve, vu_Title = [], vu_PackageName = package, vu_PackagePath = [], vu_PURL = [], vu_InstalledVersion = [],
     vu_FixedVersions = [], vu_DiffID = [], vu_Description = [], vu_Severity = severity, vu_SeveritySource = [],
     vu_References = [], vu_CVSS = [(''nvd'', \<lparr>cv_V3Vector = [], cv_V3Score = ''7''\<rparr>)], vu_CWEs = [],
     vu_Suppressed = suppressed, vu_VEXStatus = None\<rparr>"

definition sample_findings :: Report where
  "sample_findings = \<lparr>rp_Summary = empty_summary, rp_Results = [\<lparr>re_Target = [], re_Class = [], re_Type = [],
     re_Vulnerabilities = [finding ''CVE-1'' ''a'' SeverityHigh True, finding ''CVE-2'' ''b'' SeverityCritical False,
       finding ''CVE-1'' ''c'' SeverityHigh False]\<rparr>]\<rparr>"

definition sample_mcp_env :: mcp_env where
  "sample_mcp_env =
    \<lparr>me_ParseFloat = (\<lambda>s. Inr (of_nat (length s))), me_sort = insertion_sorter, me_range = rev,
     me_marshal = (\<lambda>r. Inr ''json''), me_errorText = (\<lambda>e. ''error''),
     me_ListRegistries = (\<lambda>h n. Inr []), me_GetRegistry = (\<lambda>h k. Inl (ErrorNew ''none'')),
     me_CreateRegistry = (\<lambda>h. Inr), me_UpdateRegistry = (\<lambda>h. Inr), me_DeleteRegistry = (\<lambda>h r. Inr ()),
     me_ListScanJobs = (\<lambda>h n. Inr []), me_GetScanJob = (\<lambda>h k. Inl (ErrorNew ''none'')), me_CreateScanJob = (\<lambda>h. Inr),
     me_DeleteScanJob = (\<lambda>h j. Inr ()), me_GetWorkloadConfig = (\<lambda>h k. Inl (ErrorNew ''none'')),
     me_ListVEXHubs = (\<lambda>h n. Inr []), me_GetVEXHub = (\<lambda>h k. Inl (ErrorNew ''none'')), me_CreateVEXHub = (\<lambda>h. Inr),
     me_UpdateVEXHub = (\<lambda>h. Inr), me_DeleteVEXHub = (\<lambda>h v. Inr ()), me_ListReports = (\<lambda>h n. Inr []),
     me_GetReport = (\<lambda>h k. Inl (ErrorNew ''none'')), me_ListWorkloadReports = (\<lambda>h n. Inr []),
     me_GetWorkloadReport = (\<lambda>h k. Inl (ErrorNew ''none'')), me_GetNodeConfig = (\<lambda>h k. Inl (ErrorNew ''none'')),
     me_ListNodeScanJobs = (\<lambda>h n. Inr []), me_GetNodeScanJob = (\<lambda>h k. Inl (ErrorNew ''none'')),
     me_CreateNodeScanJob = (\<lambda>h. Inr), me_ListNodeReports = (\<lambda>h n. Inr []),
     me_GetNodeReport = (\<lambda>h k. Inl (ErrorNew ''none''))\<rparr>"

definition listed_findings :: "simplifiedVulnerability list" where
  "listed_findings = map (\<lambda>v. projr (simplifyVulnerability (me_ParseFloat sample_mcp_env) v))
     [finding ''CVE-2'' ''b'' SeverityCritical False, finding ''CVE-1'' ''a'' SeverityHigh True]"


theorem mcp_access_control_witness:
  "MCList ''Registry'' ''ns'' \<in> set (calls (Server_serve sample_mcp_env True (Inr (''u'', ''p'')) (Some (''u'', ''p''))
     True (ListRegistries ''ns''))) \<and> reading (MCList ''Registry'' ''ns'')"
proof -
  have "MCList ''Registry'' ''ns'' \<in> set (calls (Server_serve sample_mcp_env True (Inr (''u'', ''p''))
      (Some (''u'', ''p'')) True (ListRegistries ''ns'')))"
    by code_simp
  with mcp_access_control[OF this] show ?thesis by blast
qed

text \<open>
  Only the first finding of a CVE counts: a CVE that is suppressed for the first package is listed and
  counted as suppressed although another package has it unsuppressed.
\<close>

lemma suppressed_first_hides:
  "map_sum id (\<lambda>out. (su_High (summaryFromSimplified out), su_Suppressed (summaryFromSimplified out)))
     (collectSimplifiedVulnerabilitiesFromReport sample_mcp_env sample_findings) = Inr (0, 1)"
  "list_ex (\<lambda>v. vu_Severity v = SeverityHigh \<and> \<not> vu_Suppressed v) (report_findings sample_findings)"
  by code_simp+

end
