(* ===== verification/Spec2Isabelle.thy ===== *)
theory Spec2Isabelle
  imports Registry_Runner Catalog_Correct Storage_Listing Reports_Correct Sbom_Correct Messaging
    Workload_Correct Image_Workloads Node_Handlers_Correct Webhooks_Correct Mcp_Correct
begin

text \<open>
  Verification of SBOMscanner (\<open>src/\<close>), which scans the container images and the nodes of a Kubernetes
  cluster for vulnerabilities.

  \<^bold>\<open>The program.\<close>  A controller process watches Registries, ScanJobs, pods and nodes, and serves the
  admission webhooks.  It sends work to a worker process over NATS.  The worker catalogues registries,
  runs Trivy on images and nodes, and writes Images, SBOMs and reports to a storage server, an
  aggregated API server over PostgreSQL that announces changes to its watchers.  An MCP server lets
  assistants read the reports and write some resources.

  \<^bold>\<open>How code is modelled.\<close>  Structs are records, enumerations datatypes, a Go error is a value of
  \<open>error\<close> and a fallible function returns \<open>'a result = error + 'a\<close>, so every error return is a branch.
  Code with effects is a program \<open>('c, 'a) prog\<close> that records its calls; the environment of a
  component, a record such as \<open>sbom_env\<close>, answers each call from the calls made so far.  A statement
  over all environments therefore covers every answer of the API server, of NATS and of Trivy, their
  failures included, and every interleaving in which those answers change between two calls.  Code
  outside \<open>src/\<close> is such a field; what is relied on is a named contract (\<open>retrier_contract\<close>,
  \<open>sorter_contract\<close>, \<open>meta_contract\<close>, \<open>owner_contract\<close>, \<open>report_contract\<close>), with an instance that
  meets it.

  \<^bold>\<open>Prelude and types.\<close>  \<open>Prelude\<close> has errors, strings, maps, sorting, programs and the rules for them:
  \<open>emits\<close> (every call satisfies a predicate), \<open>yields\<close> (so does the result), \<open>traces\<close> and \<open>guarded\<close> (a
  call is justified by the calls before it).  \<open>Api_Types\<close> is \<open>src/api\<close>; \<open>Strconv\<close> the decimal
  conversions, with their round trips; \<open>Telemetry\<close> the trace context on annotations.

  \<^bold>\<open>Jobs.\<close>  \<open>Job_Lifecycle\<close> (\<open>api/v1alpha1/scanjob_types.go\<close>, \<open>nodescanjob_types.go\<close>, \<open>job.go\<close>): after
  every operation a job is in exactly one phase; one locale, \<open>conditioned_job\<close>, serves both kinds.
  \<open>Registry_Runner\<close> (\<open>controller/registry_scan_runner.go\<close>): when a registry is scanned and what the
  collected rescan requests ask for.  \<open>ScanJob_Controller\<close> (\<open>controller/scanjob_controller.go\<close>,
  \<open>vulnerabilityreport_controller.go\<close>, \<open>handlers/messages.go\<close>): which status is persisted and why, which
  jobs are deleted, and that completion is counted once.

  \<^bold>\<open>Worker.\<close>  \<open>Filters\<close> (\<open>cel\<close>, \<open>filters\<close>, \<open>skippatterns\<close>), \<open>Registry_Client\<close> (registry client, CA
  bundles, credentials), \<open>Catalog\<close> and \<open>Catalog_Correct\<close> (\<open>create_catalog.go\<close>): only allowed images are
  created, only obsolete ones deleted, and every image is asked to be scanned.  \<open>Sbom_Handlers\<close>,
  \<open>Trivy_Report\<close> and \<open>Sbom_Correct\<close> (\<open>generate_sbom.go\<close>, \<open>scan_sbom.go\<close>, \<open>scanjob_failure.go\<close>,
  \<open>trivyreport\<close>): what is generated and reported belongs to the job, and reports are consistent.
  \<open>Messaging\<close> (\<open>messaging/subscriber.go\<close>): every message is acknowledged in the end, and the bounds of
  the delay before a redelivery.

  \<^bold>\<open>Workloads and nodes.\<close>  \<open>Workload_Scan\<close>, \<open>Workload_Correct\<close> (\<open>controller/workloadscan_*.go\<close>): the
  registries and reports written follow the pods.  \<open>Image_Workloads\<close>
  (\<open>controller/image_workloadscan_*.go\<close>): an image names the workloads that use it.  \<open>Node_Scan\<close>,
  \<open>Node_Correct\<close> (\<open>controller/nodescan*.go\<close>) and \<open>Node_Handlers\<close>, \<open>Node_Handlers_Correct\<close>
  (\<open>generate_node_sbom.go\<close>, \<open>node_scan_sbom.go\<close>, \<open>nodescanjob_failure.go\<close>): the same for nodes.

  \<^bold>\<open>Storage server.\<close>  \<open>Storage\<close>, \<open>Storage_Correct\<close>, \<open>Storage_Properties\<close>, \<open>Storage_Listing\<close>
  (\<open>storage/store.go\<close>, \<open>watcher.go\<close>, \<open>repository\<close>): the store refines a map with versions, pages add up
  to the list, updates return, and a created object reaches the watchers.  The locales \<open>postgres\<close> and
  \<open>object_store\<close> have what is relied on in the database and the codec.  \<open>Reports\<close>, \<open>Reports_Correct\<close>
  (\<open>workloadscanreport_repository.go\<close>, \<open>summary.go\<close>): batched reads equal single reads, and findings are
  counted once; the locale \<open>report_queries\<close> has the laws of the queries.

  \<^bold>\<open>Admission.\<close>  \<open>Webhooks\<close>, \<open>Webhooks_Correct\<close> (\<open>webhook/v1alpha1\<close>, \<open>apiserver/admission\<close>): the
  validators and defaulters, and what they keep over every sequence of writes.  The locales
  \<open>guarded_resource\<close> and \<open>locked_resource\<close> say which laws of a validator protect a part of an object from
  other users; Registries and ScanJobs are their instances.

  \<^bold>\<open>MCP server.\<close>  \<open>Mcp_Server\<close>, \<open>Mcp_Correct\<close> (\<open>mcp\<close>): the tools, who may call them, and what a list of
  vulnerabilities contains.

  \<^bold>\<open>Across components.\<close>  This theory follows an image from a pod to the catalog and to the targets of
  a job, and a registry snapshot from admission to the credentials that the worker reads.

  \<^bold>\<open>Loops.\<close>  Loops over slices are structural.  The update loop of the store and the redeliveries of a
  message may run forever: they are \<open>partial_function (option)\<close>, and that they return is proved as
  such.  Retries are bounded by the contract of the retrier; there is no fuel.

  \<^bold>\<open>Simplifications.\<close>  The texts of some errors and log messages are shortened.  \<open>TrimSpace\<close> and
  \<open>ToLower\<close> treat ASCII.  A nil map or slice is the empty one where the code does not tell them
  apart.  A map is an association list in the order in which a range visits it.  Counters and the limit
  of a list are unbounded integers, and scores are rational numbers.  Managed fields are omitted.  One
  operation of the store runs without other database sessions in between, and the writes behind
  admission are handled one after the other.

  \<^bold>\<open>Not modelled.\<close>  The executables, the start of servers and the registration of controllers, webhooks
  and plugins, which only connect the parts above to libraries; generated clients, informers, deep
  copies and OpenAPI; spans, metrics and logs, apart from the counters that a property mentions; the
  wiring of the generic registry, table columns and schema migrations; the strategies without a check
  of their own; the NATS publisher, which is a call in the traces; the transformations of the caches,
  which remove fields that the records here do not have; mocks and development tools.
\<close>

section \<open>From a pod to the catalog\<close>

definition reference_of :: "'ast catalog_env \<Rightarrow> bool \<Rightarrow> RepositoryName \<Rightarrow> string \<Rightarrow> string result" where
  "reference_of C insecure repo tag =
    (if HasPrefix tag ''sha256:'' then ce_NewDigest C insecure (rn_Name repo @ ''@'' @ tag)
     else ce_NewTag C insecure (rn_Name repo @ '':'' @ tag))"

lemma workloadReferences_tags:
  assumes "ce_quote C = we_quote E" "\<forall>c \<in> set cs. \<exists>tag. tag_condition E tag c"
    "\<And>tag. reference_of C (nameOptions registry) repo tag = Inr (name tag)"
  shows "\<exists>refs. workloadReferences C registry repo cs acc hasDigest
      = Inr (if hasDigest \<or> (\<exists>c \<in> set cs. \<exists>tag. tag_condition E tag c \<and> HasPrefix tag ''sha256:'')
             then Some (sort refs) else None)
    \<and> set refs = set acc \<union> name ` {tag. \<exists>c \<in> set cs. tag_condition E tag c}"
  using assms(2)
proof (induction cs arbitrary: acc hasDigest)
  case (Cons c cs)
  then obtain tag where tag: "tag_condition E tag c" by auto
  then have only: "tag_condition E t c \<longleftrightarrow> t = tag" for t by (auto simp: tag_condition_def)
  let ?digest = "HasPrefix tag ''sha256:''"
  have step: "workloadReferences C registry repo (c # cs) acc hasDigest
      = workloadReferences C registry repo cs (List.insert (name tag) acc) (hasDigest \<or> ?digest)"
  proof -
    have "mc_Name c = ''tag-'' @ tag" "mc_Expression c = ''tag == '' @ ce_quote C tag"
      using tag assms(1) by (simp_all add: tag_condition_def)
    then show ?thesis
      using assms(3)[of tag] by (simp only: workloadReferences.simps(2) Let_def HasPrefix_append TrimPrefix_append
          simp_thms if_False reference_of_def[symmetric] sum.case)
  qed
  have "\<exists>refs. workloadReferences C registry repo cs (List.insert (name tag) acc) (hasDigest \<or> ?digest)
      = Inr (if (hasDigest \<or> ?digest) \<or> (\<exists>c \<in> set cs. \<exists>tag. tag_condition E tag c \<and> HasPrefix tag ''sha256:'')
             then Some (sort refs) else None)
    \<and> set refs = set (List.insert (name tag) acc) \<union> name ` {tag. \<exists>c \<in> set cs. tag_condition E tag c}"
    by (rule Cons.IH) (use Cons.prems in simp)
  moreover have "(\<exists>x \<in> set (c # cs). \<exists>t. tag_condition E t x \<and> HasPrefix t ''sha256:'')
      \<longleftrightarrow> ?digest \<or> (\<exists>x \<in> set cs. \<exists>t. tag_condition E t x \<and> HasPrefix t ''sha256:'')"
    "{t. \<exists>x \<in> set (c # cs). tag_condition E t x} = insert tag {t. \<exists>x \<in> set cs. tag_condition E t x}"
    by (auto simp: only)
  ultimately show ?case unfolding step by (simp only: disj_assoc) simp
qed auto

lemma contributing_repository:
  assumes "contributes rs (tagCondition E repository tag) n"
  obtains rp c where "rp \<in> set rs" "rp_Name rp = repository" "c \<in> set (rp_MatchConditions rp)" "tag_condition E tag c"
  using assms unfolding contributes_def conditionKey_def tagCondition_def tag_condition_def by auto

lemma GetRepository_unique:
  assumes "distinct (map rp_Name (rs_Repositories (rg_Spec r)))" "rp \<in> set (rs_Repositories (rg_Spec r))"
    "\<not> HasPrefix (rp_Name rp) ''library/'' \<or> rs_URI (rg_Spec r) \<noteq> D"
  shows "GetRepository D r (rp_Name rp) = Some rp"
proof -
  obtain rp' where rp': "GetRepository D r (rp_Name rp) = Some rp'"
    using GetRepository_found[OF assms(2) refl] by fastforce
  have "rp_Name rp' = rp_Name rp"
    using GetRepository_Some(2)[OF rp'] assms(3) unfolding HasPrefix_iff by metis
  then have "rp' = rp"
    using GetRepository_Some(1)[OF rp'] assms(1,2) by (auto simp: distinct_map dest: inj_onD)
  with rp' show ?thesis by simp
qed

lemma catalogued_reference:
  assumes "IsManagedByWorkloadScan r" "workload_wf E (rs_Repositories (rg_Spec r))"
    "contributes (rs_Repositories (rg_Spec r)) (tagCondition E (rn_RepositoryStr repo) tag) n"
    "HasPrefix tag ''sha256:''" "ce_quote C = we_quote E"
    "\<not> HasPrefix (rn_RepositoryStr repo) ''library/'' \<or> rs_URI (rg_Spec r) \<noteq> ce_DefaultRegistry C"
    "\<And>insecure tag. reference_of C insecure repo tag = Inr (name tag)"
  shows "\<exists>refs. workloadRepositoryReferences C r repo = Inr (Some refs) \<and> name tag \<in> set refs"
proof -
  obtain rp c where rp: "rp \<in> set (rs_Repositories (rg_Spec r))" "rp_Name rp = rn_RepositoryStr repo"
    and c: "c \<in> set (rp_MatchConditions rp)" "tag_condition E tag c"
    using contributing_repository[OF assms(3)] .
  have found: "GetRepository (ce_DefaultRegistry C) r (rn_RepositoryStr repo) = Some rp"
    using GetRepository_unique[of r rp] assms(2,6) rp unfolding workload_wf_def by simp
  have wf: "workload_repository E rp" using assms(2) rp(1) by (simp add: workload_wf_def)
  obtain refs where "workloadReferences C r repo (rp_MatchConditions rp) [] False
      = Inr (if False \<or> (\<exists>c \<in> set (rp_MatchConditions rp). \<exists>tag. tag_condition E tag c \<and> HasPrefix tag ''sha256:'')
             then Some (sort refs) else None)"
    "set refs = set [] \<union> name ` {tag. \<exists>c \<in> set (rp_MatchConditions rp). tag_condition E tag c}"
    using workloadReferences_tags[OF assms(5), of "rp_MatchConditions rp" r repo name "[]" False] wf assms(7)
    unfolding workload_repository_def by blast
  then have "workloadReferences C r repo (rp_MatchConditions rp) [] False = Inr (Some (sort refs))" "name tag \<in> set refs"
    using c assms(4) by auto
  then show ?thesis
    unfolding workloadRepositoryReferences_def found using assms(1) wf by (simp add: workload_repository_def)
qed



section \<open>From a new image to the targets of a job\<close>

text \<open>The scan runner asks for the condition: in a full scan, or in a target for its repository.\<close>

definition requests_condition :: "(string \<Rightarrow> RescanRequest option) \<Rightarrow> Registry \<Rightarrow> matchConditionKey \<Rightarrow> bool" where
  "requests_condition unmarshal r k \<longleftrightarrow>
    (case collectRescanRequests unmarshal r of (_, targets, everything) \<Rightarrow>
       everything \<or> (\<exists>t \<in> set targets. sr_Name t = mk_repository k
         \<and> (sr_MatchConditions t = [] \<or> mk_name k \<in> set (sr_MatchConditions t))))"

lemma buildRescanRequest_covers:
  assumes "k \<in> set keys"
  shows "\<exists>t \<in> set (rr_Repositories (buildRescanRequest keys)).
    sr_Name t = mk_repository k \<and> mk_name k \<in> set (sr_MatchConditions t)"
proof -
  define byRepo where "byRepo = fold (\<lambda>key acc. AList.update (mk_repository key)
      (List.insert (mk_name key) (case map_of acc (mk_repository key) of None \<Rightarrow> [] | Some cs \<Rightarrow> cs)) acc) keys []"
  have step: "fold (\<lambda>key acc. AList.update (mk_repository key)
      (List.insert (mk_name key) (case map_of acc (mk_repository key) of None \<Rightarrow> [] | Some cs \<Rightarrow> cs)) acc) ks acc
      = fold (\<lambda>key acc. AList.update (mk_repository key)
          (List.insert (mk_name key) (lookup_list acc (mk_repository key))) acc) ks acc" for ks acc
    by (simp add: lookup_list_def)
  have entries: "nm \<in> set (lookup_list (fold (\<lambda>key acc. AList.update (mk_repository key)
          (List.insert (mk_name key) (lookup_list acc (mk_repository key))) acc) ks acc) rp)
      \<longleftrightarrow> nm \<in> set (lookup_list acc rp) \<or> (\<exists>k \<in> set ks. mk_repository k = rp \<and> mk_name k = nm)" for nm rp ks acc
    by (induction ks arbitrary: acc) auto
  have "mk_name k \<in> set (lookup_list byRepo (mk_repository k))"
    unfolding byRepo_def step entries using assms by blast
  then obtain cs where cs: "map_of byRepo (mk_repository k) = Some cs" "mk_name k \<in> set cs"
    by (cases "map_of byRepo (mk_repository k)") (auto simp: lookup_list_def)
  then have "mk_repository k \<in> fst ` set byRepo"
    using map_of_SomeD[OF cs(1)] by force
  with cs show ?thesis
    unfolding buildRescanRequest_def Let_def byRepo_def[symmetric]
    by (auto intro!: bexI[of _ "mk_repository k"])
qed

lemma union_targets_covers:
  assumes "finite es" "t \<in> es" "nm \<in> set (sr_MatchConditions t)" "\<And>t. t \<in> es \<Longrightarrow> finite (set (sr_MatchConditions t))"
  shows "\<exists>t' \<in> set (union_targets es). sr_Name t' = sr_Name t
    \<and> (sr_MatchConditions t' = [] \<or> nm \<in> set (sr_MatchConditions t'))"
proof -
  have "finite (requested_conditions es (sr_Name t))"
    unfolding requested_conditions_def using assms(1) by auto
  moreover have "nm \<in> requested_conditions es (sr_Name t)"
    unfolding requested_conditions_def using assms(2,3) by auto
  moreover have "sr_Name t \<in> set (sorted_list_of_set (sr_Name ` es))"
    using assms(1,2) by simp
  ultimately show ?thesis
    unfolding union_targets_def by (auto intro!: bexI[of _ "sr_Name t"])
qed

lemma rescan_added_requests:
  assumes "rescan_added E config r r'" "wc_ScanOnChange (wsc_Spec config)"
    "k \<in> set (extractMatchConditionsFromRegistry r') - set (extractMatchConditionsFromRegistry r)"
    "\<And>req payload. we_marshalRescan E req = Inr payload \<Longrightarrow> payload \<noteq> [] \<and> unmarshal payload = Some req"
  shows "requests_condition unmarshal r' k"
proof -
  let ?added = "set (extractMatchConditionsFromRegistry r') - set (extractMatchConditionsFromRegistry r)"
  have "?added \<noteq> {}" using assms(3) by blast
  then obtain uuid payload keys where keys: "set keys = ?added"
    "we_marshalRescan E (buildRescanRequest keys) = Inr payload"
    and meta: "rg_meta r' = (rg_meta r)\<lparr>om_Annotations :=
      AList.update (NewRescanRequestedAnnotationKey uuid) payload (om_Annotations (rg_meta r))\<rparr>"
    using assms(1,2) unfolding rescan_added_def Let_def by auto
  let ?key = "NewRescanRequestedAnnotationKey uuid" and ?ann = "om_Annotations (rg_meta r')"
  let ?observed = "filter (\<lambda>key. HasPrefix key AnnotationRescanRequestedKeyPrefix) (map fst ?ann)"
  let ?reqs = "parsed_requests unmarshal ?ann ?observed"
  have "HasPrefix ?key AnnotationRescanRequestedKeyPrefix"
    unfolding NewRescanRequestedAnnotationKey_def by (rule HasPrefix_append)
  then have "?key \<in> set ?observed" "map_index ?ann ?key = payload"
    by (simp_all add: meta map_index_def update_conv' dom_update)
  moreover have "parse_request unmarshal payload = Some (buildRescanRequest keys)"
    using assms(4)[OF keys(2)] by (simp add: parse_request_def)
  ultimately have req: "buildRescanRequest keys \<in> set ?reqs"
    unfolding parsed_requests_def in_map_filter by blast
  obtain t where t: "t \<in> set (rr_Repositories (buildRescanRequest keys))" "sr_Name t = mk_repository k"
    "mk_name k \<in> set (sr_MatchConditions t)"
    using buildRescanRequest_covers[of k keys] assms(3) keys(1) by blast
  have "\<exists>t' \<in> set (union_targets (\<Union>req \<in> set ?reqs. set (rr_Repositories req))). sr_Name t' = sr_Name t
      \<and> (sr_MatchConditions t' = [] \<or> mk_name k \<in> set (sr_MatchConditions t'))"
    by (rule union_targets_covers) (use req t in auto)
  then show ?thesis
    unfolding requests_condition_def collectRescanRequests_eq[OF refl refl refl] prod.case t(2) by auto
qed

text \<open>
  C28: a new image is asked to be scanned.  When the workload scan controller updates a registry with
  scans on change enabled, the scan runner finds, for every condition that the update added, a
  request in the annotations of the registry: it starts a full scan or a job with a target for the
  repository that covers the condition.  The JSON of a request decodes to the request.
\<close>

theorem new_images_are_requested:
  assumes "sorts_properly E"
    "\<And>req payload. we_marshalRescan E req = Inr payload \<Longrightarrow> payload \<noteq> [] \<and> unmarshal payload = Some req"
    "WLUpdateRegistry r' \<in> set (calls (reconcileRegistries E ns pods config))" "wc_ScanOnChange (wsc_Spec config)"
  shows "\<exists>h listed r. we_ListRegistries E h (Some (artifactsNamespace config ns)) = Inr listed \<and> r \<in> set listed
    \<and> rs_URI (rg_Spec r') = rs_URI (rg_Spec r)
    \<and> list_all (\<lambda>k. k \<in> set (extractMatchConditionsFromRegistry r) \<or> requests_condition unmarshal r' k)
        (extractMatchConditionsFromRegistry r')"
proof -
  have "registries_write E ns pods config (WLUpdateRegistry r')"
    using emits_calls[OF reconcileRegistries_emits[OF assms(1)] assms(3)] .
  then obtain h listed r where l: "we_ListRegistries E h (Some (artifactsNamespace config ns)) = Inr listed"
    "r \<in> set listed" "registry_updated E ns pods config r r'"
    unfolding registries_write_def registry_write_def by blast
  have "requests_condition unmarshal r' k"
    if "k \<in> set (extractMatchConditionsFromRegistry r') - set (extractMatchConditionsFromRegistry r)" for k
    using rescan_added_requests[OF _ assms(4) that assms(2)] l(3) unfolding registry_updated_def by blast
  then show ?thesis
    using l unfolding list_all_iff registry_updated_def by blast
qed

section \<open>From admission to credentials\<close>

text \<open>
  C32: Only snapshots of the controller make the worker read credentials.  However users other than the
  service account of the controller write ScanJobs, when the worker generates an SBOM and does more
  than read the job and the image, then the job already had its registry snapshot before their
  writes, and what the worker does is for the registry in that snapshot; in particular it reads
  secrets and CA bundles in the namespace that this registry determines.  The worker reads jobs from
  the store behind admission.
\<close>

theorem foreign_jobs_reach_no_credentials:
  assumes "owner_contract S" "se_unmarshalGenerate S data = Inr msg"
    "\<forall>q\<in>set ws. fst q \<noteq> serviceAccount E"
    "\<And>h k job. se_GetScanJob S h k = Inr job
      \<Longrightarrow> stored (scanjob_resource E flds) (apply_writes (scanjob_resource E flds) s ws) k = Some job"
    "c \<in> set (calls (GenerateSBOMHandler_Handle S data))" "\<not> read_call c"
  shows "\<exists>snapshot registry job img.
    part_of (scanjob_resource E flds) snapshot_part s (object_key (bm_ScanJob msg)) = Some snapshot
    \<and> se_unmarshalRegistry S snapshot = Inr registry \<and> generate_ok S msg job registry img c"
proof -
  let ?R = "scanjob_resource E flds" and ?k = "object_key (bm_ScanJob msg)"
  have "generates S msg c"
    using emits_calls[OF GenerateSBOMHandler_emits[OF assms(1,2)] assms(5)] .
  then obtain job registry img where ok: "current_job S (bm_ScanJob msg) job registry"
    "generate_ok S msg job registry img c"
    using assms(6) unfolding generates_def by blast
  then obtain snapshot where snap: "snapshot_part job = Some snapshot" "se_unmarshalRegistry S snapshot = Inr registry"
    unfolding current_job_def registryFromScanJob_def snapshot_part_def Let_def
    by (auto split: option.splits sum.splits if_splits)
  have "part_of ?R snapshot_part (apply_writes ?R s ws) ?k = Some snapshot"
    using ok(1) assms(4) snap(1) unfolding current_job_def part_of_def by fastforce
  then have "part_of ?R snapshot_part s ?k = Some snapshot"
    by (rule scanjobs.no_new_part[OF assms(3)])
  with snap(2) ok(2) show ?thesis by blast
qed

section \<open>Sample inputs\<close>

text \<open>The workload of the sample environment, pinned by digest, in a cluster without registries.\<close>

definition digest_env :: workload_env where
  "digest_env = sample_workload_env
    \<lparr>we_ListRegistries := (\<lambda>h n. Inr []),
     we_ParseReference := (\<lambda>i. Inr \<lparr>rf_Name = i, rf_String = i, rf_ContextName = ''h/app'', rf_RegistryStr = ''h'',
       rf_RepositoryStr = ''app'', rf_Identifier = ''sha256:1''\<rparr>)\<rparr>"

definition sample_repository_name :: RepositoryName where
  "sample_repository_name = \<lparr>rn_Name = ''h/app'', rn_RepositoryStr = ''app''\<rparr>"


text \<open>A JSON library that knows one request.\<close>

definition sample_request :: RescanRequest where
  "sample_request = \<lparr>rr_Repositories = [\<lparr>sr_Name = ''app'', sr_MatchConditions = [''tag-v1'']\<rparr>]\<rparr>"

definition request_env :: workload_env where
  "request_env = sample_workload_env
    \<lparr>we_marshalRescan := (\<lambda>req. if req = sample_request then Inr ''json'' else Inl (ErrorNew ''unknown''))\<rparr>"

definition decode_request :: "string \<Rightarrow> RescanRequest option" where
  "decode_request payload = (if payload = ''json'' then Some sample_request else None)"

definition requested_registry :: Registry where
  "requested_registry = sample_updated_registry
    \<lparr>rg_meta := (rg_meta sample_updated_registry)
       \<lparr>om_Annotations := [(NewRescanRequestedAnnotationKey ''u'', ''json'')]\<rparr>\<rparr>"

theorem new_images_are_requested_witness:
  "\<exists>h listed r. we_ListRegistries request_env h (Some (artifactsNamespace sample_config ''ns'')) = Inr listed
    \<and> r \<in> set listed \<and> rs_URI (rg_Spec requested_registry) = rs_URI (rg_Spec r)
    \<and> list_all (\<lambda>k. k \<in> set (extractMatchConditionsFromRegistry r) \<or> requests_condition decode_request requested_registry k)
        (extractMatchConditionsFromRegistry requested_registry)"
proof (rule new_images_are_requested)
  show "sorts_properly request_env"
    using sample_sorts by (simp add: request_env_def sorts_properly_def)
  show "payload \<noteq> [] \<and> decode_request payload = Some req" if "we_marshalRescan request_env req = Inr payload"
    for req payload
    using that by (auto simp: request_env_def decode_request_def split: if_splits)
  show "WLUpdateRegistry requested_registry
      \<in> set (calls (reconcileRegistries request_env ''ns'' [sample_pod] sample_config))"
    by code_simp
  show "wc_ScanOnChange (wsc_Spec sample_config)" by (simp add: sample_config_def)
qed

text \<open>
  A job with the snapshot of the controller, a foreign attempt to replace the snapshot, and a worker that
  reads the store.
\<close>

definition forged :: "ScanJob api_request list" where
  "forged = [(''mallory'', 1, WriteUpdate (sample_catalog_job\<lparr>sj_meta := (sj_meta sample_catalog_job)
     \<lparr>om_Annotations := [(AnnotationScanJobRegistryKey, ''forged'')]\<rparr>\<rparr>))]"

definition job_store :: "ScanJob list" where
  "job_store = apply_writes (scanjob_resource sample_webhook_env []) [sample_catalog_job] forged"

definition store_env :: sbom_env where
  "store_env = sample_sbom_env\<lparr>se_GetScanJob := (\<lambda>h k.
     case stored (scanjob_resource sample_webhook_env []) job_store k of
       None \<Rightarrow> Inl (StatusError ReasonNotFound ''scanjob'') | Some j \<Rightarrow> Inr j)\<rparr>"

theorem foreign_jobs_reach_no_credentials_witness:
  "\<exists>snapshot registry job img.
    part_of (scanjob_resource sample_webhook_env []) snapshot_part [sample_catalog_job] (''ns'', ''job'') = Some snapshot
    \<and> se_unmarshalRegistry store_env snapshot = Inr registry
    \<and> generate_ok store_env \<lparr>bm_ScanJob = bm_ScanJob sample_message, gm_Image = sample_image_ref\<rparr> job registry img
        (SCPublish ScanSBOMSubject ''scanSBOM/u1/img'' ''img'')"
proof -
  let ?msg = "\<lparr>bm_ScanJob = bm_ScanJob sample_message, gm_Image = sample_image_ref\<rparr>"
  have "\<exists>snapshot registry job img.
      part_of (scanjob_resource sample_webhook_env []) snapshot_part [sample_catalog_job] (object_key (bm_ScanJob ?msg))
        = Some snapshot
      \<and> se_unmarshalRegistry store_env snapshot = Inr registry
      \<and> generate_ok store_env ?msg job registry img (SCPublish ScanSBOMSubject ''scanSBOM/u1/img'' ''img'')"
  proof (rule foreign_jobs_reach_no_credentials[where ws = forged and data = "[]"])
    show "owner_contract store_env"
      using sample_owner by (simp add: owner_contract_def store_env_def)
    show "se_unmarshalGenerate store_env [] = Inr ?msg" by (simp add: store_env_def sample_sbom_env_def)
    show "\<forall>q\<in>set forged. fst q \<noteq> serviceAccount sample_webhook_env" by code_simp
    show "stored (scanjob_resource sample_webhook_env [])
        (apply_writes (scanjob_resource sample_webhook_env []) [sample_catalog_job] forged) k = Some job"
      if "se_GetScanJob store_env h k = Inr job" for h k job
      using that by (simp add: store_env_def job_store_def split: option.splits)
    show "SCPublish ScanSBOMSubject ''scanSBOM/u1/img'' ''img'' \<in> set (calls (GenerateSBOMHandler_Handle store_env []))"
      by code_simp
  qed simp
  then show ?thesis by (simp add: sample_message_def)
qed

end
